(* ===== verification/Prelude.thy ===== *)
theory Prelude
  imports Main
begin

text \<open>
  Shared vocabulary of the development: the Go standard-library string functions the
  provider calls, Go errors (wrapping, \<open>errors.As\<close>) with their message text kept as
  the format string and its arguments, and the generic lemmas the component theories
  use.  A Go string is a byte sequence, so it is modelled by \<^typ>\<open>string\<close>, a list of
  8-bit characters.
\<close>

named_theorems go_str \<open>equations of the Go string functions\<close>
named_theorems handler \<open>definitions to unfold when a handler is executed symbolically\<close>

section \<open>Byte strings\<close>

text \<open>\<open>strings.HasPrefix\<close> and \<open>strings.TrimPrefix\<close>.\<close>

fun HasPrefix :: "string \<Rightarrow> string \<Rightarrow> bool" where
  "HasPrefix s [] = True"
| "HasPrefix [] (p # ps) = False"
| "HasPrefix (c # cs) (p # ps) = (c = p \<and> HasPrefix cs ps)"

definition TrimPrefix :: "string \<Rightarrow> string \<Rightarrow> string" where
  "TrimPrefix s p = (if HasPrefix s p then drop (length p) s else s)"

text \<open>\<open>strings.HasSuffix\<close>, used by the model of \<open>strings.TrimSpace\<close>.\<close>

definition HasSuffix :: "string \<Rightarrow> string \<Rightarrow> bool" where
  "HasSuffix s p = HasPrefix (rev s) (rev p)"

text \<open>\<open>strings.Contains\<close>.\<close>

fun Contains :: "string \<Rightarrow> string \<Rightarrow> bool" where
  "Contains [] p = HasPrefix [] p"
| "Contains (c # cs) p = (HasPrefix (c # cs) p \<or> Contains cs p)"

text \<open>
  \<open>strings.SplitN(s, sep, 2)\<close> for a one-byte separator: one part when the separator
  does not occur, otherwise the part before its first occurrence and the rest.
\<close>

definition SplitN2 :: "string \<Rightarrow> char \<Rightarrow> string list" where
  "SplitN2 s sep =
     (case dropWhile (\<lambda>c. c \<noteq> sep) s of
        [] \<Rightarrow> [s]
      | _ # rest \<Rightarrow> [takeWhile (\<lambda>c. c \<noteq> sep) s, rest])"

text \<open>
  \<open>strings.LastIndexAny(s, chars)\<close> for single-byte characters: the last position that
  holds one of them, or -1.
\<close>

fun LastIndexAny :: "string \<Rightarrow> char list \<Rightarrow> int" where
  "LastIndexAny [] cs = - 1"
| "LastIndexAny (c # s) cs =
     (let i = LastIndexAny s cs
      in if 0 \<le> i then i + 1 else if c \<in> set cs then 0 else - 1)"

text \<open>
  \<open>strings.TrimSpace\<close>: removes leading and trailing Unicode white space.  The white
  space code points are listed by their UTF-8 encodings; the encodings are prefix- and
  suffix-free, so decoding a rune at either end is matching one of them.
\<close>

definition byte :: "nat \<Rightarrow> char" where
  "byte n = char_of n"

text \<open>The em dash of some messages, in UTF-8.\<close>

definition emDash :: string where "emDash = [byte 226, byte 128, byte 148]"

definition space_encodings :: "string list" where
  "space_encodings =
     [[byte 9], [byte 10], [byte 11], [byte 12], [byte 13], [byte 32],
      [byte 194, byte 133], [byte 194, byte 160],
      [byte 225, byte 154, byte 128],
      [byte 226, byte 128, byte 128], [byte 226, byte 128, byte 129],
      [byte 226, byte 128, byte 130], [byte 226, byte 128, byte 131],
      [byte 226, byte 128, byte 132], [byte 226, byte 128, byte 133],
      [byte 226, byte 128, byte 134], [byte 226, byte 128, byte 135],
      [byte 226, byte 128, byte 136], [byte 226, byte 128, byte 137],
      [byte 226, byte 128, byte 138],
      [byte 226, byte 128, byte 168], [byte 226, byte 128, byte 169],
      [byte 226, byte 128, byte 175], [byte 226, byte 129, byte 159],
      [byte 227, byte 128, byte 128]]"

text \<open>
  \<open>trim_front\<close> removes encodings at the front; it is bounded by the length of the
  string, which every removal shortens.
\<close>

fun trim_front :: "nat \<Rightarrow> string list \<Rightarrow> string \<Rightarrow> string" where
  "trim_front 0 encs s = s"
| "trim_front (Suc n) encs s =
     (case find (\<lambda>e. HasPrefix s e) encs of
        None \<Rightarrow> s
      | Some e \<Rightarrow> trim_front n encs (drop (length e) s))"

definition TrimSpace :: "string \<Rightarrow> string" where
  "TrimSpace s =
     (let l = trim_front (length s) space_encodings s
      in rev (trim_front (length l) (map rev space_encodings) (rev l)))"

text \<open>\<open>strconv.Itoa\<close> and the \<open>%d\<close> verb, for integers the program renders into a request.\<close>

fun digits :: "nat \<Rightarrow> string" where
  "digits n = (if n < 10 then [byte (48 + n)] else digits (n div 10) @ [byte (48 + n mod 10)])"

declare digits.simps [simp del]

definition itoa :: "int \<Rightarrow> string" where
  "itoa i = (if i < 0 then CHR ''-'' # digits (nat (- i)) else digits (nat i))"

text \<open>\<open>strconv.FormatBool\<close>.\<close>

definition FormatBool :: "bool \<Rightarrow> string" where
  "FormatBool b = (if b then ''true'' else ''false'')"

section \<open>Message text and errors\<close>

text \<open>
  Human-readable messages are kept symbolic: \<open>Sprintf f as\<close> is the text that
  \<open>fmt.Sprintf\<close> renders from the format \<open>f\<close> and the arguments.  Strings the program
  itself parses again (provider IDs, object keys, tag keys) are never built this way;
  they are concatenations of real strings.
\<close>

datatype gotext = Lit string | Num int | Texts "gotext list" | Sprintf string "gotext list"

text \<open>
  Go errors.  \<open>Errorf\<close> is \<open>errors.New\<close> or \<open>fmt.Errorf\<close> without \<open>%w\<close>; \<open>Wrap\<close> is
  \<open>fmt.Errorf\<close> whose last verb is \<open>%w\<close>.  \<open>ServerError\<close> is the Alibaba SDK's
  \<open>*errors.ServerError\<close>, of which the provider reads \<open>ErrorCode()\<close> and
  \<open>HttpStatus()\<close>; \<open>TerminalError\<close> is the controller's own \<open>*terminalError\<close>;
  \<open>StatusError\<close> is an API-server error, of which the provider asks \<open>IsNotFound\<close>;
  \<open>ForeignError\<close> is any other error a third-party call returns.
\<close>

datatype go_error =
    Errorf string "gotext list"
  | Wrap string "gotext list" go_error
  | ServerError string int gotext
  | TerminalError string gotext
  | StatusError bool gotext
  | ForeignError gotext

fun Error :: "go_error \<Rightarrow> gotext" where
  "Error (Errorf f as) = Sprintf f as"
| "Error (Wrap f as e) = Sprintf f (as @ [Error e])"
| "Error (ServerError c h m) = m"
| "Error (TerminalError r m) = m"
| "Error (StatusError nf m) = m"
| "Error (ForeignError m) = m"

text \<open>\<open>errors.As\<close> at the two target types the provider uses: it walks the wrap chain.\<close>

fun asServerError :: "go_error \<Rightarrow> (string \<times> int) option" where
  "asServerError (Wrap f as e) = asServerError e"
| "asServerError (ServerError c h m) = Some (c, h)"
| "asServerError _ = None"

fun asTerminalError :: "go_error \<Rightarrow> (string \<times> gotext) option" where
  "asTerminalError (Wrap f as e) = asTerminalError e"
| "asTerminalError (TerminalError r m) = Some (r, m)"
| "asTerminalError _ = None"

text \<open>\<open>apierrors.IsNotFound\<close>, which also unwraps.\<close>

fun IsNotFound :: "go_error \<Rightarrow> bool" where
  "IsNotFound (Wrap f as e) = IsNotFound e"
| "IsNotFound (StatusError nf m) = nf"
| "IsNotFound _ = False"

section \<open>Lemmas on strings\<close>

lemma HasPrefix_iff: "HasPrefix s p \<longleftrightarrow> (\<exists>t. s = p @ t)"
  by (induction s p rule: HasPrefix.induct) auto

lemma HasPrefix_append [simp]: "HasPrefix (p @ s) p"
  by (simp add: HasPrefix_iff)

lemma TrimPrefix_append [simp, go_str]: "TrimPrefix (p @ s) p = s"
  by (simp add: TrimPrefix_def)

lemma Contains_iff: "Contains s p \<longleftrightarrow> (\<exists>u v. s = u @ p @ v)"
proof (induction s)
  case Nil
  then show ?case by (simp add: HasPrefix_iff)
next
  case (Cons c cs)
  have "Contains (c # cs) p \<longleftrightarrow> (\<exists>t. c # cs = p @ t) \<or> (\<exists>u v. cs = u @ p @ v)"
    by (simp add: HasPrefix_iff Cons.IH)
  also have "\<dots> \<longleftrightarrow> (\<exists>u v. c # cs = u @ p @ v)"
    by (metis append_Cons append_Nil list.exhaust list.inject)
  finally show ?case .
qed

lemma SplitN2_absent [go_str]: "sep \<notin> set s \<Longrightarrow> SplitN2 s sep = [s]"
proof -
  assume "sep \<notin> set s"
  then have "dropWhile (\<lambda>c. c \<noteq> sep) s = []" by (auto simp: dropWhile_eq_Nil_conv)
  then show ?thesis unfolding SplitN2_def by (simp only: list.case)
qed

lemma SplitN2_present [go_str]: "sep \<notin> set a \<Longrightarrow> SplitN2 (a @ sep # b) sep = [a, b]"
proof -
  assume a: "sep \<notin> set a"
  then have "\<And>x. x \<in> set a \<Longrightarrow> x \<noteq> sep" by auto
  then show ?thesis by (simp add: SplitN2_def dropWhile_append2 takeWhile_append2)
qed

lemma LastIndexAny_absent: "set s \<inter> set cs = {} \<Longrightarrow> LastIndexAny s cs = - 1"
  by (induction s) auto

lemma LastIndexAny_absent_iff: "LastIndexAny s cs < 0 \<longleftrightarrow> set s \<inter> set cs = {}"
  by (induction s) (auto simp: Let_def)

lemma LastIndexAny_last:
  "c \<in> set cs \<Longrightarrow> set b \<inter> set cs = {} \<Longrightarrow> LastIndexAny (a @ c # b) cs = int (length a)"
  by (induction a) (auto simp: LastIndexAny_absent)

lemma LastIndexAny_bound: "LastIndexAny s cs < int (length s)"
  by (induction s) (auto simp: Let_def)

lemma trim_front_removes:
  "trim_front n encs s = t \<Longrightarrow> \<exists>u. s = u @ t \<and> set u \<subseteq> (\<Union>e \<in> set encs. set e)"
proof (induction n encs s rule: trim_front.induct)
  case (1 encs s)
  then show ?case by simp
next
  case (2 n encs s)
  show ?case
  proof (cases "find (\<lambda>e. HasPrefix s e) encs")
    case None
    with "2.prems" show ?thesis by simp
  next
    case (Some e)
    then have e: "e \<in> set encs" "HasPrefix s e" by (auto simp: find_Some_iff)
    then obtain s' where s': "s = e @ s'" by (auto simp: HasPrefix_iff)
    with "2" Some obtain u where "s' = u @ t" "set u \<subseteq> (\<Union>e \<in> set encs. set e)" by auto
    with s' e show ?thesis by (intro exI [of _ "e @ u"]) auto
  qed
qed

text \<open>A string that is all white space consists of bytes of white-space encodings.\<close>

lemma TrimSpace_empty_bytes:
  assumes "TrimSpace s = []"
  shows "set s \<subseteq> (\<Union>e \<in> set space_encodings. set e)"
proof -
  define l where "l = trim_front (length s) space_encodings s"
  obtain u where "s = u @ l" and u: "set u \<subseteq> (\<Union>e \<in> set space_encodings. set e)"
    using trim_front_removes [OF l_def [symmetric]] by metis
  then have s: "set s = set u \<union> set l" by simp
  have "trim_front (length l) (map rev space_encodings) (rev l) = []"
    using assms by (simp add: TrimSpace_def Let_def l_def)
  from trim_front_removes [OF this] have "set l \<subseteq> (\<Union>e \<in> set (map rev space_encodings). set e)"
    by (metis append_Nil2 set_rev)
  then have "set l \<subseteq> (\<Union>e \<in> set space_encodings. set e)"
    unfolding set_map image_image UN_simps set_rev by blast
  with u show ?thesis unfolding s by (rule Un_least)
qed

lemma byte_eq_iff: "byte n = c \<longleftrightarrow> n mod 256 = (of_char c :: nat)"
  unfolding byte_def by (metis char_of_char of_char_of char_of_mod_256)

lemma of_char_e: "(of_char (CHR ''e'') :: nat) = 101"
  by simp

lemma space_bytes_no_e: "list_all (\<lambda>e. CHR ''e'' \<notin> set e) space_encodings"
  unfolding space_encodings_def
  by (simp only: list.pred_inject list.set insert_iff empty_iff eq_commute [of "CHR ''e''"]
      byte_eq_iff of_char_e) simp

lemma TrimSpace_not_blank: "CHR ''e'' \<in> set s \<Longrightarrow> TrimSpace s \<noteq> []"
  using TrimSpace_empty_bytes [of s] space_bytes_no_e by (auto simp: list_all_iff)

lemma TrimSpace_Nil [simp]: "TrimSpace [] = []"
  by (simp add: TrimSpace_def)

section \<open>Lemmas on errors\<close>

lemma asServerError_Wrap_only [simp]:
  "asServerError e = Some ch \<Longrightarrow> asTerminalError e = None"
  by (induction e) auto

lemma asTerminalError_Errorf [simp]: "asTerminalError (Errorf f as) = None"
  by simp

section \<open>Lists\<close>

lemma find_SomeD: "find P xs = Some x \<Longrightarrow> x \<in> set xs \<and> P x"
  by (induction xs) (auto split: if_splits)

section \<open>Sums\<close>

lemma case_sum_Inl_iff:
  "(case x of Inl e \<Rightarrow> Inl e | Inr y \<Rightarrow> f y) = Inr z \<longleftrightarrow> (\<exists>y. x = Inr y \<and> f y = Inr z)"
  by (cases x) auto

end
