(* ===== verification/Api_Types.thy ===== *)
theory Api_Types
  imports Complex_Main Prelude
begin

text \<open>
  The API objects of the provider: \<open>api/v1beta1/types.go\<close>,
  \<open>alibabacloudmachine_types.go\<close>, \<open>alibabacloudcluster_types.go\<close>, the two template
  types and \<open>api/controlplane/v1beta1/alibabacloudcontrolplane_types.go\<close>.  A Go struct
  is a record whose fields carry a short prefix in front of the Go field name; a pointer
  is an \<^typ>\<open>'a option\<close>; an optional string whose zero value is meaningful stays a
  string.  A \<open>*float64\<close> is an optional rational number: a JSON number is finite, and the
  program only compares and copies it.  Of the Kubernetes and Cluster API structs (object metadata,
  conditions, \<open>Machine\<close>, \<open>Cluster\<close>, nodes, secrets) the records carry the fields the
  provider reads or writes.
\<close>

section \<open>Kubernetes and Cluster API data\<close>

record ObjectMeta =
  om_Name :: string
  om_Namespace :: string
  om_UID :: string
  om_DeletionTimestamp :: "int option"
  om_Finalizers :: "string list"
  om_Annotations :: "(string \<times> string) list"
  om_OwnerReferences :: "(string \<times> string) list"

record ObjectKey =
  ok_Namespace :: string
  ok_Name :: string

record Condition =
  c_Type :: string
  c_Status :: string
  c_Reason :: string
  c_Message :: gotext

text \<open>\<open>clusterv1.ReadyCondition\<close> and the two condition statuses the provider writes.\<close>

definition ReadyCondition :: string where "ReadyCondition = ''Ready''"

definition ConditionTrue :: string where "ConditionTrue = ''True''"

definition ConditionFalse :: string where "ConditionFalse = ''False''"

record MachineAddress =
  ma_Type :: string
  ma_Address :: string

definition MachineInternalDNS :: string where "MachineInternalDNS = ''InternalDNS''"

definition MachineInternalIP :: string where "MachineInternalIP = ''InternalIP''"

definition MachineExternalIP :: string where "MachineExternalIP = ''ExternalIP''"

record APIEndpoint =
  ep_Host :: string
  ep_Port :: int

record CapiFailureDomain =
  cfd_Name :: string
  cfd_ControlPlane :: "bool option"
  cfd_Attributes :: "(string \<times> string) list"

record Machine =
  mach_Meta :: ObjectMeta
  mach_FailureDomain :: string
  mach_DataSecretName :: "string option"
  mach_NodeRefName :: string

record Cluster =
  cl_Meta :: ObjectMeta
  cl_Paused :: bool
  cl_InfraKind :: string
  cl_InfraAPIGroup :: string
  cl_InfraName :: string

text \<open>A Node: its taints by key, its addresses with their type.\<close>

record Node =
  node_Name :: string
  node_ProviderID :: string
  node_CreationTimestamp :: int
  node_Taints :: "string list"
  node_Addresses :: "(string \<times> string) list"

section \<open>types.go\<close>

definition CloudControllerManagerReadyCondition :: string where
  "CloudControllerManagerReadyCondition = ''CloudControllerManagerReady''"

definition NodesAwaitingCloudProviderReason :: string where
  "NodesAwaitingCloudProviderReason = ''NodesAwaitingCloudProvider''"

definition CloudControllerManagerHealthyReason :: string where
  "CloudControllerManagerHealthyReason = ''CloudControllerManagerHealthy''"

definition ClusterAPICoreReadyCondition :: string where
  "ClusterAPICoreReadyCondition = ''ClusterAPICoreReady''"

definition BundledCAPICoreReason :: string where
  "BundledCAPICoreReason = ''BundledCAPICore''"

definition ReusingHostedCAPICoreReason :: string where
  "ReusingHostedCAPICoreReason = ''ReusingHostedCAPICore''"

definition MultipleCAPICoresConflictReason :: string where
  "MultipleCAPICoresConflictReason = ''MultipleCAPICoresConflict''"

text \<open>\<open>InstanceState\<close> is a string type with six named values.\<close>

type_synonym InstanceState = string

definition InstanceStatePending :: InstanceState where "InstanceStatePending = ''Pending''"

definition InstanceStateRunning :: InstanceState where "InstanceStateRunning = ''Running''"

definition InstanceStateStopped :: InstanceState where "InstanceStateStopped = ''Stopped''"

definition InstanceStateStopping :: InstanceState where "InstanceStateStopping = ''Stopping''"

definition InstanceStateStarting :: InstanceState where "InstanceStateStarting = ''Starting''"

definition InstanceStateDeleted :: InstanceState where "InstanceStateDeleted = ''Deleted''"

lemmas InstanceState_defs = InstanceStatePending_def InstanceStateRunning_def
  InstanceStateStopped_def InstanceStateStopping_def InstanceStateStarting_def
  InstanceStateDeleted_def

record Tag =
  t_Key :: string
  t_Value :: string

record SystemDisk =
  sd_Category :: string
  sd_Size :: int
  sd_PerformanceLevel :: string
  sd_Encrypted :: "bool option"
  sd_KMSKeyID :: string

record DataDisk =
  dd_Category :: string
  dd_Size :: int
  dd_Name :: string
  dd_PerformanceLevel :: string
  dd_Encrypted :: "bool option"
  dd_KMSKeyID :: string

record FailureDomain =
  fd_ZoneID :: string
  fd_VSwitchID :: string

section \<open>alibabacloudmachine\_types.go\<close>

definition MachineFinalizer :: string where
  "MachineFinalizer = ''alibabacloudmachine.infrastructure.cluster.x-k8s.io''"

record MetadataOptions =
  mo_HttpEndpoint :: string
  mo_HttpTokens :: string
  mo_HttpTokensAfterBoot :: string
  mo_HttpPutResponseHopLimit :: int

text \<open>
  \<open>DataDisks\<close> is the one slice whose nil value the program tells from an empty slice (the
  webhook compares it with \<open>reflect.DeepEqual\<close>), so it is an option of a list, read by
  \<open>go_slice\<close>.
\<close>

definition go_slice :: "'a list option \<Rightarrow> 'a list" where
  "go_slice xs = (case xs of None \<Rightarrow> [] | Some ys \<Rightarrow> ys)"

record AlibabaCloudMachineSpec =
  ms_ProviderID :: "string option"
  ms_InstanceType :: string
  ms_ImageID :: string
  ms_RegionID :: string
  ms_ZoneID :: string
  ms_SecurityGroupIDs :: "string list"
  ms_VSwitchID :: string
  ms_SystemDisk :: "SystemDisk option"
  ms_DataDisks :: "DataDisk list option"
  ms_RAMRoleName :: string
  ms_SpotStrategy :: string
  ms_SpotPriceLimit :: "rat option"
  ms_Tags :: "Tag list"
  ms_MetadataOptions :: "MetadataOptions option"
  ms_UserDataSecret :: "string option"
  ms_CredentialsSecret :: "string option"

record IgnitionOSSRef =
  ior_Bucket :: string
  ior_Endpoint :: string
  ior_Key :: string

text \<open>
  \<open>Status.Initialization\<close> is a pointer to a struct with the one optional field
  \<open>Provisioned\<close>: an option of an option.
\<close>

record AlibabaCloudMachineStatus =
  mst_Ready :: bool
  mst_Initialization :: "bool option option"
  mst_InstanceID :: "string option"
  mst_InstanceState :: "InstanceState option"
  mst_MetadataHardened :: "bool option"
  mst_Addresses :: "MachineAddress list"
  mst_Conditions :: "Condition list"
  mst_FailureReason :: "string option"
  mst_FailureMessage :: "gotext option"
  mst_IgnitionOSS :: "IgnitionOSSRef option"

record AlibabaCloudMachine =
  m_Meta :: ObjectMeta
  m_Spec :: AlibabaCloudMachineSpec
  m_Status :: AlibabaCloudMachineStatus

definition machine_GetConditions :: "AlibabaCloudMachine \<Rightarrow> Condition list" where
  "machine_GetConditions m = mst_Conditions (m_Status m)"

definition machine_SetConditions :: "AlibabaCloudMachine \<Rightarrow> Condition list \<Rightarrow> AlibabaCloudMachine" where
  "machine_SetConditions m cs = m\<lparr>m_Status := (m_Status m)\<lparr>mst_Conditions := cs\<rparr>\<rparr>"

section \<open>alibabacloudcluster\_types.go\<close>

definition ClusterFinalizer :: string where
  "ClusterFinalizer = ''alibabacloudcluster.infrastructure.cluster.x-k8s.io''"

record IgnitionStorageSpec =
  is_OSSBucket :: string
  is_OSSEndpoint :: string
  is_ExpirySeconds :: int
  is_MaxUserDataBytes :: int

record AlibabaCloudClusterSpec =
  cs_Region :: string
  cs_VpcID :: string
  cs_BootImageID :: string
  cs_ResourceGroupID :: string
  cs_ControlPlaneEndpoint :: APIEndpoint
  cs_AdditionalTags :: "Tag list"
  cs_IgnitionStorage :: "IgnitionStorageSpec option"
  cs_FailureDomains :: "FailureDomain list"

record AlibabaCloudClusterStatus =
  cst_Ready :: bool
  cst_Initialization :: "bool option option"
  cst_VpcID :: string
  cst_ControlPlaneEndpoint :: APIEndpoint
  cst_SLBInstanceID :: string
  cst_FailureDomains :: "CapiFailureDomain list"
  cst_Conditions :: "Condition list"

record AlibabaCloudCluster =
  ac_Meta :: ObjectMeta
  ac_Spec :: AlibabaCloudClusterSpec
  ac_Status :: AlibabaCloudClusterStatus

definition cluster_GetConditions :: "AlibabaCloudCluster \<Rightarrow> Condition list" where
  "cluster_GetConditions c = cst_Conditions (ac_Status c)"

definition cluster_SetConditions :: "AlibabaCloudCluster \<Rightarrow> Condition list \<Rightarrow> AlibabaCloudCluster" where
  "cluster_SetConditions c cs = c\<lparr>ac_Status := (ac_Status c)\<lparr>cst_Conditions := cs\<rparr>\<rparr>"

section \<open>Reconcile results\<close>

text \<open>
  \<open>ctrl.Result\<close>: the provider sets \<open>RequeueAfter\<close> only (nanoseconds; 0 for none).  A
  handler returns a result and an optional error, and the object it mutated.
\<close>

record Result =
  RequeueAfter :: int

type_synonym outcome = "Result \<times> go_error option"

abbreviation noRequeue :: Result where "noRequeue \<equiv> \<lparr>RequeueAfter = 0\<rparr>"

text \<open>\<open>requeueAfter\<close> of \<open>internal/controller/util.go\<close>: 30 seconds.\<close>

definition requeueAfter :: int where "requeueAfter = 30 * 1000000000"

abbreviation requeue :: Result where "requeue \<equiv> \<lparr>RequeueAfter = requeueAfter\<rparr>"

lemma requeueAfter_pos [simp]: "0 < requeueAfter"
  by (simp add: requeueAfter_def)

lemma machine_GetConditions_SetConditions [simp]:
  "machine_GetConditions (machine_SetConditions m cs) = cs"
  by (simp add: machine_GetConditions_def machine_SetConditions_def)

lemma cluster_GetConditions_SetConditions [simp]:
  "cluster_GetConditions (cluster_SetConditions c cs) = cs"
  by (simp add: cluster_GetConditions_def cluster_SetConditions_def)

lemma machine_SetConditions_frame [simp]:
  "m_Meta (machine_SetConditions m cs) = m_Meta m"
  "m_Spec (machine_SetConditions m cs) = m_Spec m"
  "mst_Ready (m_Status (machine_SetConditions m cs)) = mst_Ready (m_Status m)"
  "mst_Initialization (m_Status (machine_SetConditions m cs)) = mst_Initialization (m_Status m)"
  "mst_InstanceID (m_Status (machine_SetConditions m cs)) = mst_InstanceID (m_Status m)"
  "mst_InstanceState (m_Status (machine_SetConditions m cs)) = mst_InstanceState (m_Status m)"
  "mst_MetadataHardened (m_Status (machine_SetConditions m cs)) = mst_MetadataHardened (m_Status m)"
  "mst_Addresses (m_Status (machine_SetConditions m cs)) = mst_Addresses (m_Status m)"
  "mst_Conditions (m_Status (machine_SetConditions m cs)) = cs"
  "mst_FailureReason (m_Status (machine_SetConditions m cs)) = mst_FailureReason (m_Status m)"
  "mst_FailureMessage (m_Status (machine_SetConditions m cs)) = mst_FailureMessage (m_Status m)"
  "mst_IgnitionOSS (m_Status (machine_SetConditions m cs)) = mst_IgnitionOSS (m_Status m)"
  by (simp_all add: machine_SetConditions_def)

lemma cluster_SetConditions_frame [simp]:
  "ac_Meta (cluster_SetConditions c cs) = ac_Meta c"
  "ac_Spec (cluster_SetConditions c cs) = ac_Spec c"
  "cst_Ready (ac_Status (cluster_SetConditions c cs)) = cst_Ready (ac_Status c)"
  "cst_Initialization (ac_Status (cluster_SetConditions c cs)) = cst_Initialization (ac_Status c)"
  "cst_VpcID (ac_Status (cluster_SetConditions c cs)) = cst_VpcID (ac_Status c)"
  "cst_ControlPlaneEndpoint (ac_Status (cluster_SetConditions c cs))
     = cst_ControlPlaneEndpoint (ac_Status c)"
  "cst_SLBInstanceID (ac_Status (cluster_SetConditions c cs)) = cst_SLBInstanceID (ac_Status c)"
  "cst_FailureDomains (ac_Status (cluster_SetConditions c cs)) = cst_FailureDomains (ac_Status c)"
  "cst_Conditions (ac_Status (cluster_SetConditions c cs)) = cs"
  by (simp_all add: cluster_SetConditions_def)

end
