(* ===== verification/Capi_Util.thy ===== *)
theory Capi_Util
  imports Api_Types
begin

text \<open>
  The Cluster API and controller-runtime helpers the reconcilers call on an object they
  hold: \<open>conditions.Set\<close>, \<open>controllerutil.AddFinalizer\<close> and
  \<open>controllerutil.RemoveFinalizer\<close>.  They are third-party packages, so they are the
  fields of a record every handler takes as an argument, and what their documentation
  promises is the locale \<open>capi_util_laws\<close>.  \<open>std_util\<close> is a concrete implementation,
  interpreted below, which the witnesses run.
\<close>

record capi_util =
  conditions_Set :: "Condition \<Rightarrow> Condition list \<Rightarrow> Condition list"
  AddFinalizer :: "string \<Rightarrow> string list \<Rightarrow> string list"
  RemoveFinalizer :: "string \<Rightarrow> string list \<Rightarrow> string list"

text \<open>Reading a condition by its type.\<close>

definition condition_get :: "string \<Rightarrow> Condition list \<Rightarrow> Condition option" where
  "condition_get ty cs = find (\<lambda>c. c_Type c = ty) cs"

text \<open>\<open>conditions.Set(obj, c)\<close> on the two kinds of object, through \<open>GetConditions\<close>/\<open>SetConditions\<close>.\<close>

definition machine_set_condition ::
  "capi_util \<Rightarrow> Condition \<Rightarrow> AlibabaCloudMachine \<Rightarrow> AlibabaCloudMachine" where
  "machine_set_condition U c m =
     machine_SetConditions m (conditions_Set U c (machine_GetConditions m))"

definition cluster_set_condition ::
  "capi_util \<Rightarrow> Condition \<Rightarrow> AlibabaCloudCluster \<Rightarrow> AlibabaCloudCluster" where
  "cluster_set_condition U c o1 =
     cluster_SetConditions o1 (conditions_Set U c (cluster_GetConditions o1))"

text \<open>The Ready condition, with status false and a reason and message, or true with a reason.\<close>

definition notReady :: "string \<Rightarrow> gotext \<Rightarrow> Condition" where
  "notReady reason msg =
     \<lparr>c_Type = ReadyCondition, c_Status = ConditionFalse, c_Reason = reason, c_Message = msg\<rparr>"

definition isReady :: "string \<Rightarrow> Condition" where
  "isReady reason =
     \<lparr>c_Type = ReadyCondition, c_Status = ConditionTrue, c_Reason = reason, c_Message = Lit []\<rparr>"

definition std_util :: capi_util where
  "std_util =
     \<lparr>conditions_Set = (\<lambda>c cs. c # filter (\<lambda>d. c_Type d \<noteq> c_Type c) cs),
      AddFinalizer = (\<lambda>f fs. if f \<in> set fs then fs else fs @ [f]),
      RemoveFinalizer = (\<lambda>f fs. filter (\<lambda>g. g \<noteq> f) fs)\<rparr>"

text \<open>
  The documented behaviour: setting a condition makes it the one of its type, leaves the
  others and adds nothing else; adding and removing a finalizer changes membership of that finalizer only.
\<close>

locale capi_util_laws =
  fixes U :: capi_util
  assumes set_same: "c_Reason c \<noteq> [] \<Longrightarrow> condition_get (c_Type c) (conditions_Set U c cs) = Some c"
    and set_other: "ty \<noteq> c_Type c \<Longrightarrow>
      condition_get ty (conditions_Set U c cs) = condition_get ty cs"
    and set_only: "c_Reason c \<noteq> [] \<Longrightarrow> set (conditions_Set U c cs) \<subseteq> insert c (set cs)"
    and add_finalizer: "set (AddFinalizer U f fs) = insert f (set fs)"
    and remove_finalizer: "set (RemoveFinalizer U f fs) = set fs - {f}"
begin

lemma machine_ready_after_set:
  "reason \<noteq> [] \<Longrightarrow>
   condition_get ReadyCondition
     (mst_Conditions (m_Status (machine_set_condition U (notReady reason msg) m)))
   = Some (notReady reason msg)"
  using set_same [of "notReady reason msg"]
  by (simp add: machine_set_condition_def notReady_def)

lemma machine_isReady_after_set:
  "reason \<noteq> [] \<Longrightarrow>
   condition_get ReadyCondition
     (mst_Conditions (m_Status (machine_set_condition U (isReady reason) m)))
   = Some (isReady reason)"
  using set_same [of "isReady reason"]
  by (simp add: machine_set_condition_def isReady_def)

lemma cluster_ready_after_set:
  "reason \<noteq> [] \<Longrightarrow>
   condition_get ReadyCondition
     (cst_Conditions (ac_Status (cluster_set_condition U (notReady reason msg) m)))
   = Some (notReady reason msg)"
  using set_same [of "notReady reason msg"]
  by (simp add: cluster_set_condition_def notReady_def)

lemma cluster_isReady_after_set:
  "reason \<noteq> [] \<Longrightarrow>
   condition_get ReadyCondition
     (cst_Conditions (ac_Status (cluster_set_condition U (isReady reason) m)))
   = Some (isReady reason)"
  using set_same [of "isReady reason"]
  by (simp add: cluster_set_condition_def isReady_def)

lemma finalizer_added: "f \<in> set (AddFinalizer U f fs)"
  by (simp add: add_finalizer)

lemma finalizer_removed: "f \<notin> set (RemoveFinalizer U f fs)"
  by (simp add: remove_finalizer)

lemma add_keeps: "g \<in> set fs \<Longrightarrow> g \<in> set (AddFinalizer U f fs)"
  by (simp add: add_finalizer)

end

lemma machine_set_condition_frame [simp]:
  "m_Meta (machine_set_condition U c m) = m_Meta m"
  "m_Spec (machine_set_condition U c m) = m_Spec m"
  "mst_Ready (m_Status (machine_set_condition U c m)) = mst_Ready (m_Status m)"
  "mst_Initialization (m_Status (machine_set_condition U c m)) = mst_Initialization (m_Status m)"
  "mst_InstanceID (m_Status (machine_set_condition U c m)) = mst_InstanceID (m_Status m)"
  "mst_InstanceState (m_Status (machine_set_condition U c m)) = mst_InstanceState (m_Status m)"
  "mst_MetadataHardened (m_Status (machine_set_condition U c m))
     = mst_MetadataHardened (m_Status m)"
  "mst_Addresses (m_Status (machine_set_condition U c m)) = mst_Addresses (m_Status m)"
  "mst_FailureReason (m_Status (machine_set_condition U c m)) = mst_FailureReason (m_Status m)"
  "mst_FailureMessage (m_Status (machine_set_condition U c m)) = mst_FailureMessage (m_Status m)"
  "mst_IgnitionOSS (m_Status (machine_set_condition U c m)) = mst_IgnitionOSS (m_Status m)"
  by (simp_all add: machine_set_condition_def)

lemma cluster_set_condition_frame [simp]:
  "ac_Meta (cluster_set_condition U c m) = ac_Meta m"
  "ac_Spec (cluster_set_condition U c m) = ac_Spec m"
  "cst_Ready (ac_Status (cluster_set_condition U c m)) = cst_Ready (ac_Status m)"
  "cst_Initialization (ac_Status (cluster_set_condition U c m)) = cst_Initialization (ac_Status m)"
  "cst_VpcID (ac_Status (cluster_set_condition U c m)) = cst_VpcID (ac_Status m)"
  "cst_ControlPlaneEndpoint (ac_Status (cluster_set_condition U c m))
     = cst_ControlPlaneEndpoint (ac_Status m)"
  "cst_SLBInstanceID (ac_Status (cluster_set_condition U c m)) = cst_SLBInstanceID (ac_Status m)"
  "cst_FailureDomains (ac_Status (cluster_set_condition U c m)) = cst_FailureDomains (ac_Status m)"
  by (simp_all add: cluster_set_condition_def)

lemma find_filter_other:
  "ty \<noteq> ty' \<Longrightarrow>
   find (\<lambda>c. c_Type c = ty) (filter (\<lambda>d. c_Type d \<noteq> ty') cs) = find (\<lambda>c. c_Type c = ty) cs"
  by (induction cs) auto

interpretation std_capi: capi_util_laws std_util
  by unfold_locales
    (auto simp: std_util_def condition_get_def find_filter_other)

end
