(* ===== verification/Provider_ID.thy ===== *)
theory Provider_ID
  imports Api_Types
begin

text \<open>
  Provider IDs: building one (\<open>providerIDFor\<close>), reading the instance ID back
  (\<open>csr_controller.go: providerInstanceID\<close>), and the region a machine resolves to on the
  create path (\<open>resolveRegion\<close>) and on the delete path (\<open>regionFromMachine\<close>).  The
  locale \<open>provider_id_codec\<close> states the contract between the writer and the readers; the
  lemmas proved from it are used by the machine controller and the CSR approver.
\<close>

section \<open>Definitions\<close>

definition providerPrefix :: string where "providerPrefix = ''alicloud://''"

definition providerIDFor :: "string \<Rightarrow> string \<Rightarrow> string" where
  "providerIDFor region instanceID = ''alicloud://'' @ region @ ''.'' @ instanceID"

definition providerInstanceID :: "string \<Rightarrow> string" where
  "providerInstanceID providerID =
     (let s = TrimPrefix providerID ''alicloud://'';
          i = LastIndexAny s ''/.''
      in if 0 \<le> i then drop (nat i + 1) s else s)"

text \<open>
  The provider-ID branch of \<open>regionFromMachine\<close>: first the slash form, then the dot form,
  each accepted only with a non-empty region.
\<close>

definition providerIDRegion :: "string \<Rightarrow> string option" where
  "providerIDRegion pid =
     (let trimmed = TrimPrefix pid ''alicloud://'';
          bySlash = SplitN2 trimmed (CHR ''/'');
          byDot = SplitN2 trimmed (CHR ''.'')
      in if length bySlash = 2 \<and> hd bySlash \<noteq> [] then Some (hd bySlash)
         else if length byDot = 2 \<and> hd byDot \<noteq> [] then Some (hd byDot)
         else None)"

definition noRegionError :: go_error where
  "noRegionError = Errorf ''Spec.RegionID is empty and ProviderID is unset or invalid'' []"

definition regionFromMachine :: "AlibabaCloudMachine \<Rightarrow> go_error + string" where
  "regionFromMachine m =
     (if ms_RegionID (m_Spec m) \<noteq> [] then Inr (ms_RegionID (m_Spec m))
      else case ms_ProviderID (m_Spec m) of
             None \<Rightarrow> Inl noRegionError
           | Some pid \<Rightarrow>
               (case providerIDRegion pid of
                  Some region \<Rightarrow> Inr region
                | None \<Rightarrow> Inl noRegionError))"

definition resolveRegion :: "AlibabaCloudMachine \<Rightarrow> AlibabaCloudCluster option \<Rightarrow> string" where
  "resolveRegion m c =
     (if ms_RegionID (m_Spec m) \<noteq> [] then ms_RegionID (m_Spec m)
      else case c of Some c \<Rightarrow> cs_Region (ac_Spec c) | None \<Rightarrow> [])"

text \<open>A segment of a provider ID: not empty and free of both separators.\<close>

definition segment :: "string \<Rightarrow> bool" where
  "segment s \<longleftrightarrow> s \<noteq> [] \<and> CHR ''/'' \<notin> set s \<and> CHR ''.'' \<notin> set s"

text \<open>
  The slash form other components write (\<open>alicloud://<region>/<id>\<close>), which both readers
  still accept.
\<close>

definition slashProviderID :: "string \<Rightarrow> string \<Rightarrow> string" where
  "slashProviderID region instanceID = ''alicloud://'' @ region @ ''/'' @ instanceID"

section \<open>The codec contract\<close>

locale provider_id_codec =
  fixes mk :: "string \<Rightarrow> string \<Rightarrow> string"
    and id_of :: "string \<Rightarrow> string"
    and region_of :: "string \<Rightarrow> string option"
    and valid :: "string \<Rightarrow> bool"
  assumes id_of_mk: "valid r \<Longrightarrow> valid i \<Longrightarrow> id_of (mk r i) = i"
    and region_of_mk: "valid r \<Longrightarrow> valid i \<Longrightarrow> region_of (mk r i) = Some r"
begin

lemma mk_inject:
  "valid r \<Longrightarrow> valid i \<Longrightarrow> valid r' \<Longrightarrow> valid i' \<Longrightarrow>
   mk r i = mk r' i' \<longleftrightarrow> r = r' \<and> i = i'"
  using id_of_mk region_of_mk by (metis option.inject)

lemma same_instance_iff:
  "valid r \<Longrightarrow> valid i \<Longrightarrow> valid r' \<Longrightarrow> valid i' \<Longrightarrow>
   id_of (mk r i) = id_of (mk r' i') \<longleftrightarrow> i = i'"
  by (simp add: id_of_mk)

end

section \<open>Reading provider IDs\<close>

lemma providerInstanceID_no_sep:
  "set (providerInstanceID pid) \<inter> {CHR ''/'', CHR ''.''} = {}"
proof -
  have suffix: "0 \<le> LastIndexAny s cs \<Longrightarrow>
    set (drop (nat (LastIndexAny s cs) + 1) s) \<inter> set cs = {}" for s cs
  proof (induction s)
    case (Cons c s)
    show ?case
    proof (cases "0 \<le> LastIndexAny s cs")
      case True
      with Cons.IH show ?thesis by (simp add: Let_def nat_add_distrib)
    next
      case False
      then have "set s \<inter> set cs = {}" using LastIndexAny_absent_iff [of s cs] by simp
      with False Cons.prems show ?thesis by (auto simp: Let_def split: if_splits)
    qed
  qed simp
  show ?thesis
    using suffix [of "TrimPrefix pid ''alicloud://''" "''/.''"]
      LastIndexAny_absent_iff [of "TrimPrefix pid ''alicloud://''" "''/.''"]
    by (auto simp: providerInstanceID_def Let_def not_le)
qed

lemma providerInstanceID_sep:
  assumes "sep \<in> {CHR ''/'', CHR ''.''}" and "CHR ''/'' \<notin> set i" and "CHR ''.'' \<notin> set i"
  shows "providerInstanceID (''alicloud://'' @ r @ sep # i) = i"
proof -
  have "LastIndexAny (r @ sep # i) ''/.'' = int (length r)"
    by (rule LastIndexAny_last) (use assms in auto)
  moreover have "TrimPrefix (''alicloud://'' @ r @ sep # i) ''alicloud://'' = r @ sep # i"
    by (rule TrimPrefix_append)
  ultimately show ?thesis by (simp add: providerInstanceID_def Let_def)
qed

lemma providerIDRegion_dot:
  assumes "segment r" and "CHR ''/'' \<notin> set i"
  shows "providerIDRegion (''alicloud://'' @ r @ CHR ''.'' # i) = Some r"
proof -
  have "TrimPrefix (''alicloud://'' @ r @ CHR ''.'' # i) ''alicloud://'' = r @ CHR ''.'' # i"
    by (rule TrimPrefix_append)
  moreover have "SplitN2 (r @ CHR ''.'' # i) (CHR ''/'') = [r @ CHR ''.'' # i]"
    by (rule SplitN2_absent) (use assms in \<open>auto simp: segment_def\<close>)
  moreover have "SplitN2 (r @ CHR ''.'' # i) (CHR ''.'') = [r, i]"
    by (rule SplitN2_present) (use assms in \<open>auto simp: segment_def\<close>)
  ultimately show ?thesis using assms(1) by (simp add: providerIDRegion_def Let_def segment_def)
qed

lemma providerIDRegion_slash:
  assumes "r \<noteq> []" and "CHR ''/'' \<notin> set r"
  shows "providerIDRegion (''alicloud://'' @ r @ CHR ''/'' # i) = Some r"
proof -
  have "TrimPrefix (''alicloud://'' @ r @ CHR ''/'' # i) ''alicloud://'' = r @ CHR ''/'' # i"
    by (rule TrimPrefix_append)
  moreover have "SplitN2 (r @ CHR ''/'' # i) (CHR ''/'') = [r, i]"
    by (rule SplitN2_present) (use assms in auto)
  ultimately show ?thesis using assms(1) by (simp add: providerIDRegion_def Let_def)
qed

interpretation dotID: provider_id_codec providerIDFor providerInstanceID providerIDRegion segment
proof unfold_locales
  fix r i assume r: "segment r" and i: "segment i"
  show "providerInstanceID (providerIDFor r i) = i"
    using providerInstanceID_sep [of "CHR ''.''" i r] i
    by (simp add: providerIDFor_def segment_def)
  show "providerIDRegion (providerIDFor r i) = Some r"
    using providerIDRegion_dot [of r i] r i by (simp add: providerIDFor_def segment_def)
qed

interpretation slashID: provider_id_codec slashProviderID providerInstanceID providerIDRegion segment
proof unfold_locales
  fix r i assume r: "segment r" and i: "segment i"
  show "providerInstanceID (slashProviderID r i) = i"
    using providerInstanceID_sep [of "CHR ''/''" i r] i
    by (simp add: slashProviderID_def segment_def)
  show "providerIDRegion (slashProviderID r i) = Some r"
    using providerIDRegion_slash [of r i] r by (simp add: slashProviderID_def segment_def)
qed

section \<open>Properties\<close>

text \<open>
  C10.  Round trip of provider IDs: from the ID the controller writes for a region and an
  instance, the delete path and the CSR approver read back exactly that region and instance
  (for names without the two separators), also when the machine's region field is empty; the
  older slash form reads the same.
\<close>

theorem provider_id_roundtrip:
  assumes "segment region" and "segment i"
    and "ms_RegionID (m_Spec m) = []"
    and "ms_ProviderID (m_Spec m) = Some pid" and "pid \<in> {providerIDFor region i, slashProviderID region i}"
  shows "providerInstanceID pid = i \<and> regionFromMachine m = Inr region"
  using assms dotID.id_of_mk dotID.region_of_mk slashID.id_of_mk slashID.region_of_mk
  by (auto simp: regionFromMachine_def)

definition blank_meta :: "string \<Rightarrow> ObjectMeta" where
  "blank_meta name = \<lparr>om_Name = name, om_Namespace = ''ns'', om_UID = ''uid-1'', om_DeletionTimestamp = None,
     om_Finalizers = [], om_Annotations = [], om_OwnerReferences = []\<rparr>"

definition blank_spec :: AlibabaCloudMachineSpec where
  "blank_spec = \<lparr>ms_ProviderID = None, ms_InstanceType = ''ecs.g7.large'', ms_ImageID = ''img'',
     ms_RegionID = [], ms_ZoneID = [], ms_SecurityGroupIDs = [], ms_VSwitchID = [],
     ms_SystemDisk = None, ms_DataDisks = None, ms_RAMRoleName = [], ms_SpotStrategy = [],
     ms_SpotPriceLimit = None, ms_Tags = [], ms_MetadataOptions = None, ms_UserDataSecret = None,
     ms_CredentialsSecret = None\<rparr>"

definition blank_status :: AlibabaCloudMachineStatus where
  "blank_status = \<lparr>mst_Ready = False, mst_Initialization = None, mst_InstanceID = None,
     mst_InstanceState = None, mst_MetadataHardened = None, mst_Addresses = [], mst_Conditions = [],
     mst_FailureReason = None, mst_FailureMessage = None, mst_IgnitionOSS = None\<rparr>"

definition blank_machine :: "string \<Rightarrow> AlibabaCloudMachine" where
  "blank_machine name = \<lparr>m_Meta = blank_meta name, m_Spec = blank_spec, m_Status = blank_status\<rparr>"

lemmas blank_defs = blank_machine_def blank_meta_def blank_spec_def blank_status_def

theorem provider_id_roundtrip_witness:
  "providerInstanceID (providerIDFor ''cn-x'' ''i-1'') = ''i-1''
   \<and> regionFromMachine ((blank_machine ''w'')\<lparr>m_Spec := blank_spec\<lparr>ms_ProviderID :=
        Some (providerIDFor ''cn-x'' ''i-1'')\<rparr>\<rparr>) = Inr ''cn-x''"
  by (rule provider_id_roundtrip) (simp_all add: segment_def blank_defs)

end
