(* ===== verification/Metrics.thy ===== *)
theory Metrics
  imports Prelude
begin

text \<open>
  \<open>pkg/metrics/metrics.go\<close>: the provider's counters, and the process state the cloud
  client threads through every call.  A counter vector is a function from its labels to
  the count; of the latency histogram the number of observations per operation is kept
  (the observed wall-clock values are not modelled).
\<close>

record Metrics =
  CloudAPIRequests :: "string \<times> string \<Rightarrow> nat"
  CloudAPIRequestDuration :: "string \<Rightarrow> nat"
  CloudAPIThrottleRetries :: "string \<Rightarrow> nat"
  InstanceOps :: "string \<times> string \<Rightarrow> nat"

definition ResultSuccess :: string where "ResultSuccess = ''success''"

definition ResultError :: string where "ResultError = ''error''"

definition metric_result :: "go_error option \<Rightarrow> string" where
  "metric_result err = (case err of None \<Rightarrow> ResultSuccess | Some _ \<Rightarrow> ResultError)"

definition bump :: "'l \<Rightarrow> ('l \<Rightarrow> nat) \<Rightarrow> ('l \<Rightarrow> nat)" where
  "bump l c = c(l := c l + 1)"

text \<open>
  The process state: the metrics, the delays handed to \<open>throttleSleep\<close> so far (newest
  last), the stream of pseudo-random numbers \<open>math/rand\<close> will produce, and the state of
  the cloud behind the SDK, of which nothing is assumed.
\<close>

record 'c World =
  metrics :: Metrics
  sleeps :: "int list"
  rands :: "nat \<Rightarrow> nat"
  rand_pos :: nat
  cloud :: 'c

definition ObserveCloudAPI :: "string \<Rightarrow> go_error option \<Rightarrow> 'c World \<Rightarrow> 'c World" where
  "ObserveCloudAPI operation err w =
     (let M = metrics w
      in w\<lparr>metrics := M\<lparr>CloudAPIRequestDuration := bump operation (CloudAPIRequestDuration M),
                       CloudAPIRequests :=
                         bump (operation, metric_result err) (CloudAPIRequests M)\<rparr>\<rparr>)"

definition ObserveThrottleRetry :: "string \<Rightarrow> 'c World \<Rightarrow> 'c World" where
  "ObserveThrottleRetry operation w =
     (let M = metrics w
      in w\<lparr>metrics := M\<lparr>CloudAPIThrottleRetries :=
                         bump operation (CloudAPIThrottleRetries M)\<rparr>\<rparr>)"

definition ObserveInstanceOp :: "string \<Rightarrow> go_error option \<Rightarrow> 'c World \<Rightarrow> 'c World" where
  "ObserveInstanceOp action err w =
     (let M = metrics w
      in w\<lparr>metrics := M\<lparr>InstanceOps := bump (action, metric_result err) (InstanceOps M)\<rparr>\<rparr>)"

lemma bump_same [simp]: "bump l c l = c l + 1"
  by (simp add: bump_def)

lemma bump_other [simp]: "l' \<noteq> l \<Longrightarrow> bump l c l' = c l'"
  by (simp add: bump_def)

lemma Observe_frame [simp]:
  "cloud (ObserveCloudAPI op e w) = cloud w"
  "sleeps (ObserveCloudAPI op e w) = sleeps w"
  "cloud (ObserveThrottleRetry op w) = cloud w"
  "sleeps (ObserveThrottleRetry op w) = sleeps w"
  "cloud (ObserveInstanceOp op e w) = cloud w"
  "sleeps (ObserveInstanceOp op e w) = sleeps w"
  by (simp_all add: ObserveCloudAPI_def ObserveThrottleRetry_def ObserveInstanceOp_def Let_def)

lemma Observe_counts [simp]:
  "CloudAPIThrottleRetries (metrics (ObserveCloudAPI op e w)) = CloudAPIThrottleRetries (metrics w)"
  "CloudAPIRequestDuration (metrics (ObserveCloudAPI op e w))
     = bump op (CloudAPIRequestDuration (metrics w))"
  "CloudAPIRequests (metrics (ObserveCloudAPI op e w))
     = bump (op, metric_result e) (CloudAPIRequests (metrics w))"
  "CloudAPIThrottleRetries (metrics (ObserveThrottleRetry op w))
     = bump op (CloudAPIThrottleRetries (metrics w))"
  "CloudAPIRequestDuration (metrics (ObserveThrottleRetry op w))
     = CloudAPIRequestDuration (metrics w)"
  "CloudAPIRequests (metrics (ObserveThrottleRetry op w)) = CloudAPIRequests (metrics w)"
  "InstanceOps (metrics (ObserveCloudAPI op e w)) = InstanceOps (metrics w)"
  "InstanceOps (metrics (ObserveThrottleRetry op w)) = InstanceOps (metrics w)"
  by (simp_all add: ObserveCloudAPI_def ObserveThrottleRetry_def Let_def)

end
