(* ===== verification/Retry.thy ===== *)
theory Retry
  imports Metrics
begin

text \<open>
  \<open>pkg/client/retry.go\<close>: which SDK errors are throttling, and the retry loop with capped
  exponential backoff and jitter.  The closure the loop runs is a state transformer of the
  cloud that returns an error or a response; the loop is recursion on the attempts left,
  so it always returns.
\<close>

section \<open>Definitions\<close>

definition throttleMaxRetries :: nat where "throttleMaxRetries = 5"

text \<open>Durations are nanoseconds: 200ms and 5s.\<close>

definition throttleBaseDelay :: int where "throttleBaseDelay = 200 * 1000000"

definition throttleMaxDelay :: int where "throttleMaxDelay = 5 * 1000000000"

definition isThrottlingError :: "go_error \<Rightarrow> bool" where
  "isThrottlingError err =
     (case asServerError err of
        None \<Rightarrow> False
      | Some (code, hs) \<Rightarrow>
          Contains code ''Throttling''
          \<or> code \<in> {''ServiceUnavailable'', ''RequestThrottled'', ''RequestLimitExceeded''}
          \<or> hs = 429 \<or> hs = 503)"

text \<open>\<open>rand.Int63n(n)\<close>: the next pseudo-random number, reduced to \<open>[0, n)\<close>.\<close>

definition Int63n :: "int \<Rightarrow> 'c World \<Rightarrow> int \<times> 'c World" where
  "Int63n n w = (int (rands w (rand_pos w)) mod n, w\<lparr>rand_pos := rand_pos w + 1\<rparr>)"

definition throttleSleep :: "int \<Rightarrow> 'c World \<Rightarrow> 'c World" where
  "throttleSleep d w = w\<lparr>sleeps := sleeps w @ [d]\<rparr>"

text \<open>The loop from attempt \<open>attempt\<close> with backoff \<open>delay\<close>.\<close>

function retry_from ::
  "string \<Rightarrow> ('c \<Rightarrow> (go_error + 'r) \<times> 'c) \<Rightarrow> nat \<Rightarrow> int \<Rightarrow> 'c World
     \<Rightarrow> (go_error + 'r) \<times> 'c World" where
  "retry_from op fn attempt delay w =
     (let (r, c') = fn (cloud w); w1 = w\<lparr>cloud := c'\<rparr>
      in case r of
           Inr v \<Rightarrow> (Inr v, ObserveCloudAPI op None w1)
         | Inl err \<Rightarrow>
             if \<not> isThrottlingError err then (Inl err, ObserveCloudAPI op (Some err) w1)
             else if throttleMaxRetries \<le> attempt
             then (Inl err, ObserveCloudAPI op (Some err) w1)
             else let w2 = ObserveThrottleRetry op w1;
                      (jitter, w3) = Int63n (delay div 2 + 1) w2;
                      sleep = min (delay + jitter) throttleMaxDelay;
                      w4 = throttleSleep sleep w3
                  in retry_from op fn (attempt + 1) (min (delay * 2) throttleMaxDelay) w4)"
  by pat_completeness auto
termination
  by (relation "measure (\<lambda>(op, fn, attempt, delay, w). throttleMaxRetries - attempt)") auto

declare retry_from.simps [simp del]

definition retryThrottled ::
  "string \<Rightarrow> ('c \<Rightarrow> (go_error + 'r) \<times> 'c) \<Rightarrow> 'c World \<Rightarrow> (go_error + 'r) \<times> 'c World" where
  "retryThrottled op fn w = retry_from op fn 0 throttleBaseDelay w"

section \<open>The loop against its specification\<close>

text \<open>
  What the loop promises, without backoff and bookkeeping: run the call until it settles
  (success or an error that is not throttling), at most \<open>n\<close> repetitions.
\<close>

fun settle :: "('c \<Rightarrow> (go_error + 'r) \<times> 'c) \<Rightarrow> nat \<Rightarrow> 'c \<Rightarrow> (go_error + 'r) \<times> 'c" where
  "settle fn 0 c = fn c"
| "settle fn (Suc n) c =
     (case fn c of
        (Inl err, c') \<Rightarrow> if isThrottlingError err then settle fn n c' else (Inl err, c')
      | (Inr v, c') \<Rightarrow> (Inr v, c'))"

lemma Int63n_range: "0 < n \<Longrightarrow> 0 \<le> fst (Int63n n w) \<and> fst (Int63n n w) < n"
  by (simp add: Int63n_def)

lemma Int63n_frame [simp]:
  "cloud (snd (Int63n n w)) = cloud w" "sleeps (snd (Int63n n w)) = sleeps w"
  "metrics (snd (Int63n n w)) = metrics w"
  by (simp_all add: Int63n_def)

lemma throttleSleep_frame [simp]:
  "cloud (throttleSleep d w) = cloud w" "metrics (throttleSleep d w) = metrics w"
  "sleeps (throttleSleep d w) = sleeps w @ [d]"
  by (simp_all add: throttleSleep_def)

text \<open>The state the loop continues in after one throttled attempt.\<close>

definition after_throttle :: "string \<Rightarrow> int \<Rightarrow> 'c \<Rightarrow> 'c World \<Rightarrow> 'c World" where
  "after_throttle op delay c' w =
     (let w2 = ObserveThrottleRetry op (w\<lparr>cloud := c'\<rparr>)
      in throttleSleep (min (delay + fst (Int63n (delay div 2 + 1) w2)) throttleMaxDelay)
           (snd (Int63n (delay div 2 + 1) w2)))"

lemma after_throttle_frame [simp]:
  "cloud (after_throttle op delay c' w) = c'"
  "CloudAPIRequests (metrics (after_throttle op delay c' w)) = CloudAPIRequests (metrics w)"
  "CloudAPIRequestDuration (metrics (after_throttle op delay c' w))
     = CloudAPIRequestDuration (metrics w)"
  "CloudAPIThrottleRetries (metrics (after_throttle op delay c' w))
     = bump op (CloudAPIThrottleRetries (metrics w))"
  by (simp_all add: after_throttle_def Let_def)

lemma after_throttle_sleep:
  assumes "0 \<le> delay" and "delay \<le> throttleMaxDelay"
  obtains d where "sleeps (after_throttle op delay c' w) = sleeps w @ [d]"
    and "delay \<le> d" and "d \<le> throttleMaxDelay" and "2 * d \<le> 3 * delay"
proof -
  define w2 where "w2 = ObserveThrottleRetry op (w\<lparr>cloud := c'\<rparr>)"
  define j where "j = fst (Int63n (delay div 2 + 1) w2)"
  have j: "0 \<le> j" "j < delay div 2 + 1"
    using Int63n_range [of "delay div 2 + 1" w2] assms by (simp_all add: j_def)
  have "2 * (delay + j) \<le> 3 * delay" using j by presburger
  moreover have "sleeps (after_throttle op delay c' w) = sleeps w @ [min (delay + j) throttleMaxDelay]"
    by (simp add: after_throttle_def Let_def w2_def j_def)
  ultimately show thesis using that j assms by (auto simp: min_def split: if_splits)
qed

text \<open>One equation per way an attempt can end.\<close>

definition settled_outcome :: "go_error + 'r \<Rightarrow> bool" where
  "settled_outcome r = (case r of Inl e \<Rightarrow> \<not> isThrottlingError e | Inr _ \<Rightarrow> True)"

lemma retry_from_settled:
  assumes "fn (cloud w) = (r, c')" and "settled_outcome r"
  shows "retry_from op fn attempt delay w =
    (r, ObserveCloudAPI op (case r of Inl e \<Rightarrow> Some e | Inr _ \<Rightarrow> None) (w\<lparr>cloud := c'\<rparr>))"
  using assms by (auto simp: retry_from.simps settled_outcome_def Let_def split: sum.splits)

lemma retry_from_exhausted:
  assumes "fn (cloud w) = (Inl e, c')" and "throttleMaxRetries \<le> attempt"
  shows "retry_from op fn attempt delay w =
    (Inl e, ObserveCloudAPI op (Some e) (w\<lparr>cloud := c'\<rparr>))"
  using assms by (auto simp: retry_from.simps Let_def)

lemma retry_from_throttled:
  assumes "fn (cloud w) = (Inl e, c')" and "isThrottlingError e" and "attempt < throttleMaxRetries"
  shows "retry_from op fn attempt delay w =
    retry_from op fn (attempt + 1) (min (delay * 2) throttleMaxDelay)
      (after_throttle op delay c' w)"
  using assms by (subst retry_from.simps) (simp add: Let_def after_throttle_def case_prod_beta)

lemmas retry_steps = retry_from_settled retry_from_exhausted retry_from_throttled

text \<open>Case analysis of one attempt, used by every induction over the loop.\<close>

lemma attempt_cases:
  obtains (settled) r c' where "fn c = (r, c')" "settled_outcome r"
  | (throttled) e c' where "fn c = (Inl e, c')" "isThrottlingError e"
  by (cases "fn c"; cases "fst (fn c)") (auto simp: settled_outcome_def)

lemma retry_from_settle:
  "attempt \<le> throttleMaxRetries \<Longrightarrow>
   (fst (retry_from op fn attempt delay w), cloud (snd (retry_from op fn attempt delay w)))
   = settle fn (throttleMaxRetries - attempt) (cloud w)"
proof (induction "throttleMaxRetries - attempt" arbitrary: attempt delay w)
  case 0
  then have "throttleMaxRetries \<le> attempt" by simp
  with 0 show ?case
    by (cases rule: attempt_cases [of fn "cloud w"])
      (simp_all add: retry_from_settled retry_from_exhausted)
next
  case (Suc n)
  then have lt: "attempt < throttleMaxRetries" and n: "n = throttleMaxRetries - (attempt + 1)"
    by simp_all
  show ?case
  proof (cases rule: attempt_cases [of fn "cloud w"])
    case (settled r c')
    then show ?thesis
      using Suc.hyps(2) [symmetric] retry_from_settled [where fn = fn and w = w, OF settled]
      by (cases r) (simp_all add: settled_outcome_def)
  next
    case (throttled e c')
    then show ?thesis
      using Suc.hyps(1) [OF n, of "min (delay * 2) throttleMaxDelay" "after_throttle op delay c' w"]
        retry_from_throttled [where fn = fn and w = w, OF throttled lt] lt n
      by (simp add: Suc.hyps(2) [symmetric])
  qed
qed

text \<open>
  The delays the loop sleeps and what it reports, from any attempt: the sum doubles with
  every attempt left, no delay exceeds the cap, and each sleep is counted as one retry.
\<close>

definition backoff_spec :: "string \<Rightarrow> nat \<Rightarrow> int \<Rightarrow> 'c World \<Rightarrow> 'c World \<Rightarrow> int list \<Rightarrow> bool" where
  "backoff_spec op n delay w w' ss \<longleftrightarrow>
     sleeps w' = sleeps w @ ss \<and> length ss \<le> n
     \<and> list_all (\<lambda>s. 0 \<le> s \<and> s \<le> throttleMaxDelay) ss
     \<and> 2 * sum_list ss \<le> 3 * delay * (2 ^ n - 1)
     \<and> CloudAPIThrottleRetries (metrics w') op
         = CloudAPIThrottleRetries (metrics w) op + length ss
     \<and> CloudAPIRequestDuration (metrics w') op = CloudAPIRequestDuration (metrics w) op + 1"

lemma backoff_spec_one:
  "0 \<le> delay \<Longrightarrow> backoff_spec op n delay w (ObserveCloudAPI op e (w\<lparr>cloud := c'\<rparr>)) []"
  by (simp add: backoff_spec_def)

lemma backoff_spec_step:
  assumes spec: "backoff_spec op n (min (delay * 2) throttleMaxDelay) (after_throttle op delay c' w) w' ss"
    and delay: "0 \<le> delay" "delay \<le> throttleMaxDelay"
  shows "\<exists>ss'. backoff_spec op (Suc n) delay w w' ss'"
proof -
  obtain d where d: "sleeps (after_throttle op delay c' w) = sleeps w @ [d]"
    "delay \<le> d" "d \<le> throttleMaxDelay" "2 * d \<le> 3 * delay"
    by (rule after_throttle_sleep [OF delay])
  have rest: "2 * sum_list ss \<le> 3 * min (delay * 2) throttleMaxDelay * (2 ^ n - 1)"
    using spec unfolding backoff_spec_def by blast
  have "(0::int) \<le> 2 ^ n - 1" by simp
  moreover have "3 * min (delay * 2) throttleMaxDelay \<le> 3 * (delay * 2)" by simp
  ultimately have "3 * min (delay * 2) throttleMaxDelay * (2 ^ n - 1) \<le> 3 * (delay * 2) * (2 ^ n - 1)"
    using mult_right_mono by blast
  with rest have "2 * sum_list ss \<le> 3 * (delay * 2) * (2 ^ n - 1)" by (rule order_trans)
  with d(4) have "2 * d + 2 * sum_list ss \<le> 3 * delay + 3 * (delay * 2) * (2 ^ n - 1)"
    by (rule add_mono)
  also have "\<dots> = 3 * delay * (2 ^ Suc n - 1)" by (simp add: algebra_simps)
  also have "2 * d + 2 * sum_list ss = 2 * sum_list (d # ss)" by simp
  finally have total: "2 * sum_list (d # ss) \<le> 3 * delay * (2 ^ Suc n - 1)" .
  have "backoff_spec op (Suc n) delay w w' (d # ss)"
    unfolding backoff_spec_def
  proof (intro conjI total)
    show "sleeps w' = sleeps w @ d # ss" using spec d(1) by (simp add: backoff_spec_def)
    show "list_all (\<lambda>s. 0 \<le> s \<and> s \<le> throttleMaxDelay) (d # ss)"
      using spec d delay by (simp add: backoff_spec_def)
  qed (use spec in \<open>simp_all add: backoff_spec_def\<close>)
  then show ?thesis by blast
qed

lemma retry_from_backoff:
  "attempt \<le> throttleMaxRetries \<Longrightarrow> 0 \<le> delay \<Longrightarrow> delay \<le> throttleMaxDelay \<Longrightarrow>
   \<exists>ss. backoff_spec op (throttleMaxRetries - attempt) delay w
     (snd (retry_from op fn attempt delay w)) ss"
proof (induction "throttleMaxRetries - attempt" arbitrary: attempt delay w)
  case 0
  then have ex: "throttleMaxRetries \<le> attempt" by simp
  show ?case
  proof (cases rule: attempt_cases [of fn "cloud w"])
    case (settled r c')
    with 0 show ?thesis
      using retry_from_settled [where fn = fn and w = w, OF settled] backoff_spec_one by fastforce
  next
    case (throttled e c')
    with 0 show ?thesis
      using retry_from_exhausted [where fn = fn and w = w, OF throttled(1) ex] backoff_spec_one by fastforce
  qed
next
  case (Suc n)
  then have lt: "attempt < throttleMaxRetries" and n: "n = throttleMaxRetries - (attempt + 1)"
    by simp_all
  show ?case
  proof (cases rule: attempt_cases [of fn "cloud w"])
    case (settled r c')
    with Suc.prems show ?thesis
      using retry_from_settled [where fn = fn and w = w, OF settled] backoff_spec_one by fastforce
  next
    case (throttled e c')
    let ?w = "after_throttle op delay c' w" and ?d = "min (delay * 2) throttleMaxDelay"
    obtain ss where "backoff_spec op n ?d ?w (snd (retry_from op fn (attempt + 1) ?d ?w)) ss"
      using Suc.hyps(1) [OF n, of ?d ?w] lt Suc.prems n by (auto simp: throttleMaxDelay_def)
    from backoff_spec_step [OF this Suc.prems(2,3)]
    have "\<exists>ss. backoff_spec op (Suc n) delay w (snd (retry_from op fn (attempt + 1) ?d ?w)) ss" .
    then show ?thesis
      using retry_from_throttled [where fn = fn and w = w, OF throttled lt] Suc.hyps(2) by simp
  qed
qed

lemma retryThrottled_settle:
  "(fst (retryThrottled op fn w), cloud (snd (retryThrottled op fn w)))
   = settle fn throttleMaxRetries (cloud w)"
  using retry_from_settle [of 0] by (simp add: retryThrottled_def)

text \<open>What the client code sees of a retried call: its outcome, and the cloud after it.\<close>

lemma retryThrottled_cases:
  obtains r c' w' where "retryThrottled op fn w = (r, w')"
    and "settle fn throttleMaxRetries (cloud w) = (r, c')" and "cloud w' = c'"
  using retryThrottled_settle [of op fn w, symmetric] that
  by (cases "retryThrottled op fn w") simp

text \<open>A relation every attempt keeps is kept by the whole call.\<close>

lemma settle_invariant:
  assumes "\<And>c r c'. fn c = (r, c') \<Longrightarrow> P c \<Longrightarrow> P c'" and "settle fn n c = (r, c')" and "P c"
  shows "P c'"
  using assms(2,3)
proof (induction n arbitrary: c)
  case 0
  with assms(1) show ?case by simp
next
  case (Suc n)
  then show ?case
    by (cases "fn c") (auto split: sum.splits if_splits dest: assms(1))
qed

text \<open>The outcome is that of the last attempt, made in a state every earlier attempt led to.\<close>

lemma settle_outcome:
  assumes keep: "\<And>c r c'. fn c = (r, c') \<Longrightarrow> P c \<Longrightarrow> P c'"
  shows "settle fn n c = (r, c') \<Longrightarrow> P c \<Longrightarrow> \<exists>c1. P c1 \<and> fn c1 = (r, c')"
proof (induction n arbitrary: c)
  case (Suc n)
  then show ?case
    by (cases "fn c") (auto split: sum.splits if_splits dest: keep)
qed auto

text \<open>The same for the retried call on the world.\<close>

lemma retryThrottled_outcome:
  assumes "retryThrottled op fn w = (r, w')" and "P (cloud w)"
    and "\<And>c r c'. fn c = (r, c') \<Longrightarrow> P c \<Longrightarrow> P c'"
  obtains c1 where "P c1" and "fn c1 = (r, cloud w')"
proof -
  have "settle fn throttleMaxRetries (cloud w) = (r, cloud w')"
    using retryThrottled_settle [of op fn w] assms(1) by simp
  then have "\<exists>c1. P c1 \<and> fn c1 = (r, cloud w')"
    using assms(2) by (rule settle_outcome [where fn = fn and P = P, rotated]) (rule assms(3))
  with that show ?thesis by (elim exE conjE)
qed

text \<open>A call that succeeds at once is made once.\<close>

lemma retryThrottled_success:
  "fn (cloud w) = (Inr v, c') \<Longrightarrow> retryThrottled op fn w = (Inr v, ObserveCloudAPI op None (w\<lparr>cloud := c'\<rparr>))"
  by (simp add: retryThrottled_def retry_from.simps [of op fn 0])

section \<open>Properties\<close>

text \<open>
  C8.  A retried SDK call refines its specification: outcome and cloud state are those of
  repeating the call while it answers with a throttling error, at most five more times;
  backoff, jitter and metrics do not influence them.  In particular the loop always returns.
\<close>

theorem retry_refines_settle:
  "retryThrottled op fn w = (r, w') \<Longrightarrow> settle fn 5 (cloud w) = (r, cloud w')"
  using retryThrottled_settle [of op fn w] by (simp add: throttleMaxRetries_def)

text \<open>A call that is throttled once and then succeeds, for the witnesses.\<close>

definition flaky :: "nat \<Rightarrow> (go_error + string) \<times> nat" where
  "flaky n = (if n = 0 then (Inl (ServerError ''Throttling.User'' 400 (Lit [])), 1)
              else (Inr ''ok'', n))"

definition idle_world :: "nat World" where
  "idle_world =
     \<lparr>metrics = \<lparr>CloudAPIRequests = (\<lambda>_. 0), CloudAPIRequestDuration = (\<lambda>_. 0),
                CloudAPIThrottleRetries = (\<lambda>_. 0), InstanceOps = (\<lambda>_. 0)\<rparr>,
      sleeps = [], rands = (\<lambda>_. 7), rand_pos = 0, cloud = 0\<rparr>"

lemma flaky_throttled: "isThrottlingError (ServerError ''Throttling.User'' 400 (Lit []))"
  by (simp add: isThrottlingError_def)

lemma flaky_settles: "settle flaky 5 0 = (Inr ''ok'', 1)"
  by (simp add: flaky_def flaky_throttled numeral_eq_Suc)

theorem retry_refines_settle_witness:
  "\<exists>r w'. retryThrottled ''op'' flaky idle_world = (r, w') \<and> r = Inr ''ok'' \<and> cloud w' = 1"
proof -
  obtain r w' where run: "retryThrottled ''op'' flaky idle_world = (r, w')" by fastforce
  from retry_refines_settle [OF run] flaky_settles have "r = Inr ''ok''" "cloud w' = 1"
    by (simp_all add: idle_world_def)
  with run show ?thesis by blast
qed

text \<open>
  C9.  Bounds of the backoff: at most five sleeps, none of them longer than 5 seconds, 9.3
  seconds in all; each sleep counts as one throttle retry of the operation, and the whole
  call as one observation of its latency.
\<close>

theorem retry_bounds:
  "\<exists>ss. sleeps (snd (retryThrottled op fn w)) = sleeps w @ ss \<and> length ss \<le> 5
     \<and> list_all (\<lambda>s. 0 \<le> s \<and> s \<le> 5 * 1000000000) ss
     \<and> sum_list ss \<le> 9300 * 1000000
     \<and> CloudAPIThrottleRetries (metrics (snd (retryThrottled op fn w))) op
         = CloudAPIThrottleRetries (metrics w) op + length ss
     \<and> CloudAPIRequestDuration (metrics (snd (retryThrottled op fn w))) op
         = CloudAPIRequestDuration (metrics w) op + 1"
proof -
  obtain ss where "backoff_spec op 5 throttleBaseDelay w (snd (retryThrottled op fn w)) ss"
    using retry_from_backoff [of 0 throttleBaseDelay op w fn]
    by (auto simp: retryThrottled_def throttleMaxRetries_def throttleBaseDelay_def throttleMaxDelay_def)
  then show ?thesis
    by (intro exI [of _ ss]) (simp add: backoff_spec_def throttleBaseDelay_def throttleMaxDelay_def)
qed

end
