(* ===== verification/Go_Float.thy ===== *)
theory Go_Float
  imports Complex_Main
begin

text \<open>
  The floating-point arithmetic the provider uses: a \<open>float64\<close> is the rational number it stands
  for, an operation is the exact result rounded to 53 bits (to nearest, ties to even), and
  \<open>int64(x)\<close> truncates towards zero.  The numbers that occur, durations in seconds and memory
  sizes, are far from overflow and from the subnormal range, so neither is modelled.
\<close>

section \<open>Rounding\<close>

text \<open>The number of binary digits of an integer, and the exponent of a number's leading digit.\<close>

function bits :: "int \<Rightarrow> nat" where
  "bits n = (if n \<le> 0 then 0 else Suc (bits (n div 2)))"
  by pat_completeness auto
termination by (relation "measure nat") auto

definition float_exp :: "rat \<Rightarrow> int" where
  "float_exp x =
     (if 1 \<le> x then int (bits \<lfloor>x\<rfloor>) - 1 else - int (bits (\<lceil>1 / x\<rceil> - 1)))"

definition round_half_even :: "rat \<Rightarrow> int" where
  "round_half_even x =
     (let d = x - of_int \<lfloor>x\<rfloor>
      in if d < 1 / 2 \<or> d = 1 / 2 \<and> even \<lfloor>x\<rfloor> then \<lfloor>x\<rfloor> else \<lfloor>x\<rfloor> + 1)"

definition float_ulp :: "rat \<Rightarrow> rat" where
  "float_ulp x = (let k = float_exp \<bar>x\<bar> - 52 in if 0 \<le> k then 2 ^ nat k else 1 / 2 ^ nat (- k))"

definition float64 :: "rat \<Rightarrow> rat" where
  "float64 x = (if x = 0 then 0 else of_int (round_half_even (x / float_ulp x)) * float_ulp x)"

text \<open>
  \<open>int64(x)\<close>.  For a value out of range Go leaves the result to the implementation; on amd64 it is
  the smallest integer.
\<close>

definition int64_of_float :: "rat \<Rightarrow> int" where
  "int64_of_float x =
     (let t = (if 0 \<le> x then \<lfloor>x\<rfloor> else \<lceil>x\<rceil>)
      in if - (2 ^ 63) \<le> t \<and> t < 2 ^ 63 then t else - (2 ^ 63))"

text \<open>\<open>time.Duration.Seconds\<close>, on nanoseconds.\<close>

definition Duration_Seconds :: "int \<Rightarrow> rat" where
  "Duration_Seconds d =
     (let sec = sgn d * (\<bar>d\<bar> div 1000000000);
          nsec = d - sec * 1000000000
      in float64 (of_int sec + float64 (of_int nsec / 1000000000)))"

section \<open>Whole numbers are exact\<close>

lemma round_half_even_int [simp]: "round_half_even (of_int z) = z"
  by (simp add: round_half_even_def)

lemma bits_le: "n < 2 ^ k \<Longrightarrow> bits n \<le> k"
proof (induction n arbitrary: k rule: bits.induct)
  case (1 n)
  show ?case
  proof (cases "n \<le> 0")
    case False
    with "1.prems" obtain j where k: "k = Suc j" by (cases k) auto
    with "1.prems" have "n div 2 < 2 ^ j" by (simp add: div_less_iff_less_mult mult.commute)
    from "1.IH" [OF False this] False k show ?thesis by (simp add: bits.simps [of n])
  qed (simp add: bits.simps [of n])
qed

declare bits.simps [simp del]

lemma float_exp_int:
  assumes "0 < n" and "n < 2 ^ 53"
  shows "float_exp (of_int n) \<le> 52"
proof -
  have "bits n \<le> 53" by (rule bits_le [OF assms(2)])
  moreover have "(1 :: rat) \<le> of_int n" using assms(1) by simp
  ultimately show ?thesis by (simp add: float_exp_def)
qed

lemma float64_nat:
  assumes "0 \<le> n" and "n < 2 ^ 53"
  shows "float64 (of_int n) = of_int n"
proof (cases "n = 0")
  case False
  with assms have pos: "0 < n" by simp
  define k where "k = nat (52 - float_exp (of_int n))"
  have ulp: "float_ulp (of_int n) = 1 / 2 ^ k"
    using float_exp_int [OF pos assms(2)] pos
    by (cases "float_exp (of_int n) = 52") (simp_all add: float_ulp_def k_def Let_def)
  have "(of_int n :: rat) / float_ulp (of_int n) = of_int (n * 2 ^ k)" by (simp add: ulp)
  then have "round_half_even ((of_int n :: rat) / float_ulp (of_int n)) = n * 2 ^ k"
    by (simp only: round_half_even_int)
  with False show ?thesis by (simp add: float64_def ulp)
qed (simp add: float64_def)

lemma Duration_Seconds_whole:
  assumes "0 \<le> n" and "n < 2 ^ 53"
  shows "int64_of_float (Duration_Seconds (n * 1000000000)) = n"
proof -
  have sec: "sgn (n * 1000000000) * (\<bar>n * 1000000000\<bar> div 1000000000) = n"
    using assms(1) by (cases "n = 0") (simp_all add: abs_mult sgn_mult)
  then have "Duration_Seconds (n * 1000000000) = float64 (of_int n)"
    by (simp add: Duration_Seconds_def Let_def float64_def)
  with float64_nat [OF assms] assms show ?thesis by (simp add: int64_of_float_def)
qed

end
