(* ===== verification/Cloud_Client.thy ===== *)
theory Cloud_Client
  imports Api_Types Retry Go_Float
begin

text \<open>
  \<open>pkg/client/capi.go\<close>: the high-level operations the controllers call, over the Alibaba
  ECS SDK.  The SDK client is third-party code: it is a record of state transformers of an
  arbitrary cloud state, passed to every operation.  Its request structs are records with
  the fields the provider sets.  The interface the controllers see (\<open>Client\<close> of
  \<open>client.go\<close>, its high-level part) is the record \<open>Client\<close>; \<open>alibabacloudClient\<close> builds it
  from an SDK client.
\<close>

section \<open>Parameters and results\<close>

record ClientTag =
  ct_Key :: string
  ct_Value :: string

record DataDiskParam =
  dp_Category :: string
  dp_Size :: int
  dp_PerformanceLevel :: string
  dp_Encrypted :: "bool option"
  dp_KMSKeyID :: string

record CreateInstanceParams =
  cp_RegionID :: string
  cp_ZoneID :: string
  cp_InstanceType :: string
  cp_ImageID :: string
  cp_InstanceName :: string
  cp_HostName :: string
  cp_SecurityGroupIDs :: "string list"
  cp_VSwitchID :: string
  cp_SystemDiskCategory :: string
  cp_SystemDiskSize :: int
  cp_SystemDiskPerformanceLevel :: string
  cp_SystemDiskEncrypted :: "bool option"
  cp_SystemDiskKMSKeyID :: string
  cp_DataDisks :: "DataDiskParam list"
  cp_RAMRoleName :: string
  cp_UserData :: string
  cp_Tags :: "ClientTag list"
  cp_ResourceGroupID :: string
  cp_SpotStrategy :: string
  cp_SpotPriceLimit :: "rat option"
  cp_HttpEndpoint :: string
  cp_HttpTokens :: string
  cp_HttpPutResponseHopLimit :: int
  cp_ClientToken :: string

record CreateInstanceResponse =
  cr_InstanceID :: string

record InstanceDescription =
  id_InstanceID :: string
  id_Status :: string
  id_HostName :: string
  id_InnerIpAddress :: "string list"
  id_PublicIpAddress :: "string list"

record IgnitionStoreParams =
  ip_Bucket :: string
  ip_Endpoint :: string
  ip_RegionID :: string
  ip_Key :: string
  ip_Data :: string
  ip_Expiry :: int

text \<open>The CAPI high-level helpers of the \<open>Client\<close> interface, over a world \<open>'w\<close>.\<close>

record 'w Client =
  DescribeInstanceByID :: "string \<Rightarrow> 'w \<Rightarrow> (go_error + InstanceDescription option) \<times> 'w"
  CreateECSInstance :: "CreateInstanceParams \<Rightarrow> 'w \<Rightarrow> (go_error + CreateInstanceResponse) \<times> 'w"
  DeleteECSInstance :: "string \<Rightarrow> bool \<Rightarrow> 'w \<Rightarrow> go_error option \<times> 'w"
  FindInstanceByTag :: "string \<Rightarrow> string \<Rightarrow> string \<Rightarrow> 'w \<Rightarrow> (go_error + string) \<times> 'w"
  ModifyInstanceMetadata :: "string \<Rightarrow> string \<Rightarrow> string \<Rightarrow> int \<Rightarrow> 'w \<Rightarrow> go_error option \<times> 'w"
  InstanceTypeCapacity :: "string \<Rightarrow> 'w \<Rightarrow> (go_error + int \<times> int) \<times> 'w"
  PutIgnitionObject :: "IgnitionStoreParams \<Rightarrow> 'w \<Rightarrow> (go_error + string) \<times> 'w"
  DeleteIgnitionObject :: "IgnitionStoreParams \<Rightarrow> 'w \<Rightarrow> go_error option \<times> 'w"

section \<open>The ECS SDK\<close>

record EcsInstance =
  ei_InstanceId :: string
  ei_Status :: string
  ei_HostName :: string
  ei_InnerIpAddress :: "string list"
  ei_PublicIpAddress :: "string list"

record DescribeInstancesRequest =
  dir_RegionId :: string
  dir_InstanceIds :: string
  dir_Tag :: "(string \<times> string) list"

record RunInstancesDataDisk =
  rd_Category :: string
  rd_Size :: string
  rd_PerformanceLevel :: string
  rd_KMSKeyId :: string
  rd_DeleteWithInstance :: string
  rd_Encrypted :: string

record RunInstancesRequest =
  rq_RegionId :: string
  rq_ZoneId :: string
  rq_InstanceType :: string
  rq_ImageId :: string
  rq_InstanceName :: string
  rq_HostName :: string
  rq_VSwitchId :: string
  rq_SystemDiskCategory :: string
  rq_SystemDiskSize :: string
  rq_SystemDiskPerformanceLevel :: string
  rq_RamRoleName :: string
  rq_UserData :: string
  rq_ResourceGroupId :: string
  rq_Amount :: string
  rq_ClientToken :: string
  rq_QueryParams :: "(string \<times> string) list"
  rq_SpotStrategy :: string
  rq_SpotPriceLimit :: "rat option"
  rq_HttpEndpoint :: string
  rq_HttpTokens :: string
  rq_HttpPutResponseHopLimit :: "int option"
  rq_SecurityGroupIds :: "string list option"
  rq_DataDisk :: "RunInstancesDataDisk list option"
  rq_Tag :: "(string \<times> string) list"

record StopInstanceRequest =
  sr_InstanceId :: string
  sr_ForceStop :: string

record DeleteInstanceRequest =
  dr_InstanceId :: string
  dr_Force :: string

record ModifyMetadataRequest =
  mr_InstanceId :: string
  mr_HttpEndpoint :: string
  mr_HttpTokens :: string
  mr_HttpPutResponseHopLimit :: "int option"

record EcsInstanceType =
  it_InstanceTypeId :: string
  it_CpuCoreCount :: int
  it_MemorySize :: rat

record TagResourcesRequest =
  tr_RegionId :: string
  tr_ResourceType :: string
  tr_ResourceId :: "string list"
  tr_Tag :: "(string \<times> string) list"

record 'c EcsClient =
  ecs_RunInstances :: "RunInstancesRequest \<Rightarrow> 'c \<Rightarrow> (go_error + string list) \<times> 'c"
  ecs_DescribeInstances :: "DescribeInstancesRequest \<Rightarrow> 'c \<Rightarrow> (go_error + EcsInstance list) \<times> 'c"
  ecs_StopInstance :: "StopInstanceRequest \<Rightarrow> 'c \<Rightarrow> (go_error + unit) \<times> 'c"
  ecs_DeleteInstance :: "DeleteInstanceRequest \<Rightarrow> 'c \<Rightarrow> (go_error + unit) \<times> 'c"
  ecs_ModifyInstanceMetadataOptions :: "ModifyMetadataRequest \<Rightarrow> 'c \<Rightarrow> (go_error + unit) \<times> 'c"
  ecs_DescribeInstanceTypes :: "string list \<Rightarrow> 'c \<Rightarrow> (go_error + EcsInstanceType list) \<times> 'c"
  ecs_DescribeDisks :: "string \<Rightarrow> string \<Rightarrow> 'c \<Rightarrow> (go_error + string list) \<times> 'c"
  ecs_DescribeNetworkInterfaces :: "string \<Rightarrow> string \<Rightarrow> 'c \<Rightarrow> (go_error + string list) \<times> 'c"
  ecs_TagResources :: "TagResourcesRequest \<Rightarrow> 'c \<Rightarrow> (go_error + unit) \<times> 'c"

section \<open>Describing and deleting instances\<close>

definition alibabacloudClient_DescribeInstanceByID ::
  "'c EcsClient \<Rightarrow> string \<Rightarrow> 'c World \<Rightarrow> (go_error + InstanceDescription option) \<times> 'c World" where
  "alibabacloudClient_DescribeInstanceByID ecs instanceID w =
     (let req = \<lparr>dir_RegionId = [], dir_InstanceIds = ''[\"'' @ instanceID @ ''\"]'', dir_Tag = []\<rparr>;
          (r, w1) = retryThrottled ''DescribeInstances'' (ecs_DescribeInstances ecs req) w
      in case r of
           Inl err \<Rightarrow> (Inl (Wrap ''DescribeInstances(%s): %w'' [Lit instanceID] err), w1)
         | Inr [] \<Rightarrow> (Inr None, w1)
         | Inr (inst # _) \<Rightarrow>
             (Inr (Some \<lparr>id_InstanceID = ei_InstanceId inst, id_Status = ei_Status inst,
                        id_HostName = ei_HostName inst,
                        id_InnerIpAddress = ei_InnerIpAddress inst,
                        id_PublicIpAddress = ei_PublicIpAddress inst\<rparr>), w1))"

definition alibabacloudClient_DeleteECSInstance ::
  "'c EcsClient \<Rightarrow> string \<Rightarrow> bool \<Rightarrow> 'c World \<Rightarrow> go_error option \<times> 'c World" where
  "alibabacloudClient_DeleteECSInstance ecs instanceID force w =
     (let stopReq = \<lparr>sr_InstanceId = instanceID, sr_ForceStop = (if force then ''true'' else [])\<rparr>;
          (_, c1) = ecs_StopInstance ecs stopReq (cloud w);
          delReq = \<lparr>dr_InstanceId = instanceID, dr_Force = ''true''\<rparr>;
          (r, w2) = retryThrottled ''DeleteInstance'' (ecs_DeleteInstance ecs delReq) (w\<lparr>cloud := c1\<rparr>)
      in case r of
           Inl err \<Rightarrow> (Some (Wrap ''DeleteInstance(%s): %w'' [Lit instanceID] err),
                       ObserveInstanceOp ''delete'' (Some err) w2)
         | Inr _ \<Rightarrow> (None, ObserveInstanceOp ''delete'' None w2))"

definition alibabacloudClient_ModifyInstanceMetadata ::
  "'c EcsClient \<Rightarrow> string \<Rightarrow> string \<Rightarrow> string \<Rightarrow> int \<Rightarrow> 'c World \<Rightarrow> go_error option \<times> 'c World" where
  "alibabacloudClient_ModifyInstanceMetadata ecs instanceID httpEndpoint httpTokens hopLimit w =
     (let req = \<lparr>mr_InstanceId = instanceID, mr_HttpEndpoint = httpEndpoint,
                 mr_HttpTokens = httpTokens,
                 mr_HttpPutResponseHopLimit = (if hopLimit > 0 then Some hopLimit else None)\<rparr>;
          (r, w1) = retryThrottled ''ModifyInstanceMetadataOptions''
                      (ecs_ModifyInstanceMetadataOptions ecs req) w
      in case r of
           Inl err \<Rightarrow> (Some (Wrap ''ModifyInstanceMetadataOptions(%s): %w'' [Lit instanceID] err),
                       ObserveInstanceOp ''harden'' (Some err) w1)
         | Inr _ \<Rightarrow> (None, ObserveInstanceOp ''harden'' None w1))"

definition alibabacloudClient_InstanceTypeCapacity ::
  "'c EcsClient \<Rightarrow> string \<Rightarrow> 'c World \<Rightarrow> (go_error + int \<times> int) \<times> 'c World" where
  "alibabacloudClient_InstanceTypeCapacity ecs instanceType w =
     (let (r, w1) = retryThrottled ''DescribeInstanceTypes''
                      (ecs_DescribeInstanceTypes ecs [instanceType]) w
      in case r of
           Inl err \<Rightarrow> (Inl (Wrap ''DescribeInstanceTypes(%s): %w'' [Lit instanceType] err), w1)
         | Inr its \<Rightarrow>
             (case find (\<lambda>it. it_InstanceTypeId it = instanceType) its of
                Some it \<Rightarrow> (Inr (it_CpuCoreCount it, int64_of_float (float64 (it_MemorySize it * 1024))), w1)
              | None \<Rightarrow>
                  (Inl (Errorf ''instance type %q not found by DescribeInstanceTypes''
                         [Lit instanceType]), w1)))"

section \<open>Finding instances by tag\<close>

definition MachineNameTagKey :: string where
  "MachineNameTagKey = ''k8s.io/cluster-api-machine''"

fun machineTag :: "ClientTag list \<Rightarrow> string" where
  "machineTag [] = []"
| "machineTag (t # ts) = (if ct_Key t = MachineNameTagKey then ct_Value t else machineTag ts)"

definition alibabacloudClient_FindInstanceByTag ::
  "'c EcsClient \<Rightarrow> string \<Rightarrow> string \<Rightarrow> string \<Rightarrow> 'c World \<Rightarrow> (go_error + string) \<times> 'c World" where
  "alibabacloudClient_FindInstanceByTag ecs region key value w =
     (let req = \<lparr>dir_RegionId = region, dir_InstanceIds = [], dir_Tag = [(key, value)]\<rparr>;
          (r, w1) = retryThrottled ''DescribeInstances'' (ecs_DescribeInstances ecs req) w
      in case r of
           Inl err \<Rightarrow>
             (Inl (Wrap ''DescribeInstances by tag %s=%s: %w'' [Lit key, Lit value] err), w1)
         | Inr insts \<Rightarrow>
             (case find (\<lambda>inst. ei_Status inst \<noteq> ''Deleted'') insts of
                Some inst \<Rightarrow> (Inr (ei_InstanceId inst), w1)
              | None \<Rightarrow> (Inr [], w1)))"

section \<open>Creating instances\<close>

text \<open>
  \<open>hostNameOK\<close>: the loop over the bytes, carrying the index, the previous byte and whether
  only digits were seen so far.
\<close>

definition isDigit :: "char \<Rightarrow> bool" where
  "isDigit ch \<longleftrightarrow> 48 \<le> (of_char ch :: nat) \<and> (of_char ch :: nat) \<le> 57"

definition isLetter :: "char \<Rightarrow> bool" where
  "isLetter ch \<longleftrightarrow> (97 \<le> (of_char ch :: nat) \<and> (of_char ch :: nat) \<le> 122)
     \<or> (65 \<le> (of_char ch :: nat) \<and> (of_char ch :: nat) \<le> 90)"

definition isSep :: "char \<Rightarrow> bool" where
  "isSep ch \<longleftrightarrow> ch = CHR ''-'' \<or> ch = CHR ''.''"

fun hostName_loop :: "nat \<Rightarrow> nat \<Rightarrow> char option \<Rightarrow> bool \<Rightarrow> string \<Rightarrow> bool" where
  "hostName_loop len i prev allDigits [] = (\<not> allDigits)"
| "hostName_loop len i prev allDigits (ch # rest) =
     (if isDigit ch then hostName_loop len (i + 1) (Some ch) allDigits rest
      else if isLetter ch then hostName_loop len (i + 1) (Some ch) False rest
      else if isSep ch then
        (if i = 0 \<or> i + 1 = len then False
         else if (case prev of Some p \<Rightarrow> isSep p | None \<Rightarrow> False) then False
         else hostName_loop len (i + 1) (Some ch) False rest)
      else False)"

definition hostNameOK :: "string \<Rightarrow> bool" where
  "hostNameOK name =
     (if length name < 2 \<or> 64 < length name then False
      else hostName_loop (length name) 0 None True name)"

text \<open>
  The \<open>RunInstances\<close> request \<open>CreateECSInstance\<close> builds from its parameters.  The query
  parameters are listed in the order they are set.
\<close>

definition sdkDataDisk :: "DataDiskParam \<Rightarrow> RunInstancesDataDisk" where
  "sdkDataDisk d =
     \<lparr>rd_Category = dp_Category d, rd_Size = itoa (dp_Size d),
      rd_PerformanceLevel = dp_PerformanceLevel d, rd_KMSKeyId = dp_KMSKeyID d,
      rd_DeleteWithInstance = ''true'',
      rd_Encrypted = (case dp_Encrypted d of None \<Rightarrow> [] | Some b \<Rightarrow> FormatBool b)\<rparr>"

definition runInstancesRequest :: "CreateInstanceParams \<Rightarrow> RunInstancesRequest" where
  "runInstancesRequest params =
     \<lparr>rq_RegionId = cp_RegionID params,
      rq_ZoneId = cp_ZoneID params,
      rq_InstanceType = cp_InstanceType params,
      rq_ImageId = cp_ImageID params,
      rq_InstanceName = cp_InstanceName params,
      rq_HostName = (if cp_HostName params \<noteq> [] \<and> hostNameOK (cp_HostName params)
                     then cp_HostName params else []),
      rq_VSwitchId = cp_VSwitchID params,
      rq_SystemDiskCategory = cp_SystemDiskCategory params,
      rq_SystemDiskSize = itoa (cp_SystemDiskSize params),
      rq_SystemDiskPerformanceLevel = cp_SystemDiskPerformanceLevel params,
      rq_RamRoleName = cp_RAMRoleName params,
      rq_UserData = cp_UserData params,
      rq_ResourceGroupId = cp_ResourceGroupID params,
      rq_Amount = ''1'',
      rq_ClientToken = cp_ClientToken params,
      rq_QueryParams =
        (if cp_SystemDiskEncrypted params = Some True
         then (''SystemDisk.Encrypted'', ''true'')
                # (if cp_SystemDiskKMSKeyID params \<noteq> []
                   then [(''SystemDisk.KMSKeyId'', cp_SystemDiskKMSKeyID params)] else [])
         else []) @ [(''SystemDisk.DeleteWithInstance'', ''true'')],
      rq_SpotStrategy = cp_SpotStrategy params,
      rq_SpotPriceLimit = cp_SpotPriceLimit params,
      rq_HttpEndpoint = cp_HttpEndpoint params,
      rq_HttpTokens = cp_HttpTokens params,
      rq_HttpPutResponseHopLimit =
        (if cp_HttpPutResponseHopLimit params > 0
         then Some (cp_HttpPutResponseHopLimit params) else None),
      rq_SecurityGroupIds =
        (if cp_SecurityGroupIDs params \<noteq> [] then Some (cp_SecurityGroupIDs params) else None),
      rq_DataDisk =
        (if cp_DataDisks params \<noteq> [] then Some (map sdkDataDisk (cp_DataDisks params)) else None),
      rq_Tag = map (\<lambda>t. (ct_Key t, ct_Value t)) (cp_Tags params)\<rparr>"

definition toTagResourcesTags :: "ClientTag list \<Rightarrow> (string \<times> string) list" where
  "toTagResourcesTags tags = map (\<lambda>t. (ct_Key t, ct_Value t)) tags"

definition tagInstanceDisks ::
  "'c EcsClient \<Rightarrow> string \<Rightarrow> string \<Rightarrow> ClientTag list \<Rightarrow> 'c World \<Rightarrow> 'c World" where
  "tagInstanceDisks ecs region instanceID tags w =
     (let (r, c1) = ecs_DescribeDisks ecs region instanceID (cloud w); w1 = w\<lparr>cloud := c1\<rparr>
      in case r of
           Inl _ \<Rightarrow> w1
         | Inr disks \<Rightarrow>
             (let ids = filter (\<lambda>d. d \<noteq> []) disks
              in if ids = [] then w1
                 else snd (retryThrottled ''TagResources(disk)''
                        (ecs_TagResources ecs
                           \<lparr>tr_RegionId = region, tr_ResourceType = ''disk'', tr_ResourceId = ids,
                            tr_Tag = toTagResourcesTags tags\<rparr>) w1)))"

definition tagInstanceENIs ::
  "'c EcsClient \<Rightarrow> string \<Rightarrow> string \<Rightarrow> ClientTag list \<Rightarrow> 'c World \<Rightarrow> 'c World" where
  "tagInstanceENIs ecs region instanceID tags w =
     (let (r, c1) = ecs_DescribeNetworkInterfaces ecs region instanceID (cloud w);
          w1 = w\<lparr>cloud := c1\<rparr>
      in case r of
           Inl _ \<Rightarrow> w1
         | Inr enis \<Rightarrow>
             (let ids = filter (\<lambda>d. d \<noteq> []) enis
              in if ids = [] then w1
                 else snd (retryThrottled ''TagResources(eni)''
                        (ecs_TagResources ecs
                           \<lparr>tr_RegionId = region, tr_ResourceType = ''eni'', tr_ResourceId = ids,
                            tr_Tag = toTagResourcesTags tags\<rparr>) w1)))"

text \<open>The part of \<open>CreateECSInstance\<close> after the adopt-by-tag guard.\<close>

definition runNewInstance ::
  "'c EcsClient \<Rightarrow> CreateInstanceParams \<Rightarrow> 'c World
     \<Rightarrow> (go_error + CreateInstanceResponse) \<times> 'c World" where
  "runNewInstance ecs params w =
     (let (r, w1) = retryThrottled ''RunInstances''
                      (ecs_RunInstances ecs (runInstancesRequest params)) w
      in case r of
           Inl err \<Rightarrow> (Inl (Wrap ''RunInstances: %w'' [] err),
                       ObserveInstanceOp ''create'' (Some err) w1)
         | Inr [] \<Rightarrow> (Inl (Errorf ''RunInstances returned no instance IDs'' []),
                       ObserveInstanceOp ''create'' (Some (Errorf ''no instance IDs'' [])) w1)
         | Inr (instanceID # _) \<Rightarrow>
             (let w2 = ObserveInstanceOp ''create'' None w1;
                  w3 = (if cp_Tags params \<noteq> []
                        then tagInstanceENIs ecs (cp_RegionID params) instanceID (cp_Tags params)
                               (tagInstanceDisks ecs (cp_RegionID params) instanceID
                                  (cp_Tags params) w2)
                        else w2)
              in (Inr \<lparr>cr_InstanceID = instanceID\<rparr>, w3)))"

definition alibabacloudClient_CreateECSInstance ::
  "'c EcsClient \<Rightarrow> CreateInstanceParams \<Rightarrow> 'c World
     \<Rightarrow> (go_error + CreateInstanceResponse) \<times> 'c World" where
  "alibabacloudClient_CreateECSInstance ecs params w =
     (let mv = machineTag (cp_Tags params)
      in if mv \<noteq> [] then
           (let (r, w1) = alibabacloudClient_FindInstanceByTag ecs (cp_RegionID params)
                            MachineNameTagKey mv w
            in case r of
                 Inl err \<Rightarrow> (Inl err, w1)
               | Inr existing \<Rightarrow>
                   if existing \<noteq> []
                   then (Inr \<lparr>cr_InstanceID = existing\<rparr>, ObserveInstanceOp ''adopt'' None w1)
                   else runNewInstance ecs params w1)
         else runNewInstance ecs params w)"

section \<open>Properties\<close>

text \<open>The host names Alibaba accepts on Linux, stated on the whole string.\<close>

definition host_name_ok :: "string \<Rightarrow> bool" where
  "host_name_ok s \<longleftrightarrow>
     2 \<le> length s \<and> length s \<le> 64
     \<and> (\<forall>c \<in> set s. isDigit c \<or> isLetter c \<or> isSep c)
     \<and> \<not> isSep (hd s) \<and> \<not> isSep (last s)
     \<and> successively (\<lambda>a b. \<not> (isSep a \<and> isSep b)) s
     \<and> (\<exists>c \<in> set s. \<not> isDigit c)"

lemma sep_classes: "isSep c \<Longrightarrow> \<not> isDigit c \<and> \<not> isLetter c" "isLetter c \<Longrightarrow> \<not> isDigit c"
  by (auto simp: isSep_def isDigit_def isLetter_def)

lemma hostName_loop_spec:
  "i + length rest = len \<Longrightarrow> (prev = None \<longleftrightarrow> i = 0) \<Longrightarrow>
   hostName_loop len i prev allDigits rest \<longleftrightarrow>
     (\<forall>c \<in> set rest. isDigit c \<or> isLetter c \<or> isSep c)
     \<and> (rest \<noteq> [] \<longrightarrow> (i = 0 \<longrightarrow> \<not> isSep (hd rest)) \<and> \<not> isSep (last rest))
     \<and> successively (\<lambda>a b. \<not> (isSep a \<and> isSep b)) (case prev of None \<Rightarrow> rest | Some p \<Rightarrow> p # rest)
     \<and> (\<not> allDigits \<or> (\<exists>c \<in> set rest. \<not> isDigit c))"
proof (induction len i prev allDigits rest rule: hostName_loop.induct)
  case (2 len i prev allDigits ch rest)
  have len: "i + 1 + length rest = len" using "2.prems" by simp
  consider "isDigit ch" | "\<not> isDigit ch" "isLetter ch" | "\<not> isDigit ch" "\<not> isLetter ch" "isSep ch"
    | "\<not> isDigit ch" "\<not> isLetter ch" "\<not> isSep ch" by blast
  then show ?case
  proof cases
    case 1
    then have "\<not> isSep ch" using sep_classes by blast
    with 1 "2.IH"(1) [OF 1 len] show ?thesis
      by (cases prev; cases rest) (auto simp: sep_classes)
  next
    case 2
    then have "\<not> isSep ch" using sep_classes by blast
    with 2 "2.IH"(2) [OF 2 len] show ?thesis
      by (cases prev; cases rest) (auto simp: sep_classes)
  next
    case 3
    show ?thesis
    proof (cases "i = 0 \<or> i + 1 = len \<or> (case prev of Some p \<Rightarrow> isSep p | None \<Rightarrow> False)")
      case True
      with 3 len "2.prems" show ?thesis by (cases prev; cases rest) auto
    next
      case False
      with 3 len have "hostName_loop len (i + 1) (Some ch) False rest \<longleftrightarrow>
          (\<forall>c \<in> set rest. isDigit c \<or> isLetter c \<or> isSep c)
          \<and> (rest \<noteq> [] \<longrightarrow> \<not> isSep (last rest))
          \<and> successively (\<lambda>a b. \<not> (isSep a \<and> isSep b)) (ch # rest)"
        using "2.IH"(3) by auto
      with 3 False len "2.prems" show ?thesis by (cases prev; cases rest) auto
    qed
  next
    case 4
    then show ?thesis by simp
  qed
qed (simp split: option.splits)

text \<open>
  C22.  \<open>hostNameOK\<close> accepts exactly the names of 2 to 64 letters, digits, dots and hyphens that
  neither start nor end with a dot or hyphen, have no two of them in a row, and are not all
  digits; the request carries such a name and no other.
\<close>

theorem host_name_exact:
  "(hostNameOK name \<longleftrightarrow> host_name_ok name)
   \<and> rq_HostName (runInstancesRequest p) = (if host_name_ok (cp_HostName p) then cp_HostName p else [])"
proof -
  have iff: "hostNameOK n \<longleftrightarrow> host_name_ok n" for n
  proof (cases "2 \<le> length n \<and> length n \<le> 64")
    case True
    then have "n \<noteq> []" by auto
    with True show ?thesis
      by (auto simp: hostNameOK_def host_name_ok_def hostName_loop_spec)
  next
    case False
    then show ?thesis by (auto simp: hostNameOK_def host_name_ok_def)
  qed
  then show ?thesis by (simp add: runInstancesRequest_def)
qed

text \<open>
  Create is idempotent by tag: if the machine's tag already names a live instance, the
  create returns that instance and touches the cloud only through the look-up; if the look-up
  fails, so does the create - no instance is ever started without a clear look-up.
\<close>

theorem create_adopts_existing:
  assumes "machineTag (cp_Tags p) = mv" and "mv \<noteq> []"
    and "alibabacloudClient_FindInstanceByTag ecs (cp_RegionID p) MachineNameTagKey mv w = (r, w1)"
    and "r \<noteq> Inr []"
  shows "cloud (snd (alibabacloudClient_CreateECSInstance ecs p w)) = cloud w1
    \<and> fst (alibabacloudClient_CreateECSInstance ecs p w) = map_sum id (\<lambda>i. \<lparr>cr_InstanceID = i\<rparr>) r"
  using assms by (auto simp: alibabacloudClient_CreateECSInstance_def split: sum.splits)

text \<open>
  No billable leftovers by construction: every RunInstances request asks for one instance,
  releases the system disk and every data disk with the instance, and names a customer key
  for the system disk only together with encryption.
\<close>

theorem request_leaves_nothing_behind:
  "rq_Amount (runInstancesRequest p) = ''1''
   \<and> (''SystemDisk.DeleteWithInstance'', ''true'') \<in> set (rq_QueryParams (runInstancesRequest p))
   \<and> (\<forall>ds d. rq_DataDisk (runInstancesRequest p) = Some ds \<longrightarrow> d \<in> set ds \<longrightarrow> rd_DeleteWithInstance d = ''true'')
   \<and> length (case rq_DataDisk (runInstancesRequest p) of None \<Rightarrow> [] | Some ds \<Rightarrow> ds) = length (cp_DataDisks p)
   \<and> (\<forall>k. (''SystemDisk.KMSKeyId'', k) \<in> set (rq_QueryParams (runInstancesRequest p)) \<longrightarrow>
        (''SystemDisk.Encrypted'', ''true'') \<in> set (rq_QueryParams (runInstancesRequest p))
        \<and> k = cp_SystemDiskKMSKeyID p \<and> k \<noteq> [])"
  by (auto simp: runInstancesRequest_def sdkDataDisk_def split: if_splits)

text \<open>A client whose account is empty, for concrete runs.\<close>

definition idle_client :: "unit Client" where
  "idle_client =
     \<lparr>DescribeInstanceByID = (\<lambda>i w. (Inr None, w)),
      CreateECSInstance = (\<lambda>p w. (Inr \<lparr>cr_InstanceID = ''i''\<rparr>, w)),
      DeleteECSInstance = (\<lambda>i f w. (None, w)), FindInstanceByTag = (\<lambda>rg k v w. (Inr [], w)),
      ModifyInstanceMetadata = (\<lambda>i e t h w. (None, w)), InstanceTypeCapacity = (\<lambda>t w. (Inr (4, 16384), w)),
      PutIgnitionObject = (\<lambda>p w. (Inr [], w)), DeleteIgnitionObject = (\<lambda>p w. (None, w))\<rparr>"

end
