(* ===== verification/Go_Encoding.thy ===== *)
theory Go_Encoding
  imports Prelude "HOL-Library.Word"
begin

text \<open>
  The Go standard-library encodings the provider uses on user-data: \<open>encoding/base64\<close>
  (standard alphabet with padding), \<open>encoding/hex\<close>, \<open>crypto/sha512\<close> and the string
  quoting of \<open>encoding/json\<close>.  Byte sequences are \<^typ>\<open>string\<close>s.
\<close>

section \<open>Base64\<close>

definition b64_alphabet :: string where
  "b64_alphabet = ''ABCDEFGHIJKLMNOPQRSTUVWXYZabcdefghijklmnopqrstuvwxyz0123456789+/''"

definition b64_char :: "nat \<Rightarrow> char" where
  "b64_char n = b64_alphabet ! n"

text \<open>The decode map: \<open>None\<close> for a byte outside the alphabet.\<close>

fun index_of :: "char \<Rightarrow> char list \<Rightarrow> nat option" where
  "index_of c [] = None"
| "index_of c (x # xs) = (if c = x then Some 0 else map_option Suc (index_of c xs))"

definition b64_value :: "char \<Rightarrow> nat option" where
  "b64_value c = index_of c b64_alphabet"

abbreviation bval :: "char \<Rightarrow> nat" where "bval c \<equiv> of_char c"

fun base64_Encode :: "string \<Rightarrow> string" where
  "base64_Encode [] = []"
| "base64_Encode [a] =
     [b64_char (bval a div 4), b64_char (bval a mod 4 * 16), CHR ''='', CHR ''='']"
| "base64_Encode [a, b] =
     [b64_char (bval a div 4), b64_char (bval a mod 4 * 16 + bval b div 16),
      b64_char (bval b mod 16 * 4), CHR ''='']"
| "base64_Encode (a # b # c # rest) =
     b64_char (bval a div 4) # b64_char (bval a mod 4 * 16 + bval b div 16)
       # b64_char (bval b mod 16 * 4 + bval c div 64) # b64_char (bval c mod 64)
       # base64_Encode rest"

text \<open>
  \<open>DecodeString\<close>: carriage returns and newlines are skipped; the rest is read in groups of
  four, of which only the last may be padded.  Unused trailing bits are ignored, as the
  non-strict decoder does.
\<close>

fun b64_quads :: "string \<Rightarrow> string option" where
  "b64_quads [] = Some []"
| "b64_quads (a # b # c # d # rest) =
     (case (b64_value a, b64_value b) of
        (Some va, Some vb) \<Rightarrow>
          (if d = CHR ''='' then
             (if rest \<noteq> [] then None
              else if c = CHR ''='' then Some [byte (va * 4 + vb div 16)]
              else case b64_value c of
                     None \<Rightarrow> None
                   | Some vc \<Rightarrow> Some [byte (va * 4 + vb div 16),
                                      byte (vb mod 16 * 16 + vc div 4)])
           else case (b64_value c, b64_value d) of
                  (Some vc, Some vd) \<Rightarrow>
                    map_option (\<lambda>r. byte (va * 4 + vb div 16)
                                    # byte (vb mod 16 * 16 + vc div 4)
                                    # byte (vc mod 4 * 64 + vd) # r) (b64_quads rest)
                | _ \<Rightarrow> None)
      | _ \<Rightarrow> None)"
| "b64_quads _ = None"

definition base64_Decode :: "string \<Rightarrow> string option" where
  "base64_Decode s = b64_quads (filter (\<lambda>c. c \<noteq> byte 10 \<and> c \<noteq> byte 13) s)"

section \<open>Hexadecimal\<close>

definition hex_digit :: "nat \<Rightarrow> char" where
  "hex_digit n = ''0123456789abcdef'' ! n"

fun hex_Encode :: "string \<Rightarrow> string" where
  "hex_Encode [] = []"
| "hex_Encode (c # cs) = hex_digit (bval c div 16) # hex_digit (bval c mod 16) # hex_Encode cs"

section \<open>SHA-512\<close>

type_synonym u64 = "64 word"

text \<open>
  The constants are the first 64 bits of the fractional parts of the square and cube roots of
  the first primes.  \<open>root_bits\<close> finds the integer root bit by bit, from the highest.
\<close>

fun root_bits :: "nat \<Rightarrow> int \<Rightarrow> nat \<Rightarrow> int \<Rightarrow> int" where
  "root_bits k n 0 r = r"
| "root_bits k n (Suc b) r = root_bits k n b (if (r + 2 ^ b) ^ k \<le> n then r + 2 ^ b else r)"

definition fraction_bits :: "nat \<Rightarrow> int \<Rightarrow> u64" where
  "fraction_bits k p = of_int (root_bits k (p * 2 ^ (64 * k)) 72 0)"

definition sha512_primes :: "int list" where
  "sha512_primes =
     [
      2, 3, 5, 7, 11, 13, 17, 19, 23, 29, 31, 37, 41, 43, 47, 53,
      59, 61, 67, 71, 73, 79, 83, 89, 97, 101, 103, 107, 109, 113, 127, 131,
      137, 139, 149, 151, 157, 163, 167, 173, 179, 181, 191, 193, 197, 199, 211, 223,
      227, 229, 233, 239, 241, 251, 257, 263, 269, 271, 277, 281, 283, 293, 307, 311,
      313, 317, 331, 337, 347, 349, 353, 359, 367, 373, 379, 383, 389, 397, 401, 409]"

definition sha512_init :: "u64 list" where
  "sha512_init = map (fraction_bits 2) (take 8 sha512_primes)"

definition sha512_K :: "u64 list" where
  "sha512_K = map (fraction_bits 3) sha512_primes"

definition bytes_be :: "nat \<Rightarrow> nat \<Rightarrow> string" where
  "bytes_be k n = map (\<lambda>i. byte (n div 256 ^ (k - 1 - i) mod 256)) [0..<k]"

text \<open>Padding: the bit 1, zeros up to 112 bytes modulo 128, and the length in bits (16 bytes).\<close>

definition sha512_pad :: "string \<Rightarrow> string" where
  "sha512_pad s =
     s @ [byte 128] @ replicate ((239 - length s mod 128) mod 128) (byte 0)
       @ bytes_be 16 (8 * length s)"

definition word_be :: "string \<Rightarrow> u64" where
  "word_be bs = foldl (\<lambda>acc b. acc * 256 + of_nat (bval b)) 0 bs"

fun words_be :: "nat \<Rightarrow> string \<Rightarrow> u64 list" where
  "words_be 0 bs = []"
| "words_be (Suc n) bs = word_be (take 8 bs) # words_be n (drop 8 bs)"

definition sha512_s0 :: "u64 \<Rightarrow> u64" where
  "sha512_s0 x = xor (xor (word_rotr 1 x) (word_rotr 8 x)) (drop_bit 7 x)"

definition sha512_s1 :: "u64 \<Rightarrow> u64" where
  "sha512_s1 x = xor (xor (word_rotr 19 x) (word_rotr 61 x)) (drop_bit 6 x)"

definition sha512_S0 :: "u64 \<Rightarrow> u64" where
  "sha512_S0 x = xor (xor (word_rotr 28 x) (word_rotr 34 x)) (word_rotr 39 x)"

definition sha512_S1 :: "u64 \<Rightarrow> u64" where
  "sha512_S1 x = xor (xor (word_rotr 14 x) (word_rotr 18 x)) (word_rotr 41 x)"

text \<open>The message schedule, newest word first while it is built.\<close>

fun sha512_expand :: "nat \<Rightarrow> u64 list \<Rightarrow> u64 list" where
  "sha512_expand 0 ws = ws"
| "sha512_expand (Suc n) ws =
     sha512_expand n
       ((sha512_s1 (ws ! 1) + ws ! 6 + sha512_s0 (ws ! 14) + ws ! 15) # ws)"

definition sha512_schedule :: "string \<Rightarrow> u64 list" where
  "sha512_schedule block = rev (sha512_expand 64 (rev (words_be 16 block)))"

fun sha512_round :: "u64 list \<Rightarrow> u64 \<times> u64 \<Rightarrow> u64 list" where
  "sha512_round [a, b, c, d, e, f, g, h] (k, w) =
     (let t1 = h + sha512_S1 e + xor (and e f) (and (not e) g) + k + w;
          t2 = sha512_S0 a + xor (xor (and a b) (and a c)) (and b c)
      in [t1 + t2, a, b, c, d + t1, e, f, g])"
| "sha512_round st _ = st"

definition sha512_block :: "u64 list \<Rightarrow> string \<Rightarrow> u64 list" where
  "sha512_block st block =
     map2 (+) st (foldl sha512_round st (zip sha512_K (sha512_schedule block)))"

fun sha512_blocks :: "nat \<Rightarrow> u64 list \<Rightarrow> string \<Rightarrow> u64 list" where
  "sha512_blocks 0 st bs = st"
| "sha512_blocks (Suc n) st bs = sha512_blocks n (sha512_block st (take 128 bs)) (drop 128 bs)"

definition sha512_Sum512 :: "string \<Rightarrow> string" where
  "sha512_Sum512 s =
     (let padded = sha512_pad s
      in concat (map (\<lambda>w. bytes_be 8 (unat w))
           (sha512_blocks (length padded div 128) sha512_init padded)))"

section \<open>JSON strings\<close>

text \<open>
  How many bytes a valid UTF-8 sequence at the front of the string takes; \<open>None\<close> when the
  bytes there are not valid UTF-8.
\<close>

definition cont_byte :: "nat \<Rightarrow> bool" where
  "cont_byte n \<longleftrightarrow> 128 \<le> n \<and> n \<le> 191"

fun utf8_len :: "string \<Rightarrow> nat option" where
  "utf8_len [] = None"
| "utf8_len (a # s) =
     (let b0 = bval a;
          at = (\<lambda>i. if i < length s then bval (s ! i) else 0)
      in if b0 < 128 then Some 1
         else if 194 \<le> b0 \<and> b0 \<le> 223 \<and> cont_byte (at 0) then Some 2
         else if b0 = 224 \<and> 160 \<le> at 0 \<and> at 0 \<le> 191 \<and> cont_byte (at 1) then Some 3
         else if b0 = 237 \<and> 128 \<le> at 0 \<and> at 0 \<le> 159 \<and> cont_byte (at 1) then Some 3
         else if 225 \<le> b0 \<and> b0 \<le> 239 \<and> b0 \<noteq> 237 \<and> cont_byte (at 0) \<and> cont_byte (at 1) then Some 3
         else if b0 = 240 \<and> 144 \<le> at 0 \<and> at 0 \<le> 191 \<and> cont_byte (at 1) \<and> cont_byte (at 2) then Some 4
         else if 241 \<le> b0 \<and> b0 \<le> 243 \<and> cont_byte (at 0) \<and> cont_byte (at 1) \<and> cont_byte (at 2)
         then Some 4
         else if b0 = 244 \<and> 128 \<le> at 0 \<and> at 0 \<le> 143 \<and> cont_byte (at 1) \<and> cont_byte (at 2) then Some 4
         else None)"

text \<open>
  The escapes of \<open>json.Marshal\<close> with HTML escaping on, which is its default: quote,
  backslash, control characters, \<open><\<close>, \<open>>\<close>, \<open>&\<close>, the two JavaScript line separators, and
  the replacement character for invalid UTF-8.
\<close>

definition json_ascii :: "char \<Rightarrow> string" where
  "json_ascii c =
     (let n = bval c
      in if c = CHR 0x22 \<or> c = CHR 0x5C then [CHR 0x5C, c]
         else if n = 8 then [CHR 0x5C, CHR ''b'']
         else if n = 12 then [CHR 0x5C, CHR ''f'']
         else if n = 10 then [CHR 0x5C, CHR ''n'']
         else if n = 13 then [CHR 0x5C, CHR ''r'']
         else if n = 9 then [CHR 0x5C, CHR ''t'']
         else if n < 32 \<or> c = CHR ''<'' \<or> c = CHR ''>'' \<or> c = CHR ''&''
         then [CHR 0x5C, CHR ''u'', CHR ''0'', CHR ''0'', hex_digit (n div 16), hex_digit (n mod 16)]
         else [c])"

fun json_escape :: "nat \<Rightarrow> string \<Rightarrow> string" where
  "json_escape 0 s = []"
| "json_escape (Suc k) [] = []"
| "json_escape (Suc k) (c # cs) =
     (case utf8_len (c # cs) of
        None \<Rightarrow> CHR 0x5C # ''ufffd'' @ json_escape k cs
      | Some n \<Rightarrow>
          (if n = 1 then json_ascii c @ json_escape k cs
           else if take 3 (c # cs) = [byte 226, byte 128, byte 168]
           then CHR 0x5C # ''u2028'' @ json_escape k (drop 3 (c # cs))
           else if take 3 (c # cs) = [byte 226, byte 128, byte 169]
           then CHR 0x5C # ''u2029'' @ json_escape k (drop 3 (c # cs))
           else take n (c # cs) @ json_escape k (drop n (c # cs))))"

definition json_string :: "string \<Rightarrow> string" where
  "json_string s = CHR 0x22 # json_escape (length s) s @ [CHR 0x22]"

section \<open>Integers\<close>

text \<open>Two's-complement wrap-around of a 64-bit signed result.\<close>

definition wrap64 :: "int \<Rightarrow> int" where
  "wrap64 x = (x + 2 ^ 63) mod 2 ^ 64 - 2 ^ 63"

text \<open>\<open>strconv.Atoi\<close>: an optional sign, decimal digits, and the range of \<open>int\<close>.\<close>

definition digit_value :: "char \<Rightarrow> nat option" where
  "digit_value c = index_of c ''0123456789''"

fun atoi_digits :: "nat \<Rightarrow> string \<Rightarrow> nat option" where
  "atoi_digits acc [] = Some acc"
| "atoi_digits acc (c # cs) =
     (case digit_value c of None \<Rightarrow> None | Some d \<Rightarrow> atoi_digits (acc * 10 + d) cs)"

definition Atoi :: "string \<Rightarrow> int option" where
  "Atoi s =
     (let (neg, ds) = (case s of
            CHR ''-'' # cs \<Rightarrow> (True, cs) | CHR ''+'' # cs \<Rightarrow> (False, cs) | _ \<Rightarrow> (False, s))
      in if ds = [] then None
         else case atoi_digits 0 ds of
                None \<Rightarrow> None
              | Some n \<Rightarrow>
                  (let v = (if neg then - int n else int n)
                   in if - (2 ^ 63) \<le> v \<and> v < 2 ^ 63 then Some v else None))"

lemma wrap64_id: "- (2 ^ 63) \<le> x \<Longrightarrow> x < 2 ^ 63 \<Longrightarrow> wrap64 x = x"
  by (simp add: wrap64_def)

lemma wrap64_range: "- (2 ^ 63) \<le> wrap64 x \<and> wrap64 x < 2 ^ 63"
  unfolding wrap64_def using pos_mod_bound [of "2 ^ 64" "x + 2 ^ 63"]
    pos_mod_sign [of "2 ^ 64" "x + 2 ^ 63"] by simp

section \<open>Integer roots\<close>

lemma root_bits_spec:
  "r ^ k \<le> n \<Longrightarrow> n < (r + 2 ^ b) ^ k \<Longrightarrow>
   root_bits k n b r ^ k \<le> n \<and> n < (root_bits k n b r + 1) ^ k"
proof (induction k n b r rule: root_bits.induct)
  case (2 k n b r)
  have two: "r + 2 ^ b + 2 ^ b = r + 2 ^ Suc b" by simp
  show ?case
  proof (cases "(r + 2 ^ b) ^ k \<le> n")
    case True
    with 2 two show ?thesis by (simp del: power_Suc)
  next
    case False
    with 2 show ?thesis by (simp del: power_Suc)
  qed
qed simp

section \<open>Base64 round trip\<close>

lemma index_of_nth: "distinct xs \<Longrightarrow> n < length xs \<Longrightarrow> index_of (xs ! n) xs = Some n"
  by (induction xs arbitrary: n) (auto simp: nth_Cons split: nat.splits)

lemma b64_alphabet_distinct: "distinct b64_alphabet"
  by (simp add: b64_alphabet_def)

lemma b64_alphabet_length: "length b64_alphabet = 64"
  by (simp add: b64_alphabet_def)

lemma b64_value_char [simp]: "n < 64 \<Longrightarrow> b64_value (b64_char n) = Some n"
  by (simp add: b64_value_def b64_char_def index_of_nth b64_alphabet_distinct b64_alphabet_length)

lemma b64_char_in: "n < 64 \<Longrightarrow> b64_char n \<in> set b64_alphabet"
  by (simp add: b64_char_def b64_alphabet_length)

lemma alphabet_printable: "CHR ''='' \<notin> set b64_alphabet" "byte 10 \<notin> set b64_alphabet"
  "byte 13 \<notin> set b64_alphabet"
  by (simp_all add: b64_alphabet_def byte_def char_of_def)

lemma b64_char_not [simp]: "n < 64 \<Longrightarrow> b64_char n \<noteq> CHR ''=''"
  "n < 64 \<Longrightarrow> b64_char n \<noteq> byte 10" "n < 64 \<Longrightarrow> b64_char n \<noteq> byte 13"
  using b64_char_in alphabet_printable by metis+

lemma bval_less [simp]: "bval c < 256"
  using nat_of_char_less_256 by simp

lemma byte_bval [simp]: "byte (bval c) = c"
  by (simp add: byte_def)

lemma bval_bounds [simp]: "bval a div 4 < 64" "bval a mod 4 * 16 < 64"
  "bval a mod 4 * 16 + bval b div 16 < 64" "bval b mod 16 * 4 < 64"
  "bval b mod 16 * 4 + bval c div 64 < 64" "bval c mod 64 < 64"
proof -
  have "bval a < 256" "bval b < 256" "bval c < 256" by simp_all
  then show "bval a div 4 < 64" "bval a mod 4 * 16 < 64"
    "bval a mod 4 * 16 + bval b div 16 < 64" "bval b mod 16 * 4 < 64"
    "bval b mod 16 * 4 + bval c div 64 < 64" "bval c mod 64 < 64"
    by linarith+
qed

text \<open>Reassembling the bytes from the sextets.\<close>


lemma high_low:
  fixes x y k :: nat assumes "y < k" shows "(x * k + y) div k = x" and "(x * k + y) mod k = y"
  using assms by simp_all

lemma join_a: "m < 256 \<Longrightarrow> n div 4 * 4 + (n mod 4 * 16 + m div 16) div 16 = (n::nat)"
  using high_low(1) [of "m div 16" 16 "n mod 4"] by simp

lemma join_b: "m < 256 \<Longrightarrow> l < 256 \<Longrightarrow>
  (n mod 4 * 16 + m div 16) mod 16 * 16 + (m mod 16 * 4 + l div 64) div 4 = (m::nat)"
  using high_low(2) [of "m div 16" 16 "n mod 4"] high_low(1) [of "l div 64" 4 "m mod 16"] by simp

lemma join_c: "l < 256 \<Longrightarrow> (m mod 16 * 4 + l div 64) mod 4 * 64 + l mod 64 = (l::nat)"
  using high_low(2) [of "l div 64" 4 "m mod 16"] by simp

lemma joins [simp]:
  "bval a div 4 * 4 + (bval a mod 4 * 16) div 16 = bval a"
  "bval a div 4 * 4 + (bval a mod 4 * 16 + bval b div 16) div 16 = bval a"
  "(bval a mod 4 * 16 + bval b div 16) mod 16 * 16 + (bval b mod 16 * 4) div 4 = bval b"
  "(bval a mod 4 * 16 + bval b div 16) mod 16 * 16 + (bval b mod 16 * 4 + bval c div 64) div 4
     = bval b"
  "(bval b mod 16 * 4 + bval c div 64) mod 4 * 64 + bval c mod 64 = bval c"
  using join_a [of 0 "bval a"] join_a [of "bval b" "bval a"] join_b [of "bval b" 0 "bval a"]
    join_b [of "bval b" "bval c" "bval a"] join_c [of "bval c" "bval b"]
  by simp_all

lemma b64_quads_Encode: "b64_quads (base64_Encode s) = Some s"
proof (induction s rule: base64_Encode.induct)
  case (2 a)
  then show ?case using joins(1) [of a] by simp
next
  case (3 a b)
  then show ?case using joins(2) [of a b] joins(3) [of a b] by (simp del: joins)
next
  case (4 a b c rest)
  then show ?case
    using joins(2) [of a b] joins(4) [of a b c] joins(5) [of b c] by (simp del: joins)
qed simp

lemma pad_not_newline [simp]: "CHR ''='' \<noteq> byte 10" "CHR ''='' \<noteq> byte 13"
  by (simp_all add: byte_def char_of_def)

lemma base64_Encode_no_newline: "c \<in> set (base64_Encode s) \<Longrightarrow> c \<noteq> byte 10 \<and> c \<noteq> byte 13"
  by (induction s rule: base64_Encode.induct) auto

theorem base64_roundtrip: "base64_Decode (base64_Encode s) = Some s"
proof -
  have "filter (\<lambda>c. c \<noteq> byte 10 \<and> c \<noteq> byte 13) (base64_Encode s) = base64_Encode s"
    by (rule filter_True) (use base64_Encode_no_newline in blast)
  then show ?thesis by (simp add: base64_Decode_def b64_quads_Encode)
qed

lemma div3_step: "(Suc (Suc (Suc n)) + 2) div 3 = Suc ((n + 2) div 3)"
  by presburger

lemma length_base64_Encode: "length (base64_Encode s) = 4 * ((length s + 2) div 3)"
proof (induction s rule: base64_Encode.induct)
  case (4 a b c rest)
  have "(length (a # b # c # rest) + 2) div 3 = Suc ((length rest + 2) div 3)"
    using div3_step [of "length rest"] by (simp only: list.size add_0_right add_Suc_right)
  moreover have "length (base64_Encode (a # b # c # rest)) = 4 + length (base64_Encode rest)"
    by simp
  ultimately show ?case using 4 by simp
qed simp_all

lemma base64_Encode_inject [simp]: "base64_Encode s = base64_Encode t \<longleftrightarrow> s = t"
  using base64_roundtrip by (metis option.inject)

end
