(* ===== verification/Ignition.thy ===== *)
theory Ignition
  imports Cloud_Client Go_Encoding Provider_ID
begin

text \<open>
  The Ignition part of \<open>alibabacloudmachine_controller.go\<close>: a bootstrap payload above the
  ECS user-data limit is put into OSS and replaced by a pointer Ignition that fetches it
  from a presigned URL and pins its SHA-512 (\<open>maybeOffloadUserData\<close>,
  \<open>ignitionObjectKey\<close>, \<open>buildIgnitionPointer\<close>), and the object is deleted with the machine
  (\<open>cleanupOffloadedIgnition\<close>).
\<close>

section \<open>Definitions\<close>

definition defaultMaxUserDataBytes :: int where "defaultMaxUserDataBytes = 16384"

definition ignitionObjectKey :: "AlibabaCloudCluster \<Rightarrow> AlibabaCloudMachine \<Rightarrow> string" where
  "ignitionObjectKey cluster m =
     ''capi-ignition/'' @ om_Name (ac_Meta cluster) @ ''/'' @ om_Namespace (m_Meta m)
       @ ''/'' @ om_Name (m_Meta m) @ ''.ign''"

text \<open>
  \<open>json.Marshal\<close> writes the keys of a map in sorted order and without white space; on maps
  and strings it does not fail.
\<close>

fun json_object :: "(string \<times> string) list \<Rightarrow> string" where
  "json_object [] = ''{}''"
| "json_object ((k, v) # kvs) =
     ''{'' @ json_string k @ '':'' @ v
       @ concat (map (\<lambda>(k, v). '','' @ json_string k @ '':'' @ v) kvs) @ ''}''"

definition buildIgnitionPointer :: "string \<Rightarrow> string \<Rightarrow> string" where
  "buildIgnitionPointer url raw =
     (let hash = ''sha512-'' @ hex_Encode (sha512_Sum512 raw)
      in json_object [(''ignition'', json_object
           [(''config'', json_object
              [(''replace'', json_object
                 [(''source'', json_string url),
                  (''verification'', json_object [(''hash'', json_string hash)])])]),
            (''version'', json_string ''3.4.0'')])])"

definition userDataThreshold :: "AlibabaCloudCluster \<Rightarrow> int" where
  "userDataThreshold cluster =
     (case cs_IgnitionStorage (ac_Spec cluster) of
        None \<Rightarrow> defaultMaxUserDataBytes
      | Some store \<Rightarrow>
          if is_MaxUserDataBytes store > 0 then is_MaxUserDataBytes store
          else defaultMaxUserDataBytes)"

definition tooLargeError :: "int \<Rightarrow> int \<Rightarrow> go_error" where
  "tooLargeError n threshold =
     TerminalError ''UserDataTooLarge''
       (Sprintf ''user-data is %d bytes (> %d) and spec.ignitionStorage.ossBucket is not set to offload it to OSS''
          [Num n, Num threshold])"

definition maybeOffloadUserData ::
  "'w Client \<Rightarrow> AlibabaCloudCluster \<Rightarrow> AlibabaCloudMachine \<Rightarrow> string \<Rightarrow> string \<Rightarrow> 'w
     \<Rightarrow> (go_error + string) \<times> AlibabaCloudMachine \<times> 'w" where
  "maybeOffloadUserData c cluster m region userData w =
     (if int (length userData) \<le> userDataThreshold cluster then (Inr userData, m, w)
      else case cs_IgnitionStorage (ac_Spec cluster) of
        None \<Rightarrow> (Inl (tooLargeError (int (length userData)) (userDataThreshold cluster)), m, w)
      | Some store \<Rightarrow>
          if is_OSSBucket store = [] then
            (Inl (tooLargeError (int (length userData)) (userDataThreshold cluster)), m, w)
          else case base64_Decode userData of
            None \<Rightarrow> (Inl (Wrap ''decode user-data for OSS offload: %w'' []
                            (ForeignError (Lit ''illegal base64 data''))), m, w)
          | Some raw \<Rightarrow>
              (let key = ignitionObjectKey cluster m;
                   expiry = wrap64 (is_ExpirySeconds store * 1000000000);
                   (r, w1) = PutIgnitionObject c
                     \<lparr>ip_Bucket = is_OSSBucket store, ip_Endpoint = is_OSSEndpoint store,
                      ip_RegionID = region, ip_Key = key, ip_Data = raw, ip_Expiry = expiry\<rparr> w
               in case r of
                    Inl err \<Rightarrow> (Inl (Wrap ''offload user-data to OSS: %w'' [] err), m, w1)
                  | Inr url \<Rightarrow>
                      (Inr (base64_Encode (buildIgnitionPointer url raw)),
                       m\<lparr>m_Status := (m_Status m)\<lparr>mst_IgnitionOSS :=
                          Some \<lparr>ior_Bucket = is_OSSBucket store,
                                ior_Endpoint = is_OSSEndpoint store, ior_Key = key\<rparr>\<rparr>\<rparr>,
                       w1)))"

text \<open>Best effort: the result of the deletion is only logged.\<close>

definition cleanupOffloadedIgnition ::
  "'w Client \<Rightarrow> string \<Rightarrow> AlibabaCloudMachine \<Rightarrow> 'w \<Rightarrow> 'w" where
  "cleanupOffloadedIgnition c region m w =
     (case mst_IgnitionOSS (m_Status m) of
        None \<Rightarrow> w
      | Some ref \<Rightarrow>
          snd (DeleteIgnitionObject c
                 \<lparr>ip_Bucket = ior_Bucket ref, ip_Endpoint = ior_Endpoint ref,
                  ip_RegionID = region, ip_Key = ior_Key ref, ip_Data = [], ip_Expiry = 0\<rparr> w))"

section \<open>Lemmas\<close>

text \<open>
  What the offload step may change of the machine: only the OSS reference, and the error
  of an oversized payload without a bucket is the one terminal error.
\<close>

lemma maybeOffloadUserData_frame:
  assumes "maybeOffloadUserData c cluster m region ud w = (r, m', w')"
  shows "m_Meta m' = m_Meta m" "m_Spec m' = m_Spec m"
    "mst_InstanceID (m_Status m') = mst_InstanceID (m_Status m)"
    "mst_Ready (m_Status m') = mst_Ready (m_Status m)"
    "mst_Initialization (m_Status m') = mst_Initialization (m_Status m)"
    "mst_InstanceState (m_Status m') = mst_InstanceState (m_Status m)"
    "mst_MetadataHardened (m_Status m') = mst_MetadataHardened (m_Status m)"
    "mst_FailureReason (m_Status m') = mst_FailureReason (m_Status m)"
    "mst_Conditions (m_Status m') = mst_Conditions (m_Status m)"
  using assms
  by (auto simp: maybeOffloadUserData_def Let_def split: option.splits if_splits sum.splits prod.splits)

lemma maybeOffloadUserData_small:
  "int (length ud) \<le> userDataThreshold cluster \<Longrightarrow>
   maybeOffloadUserData c cluster m region ud w = (Inr ud, m, w)"
  by (simp add: maybeOffloadUserData_def)

lemma maybeOffloadUserData_no_bucket:
  "userDataThreshold cluster < int (length ud) \<Longrightarrow>
   (case cs_IgnitionStorage (ac_Spec cluster) of None \<Rightarrow> True | Some s \<Rightarrow> is_OSSBucket s = []) \<Longrightarrow>
   maybeOffloadUserData c cluster m region ud w
     = (Inl (tooLargeError (int (length ud)) (userDataThreshold cluster)), m, w)"
  by (auto simp: maybeOffloadUserData_def split: option.splits)

text \<open>On an encoded payload the decoding branch never fails, and OSS receives the payload.\<close>

lemma maybeOffloadUserData_encoded:
  assumes "userDataThreshold cluster < int (length (base64_Encode raw))"
    and "cs_IgnitionStorage (ac_Spec cluster) = Some store" and "is_OSSBucket store \<noteq> []"
    and "PutIgnitionObject c
           \<lparr>ip_Bucket = is_OSSBucket store, ip_Endpoint = is_OSSEndpoint store,
            ip_RegionID = region, ip_Key = ignitionObjectKey cluster m, ip_Data = raw,
            ip_Expiry = wrap64 (is_ExpirySeconds store * 1000000000)\<rparr> w = (r, w1)"
  shows "maybeOffloadUserData c cluster m region (base64_Encode raw) w =
    (case r of
       Inl err \<Rightarrow> (Inl (Wrap ''offload user-data to OSS: %w'' [] err), m, w1)
     | Inr url \<Rightarrow>
         (Inr (base64_Encode (buildIgnitionPointer url raw)),
          m\<lparr>m_Status := (m_Status m)\<lparr>mst_IgnitionOSS :=
              Some \<lparr>ior_Bucket = is_OSSBucket store, ior_Endpoint = is_OSSEndpoint store,
                    ior_Key = ignitionObjectKey cluster m\<rparr>\<rparr>\<rparr>, w1))"
  using assms by (simp add: maybeOffloadUserData_def base64_roundtrip)

section \<open>Properties\<close>

text \<open>
  C20.  The payload an instance boots with, on every path: a payload within the limit is passed
  on as it is; a larger one is stored in OSS byte for byte, replaced by the pointer Ignition to
  its presigned URL, and the stored object is the one recorded on the status; without a bucket
  the outcome is the terminal \<open>UserDataTooLarge\<close>; decoding the payload never fails.
\<close>

theorem offload_delivers_payload:
  assumes "maybeOffloadUserData c cluster m region (base64_Encode raw) w = (r, m', w')"
  shows "(int (length (base64_Encode raw)) \<le> userDataThreshold cluster \<longrightarrow>
            r = Inr (base64_Encode raw) \<and> m' = m \<and> w' = w)
    \<and> (userDataThreshold cluster < int (length (base64_Encode raw)) \<longrightarrow>
         (case cs_IgnitionStorage (ac_Spec cluster) of
            None \<Rightarrow> (\<exists>msg. r = Inl (TerminalError ''UserDataTooLarge'' msg)) \<and> m' = m \<and> w' = w
          | Some store \<Rightarrow>
              if is_OSSBucket store = []
              then (\<exists>msg. r = Inl (TerminalError ''UserDataTooLarge'' msg)) \<and> m' = m \<and> w' = w
              else \<exists>p u. ip_Data p = raw \<and> ip_Bucket p = is_OSSBucket store \<and> ip_RegionID p = region
                     \<and> PutIgnitionObject c p w = (u, w')
                     \<and> (\<forall>url. u = Inr url \<longrightarrow>
                          (\<exists>ud. r = Inr ud \<and> base64_Decode ud = Some (buildIgnitionPointer url raw))
                          \<and> mst_IgnitionOSS (m_Status m') =
                              Some \<lparr>ior_Bucket = ip_Bucket p, ior_Endpoint = ip_Endpoint p, ior_Key = ip_Key p\<rparr>)
                     \<and> (\<forall>err. u = Inl err \<longrightarrow> m' = m \<and> r = Inl (Wrap ''offload user-data to OSS: %w'' [] err))))"
proof (intro conjI impI)
  assume small: "int (length (base64_Encode raw)) \<le> userDataThreshold cluster"
  from maybeOffloadUserData_small [OF small, of c m region w] assms
  show "r = Inr (base64_Encode raw)" "m' = m" "w' = w" by simp_all
next
  assume big: "userDataThreshold cluster < int (length (base64_Encode raw))"
  show "case cs_IgnitionStorage (ac_Spec cluster) of
      None \<Rightarrow> (\<exists>msg. r = Inl (TerminalError ''UserDataTooLarge'' msg)) \<and> m' = m \<and> w' = w
    | Some store \<Rightarrow>
        if is_OSSBucket store = []
        then (\<exists>msg. r = Inl (TerminalError ''UserDataTooLarge'' msg)) \<and> m' = m \<and> w' = w
        else \<exists>p u. ip_Data p = raw \<and> ip_Bucket p = is_OSSBucket store \<and> ip_RegionID p = region
               \<and> PutIgnitionObject c p w = (u, w')
               \<and> (\<forall>url. u = Inr url \<longrightarrow>
                    (\<exists>ud. r = Inr ud \<and> base64_Decode ud = Some (buildIgnitionPointer url raw))
                    \<and> mst_IgnitionOSS (m_Status m') =
                        Some \<lparr>ior_Bucket = ip_Bucket p, ior_Endpoint = ip_Endpoint p, ior_Key = ip_Key p\<rparr>)
               \<and> (\<forall>err. u = Inl err \<longrightarrow> m' = m \<and> r = Inl (Wrap ''offload user-data to OSS: %w'' [] err))"
  proof (cases "cs_IgnitionStorage (ac_Spec cluster)")
    case None
    with maybeOffloadUserData_no_bucket [OF big, of c m region w] assms show ?thesis
      by (auto simp: tooLargeError_def)
  next
    case (Some store)
    show ?thesis
    proof (cases "is_OSSBucket store = []")
      case True
      with Some maybeOffloadUserData_no_bucket [OF big, of c m region w] assms show ?thesis
        by (auto simp: tooLargeError_def)
    next
      case False
      let ?p = "\<lparr>ip_Bucket = is_OSSBucket store, ip_Endpoint = is_OSSEndpoint store,
            ip_RegionID = region, ip_Key = ignitionObjectKey cluster m, ip_Data = raw,
            ip_Expiry = wrap64 (is_ExpirySeconds store * 1000000000)\<rparr>"
      obtain u w1 where put: "PutIgnitionObject c ?p w = (u, w1)" by fastforce
      with maybeOffloadUserData_encoded [OF big Some False put] assms Some False show ?thesis
        by (auto simp: base64_roundtrip split: sum.splits intro!: exI [of _ ?p])
    qed
  qed
qed

definition ign_cluster :: AlibabaCloudCluster where
  "ign_cluster =
     \<lparr>ac_Meta = \<lparr>om_Name = ''c'', om_Namespace = ''ns'', om_UID = [], om_DeletionTimestamp = None,
                om_Finalizers = [], om_Annotations = [], om_OwnerReferences = []\<rparr>,
      ac_Spec = \<lparr>cs_Region = ''r'', cs_VpcID = [], cs_BootImageID = [], cs_ResourceGroupID = [],
                cs_ControlPlaneEndpoint = \<lparr>ep_Host = [], ep_Port = 0\<rparr>, cs_AdditionalTags = [],
                cs_IgnitionStorage = Some \<lparr>is_OSSBucket = ''b'', is_OSSEndpoint = [],
                  is_ExpirySeconds = 60, is_MaxUserDataBytes = 4\<rparr>, cs_FailureDomains = []\<rparr>,
      ac_Status = \<lparr>cst_Ready = True, cst_Initialization = None, cst_VpcID = [],
                  cst_ControlPlaneEndpoint = \<lparr>ep_Host = [], ep_Port = 0\<rparr>, cst_SLBInstanceID = [],
                  cst_FailureDomains = [], cst_Conditions = []\<rparr>\<rparr>"

text \<open>A client that serves objects from a URL made of their key.\<close>

definition url_client :: "unit Client" where
  "url_client =
     \<lparr>DescribeInstanceByID = (\<lambda>i w. (Inr None, w)),
      CreateECSInstance = (\<lambda>p w. (Inr \<lparr>cr_InstanceID = ''i''\<rparr>, w)),
      DeleteECSInstance = (\<lambda>i f w. (None, w)), FindInstanceByTag = (\<lambda>rg k v w. (Inr [], w)),
      ModifyInstanceMetadata = (\<lambda>i e t h w. (None, w)), InstanceTypeCapacity = (\<lambda>t w. (Inr (1, 1), w)),
      PutIgnitionObject = (\<lambda>p w. (Inr (''https://'' @ ip_Key p), w)),
      DeleteIgnitionObject = (\<lambda>p w. (None, w))\<rparr>"

lemma url_offload:
  "maybeOffloadUserData url_client ign_cluster (blank_machine ''w'') ''r'' (base64_Encode ''abcdef'') ()
   = (Inr (base64_Encode (buildIgnitionPointer ''https://capi-ignition/c/ns/w.ign'' ''abcdef'')),
      (blank_machine ''w'')\<lparr>m_Status := blank_status\<lparr>mst_IgnitionOSS :=
        Some \<lparr>ior_Bucket = ''b'', ior_Endpoint = [], ior_Key = ''capi-ignition/c/ns/w.ign''\<rparr>\<rparr>\<rparr>, ())"
proof -
  have big: "userDataThreshold ign_cluster < int (length (base64_Encode ''abcdef''))"
    unfolding length_base64_Encode by (simp add: userDataThreshold_def ign_cluster_def)
  have key: "ignitionObjectKey ign_cluster (blank_machine ''w'') = ''capi-ignition/c/ns/w.ign''"
    by (simp add: ignitionObjectKey_def ign_cluster_def blank_defs)
  have store: "cs_IgnitionStorage (ac_Spec ign_cluster) = Some \<lparr>is_OSSBucket = ''b'', is_OSSEndpoint = [],
      is_ExpirySeconds = 60, is_MaxUserDataBytes = 4\<rparr>" by (simp add: ign_cluster_def)
  have status: "m_Status (blank_machine ''w'') = blank_status" by (simp add: blank_machine_def)
  show ?thesis
    using maybeOffloadUserData_encoded [OF big store, of url_client "''r''" "blank_machine ''w''" "()"
        "Inr ''https://capi-ignition/c/ns/w.ign''" "()"]
    by (simp only: key status) (simp add: url_client_def)
qed

theorem offload_delivers_payload_witness:
  "\<exists>ud m' w' url. maybeOffloadUserData url_client ign_cluster (blank_machine ''w'') ''r''
      (base64_Encode ''abcdef'') () = (Inr ud, m', w')
     \<and> base64_Decode ud = Some (buildIgnitionPointer url ''abcdef'')"
proof -
  have big: "userDataThreshold ign_cluster < int (length (base64_Encode ''abcdef''))"
    unfolding length_base64_Encode by (simp add: userDataThreshold_def ign_cluster_def)
  have store: "cs_IgnitionStorage (ac_Spec ign_cluster) = Some \<lparr>is_OSSBucket = ''b'', is_OSSEndpoint = [],
      is_ExpirySeconds = 60, is_MaxUserDataBytes = 4\<rparr>" by (simp add: ign_cluster_def)
  from offload_delivers_payload [OF url_offload, THEN conjunct2, rule_format, OF big]
  obtain p u where u: "PutIgnitionObject url_client p () = (u, ())"
    and ok: "\<And>url. u = Inr url \<Longrightarrow> \<exists>ud. Inr (base64_Encode (buildIgnitionPointer
        ''https://capi-ignition/c/ns/w.ign'' ''abcdef'')) = (Inr ud :: go_error + string)
        \<and> base64_Decode ud = Some (buildIgnitionPointer url ''abcdef'')"
    unfolding store by (auto simp del: base64_Encode.simps split: if_splits)
  from u obtain url where "u = Inr url" by (auto simp: url_client_def)
  from ok [OF this] show ?thesis using url_offload by (metis old.sum.inject(2))
qed

end
