(* ===== verification/Machine_Controller.thy ===== *)
theory Machine_Controller
  imports Capi_Util Provider_ID Ignition
begin

text \<open>
  \<open>internal/controller/alibabacloudmachine_controller.go\<close>: the reconciler of
  \<open>AlibabaCloudMachine\<close>.  A handler takes the object it mutates and the world \<open>'w\<close> the
  client calls act on, and returns its result, the mutated object and the new world; the
  object is returned on every path, since the deferred patch of \<open>Reconcile\<close> writes it.
  The Kubernetes client, the owner look-ups and the patch helper are the record \<open>Kube\<close>, a
  parameter, as is the client builder.  Logging is not modelled.
\<close>

section \<open>The reconciler's environment\<close>

record 'w Kube =
  GetAlibabaCloudMachine :: "ObjectKey \<Rightarrow> 'w \<Rightarrow> go_error + AlibabaCloudMachine"
  GetAlibabaCloudCluster :: "ObjectKey \<Rightarrow> 'w \<Rightarrow> go_error + AlibabaCloudCluster"
  GetSecret :: "ObjectKey \<Rightarrow> 'w \<Rightarrow> go_error + (string \<times> string) list"
  GetOwnerMachine :: "ObjectMeta \<Rightarrow> 'w \<Rightarrow> go_error + Machine option"
  GetClusterFromMetadata :: "ObjectMeta \<Rightarrow> 'w \<Rightarrow> go_error + Cluster option"
  IsPaused :: "Cluster \<Rightarrow> ObjectMeta \<Rightarrow> bool"
  NewHelper :: "AlibabaCloudMachine \<Rightarrow> 'w \<Rightarrow> go_error option"
  Patch :: "AlibabaCloudMachine \<Rightarrow> AlibabaCloudMachine \<Rightarrow> 'w \<Rightarrow> go_error option \<times> 'w"

record 'w MachineReconciler =
  r_Kube :: "'w Kube"
  r_Util :: capi_util
  r_ClientBuilder :: "string \<Rightarrow> 'w \<Rightarrow> go_error + 'w Client"

text \<open>What a dereference of a nil pointer turns into: a panic the manager reports as an error.\<close>

definition nilDereference :: go_error where
  "nilDereference = ForeignError (Lit ''panic: nil pointer dereference'')"

section \<open>Helpers\<close>

definition newTerminalError :: "string \<Rightarrow> gotext \<Rightarrow> go_error" where
  "newTerminalError reason message = TerminalError reason message"

definition alibabaErrorCode :: "go_error \<Rightarrow> string" where
  "alibabaErrorCode err = (case asServerError err of Some (code, _) \<Rightarrow> code | None \<Rightarrow> [])"

definition classifyCreateError :: "go_error \<Rightarrow> go_error" where
  "classifyCreateError err =
     (if alibabaErrorCode err \<in> {''Invalid.Zone.NotEnoughResource'', ''InsufficientCapacity'',
                                 ''OperationDenied.NoStock''} then
        newTerminalError ''InstanceCapacityExhausted''
          (Lit ''Instance capacity exhausted in current zone'')
      else if alibabaErrorCode err \<in> {''Invalid.SpotStrategy.NotSupported'',
                                      ''Invalid.SpotPriceLimit.Exceeded''} then
        newTerminalError ''SpotConfigurationRejected''
          (Sprintf ''spot configuration rejected by Alibaba Cloud: %s'' [Lit (alibabaErrorCode err)])
      else Wrap ''failed to create ECS instance: %w'' [] err)"

definition defaultHTTPEndpoint :: string where "defaultHTTPEndpoint = ''enabled''"

definition defaultHTTPTokens :: string where "defaultHTTPTokens = ''required''"

definition resolveMetadataOptions :: "MetadataOptions option \<Rightarrow> string \<times> string \<times> int" where
  "resolveMetadataOptions opts =
     (case opts of
        None \<Rightarrow> (defaultHTTPEndpoint, defaultHTTPTokens, 0)
      | Some mo \<Rightarrow>
          (if mo_HttpEndpoint mo \<noteq> [] then mo_HttpEndpoint mo else defaultHTTPEndpoint,
           if mo_HttpTokens mo \<noteq> [] then mo_HttpTokens mo else defaultHTTPTokens,
           mo_HttpPutResponseHopLimit mo))"

definition firstIP :: "string list \<Rightarrow> string" where
  "firstIP ips = (case ips of ip # _ \<Rightarrow> ip | [] \<Rightarrow> [])"

definition toSDKTags :: "Tag list \<Rightarrow> string \<Rightarrow> string \<Rightarrow> ClientTag list" where
  "toSDKTags tags machineName clusterName =
     [\<lparr>ct_Key = ''kubernetes.io/cluster/'' @ clusterName, ct_Value = ''owned''\<rparr>,
      \<lparr>ct_Key = ''k8s.io/cluster-api-machine'', ct_Value = machineName\<rparr>]
     @ map (\<lambda>t. \<lparr>ct_Key = t_Key t, ct_Value = t_Value t\<rparr>) tags"

definition toSDKDataDisks :: "DataDisk list option \<Rightarrow> DataDiskParam list" where
  "toSDKDataDisks disks =
     map (\<lambda>d. \<lparr>dp_Category = dd_Category d, dp_Size = dd_Size d,
               dp_PerformanceLevel = dd_PerformanceLevel d, dp_Encrypted = dd_Encrypted d,
               dp_KMSKeyID = dd_KMSKeyID d\<rparr>) (go_slice disks)"

section \<open>Observing the instance\<close>

record instanceInfo =
  ii_InstanceID :: string
  ii_State :: InstanceState
  ii_HostName :: string
  ii_PrivateIP :: string
  ii_PublicIP :: string

definition describeInstance ::
  "'w Client \<Rightarrow> string \<Rightarrow> 'w \<Rightarrow> (go_error + instanceInfo option) \<times> 'w" where
  "describeInstance c instanceID w =
     (case DescribeInstanceByID c instanceID w of
        (Inl err, w1) \<Rightarrow>
          (Inl (Wrap ''failed to describe instance %s: %w'' [Lit instanceID] err), w1)
      | (Inr None, w1) \<Rightarrow> (Inr None, w1)
      | (Inr (Some resp), w1) \<Rightarrow>
          (Inr (Some \<lparr>ii_InstanceID = id_InstanceID resp, ii_State = id_Status resp,
                     ii_HostName = id_HostName resp,
                     ii_PrivateIP = firstIP (id_InnerIpAddress resp),
                     ii_PublicIP = firstIP (id_PublicIpAddress resp)\<rparr>), w1))"

definition instanceAddresses :: "instanceInfo \<Rightarrow> MachineAddress list" where
  "instanceAddresses info =
     (if ii_HostName info \<noteq> []
      then [\<lparr>ma_Type = MachineInternalDNS, ma_Address = ii_HostName info\<rparr>] else [])
     @ (if ii_PrivateIP info \<noteq> []
        then [\<lparr>ma_Type = MachineInternalIP, ma_Address = ii_PrivateIP info\<rparr>] else [])
     @ (if ii_PublicIP info \<noteq> []
        then [\<lparr>ma_Type = MachineExternalIP, ma_Address = ii_PublicIP info\<rparr>] else [])"

definition syncInstanceStatus :: "instanceInfo \<Rightarrow> AlibabaCloudMachine \<Rightarrow> AlibabaCloudMachine" where
  "syncInstanceStatus info m =
     m\<lparr>m_Status := (m_Status m)\<lparr>mst_InstanceID := Some (ii_InstanceID info),
                               mst_InstanceState := Some (ii_State info),
                               mst_Addresses := instanceAddresses info\<rparr>\<rparr>"

definition setFailed ::
  "capi_util \<Rightarrow> string \<Rightarrow> gotext \<Rightarrow> AlibabaCloudMachine \<Rightarrow> AlibabaCloudMachine" where
  "setFailed U reason message m =
     machine_set_condition U (notReady reason message)
       (m\<lparr>m_Status := (m_Status m)\<lparr>mst_FailureReason := Some reason,
                                  mst_FailureMessage := Some message,
                                  mst_Ready := False\<rparr>\<rparr>)"

text \<open>Best effort: a failure of \<open>ModifyInstanceMetadata\<close> is only logged.\<close>

definition maybeHardenMetadata ::
  "'w Client \<Rightarrow> Machine option \<Rightarrow> AlibabaCloudMachine \<Rightarrow> string \<Rightarrow> 'w \<Rightarrow> AlibabaCloudMachine \<times> 'w" where
  "maybeHardenMetadata c machine m instanceID w =
     (case ms_MetadataOptions (m_Spec m) of
        None \<Rightarrow> (m, w)
      | Some mo \<Rightarrow>
          if mo_HttpTokensAfterBoot mo = [] then (m, w)
          else if mst_MetadataHardened (m_Status m) = Some True then (m, w)
          else if (case machine of None \<Rightarrow> True | Some mc \<Rightarrow> mach_NodeRefName mc = []) then (m, w)
          else
            (let (httpEndpoint, _, hopLimit) = resolveMetadataOptions (Some mo);
                 (r, w1) = ModifyInstanceMetadata c instanceID httpEndpoint
                             (mo_HttpTokensAfterBoot mo) hopLimit w
             in case r of
                  Some _ \<Rightarrow> (m, w1)
                | None \<Rightarrow>
                    (m\<lparr>m_Status := (m_Status m)\<lparr>mst_MetadataHardened := Some True\<rparr>\<rparr>, w1)))"

section \<open>Creating the instance\<close>

definition getUserData ::
  "'w Kube \<Rightarrow> Machine \<Rightarrow> AlibabaCloudMachine \<Rightarrow> 'w \<Rightarrow> go_error + string" where
  "getUserData K machine m w =
     (let secretName =
            (case mach_DataSecretName machine of
               Some n \<Rightarrow> (if n \<noteq> [] then Some n else ms_UserDataSecret (m_Spec m))
             | None \<Rightarrow> ms_UserDataSecret (m_Spec m))
      in case secretName of
           None \<Rightarrow> Inr []
         | Some name \<Rightarrow>
             (case GetSecret K \<lparr>ok_Namespace = om_Namespace (m_Meta m), ok_Name = name\<rparr> w of
                Inl err \<Rightarrow>
                  Inl (Wrap ''failed to get bootstrap/user-data secret %q: %w'' [Lit name] err)
              | Inr data \<Rightarrow>
                  (case map_of data ''value'' of
                     None \<Rightarrow>
                       Inl (Errorf ''bootstrap/user-data secret %q has no 'value' key'' [Lit name])
                   | Some raw \<Rightarrow> Inr (base64_Encode raw))))"

definition noBootImage :: go_error where
  "noBootImage = newTerminalError ''NoBootImage''
     (Lit ''spec.imageID is empty and the cluster has no spec.bootImageID to fall back to'')"

definition createParams ::
  "Machine \<Rightarrow> AlibabaCloudCluster \<Rightarrow> AlibabaCloudMachine \<Rightarrow> string \<Rightarrow> string \<Rightarrow> string
     \<Rightarrow> CreateInstanceParams" where
  "createParams machine cluster m region imageID userData =
     (let s = m_Spec m;
          (httpEndpoint, httpTokens, hopLimit) = resolveMetadataOptions (ms_MetadataOptions s);
          sd = ms_SystemDisk s
      in \<lparr>cp_RegionID = region,
          cp_ZoneID = ms_ZoneID s,
          cp_InstanceType = ms_InstanceType s,
          cp_ImageID = imageID,
          cp_InstanceName = om_Name (mach_Meta machine),
          cp_HostName = om_Name (mach_Meta machine),
          cp_SecurityGroupIDs = ms_SecurityGroupIDs s,
          cp_VSwitchID = ms_VSwitchID s,
          cp_SystemDiskCategory =
            (case sd of None \<Rightarrow> ''cloud_efficiency'' | Some d \<Rightarrow> sd_Category d),
          cp_SystemDiskSize = (case sd of None \<Rightarrow> 40 | Some d \<Rightarrow> sd_Size d),
          cp_SystemDiskPerformanceLevel =
            (case sd of None \<Rightarrow> [] | Some d \<Rightarrow> sd_PerformanceLevel d),
          cp_SystemDiskEncrypted = (case sd of None \<Rightarrow> None | Some d \<Rightarrow> sd_Encrypted d),
          cp_SystemDiskKMSKeyID = (case sd of None \<Rightarrow> [] | Some d \<Rightarrow> sd_KMSKeyID d),
          cp_DataDisks = toSDKDataDisks (ms_DataDisks s),
          cp_RAMRoleName = ms_RAMRoleName s,
          cp_UserData = userData,
          cp_Tags = toSDKTags (ms_Tags s) (om_Name (mach_Meta machine)) (om_Name (ac_Meta cluster)),
          cp_ResourceGroupID = cs_ResourceGroupID (ac_Spec cluster),
          cp_SpotStrategy = ms_SpotStrategy s,
          cp_SpotPriceLimit = ms_SpotPriceLimit s,
          cp_HttpEndpoint = httpEndpoint,
          cp_HttpTokens = httpTokens,
          cp_HttpPutResponseHopLimit = hopLimit,
          cp_ClientToken = om_UID (m_Meta m)\<rparr>)"

text \<open>The boot image, and the region persisted onto the spec.\<close>

definition bootImage :: "AlibabaCloudCluster \<Rightarrow> AlibabaCloudMachine \<Rightarrow> string" where
  "bootImage cluster m =
     (if ms_ImageID (m_Spec m) = [] then cs_BootImageID (ac_Spec cluster) else ms_ImageID (m_Spec m))"

definition withRegion :: "string \<Rightarrow> AlibabaCloudMachine \<Rightarrow> AlibabaCloudMachine" where
  "withRegion region m =
     (if ms_RegionID (m_Spec m) = [] then m\<lparr>m_Spec := (m_Spec m)\<lparr>ms_RegionID := region\<rparr>\<rparr> else m)"

text \<open>The identity of the created instance, recorded on the object.\<close>

definition recordInstance :: "string \<Rightarrow> string \<Rightarrow> AlibabaCloudMachine \<Rightarrow> AlibabaCloudMachine" where
  "recordInstance region instanceID m =
     m\<lparr>m_Spec := (m_Spec m)\<lparr>ms_ProviderID := Some (providerIDFor region instanceID)\<rparr>,
       m_Status := (m_Status m)\<lparr>mst_InstanceID := Some instanceID,
                                mst_InstanceState := Some InstanceStatePending\<rparr>\<rparr>"

definition createInstance ::
  "'w Kube \<Rightarrow> 'w Client \<Rightarrow> Machine \<Rightarrow> AlibabaCloudCluster \<Rightarrow> AlibabaCloudMachine \<Rightarrow> 'w
     \<Rightarrow> go_error option \<times> AlibabaCloudMachine \<times> 'w" where
  "createInstance K c machine cluster m w =
     (case getUserData K machine m w of
        Inl err \<Rightarrow> (Some err, m, w)
      | Inr userData \<Rightarrow>
          (let imageID = bootImage cluster m
           in if imageID = [] then (Some noBootImage, m, w)
              else
                (let region = resolveRegion m (Some cluster)
                 in case maybeOffloadUserData c cluster (withRegion region m) region userData w of
                      (Inl err, m2, w2) \<Rightarrow> (Some err, m2, w2)
                    | (Inr userData', m2, w2) \<Rightarrow>
                        (case CreateECSInstance c
                                (createParams machine cluster m2 region imageID userData') w2 of
                           (Inl createErr, w3) \<Rightarrow> (Some (classifyCreateError createErr), m2, w3)
                         | (Inr resp, w3) \<Rightarrow>
                             (None, recordInstance region (cr_InstanceID resp) m2, w3)))))"

definition mismatchError :: "string \<Rightarrow> string \<Rightarrow> go_error" where
  "mismatchError pidInstance instanceID =
     newTerminalError ''ProviderIDInstanceMismatch''
       (Sprintf ''spec.providerID names instance %s but status.instanceID is %s; providerID is immutable, so this machine can never bind its Node''
          [Lit pidInstance, Lit instanceID])"

text \<open>
  The guard in front of the observation: \<open>Some pidInstance\<close> when the provider ID names
  another instance than the status does.
\<close>

definition providerIDMismatch :: "AlibabaCloudMachine \<Rightarrow> string \<Rightarrow> string option" where
  "providerIDMismatch m instanceID =
     (case ms_ProviderID (m_Spec m) of
        None \<Rightarrow> None
      | Some pid \<Rightarrow>
          let pidInstance = providerInstanceID pid
          in if pidInstance \<noteq> [] \<and> pidInstance \<noteq> instanceID then Some pidInstance else None)"

text \<open>The self-healing of a lost provider ID.\<close>

definition healProviderID ::
  "AlibabaCloudCluster \<Rightarrow> string \<Rightarrow> AlibabaCloudMachine \<Rightarrow> AlibabaCloudMachine" where
  "healProviderID cluster instanceID m =
     (if ms_ProviderID (m_Spec m) = None
      then m\<lparr>m_Spec := (m_Spec m)\<lparr>ms_ProviderID :=
             Some (providerIDFor (resolveRegion m (Some cluster)) instanceID)\<rparr>\<rparr>
      else m)"

definition findOrCreateInstance ::
  "'w Kube \<Rightarrow> 'w Client \<Rightarrow> Machine \<Rightarrow> AlibabaCloudCluster \<Rightarrow> AlibabaCloudMachine \<Rightarrow> 'w
     \<Rightarrow> (go_error + instanceInfo option) \<times> AlibabaCloudMachine \<times> 'w" where
  "findOrCreateInstance K c machine cluster m w =
     (case mst_InstanceID (m_Status m) of
        Some instanceID \<Rightarrow>
          (case providerIDMismatch m instanceID of
             Some pidInstance \<Rightarrow> (Inl (mismatchError pidInstance instanceID), m, w)
           | None \<Rightarrow>
               (case describeInstance c instanceID w of
                  (Inl err, w1) \<Rightarrow> (Inl err, m, w1)
                | (Inr None, w1) \<Rightarrow>
                    (Inl (newTerminalError ''InstanceDisappeared''
                            (Sprintf ''ECS instance %s no longer exists'' [Lit instanceID])), m, w1)
                | (Inr (Some info), w1) \<Rightarrow>
                    (let m2 = syncInstanceStatus info (healProviderID cluster instanceID m)
                     in if ii_State info = InstanceStateRunning then
                          (let (m3, w3) = maybeHardenMetadata c (Some machine) m2 instanceID w1
                           in (Inr (Some info), m3, w3))
                        else if ii_State info = InstanceStateDeleted
                                \<or> ii_State info = InstanceStateStopped then
                          (Inl (newTerminalError ''InstanceTerminalState''
                                  (Sprintf ''ECS instance %s is in terminal state %q''
                                     [Lit instanceID, Lit (ii_State info)])), m2, w1)
                        else (Inr None, m2, w1))))
      | None \<Rightarrow>
          (case createInstance K c machine cluster m w of
             (Some err, m1, w1) \<Rightarrow> (Inl err, m1, w1)
           | (None, m1, w1) \<Rightarrow> (Inr None, m1, w1)))"

definition resolveFailureDomain ::
  "Machine \<Rightarrow> AlibabaCloudCluster \<Rightarrow> AlibabaCloudMachine
     \<Rightarrow> go_error option \<times> AlibabaCloudMachine" where
  "resolveFailureDomain machine cluster m =
     (let zoneID = mach_FailureDomain machine
      in if zoneID = [] then (None, m)
         else case find (\<lambda>fd. cfd_Name fd = zoneID) (cst_FailureDomains (ac_Status cluster)) of
                None \<Rightarrow>
                  (Some (Errorf ''failure domain %q not found in AlibabaCloudCluster status''
                           [Lit zoneID]), m)
              | Some fd \<Rightarrow>
                  (let m1 = (if ms_ZoneID (m_Spec m) = []
                             then m\<lparr>m_Spec := (m_Spec m)\<lparr>ms_ZoneID := zoneID\<rparr>\<rparr> else m)
                   in if ms_VSwitchID (m_Spec m1) = [] then
                        (case map_of (cfd_Attributes fd) ''vSwitchID'' of
                           None \<Rightarrow> (Some (Errorf ''failure domain %q has no vSwitchID attribute''
                                            [Lit zoneID]), m1)
                         | Some v \<Rightarrow>
                             if v = [] then
                               (Some (Errorf ''failure domain %q has no vSwitchID attribute''
                                        [Lit zoneID]), m1)
                             else (None, m1\<lparr>m_Spec := (m_Spec m1)\<lparr>ms_VSwitchID := v\<rparr>\<rparr>))
                      else (None, m1)))"

section \<open>The paths through the two operations\<close>

lemma createInstance_cases:
  assumes "createInstance K c machine cluster m w = (e, m', w')"
  obtains (noData) err where "getUserData K machine m w = Inl err" "e = Some err" "m' = m" "w' = w"
  | (noImage) ud where "getUserData K machine m w = Inr ud" "bootImage cluster m = []"
      "e = Some noBootImage" "m' = m" "w' = w"
  | (noOffload) ud err where "getUserData K machine m w = Inr ud" "e = Some err"
      "maybeOffloadUserData c cluster (withRegion (resolveRegion m (Some cluster)) m)
         (resolveRegion m (Some cluster)) ud w = (Inl err, m', w')"
  | (rejected) ud ud' w2 err where "getUserData K machine m w = Inr ud"
      "maybeOffloadUserData c cluster (withRegion (resolveRegion m (Some cluster)) m)
         (resolveRegion m (Some cluster)) ud w = (Inr ud', m', w2)"
      "CreateECSInstance c (createParams machine cluster m' (resolveRegion m (Some cluster))
         (bootImage cluster m) ud') w2 = (Inl err, w')" "e = Some (classifyCreateError err)"
  | (created) ud ud' m2 w2 resp where "getUserData K machine m w = Inr ud" "e = None"
      "maybeOffloadUserData c cluster (withRegion (resolveRegion m (Some cluster)) m)
         (resolveRegion m (Some cluster)) ud w = (Inr ud', m2, w2)"
      "CreateECSInstance c (createParams machine cluster m2 (resolveRegion m (Some cluster))
         (bootImage cluster m) ud') w2 = (Inr resp, w')"
      "m' = recordInstance (resolveRegion m (Some cluster)) (cr_InstanceID resp) m2"
proof (cases "getUserData K machine m w")
  case (Inl err)
  with assms show ?thesis by (intro that(1)) (auto simp: createInstance_def)
next
  case data: (Inr ud)
  let ?rg = "resolveRegion m (Some cluster)"
  obtain o1 m2 w2 where off: "maybeOffloadUserData c cluster (withRegion ?rg m) ?rg ud w = (o1, m2, w2)"
    by (metis prod.exhaust)
  show ?thesis
  proof (cases "bootImage cluster m = []")
    case True
    with assms data show ?thesis by (intro that(2)) (auto simp: createInstance_def)
  next
    case image: False
    show ?thesis
    proof (cases o1)
      case (Inl err)
      with assms data image off have "e = Some err" "m' = m2" "w' = w2" by (auto simp: createInstance_def)
      with data off Inl show ?thesis by (intro that(3)) simp_all
    next
      case ud': (Inr ud')
      obtain s w3 where run: "CreateECSInstance c (createParams machine cluster m2 ?rg
          (bootImage cluster m) ud') w2 = (s, w3)" by fastforce
      show ?thesis
      proof (cases s)
        case (Inl err)
        with assms data image off ud' run have "e = Some (classifyCreateError err)" "m' = m2" "w' = w3"
          by (auto simp: createInstance_def)
        with data off ud' run Inl show ?thesis by (intro that(4)) simp_all
      next
        case (Inr resp)
        with assms data image off ud' run have "e = None" "w' = w3"
          "m' = recordInstance ?rg (cr_InstanceID resp) m2" by (auto simp: createInstance_def)
        with data off ud' run Inr show ?thesis by (intro that(5)) simp_all
      qed
    qed
  qed
qed

lemma findOrCreateInstance_cases:
  assumes "findOrCreateInstance K c machine cluster m w = (r, m', w')"
  obtains (mismatch) i j where "mst_InstanceID (m_Status m) = Some i" "providerIDMismatch m i = Some j"
      "r = Inl (mismatchError j i)" "m' = m" "w' = w"
  | (unknown) i err where "mst_InstanceID (m_Status m) = Some i" "providerIDMismatch m i = None"
      "describeInstance c i w = (Inl err, w')" "r = Inl err" "m' = m"
  | (disappeared) i where "mst_InstanceID (m_Status m) = Some i" "providerIDMismatch m i = None"
      "describeInstance c i w = (Inr None, w')" "m' = m"
      "r = Inl (newTerminalError ''InstanceDisappeared''
                  (Sprintf ''ECS instance %s no longer exists'' [Lit i]))"
  | (running) i info w1 where "mst_InstanceID (m_Status m) = Some i" "providerIDMismatch m i = None"
      "describeInstance c i w = (Inr (Some info), w1)" "ii_State info = InstanceStateRunning"
      "r = Inr (Some info)"
      "maybeHardenMetadata c (Some machine) (syncInstanceStatus info (healProviderID cluster i m)) i w1
         = (m', w')"
  | (terminal) i info where "mst_InstanceID (m_Status m) = Some i" "providerIDMismatch m i = None"
      "describeInstance c i w = (Inr (Some info), w')"
      "ii_State info \<in> {InstanceStateDeleted, InstanceStateStopped}"
      "r = Inl (newTerminalError ''InstanceTerminalState''
                  (Sprintf ''ECS instance %s is in terminal state %q'' [Lit i, Lit (ii_State info)]))"
      "m' = syncInstanceStatus info (healProviderID cluster i m)"
  | (waiting) i info where "mst_InstanceID (m_Status m) = Some i" "providerIDMismatch m i = None"
      "describeInstance c i w = (Inr (Some info), w')"
      "ii_State info \<notin> {InstanceStateRunning, InstanceStateDeleted, InstanceStateStopped}"
      "r = Inr None" "m' = syncInstanceStatus info (healProviderID cluster i m)"
  | (failed) err where "mst_InstanceID (m_Status m) = None" "r = Inl err"
      "createInstance K c machine cluster m w = (Some err, m', w')"
  | (fresh) "mst_InstanceID (m_Status m) = None" "r = Inr None"
      "createInstance K c machine cluster m w = (None, m', w')"
proof (cases "mst_InstanceID (m_Status m)")
  case None
  obtain e m1 w1 where run: "createInstance K c machine cluster m w = (e, m1, w1)" by (metis prod.exhaust)
  show ?thesis
  proof (cases e)
    case (Some err)
    with assms None run show ?thesis by (intro that(7)) (auto simp: findOrCreateInstance_def)
  next
    case ok: None
    with assms None run show ?thesis by (intro that(8)) (auto simp: findOrCreateInstance_def)
  qed
next
  case id: (Some i)
  show ?thesis
  proof (cases "providerIDMismatch m i")
    case (Some j)
    with assms id show ?thesis by (intro that(1)) (auto simp: findOrCreateInstance_def)
  next
    case match: None
    obtain d w1 where d: "describeInstance c i w = (d, w1)" by fastforce
    show ?thesis
    proof (cases d)
      case (Inl err)
      with assms id match d show ?thesis by (intro that(2)) (auto simp: findOrCreateInstance_def)
    next
      case some: (Inr oi)
      show ?thesis
      proof (cases oi)
        case None
        with assms id match d some show ?thesis
          by (intro that(3)) (auto simp: findOrCreateInstance_def)
      next
        case (Some info)
        let ?m2 = "syncInstanceStatus info (healProviderID cluster i m)"
        have step: "(r, m', w') =
            (if ii_State info = InstanceStateRunning then
               (let (m3, w3) = maybeHardenMetadata c (Some machine) ?m2 i w1 in (Inr (Some info), m3, w3))
             else if ii_State info = InstanceStateDeleted \<or> ii_State info = InstanceStateStopped then
               (Inl (newTerminalError ''InstanceTerminalState''
                  (Sprintf ''ECS instance %s is in terminal state %q'' [Lit i, Lit (ii_State info)])), ?m2, w1)
             else (Inr None, ?m2, w1))"
          using assms
          by (simp only: findOrCreateInstance_def id match d some Some option.case sum.case prod.case Let_def)
        consider "ii_State info = InstanceStateRunning"
          | "ii_State info \<noteq> InstanceStateRunning" "ii_State info \<in> {InstanceStateDeleted, InstanceStateStopped}"
          | "ii_State info \<notin> {InstanceStateRunning, InstanceStateDeleted, InstanceStateStopped}" by auto
        then show ?thesis
        proof cases
          case 1
          with step id match d some Some show ?thesis
            by (intro that(4)) (simp_all split: prod.splits)
        next
          case 2
          with step id match d some Some show ?thesis by (intro that(5)) (auto split: if_splits)
        next
          case 3
          with step id match d some Some show ?thesis by (intro that(6)) (auto split: if_splits)
        qed
      qed
    qed
  qed
qed

lemma withRegion_frame [simp]:
  "m_Meta (withRegion rg m) = m_Meta m" "m_Status (withRegion rg m) = m_Status m"
  by (simp_all add: withRegion_def)

lemma healProviderID_frame [simp]:
  "m_Meta (healProviderID cluster i m) = m_Meta m" "m_Status (healProviderID cluster i m) = m_Status m"
  by (simp_all add: healProviderID_def)

end
