(* ===== verification/Machine_Reconcile.thy ===== *)
theory Machine_Reconcile
  imports Machine_Controller
begin

text \<open>
  The three handlers of \<open>alibabacloudmachine_controller.go\<close>: \<open>reconcileNormal\<close>,
  \<open>reconcileDelete\<close> and \<open>Reconcile\<close>, which fetches the object, dispatches and patches it
  back, and the lemmas on what each of them may change.
\<close>

section \<open>Handlers\<close>

definition addFinalizer :: "capi_util \<Rightarrow> AlibabaCloudMachine \<Rightarrow> AlibabaCloudMachine" where
  "addFinalizer U m =
     m\<lparr>m_Meta := (m_Meta m)
        \<lparr>om_Finalizers := AddFinalizer U MachineFinalizer (om_Finalizers (m_Meta m))\<rparr>\<rparr>"

definition markReady :: "capi_util \<Rightarrow> AlibabaCloudMachine \<Rightarrow> AlibabaCloudMachine" where
  "markReady U m =
     (let m1 = machine_set_condition U (isReady ''AlibabaCloudMachineReady'') m
      in m1\<lparr>m_Status := (m_Status m1)\<lparr>mst_Ready := True, mst_Initialization := Some (Some True)\<rparr>\<rparr>)"

definition reconcileNormal ::
  "'w MachineReconciler \<Rightarrow> Machine \<Rightarrow> AlibabaCloudCluster \<Rightarrow> AlibabaCloudMachine \<Rightarrow> 'w
     \<Rightarrow> outcome \<times> AlibabaCloudMachine \<times> 'w" where
  "reconcileNormal r machine cluster m0 w =
     (let U = r_Util r;
          m = addFinalizer U m0
      in if \<not> cst_Ready (ac_Status cluster) then
           ((requeue, None),
            machine_set_condition U
              (notReady ''ClusterInfrastructureNotReady'' (Lit ''cluster infrastructure not ready'')) m,
            w)
         else if mach_DataSecretName machine = None \<and> ms_UserDataSecret (m_Spec m) = None then
           ((requeue, None),
            machine_set_condition U
              (notReady ''WaitingForBootstrapData''
                 (Lit ''bootstrap data secret reference is not yet available'')) m,
            w)
         else
           (case resolveFailureDomain machine cluster m of
              (Some err, m1) \<Rightarrow>
                ((noRequeue, Some err),
                 machine_set_condition U (notReady ''FailureDomainError'' (Error err)) m1, w)
            | (None, m1) \<Rightarrow>
                (let region = resolveRegion m1 (Some cluster)
                 in case r_ClientBuilder r region w of
                      Inl err \<Rightarrow>
                        ((noRequeue, Some (Wrap ''failed to create Alibaba Cloud client: %w'' [] err)),
                         machine_set_condition U (notReady ''AlibabaClientError'' (Error err)) m1, w)
                    | Inr c \<Rightarrow>
                        (case findOrCreateInstance (r_Kube r) c machine cluster m1 w of
                           (Inl err, m2, w2) \<Rightarrow>
                             (case asTerminalError err of
                                Some (reason, message) \<Rightarrow>
                                  ((noRequeue, None), setFailed U reason message m2, w2)
                              | None \<Rightarrow>
                                  ((noRequeue, Some err),
                                   machine_set_condition U
                                     (notReady ''InstanceReconcileError'' (Error err)) m2, w2))
                         | (Inr None, m2, w2) \<Rightarrow> ((requeue, None), m2, w2)
                         | (Inr (Some info), m2, w2) \<Rightarrow>
                             ((noRequeue, None), markReady U m2, w2)))))"

text \<open>
  \<open>deleteInstance\<close> dereferences \<open>Status.InstanceID\<close>.
\<close>

definition deleteInstance ::
  "'w Client \<Rightarrow> AlibabaCloudMachine \<Rightarrow> 'w \<Rightarrow> go_error option \<times> 'w" where
  "deleteInstance c m w =
     (case mst_InstanceID (m_Status m) of
        None \<Rightarrow> (Some nilDereference, w)
      | Some instanceID \<Rightarrow>
          (case DeleteECSInstance c instanceID True w of
             (Some err, w1) \<Rightarrow>
               (Some (Wrap ''failed to delete ECS instance %s: %w'' [Lit instanceID] err), w1)
           | (None, w1) \<Rightarrow> (None, w1)))"

definition recordedInstanceID :: "AlibabaCloudMachine \<Rightarrow> string" where
  "recordedInstanceID m =
     (case mst_InstanceID (m_Status m) of
        Some i \<Rightarrow> i
      | None \<Rightarrow>
          (case ms_ProviderID (m_Spec m) of
             Some pid \<Rightarrow> providerInstanceID pid
           | None \<Rightarrow> []))"

text \<open>The self-healing of a lost \<open>Status.InstanceID\<close> from the provider ID.\<close>

definition healInstanceID :: "AlibabaCloudMachine \<Rightarrow> AlibabaCloudMachine" where
  "healInstanceID m =
     (if mst_InstanceID (m_Status m) = None \<and> recordedInstanceID m \<noteq> []
      then m\<lparr>m_Status := (m_Status m)\<lparr>mst_InstanceID := Some (recordedInstanceID m)\<rparr>\<rparr>
      else m)"

definition dropFinalizer :: "capi_util \<Rightarrow> AlibabaCloudMachine \<Rightarrow> AlibabaCloudMachine" where
  "dropFinalizer U m =
     m\<lparr>m_Meta := (m_Meta m)
        \<lparr>om_Finalizers := RemoveFinalizer U MachineFinalizer (om_Finalizers (m_Meta m))\<rparr>\<rparr>"

text \<open>The branch of \<open>reconcileDelete\<close> for a recorded instance that is gone (or none recorded).\<close>

definition sweepAndRelease ::
  "capi_util \<Rightarrow> 'w Client \<Rightarrow> string \<Rightarrow> AlibabaCloudMachine \<Rightarrow> 'w
     \<Rightarrow> outcome \<times> AlibabaCloudMachine \<times> 'w" where
  "sweepAndRelease U c region m w =
     (case FindInstanceByTag c region MachineNameTagKey (om_Name (m_Meta m)) w of
        (Inl sweepErr, w1) \<Rightarrow> ((noRequeue, Some sweepErr), m, w1)
      | (Inr orphanID, w1) \<Rightarrow>
          if orphanID \<noteq> [] then
            (case DeleteECSInstance c orphanID True w1 of
               (Some delErr, w2) \<Rightarrow>
                 ((noRequeue,
                   Some (Wrap ''failed to delete orphan ECS %s: %w'' [Lit orphanID] delErr)), m, w2)
             | (None, w2) \<Rightarrow> ((requeue, None), m, w2))
          else
            ((noRequeue, None), dropFinalizer U m, cleanupOffloadedIgnition c region m w1))"

text \<open>The branch for an instance that is still there.\<close>

definition deletePresent ::
  "capi_util \<Rightarrow> 'w Client \<Rightarrow> string \<Rightarrow> instanceInfo \<Rightarrow> AlibabaCloudMachine \<Rightarrow> 'w
     \<Rightarrow> outcome \<times> AlibabaCloudMachine \<times> 'w" where
  "deletePresent U c instanceID info m w =
     (let m1 = machine_set_condition U
                 (notReady ''Deleting''
                    (Sprintf ''ECS instance %s is %q; waiting for termination''
                       [Lit instanceID, Lit (ii_State info)]))
                 (m\<lparr>m_Status := (m_Status m)\<lparr>mst_InstanceState := Some (ii_State info)\<rparr>\<rparr>)
      in if ii_State info = InstanceStateStopping \<or> ii_State info = InstanceStateDeleted then
           ((requeue, None), m1, w)
         else
           (case deleteInstance c m1 w of
              (Some err, w1) \<Rightarrow> ((noRequeue, Some err), m1, w1)
            | (None, w1) \<Rightarrow> ((requeue, None), m1, w1)))"

definition reconcileDelete ::
  "'w MachineReconciler \<Rightarrow> AlibabaCloudMachine \<Rightarrow> 'w
     \<Rightarrow> outcome \<times> AlibabaCloudMachine \<times> 'w" where
  "reconcileDelete r m w =
     (let U = r_Util r; instanceID = recordedInstanceID m
      in case regionFromMachine m of
           Inl regionErr \<Rightarrow>
             if instanceID = [] then ((noRequeue, None), dropFinalizer U m, w)
             else
               ((noRequeue,
                 Some (Wrap ''cannot determine region to delete instance %s: %w''
                         [Lit instanceID] regionErr)), m, w)
         | Inr region \<Rightarrow>
             (let m1 = healInstanceID m
              in case r_ClientBuilder r region w of
                   Inl err \<Rightarrow>
                     ((noRequeue, Some (Wrap ''failed to create Alibaba Cloud client: %w'' [] err)),
                      m1, w)
                 | Inr c \<Rightarrow>
                     if instanceID = [] then sweepAndRelease U c region m1 w
                     else
                       (case describeInstance c instanceID w of
                          (Inl err, w1) \<Rightarrow> ((noRequeue, Some err), m1, w1)
                        | (Inr None, w1) \<Rightarrow> sweepAndRelease U c region m1 w1
                        | (Inr (Some info), w1) \<Rightarrow> deletePresent U c instanceID info m1 w1)))"

text \<open>
  \<open>Reconcile\<close> without the deferred patch: it runs on the object as fetched.
\<close>

definition reconcileFetched ::
  "'w MachineReconciler \<Rightarrow> AlibabaCloudMachine \<Rightarrow> 'w \<Rightarrow> outcome \<times> AlibabaCloudMachine \<times> 'w" where
  "reconcileFetched r m w =
     (let K = r_Kube r
      in if om_DeletionTimestamp (m_Meta m) \<noteq> None then reconcileDelete r m w
         else case GetOwnerMachine K (m_Meta m) w of
                Inl err \<Rightarrow> ((noRequeue, Some err), m, w)
              | Inr None \<Rightarrow> ((noRequeue, None), m, w)
              | Inr (Some machine) \<Rightarrow>
                  (case GetClusterFromMetadata K (mach_Meta machine) w of
                     Inl err \<Rightarrow>
                       ((noRequeue,
                         Some (Wrap ''AlibabaCloudMachine owner Machine is missing cluster label or cluster does not exist: %w''
                                 [] err)), m, w)
                   | Inr None \<Rightarrow> ((noRequeue, None), m, w)
                   | Inr (Some cluster) \<Rightarrow>
                       if IsPaused K cluster (m_Meta m) then ((noRequeue, None), m, w)
                       else
                         (case GetAlibabaCloudCluster K
                                 \<lparr>ok_Namespace = om_Namespace (m_Meta m),
                                  ok_Name = cl_InfraName cluster\<rparr> w of
                            Inl err \<Rightarrow>
                              ((noRequeue, Some (Wrap ''failed to get AlibabaCloudCluster: %w'' [] err)),
                               m, w)
                          | Inr alibabaCluster \<Rightarrow> reconcileNormal r machine alibabaCluster m w)))"

definition machine_Reconcile ::
  "'w MachineReconciler \<Rightarrow> ObjectKey \<Rightarrow> 'w \<Rightarrow> outcome \<times> 'w" where
  "machine_Reconcile r req w =
     (let K = r_Kube r
      in case GetAlibabaCloudMachine K req w of
           Inl err \<Rightarrow>
             if IsNotFound err then ((noRequeue, None), w) else ((noRequeue, Some err), w)
         | Inr m \<Rightarrow>
             (case NewHelper K m w of
                Some err \<Rightarrow> ((noRequeue, Some err), w)
              | None \<Rightarrow>
                  (let ((res, reterr), m', w1) = reconcileFetched r m w;
                       (patchErr, w2) = Patch K m m' w1
                   in ((res, if reterr = None then patchErr else reterr), w2))))"

section \<open>The status written by a reconcile\<close>

lemma setFailed_frame [simp]:
  "m_Meta (setFailed U reason msg m) = m_Meta m" "m_Spec (setFailed U reason msg m) = m_Spec m"
  "mst_Ready (m_Status (setFailed U reason msg m)) = False"
  "mst_FailureReason (m_Status (setFailed U reason msg m)) = Some reason"
  "mst_FailureMessage (m_Status (setFailed U reason msg m)) = Some msg"
  "mst_InstanceID (m_Status (setFailed U reason msg m)) = mst_InstanceID (m_Status m)"
  "mst_InstanceState (m_Status (setFailed U reason msg m)) = mst_InstanceState (m_Status m)"
  "mst_MetadataHardened (m_Status (setFailed U reason msg m)) = mst_MetadataHardened (m_Status m)"
  by (simp_all add: setFailed_def)

lemma syncInstanceStatus_frame [simp]:
  "m_Meta (syncInstanceStatus info m) = m_Meta m" "m_Spec (syncInstanceStatus info m) = m_Spec m"
  "mst_InstanceID (m_Status (syncInstanceStatus info m)) = Some (ii_InstanceID info)"
  "mst_InstanceState (m_Status (syncInstanceStatus info m)) = Some (ii_State info)"
  "mst_Ready (m_Status (syncInstanceStatus info m)) = mst_Ready (m_Status m)"
  "mst_MetadataHardened (m_Status (syncInstanceStatus info m)) = mst_MetadataHardened (m_Status m)"
  "mst_FailureReason (m_Status (syncInstanceStatus info m)) = mst_FailureReason (m_Status m)"
  by (simp_all add: syncInstanceStatus_def)

lemma maybeHardenMetadata_frame:
  assumes "maybeHardenMetadata c machine m i w = (m', w')"
  shows "m_Meta m' = m_Meta m" "m_Spec m' = m_Spec m"
    "mst_InstanceID (m_Status m') = mst_InstanceID (m_Status m)"
    "mst_InstanceState (m_Status m') = mst_InstanceState (m_Status m)"
    "mst_Ready (m_Status m') = mst_Ready (m_Status m)"
    "mst_FailureReason (m_Status m') = mst_FailureReason (m_Status m)"
  using assms
  by (auto simp: maybeHardenMetadata_def Let_def split: option.splits if_splits prod.splits)

section \<open>The paths through the handlers\<close>

lemma reconcileNormal_cases:
  assumes "reconcileNormal r machine cluster m w = (out, m', w')"
  obtains (clusterNotReady) "\<not> cst_Ready (ac_Status cluster)" "out = (requeue, None)" "w' = w"
      "m' = machine_set_condition (r_Util r)
         (notReady ''ClusterInfrastructureNotReady'' (Lit ''cluster infrastructure not ready''))
         (addFinalizer (r_Util r) m)"
  | (noBootstrap) "mach_DataSecretName machine = None" "ms_UserDataSecret (m_Spec m) = None"
      "out = (requeue, None)" "w' = w"
      "m' = machine_set_condition (r_Util r)
         (notReady ''WaitingForBootstrapData''
            (Lit ''bootstrap data secret reference is not yet available''))
         (addFinalizer (r_Util r) m)"
  | (noDomain) err m1 where
      "resolveFailureDomain machine cluster (addFinalizer (r_Util r) m) = (Some err, m1)"
      "out = (noRequeue, Some err)" "w' = w"
      "m' = machine_set_condition (r_Util r) (notReady ''FailureDomainError'' (Error err)) m1"
  | (noClient) err m1 where
      "resolveFailureDomain machine cluster (addFinalizer (r_Util r) m) = (None, m1)"
      "out = (noRequeue, Some (Wrap ''failed to create Alibaba Cloud client: %w'' [] err))" "w' = w"
      "m' = machine_set_condition (r_Util r) (notReady ''AlibabaClientError'' (Error err)) m1"
  | (reached) m1 c ri m2 where
      "cst_Ready (ac_Status cluster)"
      "mach_DataSecretName machine \<noteq> None \<or> ms_UserDataSecret (m_Spec m) \<noteq> None"
      "resolveFailureDomain machine cluster (addFinalizer (r_Util r) m) = (None, m1)"
      "r_ClientBuilder r (resolveRegion m1 (Some cluster)) w = Inr c"
      "findOrCreateInstance (r_Kube r) c machine cluster m1 w = (ri, m2, w')"
      "(out, m') = (case ri of
         Inl err \<Rightarrow>
           (case asTerminalError err of
              Some (reason, message) \<Rightarrow> ((noRequeue, None), setFailed (r_Util r) reason message m2)
            | None \<Rightarrow> ((noRequeue, Some err),
                machine_set_condition (r_Util r) (notReady ''InstanceReconcileError'' (Error err)) m2))
       | Inr None \<Rightarrow> ((requeue, None), m2)
       | Inr (Some info) \<Rightarrow> ((noRequeue, None), markReady (r_Util r) m2))"
proof -
  let ?m0 = "addFinalizer (r_Util r) m"
  have spec: "m_Spec ?m0 = m_Spec m" by (simp add: addFinalizer_def)
  consider "\<not> cst_Ready (ac_Status cluster)"
    | "cst_Ready (ac_Status cluster)" "mach_DataSecretName machine = None" "ms_UserDataSecret (m_Spec m) = None"
    | "cst_Ready (ac_Status cluster)" "mach_DataSecretName machine \<noteq> None \<or> ms_UserDataSecret (m_Spec m) \<noteq> None"
    by blast
  then show ?thesis
  proof cases
    case 1
    with assms show ?thesis by (intro that(1)) (auto simp: reconcileNormal_def Let_def)
  next
    case 2
    with assms spec show ?thesis by (intro that(2)) (auto simp: reconcileNormal_def Let_def)
  next
    case 3
    obtain e m1 where fd: "resolveFailureDomain machine cluster ?m0 = (e, m1)" by fastforce
    have step: "reconcileNormal r machine cluster m w =
        (case e of
           Some err \<Rightarrow> ((noRequeue, Some err),
             machine_set_condition (r_Util r) (notReady ''FailureDomainError'' (Error err)) m1, w)
         | None \<Rightarrow>
             (case r_ClientBuilder r (resolveRegion m1 (Some cluster)) w of
                Inl err \<Rightarrow>
                  ((noRequeue, Some (Wrap ''failed to create Alibaba Cloud client: %w'' [] err)),
                   machine_set_condition (r_Util r) (notReady ''AlibabaClientError'' (Error err)) m1, w)
              | Inr c \<Rightarrow>
                  (case findOrCreateInstance (r_Kube r) c machine cluster m1 w of
                     (Inl err, m2, w2) \<Rightarrow>
                       (case asTerminalError err of
                          Some (reason, message) \<Rightarrow>
                            ((noRequeue, None), setFailed (r_Util r) reason message m2, w2)
                        | None \<Rightarrow>
                            ((noRequeue, Some err),
                             machine_set_condition (r_Util r)
                               (notReady ''InstanceReconcileError'' (Error err)) m2, w2))
                   | (Inr None, m2, w2) \<Rightarrow> ((requeue, None), m2, w2)
                   | (Inr (Some info), m2, w2) \<Rightarrow> ((noRequeue, None), markReady (r_Util r) m2, w2))))"
    proof -
      have "\<not> (mach_DataSecretName machine = None \<and> ms_UserDataSecret (m_Spec ?m0) = None)"
        using 3 spec by auto
      then have "(mach_DataSecretName machine = None \<and> ms_UserDataSecret (m_Spec ?m0) = None) = False"
        by blast
      then show ?thesis
        unfolding reconcileNormal_def Let_def fd by (cases e) (simp_all only: 3 prod.case option.case if_False not_True_eq_False)
    qed
    show ?thesis
    proof (cases e)
      case (Some err)
      with assms step fd show ?thesis by (intro that(3)) auto
    next
      case None
      show ?thesis
      proof (cases "r_ClientBuilder r (resolveRegion m1 (Some cluster)) w")
        case (Inl err)
        with assms step fd None show ?thesis by (intro that(4)) auto
      next
        case (Inr c)
        obtain ri m2 w2 where run: "findOrCreateInstance (r_Kube r) c machine cluster m1 w = (ri, m2, w2)"
          by (metis prod.exhaust)
        with assms step None Inr have "w' = w2" and "(out, m') = (case ri of
             Inl err \<Rightarrow>
               (case asTerminalError err of
                  Some (reason, message) \<Rightarrow> ((noRequeue, None), setFailed (r_Util r) reason message m2)
                | None \<Rightarrow> ((noRequeue, Some err),
                    machine_set_condition (r_Util r) (notReady ''InstanceReconcileError'' (Error err)) m2))
           | Inr None \<Rightarrow> ((requeue, None), m2)
           | Inr (Some info) \<Rightarrow> ((noRequeue, None), markReady (r_Util r) m2))"
          by (auto split: sum.splits option.splits)
        with 3 fd None Inr run show ?thesis by (intro that(5)) simp_all
      qed
    qed
  qed
qed

lemma reconcileDelete_cases:
  assumes "reconcileDelete r m w = (out, m', w')"
  obtains (nothing) e where "regionFromMachine m = Inl e" "recordedInstanceID m = []"
      "out = (noRequeue, None)" "m' = dropFinalizer (r_Util r) m" "w' = w"
  | (regionLost) e where "regionFromMachine m = Inl e" "recordedInstanceID m \<noteq> []"
      "out = (noRequeue, Some (Wrap ''cannot determine region to delete instance %s: %w''
                                 [Lit (recordedInstanceID m)] e))" "m' = m" "w' = w"
  | (noClient) rg err where "regionFromMachine m = Inr rg" "r_ClientBuilder r rg w = Inl err"
      "out = (noRequeue, Some (Wrap ''failed to create Alibaba Cloud client: %w'' [] err))"
      "m' = healInstanceID m" "w' = w"
  | (unrecorded) rg c where "regionFromMachine m = Inr rg" "r_ClientBuilder r rg w = Inr c"
      "recordedInstanceID m = []" "sweepAndRelease (r_Util r) c rg (healInstanceID m) w = (out, m', w')"
  | (unknown) rg c err where "regionFromMachine m = Inr rg" "r_ClientBuilder r rg w = Inr c"
      "recordedInstanceID m \<noteq> []" "describeInstance c (recordedInstanceID m) w = (Inl err, w')"
      "out = (noRequeue, Some err)" "m' = healInstanceID m"
  | (gone) rg c w1 where "regionFromMachine m = Inr rg" "r_ClientBuilder r rg w = Inr c"
      "recordedInstanceID m \<noteq> []" "describeInstance c (recordedInstanceID m) w = (Inr None, w1)"
      "sweepAndRelease (r_Util r) c rg (healInstanceID m) w1 = (out, m', w')"
  | (present) rg c info w1 where "regionFromMachine m = Inr rg" "r_ClientBuilder r rg w = Inr c"
      "recordedInstanceID m \<noteq> []" "describeInstance c (recordedInstanceID m) w = (Inr (Some info), w1)"
      "deletePresent (r_Util r) c (recordedInstanceID m) info (healInstanceID m) w1 = (out, m', w')"
proof (cases "regionFromMachine m")
  case (Inl e)
  show ?thesis
  proof (cases "recordedInstanceID m = []")
    case True
    with assms Inl show ?thesis by (intro that(1)) (auto simp: reconcileDelete_def Let_def)
  next
    case False
    with assms Inl show ?thesis by (intro that(2)) (auto simp: reconcileDelete_def Let_def)
  qed
next
  case rg: (Inr rg)
  show ?thesis
  proof (cases "r_ClientBuilder r rg w")
    case (Inl err)
    with assms rg show ?thesis by (intro that(3)) (auto simp: reconcileDelete_def Let_def)
  next
    case c: (Inr c)
    show ?thesis
    proof (cases "recordedInstanceID m = []")
      case True
      with assms rg c show ?thesis by (intro that(4)) (auto simp: reconcileDelete_def Let_def)
    next
      case i: False
      obtain d w1 where d: "describeInstance c (recordedInstanceID m) w = (d, w1)" by fastforce
      show ?thesis
      proof (cases d)
        case (Inl err)
        with assms rg c i d show ?thesis by (intro that(5)) (auto simp: reconcileDelete_def Let_def)
      next
        case d': (Inr oi)
        show ?thesis
        proof (cases oi)
          case None
          with assms rg c i d d' show ?thesis by (intro that(6)) (auto simp: reconcileDelete_def Let_def)
        next
          case (Some info)
          with assms rg c i d d' show ?thesis by (intro that(7)) (auto simp: reconcileDelete_def Let_def)
        qed
      qed
    qed
  qed
qed

lemma handler_frames [simp]:
  "m_Meta (healInstanceID m) = m_Meta m" "m_Spec (healInstanceID m) = m_Spec m"
  "m_Spec (dropFinalizer U m) = m_Spec m" "m_Status (dropFinalizer U m) = m_Status m"
  "om_Name (m_Meta (dropFinalizer U m)) = om_Name (m_Meta m)"
  "m_Spec (addFinalizer U m) = m_Spec m" "m_Status (addFinalizer U m) = m_Status m"
  "om_Name (m_Meta (addFinalizer U m)) = om_Name (m_Meta m)"
  "om_UID (m_Meta (addFinalizer U m)) = om_UID (m_Meta m)"
  "m_Meta (markReady U m) = m_Meta m" "m_Spec (markReady U m) = m_Spec m"
  by (simp_all add: healInstanceID_def dropFinalizer_def addFinalizer_def markReady_def Let_def)

lemma resolveFailureDomain_frame:
  assumes "resolveFailureDomain machine cluster m = (e, m')"
  shows "m_Meta m' = m_Meta m" "m_Status m' = m_Status m" "ms_RegionID (m_Spec m') = ms_RegionID (m_Spec m)"
    "ms_ProviderID (m_Spec m') = ms_ProviderID (m_Spec m)"
  using assms
  by (auto simp: resolveFailureDomain_def Let_def split: option.splits if_splits)

lemma recordInstance_frame [simp]:
  "m_Meta (recordInstance rg i m) = m_Meta m"
  "mst_InstanceID (m_Status (recordInstance rg i m)) = Some i"
  "mst_Ready (m_Status (recordInstance rg i m)) = mst_Ready (m_Status m)"
  "mst_MetadataHardened (m_Status (recordInstance rg i m)) = mst_MetadataHardened (m_Status m)"
  "ms_ProviderID (m_Spec (recordInstance rg i m)) = Some (providerIDFor rg i)"
  by (simp_all add: recordInstance_def)

lemma createInstance_frame:
  assumes "createInstance K c machine cluster m w = (e, m', w')"
  shows "m_Meta m' = m_Meta m" "mst_Ready (m_Status m') = mst_Ready (m_Status m)"
    "mst_MetadataHardened (m_Status m') = mst_MetadataHardened (m_Status m)"
proof -
  have "m_Meta m' = m_Meta m \<and> mst_Ready (m_Status m') = mst_Ready (m_Status m)
      \<and> mst_MetadataHardened (m_Status m') = mst_MetadataHardened (m_Status m)"
    using assms
  proof (cases rule: createInstance_cases)
    case (noOffload ud err)
    from maybeOffloadUserData_frame [OF noOffload(3)] show ?thesis by simp
  next
    case (rejected ud ud' w2 err)
    from maybeOffloadUserData_frame [OF rejected(2)] show ?thesis by simp
  next
    case (created ud ud' m2 w2 resp)
    from maybeOffloadUserData_frame [OF created(3)] created(5) show ?thesis by simp
  qed simp_all
  then show "m_Meta m' = m_Meta m" "mst_Ready (m_Status m') = mst_Ready (m_Status m)"
    "mst_MetadataHardened (m_Status m') = mst_MetadataHardened (m_Status m)" by simp_all
qed

lemma findOrCreateInstance_meta:
  assumes "findOrCreateInstance K c machine cluster m w = (r, m', w')"
  shows "m_Meta m' = m_Meta m"
  using assms
  by (cases rule: findOrCreateInstance_cases)
    (auto dest: createInstance_frame(1) maybeHardenMetadata_frame(1))

lemma findOrCreateInstance_ready:
  assumes "findOrCreateInstance K c machine cluster m w = (r, m', w')"
  shows "mst_Ready (m_Status m') = mst_Ready (m_Status m)"
  using assms
  by (cases rule: findOrCreateInstance_cases)
    (auto dest: createInstance_frame(2) maybeHardenMetadata_frame(5))

lemma reconcileNormal_meta:
  assumes "reconcileNormal r machine cluster m w = (out, m', w')"
  shows "m_Meta m' = m_Meta (addFinalizer (r_Util r) m)"
  using assms
proof (cases rule: reconcileNormal_cases)
  case (reached m1 c ri m2)
  have "m_Meta m2 = m_Meta (addFinalizer (r_Util r) m)"
    using findOrCreateInstance_meta [OF reached(5)] resolveFailureDomain_frame(1) [OF reached(3)] by simp
  with reached(6) show ?thesis by (auto split: sum.splits option.splits)
qed (auto dest: resolveFailureDomain_frame(1))

lemma sweepAndRelease_cases:
  assumes "sweepAndRelease U c rg m w = (out, m', w')"
  obtains (sweepFailed) e where
      "FindInstanceByTag c rg MachineNameTagKey (om_Name (m_Meta m)) w = (Inl e, w')"
      "out = (noRequeue, Some e)" "m' = m"
  | (orphanKept) i w1 e where
      "FindInstanceByTag c rg MachineNameTagKey (om_Name (m_Meta m)) w = (Inr i, w1)" "i \<noteq> []"
      "DeleteECSInstance c i True w1 = (Some e, w')" "m' = m"
      "out = (noRequeue, Some (Wrap ''failed to delete orphan ECS %s: %w'' [Lit i] e))"
  | (orphanDeleted) i w1 where
      "FindInstanceByTag c rg MachineNameTagKey (om_Name (m_Meta m)) w = (Inr i, w1)" "i \<noteq> []"
      "DeleteECSInstance c i True w1 = (None, w')" "out = (requeue, None)" "m' = m"
  | (released) w1 where
      "FindInstanceByTag c rg MachineNameTagKey (om_Name (m_Meta m)) w = (Inr [], w1)"
      "out = (noRequeue, None)" "m' = dropFinalizer U m" "w' = cleanupOffloadedIgnition c rg m w1"
proof -
  obtain s w1 where f: "FindInstanceByTag c rg MachineNameTagKey (om_Name (m_Meta m)) w = (s, w1)"
    by fastforce
  show ?thesis
  proof (cases s)
    case (Inl e)
    with assms f show ?thesis by (intro that(1)) (auto simp: sweepAndRelease_def)
  next
    case (Inr i)
    obtain e w2 where d: "DeleteECSInstance c i True w1 = (e, w2)" by fastforce
    consider "i = []" | "i \<noteq> []" "e = None" | e1 where "i \<noteq> []" "e = Some e1" by fastforce
    then show ?thesis
    proof cases
      case 1
      with assms f Inr show ?thesis by (intro that(4)) (auto simp: sweepAndRelease_def)
    next
      case 2
      with assms f Inr d show ?thesis by (intro that(3)) (auto simp: sweepAndRelease_def)
    next
      case (3 e1)
      with assms f Inr d show ?thesis by (intro that(2)) (auto simp: sweepAndRelease_def)
    qed
  qed
qed

lemma reconcileDelete_meta:
  assumes "reconcileDelete r m w = (out, m', w')"
  shows "m_Meta m' = m_Meta m \<or> m_Meta m' = m_Meta (dropFinalizer (r_Util r) m)"
    and "m_Spec m' = m_Spec m"
proof -
  have sweep: "(m_Meta m' = m_Meta m \<or> m_Meta m' = m_Meta (dropFinalizer (r_Util r) m)) \<and> m_Spec m' = m_Spec m"
    if "sweepAndRelease (r_Util r) c rg (healInstanceID m) v = (out, m', w')" for c rg v
    using that by (cases rule: sweepAndRelease_cases) (auto simp: dropFinalizer_def)
  have "(m_Meta m' = m_Meta m \<or> m_Meta m' = m_Meta (dropFinalizer (r_Util r) m)) \<and> m_Spec m' = m_Spec m"
    using assms
  proof (cases rule: reconcileDelete_cases)
    case (present rg c info w1)
    then show ?thesis by (auto simp: deletePresent_def Let_def split: if_splits prod.splits option.splits)
  qed (use sweep in auto)
  then show "m_Meta m' = m_Meta m \<or> m_Meta m' = m_Meta (dropFinalizer (r_Util r) m)"
    and "m_Spec m' = m_Spec m" by simp_all
qed

lemma createInstance_failure_frame:
  assumes "createInstance K c machine cluster m w = (e, m', w')"
  shows "mst_FailureReason (m_Status m') = mst_FailureReason (m_Status m)"
  using assms
proof (cases rule: createInstance_cases)
  case (noOffload ud err)
  from maybeOffloadUserData_frame(8) [OF noOffload(3)] show ?thesis by simp
next
  case (rejected ud ud' w2 err)
  from maybeOffloadUserData_frame(8) [OF rejected(2)] show ?thesis by simp
next
  case (created ud ud' m2 w2 resp)
  from maybeOffloadUserData_frame(8) [OF created(3)] created(5) show ?thesis
    by (simp add: recordInstance_def)
qed simp_all

end
