(* ===== verification/Credentials.thy ===== *)
theory Credentials
  imports Go_Encoding
begin

text \<open>
  Credential selection of \<open>pkg/client/capi.go\<close>: which SDK credential the controller uses,
  read from the environment, and the secret-free description it logs.  The environment is
  the function \<open>getenv\<close> the source injects; an unset variable reads as the empty string.
\<close>

datatype credential =
    EcsRamRoleCredential string
  | RamRoleArnCredential string string string string int
  | AccessKeyCredential string string

definition defaultRoleSessionName :: string where
  "defaultRoleSessionName = ''capa-controller''"

definition defaultRoleSessionExpiration :: int where
  "defaultRoleSessionExpiration = 3600"

fun firstNonEmptyFrom :: "(string \<Rightarrow> string) \<Rightarrow> string list \<Rightarrow> string" where
  "firstNonEmptyFrom getenv [] = []"
| "firstNonEmptyFrom getenv (k # ks) =
     (if getenv k \<noteq> [] then getenv k else firstNonEmptyFrom getenv ks)"

definition roleSessionExpirationFrom :: "(string \<Rightarrow> string) \<Rightarrow> int" where
  "roleSessionExpirationFrom getenv =
     (let v = getenv ''ALIBABA_CLOUD_ROLE_SESSION_EXPIRATION''
      in if v \<noteq> [] then
           (case Atoi v of
              Some n \<Rightarrow> if 900 \<le> n then n else defaultRoleSessionExpiration
            | None \<Rightarrow> defaultRoleSessionExpiration)
         else defaultRoleSessionExpiration)"

definition accessKeyID :: "(string \<Rightarrow> string) \<Rightarrow> string" where
  "accessKeyID getenv =
     firstNonEmptyFrom getenv [''ALIBABA_CLOUD_ACCESS_KEY_ID'', ''ALIBABACLOUD_ACCESS_KEY_ID'']"

definition accessKeySecret :: "(string \<Rightarrow> string) \<Rightarrow> string" where
  "accessKeySecret getenv =
     firstNonEmptyFrom getenv
       [''ALIBABA_CLOUD_ACCESS_KEY_SECRET'', ''ALIBABACLOUD_ACCESS_KEY_SECRET'']"

definition resolveCredentialFrom :: "(string \<Rightarrow> string) \<Rightarrow> credential \<times> gotext" where
  "resolveCredentialFrom getenv =
     (let role = getenv ''ALIBABA_CLOUD_ECS_METADATA''
      in if role \<noteq> [] then
           (EcsRamRoleCredential role, Sprintf ''ECS RAM role (explicit: %s)'' [Lit role])
         else
           (let ak = accessKeyID getenv;
                sk = accessKeySecret getenv;
                roleArn = getenv ''ALIBABA_CLOUD_ROLE_ARN'';
                named = firstNonEmptyFrom getenv [''ALIBABA_CLOUD_ROLE_SESSION_NAME''];
                session = (if named = [] then defaultRoleSessionName else named)
            in if roleArn \<noteq> [] \<and> ak \<noteq> [] \<and> sk \<noteq> [] then
                 (RamRoleArnCredential ak sk roleArn session (roleSessionExpirationFrom getenv),
                  Sprintf ''RAM RoleArn AssumeRole (role=%s, session=%s)'' [Lit roleArn, Lit session])
               else if ak \<noteq> [] \<and> sk \<noteq> [] then
                 (AccessKeyCredential ak sk,
                  Lit ''static AccessKey from environment (no auto-rotation; prefer an ECS RAM role or ALIBABA_CLOUD_ROLE_ARN in production)'')
               else (EcsRamRoleCredential [], Lit ''ECS RAM role (auto-discovered from metadata)'')))"

definition resolveCredential :: "(string \<Rightarrow> string) \<Rightarrow> credential" where
  "resolveCredential getenv = fst (resolveCredentialFrom getenv)"

definition CredentialSource :: "(string \<Rightarrow> string) \<Rightarrow> gotext" where
  "CredentialSource getenv = snd (resolveCredentialFrom getenv)"

text \<open>Every string that occurs in a message: what a log line can reveal.\<close>

fun text_strings :: "gotext \<Rightarrow> string list" where
  "text_strings (Lit s) = [s]"
| "text_strings (Num i) = []"
| "text_strings (Texts ts) = concat (map text_strings ts)"
| "text_strings (Sprintf f ts) = f # concat (map text_strings ts)"

lemma firstNonEmptyFrom_mem:
  "firstNonEmptyFrom getenv ks \<noteq> [] \<Longrightarrow> firstNonEmptyFrom getenv ks \<in> getenv ` set ks"
  by (induction ks) (auto split: if_splits)

lemma firstNonEmptyFrom_empty_iff:
  "firstNonEmptyFrom getenv ks = [] \<longleftrightarrow> (\<forall>k \<in> set ks. getenv k = [])"
  by (induction ks) auto

lemma roleSessionExpiration_ge: "900 \<le> roleSessionExpirationFrom getenv"
  by (auto simp: roleSessionExpirationFrom_def defaultRoleSessionExpiration_def Let_def
      split: option.splits)

section \<open>Properties\<close>

text \<open>
  Precedence of credentials: an explicitly named instance role wins; then, with both
  halves of an access key, assuming the configured role, else the static key; otherwise, and
  for half a key, the instance role found from the metadata service.  Both spellings of the key
  variables count, and an assumed role lasts at least 900 seconds.
\<close>

theorem credential_precedence:
  "resolveCredential getenv =
     (if getenv ''ALIBABA_CLOUD_ECS_METADATA'' \<noteq> []
      then EcsRamRoleCredential (getenv ''ALIBABA_CLOUD_ECS_METADATA'')
      else if accessKeyID getenv = [] \<or> accessKeySecret getenv = [] then EcsRamRoleCredential []
      else if getenv ''ALIBABA_CLOUD_ROLE_ARN'' = []
      then AccessKeyCredential (accessKeyID getenv) (accessKeySecret getenv)
      else RamRoleArnCredential (accessKeyID getenv) (accessKeySecret getenv)
             (getenv ''ALIBABA_CLOUD_ROLE_ARN'')
             (if getenv ''ALIBABA_CLOUD_ROLE_SESSION_NAME'' = [] then defaultRoleSessionName
              else getenv ''ALIBABA_CLOUD_ROLE_SESSION_NAME'')
             (roleSessionExpirationFrom getenv))
   \<and> 900 \<le> roleSessionExpirationFrom getenv
   \<and> (accessKeyID getenv = [] \<longleftrightarrow>
        getenv ''ALIBABA_CLOUD_ACCESS_KEY_ID'' = [] \<and> getenv ''ALIBABACLOUD_ACCESS_KEY_ID'' = [])"
  using roleSessionExpiration_ge [of getenv]
  by (auto simp: resolveCredential_def resolveCredentialFrom_def Let_def accessKeyID_def)

text \<open>
  C26.  The credential description logged at start-up reveals nothing of the access key: two
  environments that differ only in the (non-empty) values of the key variables give the same
  description.
\<close>

theorem credential_source_secret_free:
  assumes "\<forall>k. k \<notin> {''ALIBABA_CLOUD_ACCESS_KEY_ID'', ''ALIBABACLOUD_ACCESS_KEY_ID'',
                    ''ALIBABA_CLOUD_ACCESS_KEY_SECRET'', ''ALIBABACLOUD_ACCESS_KEY_SECRET''}
             \<longrightarrow> env k = env' k"
    and "\<forall>k. env k = [] \<longleftrightarrow> env' k = []"
  shows "CredentialSource env = CredentialSource env'"
proof -
  have same: "env ''ALIBABA_CLOUD_ECS_METADATA'' = env' ''ALIBABA_CLOUD_ECS_METADATA''"
    "env ''ALIBABA_CLOUD_ROLE_ARN'' = env' ''ALIBABA_CLOUD_ROLE_ARN''"
    "env ''ALIBABA_CLOUD_ROLE_SESSION_NAME'' = env' ''ALIBABA_CLOUD_ROLE_SESSION_NAME''"
    using assms(1) by simp_all
  have keys: "accessKeyID env = [] \<longleftrightarrow> accessKeyID env' = []"
    "accessKeySecret env = [] \<longleftrightarrow> accessKeySecret env' = []"
    using assms(2) by (simp_all add: accessKeyID_def accessKeySecret_def firstNonEmptyFrom_empty_iff del: firstNonEmptyFrom.simps)
  show ?thesis
    by (simp add: CredentialSource_def resolveCredentialFrom_def Let_def same keys)
qed

theorem credential_source_secret_free_witness:
  "CredentialSource (\<lambda>k. if k \<in> {''ALIBABA_CLOUD_ACCESS_KEY_ID'', ''ALIBABA_CLOUD_ACCESS_KEY_SECRET''}
       then ''s3cret'' else [])
   = CredentialSource (\<lambda>k. if k \<in> {''ALIBABA_CLOUD_ACCESS_KEY_ID'', ''ALIBABA_CLOUD_ACCESS_KEY_SECRET''}
       then ''other'' else [])"
  by (rule credential_source_secret_free) auto

end
