(* ===== verification/Oss_Client.thy ===== *)
theory Oss_Client
  imports Cloud_Client Credentials
begin

text \<open>
  \<open>pkg/client/oss.go\<close>: offloading an Ignition payload to OSS.  The OSS SDK is a record of
  state transformers over the same cloud state; an SDK client is identified by the
  endpoint and key pair it was made from, a bucket by its client and name.
\<close>

type_synonym oss_handle = "string \<times> string \<times> string"

record 'c OssSdk =
  oss_New :: "oss_handle \<Rightarrow> 'c \<Rightarrow> go_error option"
  oss_Bucket :: "oss_handle \<Rightarrow> string \<Rightarrow> 'c \<Rightarrow> go_error option"
  oss_PutObject :: "oss_handle \<Rightarrow> string \<Rightarrow> string \<Rightarrow> string \<Rightarrow> 'c \<Rightarrow> go_error option \<times> 'c"
  oss_SignURL :: "oss_handle \<Rightarrow> string \<Rightarrow> string \<Rightarrow> string \<Rightarrow> int \<Rightarrow> 'c \<Rightarrow> go_error + string"
  oss_DeleteObject :: "oss_handle \<Rightarrow> string \<Rightarrow> string \<Rightarrow> 'c \<Rightarrow> go_error option \<times> 'c"

definition ossEndpointFor :: "string \<Rightarrow> string \<Rightarrow> string" where
  "ossEndpointFor endpoint region =
     (if endpoint \<noteq> [] then endpoint
      else ''https://oss-'' @ region @ ''-internal.aliyuncs.com'')"

definition newOSSClient ::
  "'c OssSdk \<Rightarrow> (string \<Rightarrow> string) \<Rightarrow> string \<Rightarrow> string \<Rightarrow> 'c World \<Rightarrow> go_error + oss_handle" where
  "newOSSClient oss getenv endpoint region w =
     (let ak = accessKeyID getenv; sk = accessKeySecret getenv
      in if ak = [] \<or> sk = [] then
           Inl (Errorf ''OSS ignition offload requires ALIBABA_CLOUD_ACCESS_KEY_{ID,SECRET} in the controller environment'' [])
         else
           (let h = (ossEndpointFor endpoint region, ak, sk)
            in case oss_New oss h (cloud w) of Some e \<Rightarrow> Inl e | None \<Rightarrow> Inr h))"

text \<open>Durations are nanoseconds; \<open>time.Hour\<close> is the default validity of the presigned URL.\<close>

definition hour :: int where "hour = 3600 * 1000000000"

definition alibabacloudClient_PutIgnitionObject ::
  "'c OssSdk \<Rightarrow> (string \<Rightarrow> string) \<Rightarrow> IgnitionStoreParams \<Rightarrow> 'c World
     \<Rightarrow> (go_error + string) \<times> 'c World" where
  "alibabacloudClient_PutIgnitionObject oss getenv p w =
     (case newOSSClient oss getenv (ip_Endpoint p) (ip_RegionID p) w of
        Inl err \<Rightarrow> (Inl err, w)
      | Inr h \<Rightarrow>
          (case oss_Bucket oss h (ip_Bucket p) (cloud w) of
             Some err \<Rightarrow> (Inl (Wrap ''OSS bucket %s: %w'' [Lit (ip_Bucket p)] err), w)
           | None \<Rightarrow>
               (let (r, c1) = oss_PutObject oss h (ip_Bucket p) (ip_Key p) (ip_Data p) (cloud w);
                    w1 = w\<lparr>cloud := c1\<rparr>
                in case r of
                     Some err \<Rightarrow>
                       (Inl (Wrap ''OSS put %s/%s: %w'' [Lit (ip_Bucket p), Lit (ip_Key p)] err), w1)
                   | None \<Rightarrow>
                       (let expiry = (if ip_Expiry p \<le> 0 then hour else ip_Expiry p)
                        in case oss_SignURL oss h (ip_Bucket p) (ip_Key p) ''GET''
                                  (int64_of_float (Duration_Seconds expiry)) (cloud w1) of
                             Inl err \<Rightarrow>
                               (Inl (Wrap ''OSS sign %s/%s: %w''
                                      [Lit (ip_Bucket p), Lit (ip_Key p)] err), w1)
                           | Inr url \<Rightarrow> (Inr url, w1)))))"

definition alibabacloudClient_DeleteIgnitionObject ::
  "'c OssSdk \<Rightarrow> (string \<Rightarrow> string) \<Rightarrow> IgnitionStoreParams \<Rightarrow> 'c World
     \<Rightarrow> go_error option \<times> 'c World" where
  "alibabacloudClient_DeleteIgnitionObject oss getenv p w =
     (case newOSSClient oss getenv (ip_Endpoint p) (ip_RegionID p) w of
        Inl err \<Rightarrow> (Some err, w)
      | Inr h \<Rightarrow>
          (case oss_Bucket oss h (ip_Bucket p) (cloud w) of
             Some err \<Rightarrow> (Some (Wrap ''OSS bucket %s: %w'' [Lit (ip_Bucket p)] err), w)
           | None \<Rightarrow>
               (let (r, c1) = oss_DeleteObject oss h (ip_Bucket p) (ip_Key p) (cloud w);
                    w1 = w\<lparr>cloud := c1\<rparr>
                in case r of
                     Some err \<Rightarrow>
                       (Some (Wrap ''OSS delete %s/%s: %w'' [Lit (ip_Bucket p), Lit (ip_Key p)] err), w1)
                   | None \<Rightarrow> (None, w1))))"

text \<open>The client the controllers get: every high-level operation over one SDK.\<close>

definition alibabacloudClient ::
  "'c EcsClient \<Rightarrow> 'c OssSdk \<Rightarrow> (string \<Rightarrow> string) \<Rightarrow> 'c World Client" where
  "alibabacloudClient ecs oss getenv =
     \<lparr>DescribeInstanceByID = alibabacloudClient_DescribeInstanceByID ecs,
      CreateECSInstance = alibabacloudClient_CreateECSInstance ecs,
      DeleteECSInstance = alibabacloudClient_DeleteECSInstance ecs,
      FindInstanceByTag = alibabacloudClient_FindInstanceByTag ecs,
      ModifyInstanceMetadata = alibabacloudClient_ModifyInstanceMetadata ecs,
      InstanceTypeCapacity = alibabacloudClient_InstanceTypeCapacity ecs,
      PutIgnitionObject = alibabacloudClient_PutIgnitionObject oss getenv,
      DeleteIgnitionObject = alibabacloudClient_DeleteIgnitionObject oss getenv\<rparr>"

end
