(* ===== verification/Cloud_Contract.thy ===== *)
theory Cloud_Contract
  imports Oss_Client "HOL-Library.Sublist"
begin

text \<open>
  What the controllers rely on of the cloud.  \<open>ecs_service\<close> states documented behaviour of
  the ECS API over an abstract account state: which instances a query returns, that
  \<open>RunInstances\<close> makes at most one instance per call and per client token, that a deletion
  concerns the named instance only and takes it out by way of stopping it.  An answer to a query is
  complete (the matches fit the page that is read) and current (it sees what earlier calls did).
  \<open>cloud_contract\<close> is the interface the machine controller sees.  The sublocale shows that the client of \<open>capi.go\<close>, with its retry loop and its
  adopt-by-tag guard, turns the first into the second.
\<close>

section \<open>The account state\<close>

record CloudInst =
  ci_Inst :: EcsInstance
  ci_Region :: string
  ci_Tags :: "(string \<times> string) list"
  ci_Token :: string

abbreviation inst_id :: "CloudInst \<Rightarrow> string" where "inst_id x \<equiv> ei_InstanceId (ci_Inst x)"

abbreviation inst_state :: "CloudInst \<Rightarrow> string" where "inst_state x \<equiv> ei_Status (ci_Inst x)"

text \<open>An instance that carries a tag in a region and is not on its way out of the account.\<close>

definition tagged :: "string \<Rightarrow> string \<Rightarrow> string \<Rightarrow> CloudInst \<Rightarrow> bool" where
  "tagged region k v x \<longleftrightarrow>
     ci_Region x = region \<and> (k, v) \<in> set (ci_Tags x) \<and> inst_state x \<noteq> ''Deleted''"

definition others :: "string \<Rightarrow> CloudInst list \<Rightarrow> CloudInst list" where
  "others i xs = filter (\<lambda>x. inst_id x \<noteq> i) xs"

text \<open>
  How an account may evolve without a creation: an instance changes its state or vanishes,
  and a deleted one is not revived.
\<close>

definition same_inst :: "CloudInst \<Rightarrow> CloudInst \<Rightarrow> bool" where
  "same_inst y x \<longleftrightarrow>
     inst_id y = inst_id x \<and> ci_Region y = ci_Region x \<and> ci_Tags y = ci_Tags x
     \<and> ci_Token y = ci_Token x \<and> (inst_state x = ''Deleted'' \<longrightarrow> inst_state y = ''Deleted'')"

definition evolves :: "CloudInst list \<Rightarrow> CloudInst list \<Rightarrow> bool" where
  "evolves xs ys \<longleftrightarrow> list_emb same_inst ys xs"

lemma evolves_refl [simp]: "evolves xs xs"
  unfolding evolves_def by (rule list_emb_refl) (simp add: same_inst_def)

lemma evolves_trans: "evolves xs ys \<Longrightarrow> evolves ys zs \<Longrightarrow> evolves xs zs"
  unfolding evolves_def
  using list_emb_trans [of zs ys xs same_inst] by (auto simp: same_inst_def)

lemma evolves_count:
  assumes "evolves xs ys" and "\<And>x y. same_inst y x \<Longrightarrow> P y \<Longrightarrow> P x"
  shows "length (filter P ys) \<le> length (filter P xs)"
  using assms(1) unfolding evolves_def by (induction rule: list_emb.induct) (auto dest: assms(2))

lemma evolves_tagged:
  "evolves xs ys \<Longrightarrow> length (filter (tagged rg k v) ys) \<le> length (filter (tagged rg k v) xs)"
  by (rule evolves_count) (auto simp: same_inst_def tagged_def)

section \<open>The way out of the account\<close>

text \<open>
  A deletion takes an instance through \<open>Stopping\<close> and \<open>Stopped\<close> to \<open>Deleted\<close>, and its record then
  vanishes.  The phase says how far it still has to go.
\<close>

definition phase :: "CloudInst \<Rightarrow> nat" where
  "phase x = (if inst_state x = ''Deleted'' then 0 else if inst_state x = ''Stopped'' then 1
              else if inst_state x = ''Stopping'' then 2 else 3)"

text \<open>An account in which no instance goes back, and one in which a delete of \<open>i\<close> has succeeded: the
  first delete may do no more than stop the instance, a stopped one is released.\<close>

definition winding :: "CloudInst \<Rightarrow> CloudInst \<Rightarrow> bool" where
  "winding y x \<longleftrightarrow> same_inst y x \<and> phase y \<le> phase x"

definition released :: "string \<Rightarrow> CloudInst \<Rightarrow> CloudInst \<Rightarrow> bool" where
  "released i y x \<longleftrightarrow> winding y x \<and> (inst_id x = i \<longrightarrow> phase y \<le> 2 \<and> (phase x \<le> 1 \<longrightarrow> phase y = 0))"

definition declines :: "CloudInst list \<Rightarrow> CloudInst list \<Rightarrow> bool" where
  "declines xs ys \<longleftrightarrow> list_emb winding ys xs"

definition releases :: "string \<Rightarrow> CloudInst list \<Rightarrow> CloudInst list \<Rightarrow> bool" where
  "releases i xs ys \<longleftrightarrow> list_emb (released i) ys xs"

lemma emb_trans:
  assumes "list_emb Q ys zs" and "list_emb P xs ys" and "\<And>x y z. P x y \<Longrightarrow> Q y z \<Longrightarrow> R x z"
  shows "list_emb R xs zs"
  using assms(1,2)
proof (induction arbitrary: xs rule: list_emb.induct)
  case (list_emb_Cons2 y z ys zs)
  from list_emb_Cons2.prems show ?case
    by cases (auto intro: list_emb_Cons2.IH assms(3) list_emb_Cons2.hyps)
qed (auto dest: list_emb_length)

lemma emb_filter:
  "list_emb Q ys xs \<Longrightarrow> (\<And>y x. Q y x \<Longrightarrow> P y = P x) \<Longrightarrow> list_emb Q (filter P ys) (filter P xs)"
  by (induction rule: list_emb.induct) auto

lemma emb_weight:
  fixes f :: "'a \<Rightarrow> nat"
  assumes "list_emb Q ys xs" and "\<And>y x. Q y x \<Longrightarrow> f y \<le> f x"
  shows "sum_list (map f ys) \<le> sum_list (map f xs)"
  using assms(1) by (induction rule: list_emb.induct) (auto dest: assms(2) intro: add_mono)

lemma emb_weight_less:
  fixes f :: "'a \<Rightarrow> nat"
  assumes "list_emb Q ys xs" and mono: "\<And>y x. Q y x \<Longrightarrow> f y \<le> f x"
    and "x \<in> set xs" and "0 < f x" and "\<And>y. y \<in> set ys \<Longrightarrow> Q y x \<Longrightarrow> f y < f x"
  shows "sum_list (map f ys) < sum_list (map f xs)"
  using assms(1,3,5)
proof (induction rule: list_emb.induct)
  case (list_emb_Nil ys)
  then have "f x \<le> sum_list (map f ys)" by (intro member_le_sum_list) simp_all
  with assms(4) show ?case by simp
next
  case (list_emb_Cons ys xs a)
  from emb_weight [OF list_emb_Cons.hyps, of f] mono list_emb_Cons assms(4) show ?case by fastforce
next
  case (list_emb_Cons2 b a ys xs)
  from emb_weight [OF list_emb_Cons2.hyps(2), of f] mono list_emb_Cons2 show ?case
    by (fastforce intro: add_le_less_mono add_less_le_mono)
qed

lemma declines_refl [simp]: "declines xs xs"
  unfolding declines_def by (rule list_emb_refl) (simp add: winding_def same_inst_def)

lemma winding_trans: "winding z y \<Longrightarrow> winding y x \<Longrightarrow> winding z x"
  by (auto simp: winding_def same_inst_def)

lemma declines_trans: "declines xs ys \<Longrightarrow> declines ys zs \<Longrightarrow> declines xs zs"
  unfolding declines_def by (erule emb_trans, assumption, erule winding_trans)

lemma declines_releases: "declines xs ys \<Longrightarrow> releases i ys zs \<Longrightarrow> releases i xs zs"
  unfolding declines_def releases_def
  by (erule emb_trans, assumption) (auto simp: released_def winding_def same_inst_def)

lemma releases_declines: "releases i xs ys \<Longrightarrow> declines xs ys"
  unfolding declines_def releases_def by (erule list_emb_mono [rule_format, rotated]) (simp add: released_def)

lemma declines_evolves: "declines xs ys \<Longrightarrow> evolves xs ys"
  unfolding declines_def evolves_def by (erule list_emb_mono [rule_format, rotated]) (simp add: winding_def)

section \<open>The contract the machine controller relies on\<close>

locale cloud_contract =
  fixes cl :: "'w Client" and insts :: "'w \<Rightarrow> CloudInst list" and reg :: string
  assumes describe_keeps: "DescribeInstanceByID cl i w = (r, w') \<Longrightarrow> insts w' = insts w"
    and describe_none: "DescribeInstanceByID cl i w = (Inr None, w') \<Longrightarrow> x \<in> set (insts w) \<Longrightarrow>
      ci_Region x = reg \<Longrightarrow> inst_id x \<noteq> i"
    and describe_some: "DescribeInstanceByID cl i w = (Inr (Some d), w') \<Longrightarrow>
      id_InstanceID d = i \<and> (\<exists>x \<in> set (insts w). ci_Region x = reg \<and> inst_id x = i \<and> inst_state x = id_Status d)"
    and find_keeps: "FindInstanceByTag cl reg k v w = (r', w') \<Longrightarrow> insts w' = insts w"
    and find_none: "FindInstanceByTag cl reg k v w = (Inr [], w') \<Longrightarrow> x \<in> set (insts w) \<Longrightarrow>
      \<not> tagged reg k v x"
    and find_some: "FindInstanceByTag cl reg k v w = (Inr i, w') \<Longrightarrow> i \<noteq> [] \<Longrightarrow>
      \<exists>x \<in> set (insts w). tagged reg k v x \<and> inst_id x = i"
    and create_adds: "CreateECSInstance cl p w = (r'', w') \<Longrightarrow> cp_ClientToken p \<noteq> [] \<Longrightarrow>
      cp_RegionID p = reg \<Longrightarrow> machineTag (cp_Tags p) \<noteq> [] \<Longrightarrow>
      insts w' = insts w
      \<or> (\<exists>x. insts w' = insts w @ [x] \<and> ci_Region x = reg
            \<and> ci_Tags x = map (\<lambda>t. (ct_Key t, ct_Value t)) (cp_Tags p)
            \<and> (\<forall>y \<in> set (insts w). \<not> tagged reg MachineNameTagKey (machineTag (cp_Tags p)) y))"
    and create_ok: "CreateECSInstance cl p w = (Inr resp, w') \<Longrightarrow> cp_RegionID p = reg \<Longrightarrow>
      \<exists>x \<in> set (insts w'). ci_Region x = reg \<and> inst_id x = cr_InstanceID resp"
    and delete_others: "DeleteECSInstance cl i force w = (e, w') \<Longrightarrow>
      others i (insts w') = others i (insts w)"
    and delete_declines: "DeleteECSInstance cl i force w = (e, w') \<Longrightarrow> declines (insts w) (insts w')"
    and delete_releases: "DeleteECSInstance cl i force w = (None, w') \<Longrightarrow> releases i (insts w) (insts w')"
    and modify_keeps: "ModifyInstanceMetadata cl i ep tok h w = (e', w') \<Longrightarrow> insts w' = insts w"
    and put_keeps: "PutIgnitionObject cl ip w = (e'', w') \<Longrightarrow> insts w' = insts w"
    and remove_keeps: "DeleteIgnitionObject cl ip w = (e''', w') \<Longrightarrow> insts w' = insts w"
begin

lemma delete_evolves: "DeleteECSInstance cl i force w = (e, w') \<Longrightarrow> evolves (insts w) (insts w')"
  by (rule declines_evolves [OF delete_declines])

end

section \<open>The ECS service\<close>

locale ecs_service =
  fixes ecs :: "'c EcsClient" and oss :: "'c OssSdk" and getenv :: "string \<Rightarrow> string"
    and acct :: "'c \<Rightarrow> CloudInst list" and region :: string
  assumes ids_named: "x \<in> set (acct c) \<Longrightarrow> inst_id x \<noteq> []"
    and list_keeps: "ecs_DescribeInstances ecs q c = (r, c') \<Longrightarrow> acct c' = acct c"
    and list_by_id: "ecs_DescribeInstances ecs
        \<lparr>dir_RegionId = [], dir_InstanceIds = ''[\"'' @ i @ ''\"]'', dir_Tag = []\<rparr> c = (Inr rs, c') \<Longrightarrow>
      set rs = ci_Inst ` {x \<in> set (acct c). ci_Region x = region \<and> inst_id x = i}"
    and list_by_tag: "ecs_DescribeInstances ecs
        \<lparr>dir_RegionId = region, dir_InstanceIds = [], dir_Tag = [(k, v)]\<rparr> c = (Inr rs, c') \<Longrightarrow>
      set rs = ci_Inst ` {x \<in> set (acct c). ci_Region x = region \<and> (k, v) \<in> set (ci_Tags x)}"
    and run_one: "ecs_RunInstances ecs rq c = (r', c') \<Longrightarrow> rq_Amount rq = ''1'' \<Longrightarrow>
      acct c' = acct c
      \<or> (\<exists>x. acct c' = acct c @ [x] \<and> ci_Region x = rq_RegionId rq \<and> ci_Tags x = rq_Tag rq
            \<and> ci_Token x = rq_ClientToken rq)"
    and run_token: "ecs_RunInstances ecs rq c = (r', c') \<Longrightarrow> rq_ClientToken rq \<noteq> [] \<Longrightarrow>
      x \<in> set (acct c) \<Longrightarrow> ci_Token x = rq_ClientToken rq \<Longrightarrow> acct c' = acct c"
    and run_ok: "ecs_RunInstances ecs rq c = (Inr (i # is'), c') \<Longrightarrow>
      \<exists>x \<in> set (acct c'). ci_Region x = rq_RegionId rq \<and> inst_id x = i"
    and stop_inst: "ecs_StopInstance ecs sq c = (r'', c') \<Longrightarrow>
      declines (acct c) (acct c') \<and> others (sr_InstanceId sq) (acct c') = others (sr_InstanceId sq) (acct c)"
    and delete_inst: "ecs_DeleteInstance ecs dq c = (r'', c') \<Longrightarrow>
      declines (acct c) (acct c') \<and> others (dr_InstanceId dq) (acct c') = others (dr_InstanceId dq) (acct c)"
    and delete_accepted: "ecs_DeleteInstance ecs dq c = (Inr u, c') \<Longrightarrow>
      releases (dr_InstanceId dq) (acct c) (acct c')"
    and metadata_keeps: "ecs_ModifyInstanceMetadataOptions ecs mq c = (r'', c') \<Longrightarrow> acct c' = acct c"
    and disks_keep: "ecs_DescribeDisks ecs rg i c = (rs', c') \<Longrightarrow> acct c' = acct c"
    and enis_keep: "ecs_DescribeNetworkInterfaces ecs rg i c = (rs', c') \<Longrightarrow> acct c' = acct c"
    and tag_keeps: "ecs_TagResources ecs tq c = (r'', c') \<Longrightarrow> acct c' = acct c"
    and put_object_keeps: "oss_PutObject oss h b key d c = (e, c') \<Longrightarrow> acct c' = acct c"
    and delete_object_keeps: "oss_DeleteObject oss h b key c = (e, c') \<Longrightarrow> acct c' = acct c"
begin

lemma retry_keeps:
  assumes "retryThrottled op fn w = (r, w')" and "\<And>c r c'. fn c = (r, c') \<Longrightarrow> acct c' = acct c"
  shows "acct (cloud w') = acct (cloud w)"
proof -
  obtain c1 where "acct c1 = acct (cloud w)" and "fn c1 = (r, cloud w')"
    by (rule retryThrottled_outcome [where P = "\<lambda>c. acct c = acct (cloud w)", OF assms(1)])
      (auto simp: assms(2))
  with assms(2) show ?thesis by metis
qed

text \<open>A retried query answers for the account as it was.\<close>

lemma retry_list:
  assumes "retryThrottled op (ecs_DescribeInstances ecs q) w = (r, w')"
  obtains c1 where "acct c1 = acct (cloud w)" and "ecs_DescribeInstances ecs q c1 = (r, cloud w')"
    and "acct (cloud w') = acct (cloud w)"
proof -
  obtain c1 where "acct c1 = acct (cloud w)" and "ecs_DescribeInstances ecs q c1 = (r, cloud w')"
    by (rule retryThrottled_outcome [where P = "\<lambda>c. acct c = acct (cloud w)", OF assms])
      (auto simp: list_keeps)
  with that list_keeps show ?thesis by metis
qed

lemma client_describe:
  assumes "alibabacloudClient_DescribeInstanceByID ecs i w = (r, w')"
  shows "acct (cloud w') = acct (cloud w)"
    and "r = Inr None \<Longrightarrow> x \<in> set (acct (cloud w)) \<Longrightarrow> ci_Region x = region \<Longrightarrow> inst_id x \<noteq> i"
    and "r = Inr (Some d) \<Longrightarrow> id_InstanceID d = i
      \<and> (\<exists>x \<in> set (acct (cloud w)). ci_Region x = region \<and> inst_id x = i \<and> inst_state x = id_Status d)"
proof -
  let ?q = "\<lparr>dir_RegionId = [], dir_InstanceIds = ''[\"'' @ i @ ''\"]'', dir_Tag = []\<rparr>"
  obtain s w1 where call: "retryThrottled ''DescribeInstances'' (ecs_DescribeInstances ecs ?q) w = (s, w1)"
    by fastforce
  obtain c1 where c1: "acct c1 = acct (cloud w)" "ecs_DescribeInstances ecs ?q c1 = (s, cloud w1)"
    "acct (cloud w1) = acct (cloud w)" by (rule retry_list [OF call])
  from assms call have res: "w' = w1" "r = (case s of
      Inl err \<Rightarrow> Inl (Wrap ''DescribeInstances(%s): %w'' [Lit i] err)
    | Inr [] \<Rightarrow> Inr None
    | Inr (inst # _) \<Rightarrow> Inr (Some \<lparr>id_InstanceID = ei_InstanceId inst, id_Status = ei_Status inst,
        id_HostName = ei_HostName inst, id_InnerIpAddress = ei_InnerIpAddress inst,
        id_PublicIpAddress = ei_PublicIpAddress inst\<rparr>))"
    by (auto simp: alibabacloudClient_DescribeInstanceByID_def split: sum.splits list.splits)
  show "acct (cloud w') = acct (cloud w)" using res c1 by simp
  have hits: "set rs = ci_Inst ` {x \<in> set (acct (cloud w)). ci_Region x = region \<and> inst_id x = i}"
    if "s = Inr rs" for rs
    using list_by_id [of i c1 rs "cloud w1"] c1 that by simp
  show "inst_id x \<noteq> i" if "r = Inr None" "x \<in> set (acct (cloud w))" "ci_Region x = region"
    using that res hits by (auto split: sum.splits list.splits)
  show "id_InstanceID d = i
      \<and> (\<exists>x \<in> set (acct (cloud w)). ci_Region x = region \<and> inst_id x = i \<and> inst_state x = id_Status d)"
    if some: "r = Inr (Some d)"
  proof -
    from some res obtain y ys where s: "s = Inr (y # ys)" and d: "id_InstanceID d = ei_InstanceId y"
      "id_Status d = ei_Status y" by (auto split: sum.splits list.splits)
    from hits [OF s] have "y \<in> ci_Inst ` {x \<in> set (acct (cloud w)). ci_Region x = region \<and> inst_id x = i}"
      by (metis list.set_intros(1))
    with d show ?thesis by auto
  qed
qed

lemma client_find:
  assumes "alibabacloudClient_FindInstanceByTag ecs region k v w = (r, w')"
  shows "acct (cloud w') = acct (cloud w)"
    and "r = Inr [] \<Longrightarrow> x \<in> set (acct (cloud w)) \<Longrightarrow> \<not> tagged region k v x"
    and "r = Inr i \<Longrightarrow> i \<noteq> [] \<Longrightarrow> \<exists>x \<in> set (acct (cloud w)). tagged region k v x \<and> inst_id x = i"
proof -
  let ?q = "\<lparr>dir_RegionId = region, dir_InstanceIds = [], dir_Tag = [(k, v)]\<rparr>"
  obtain s w1 where call: "retryThrottled ''DescribeInstances'' (ecs_DescribeInstances ecs ?q) w = (s, w1)"
    by fastforce
  obtain c1 where c1: "acct c1 = acct (cloud w)" "ecs_DescribeInstances ecs ?q c1 = (s, cloud w1)"
    "acct (cloud w1) = acct (cloud w)" by (rule retry_list [OF call])
  from assms call have res: "w' = w1" "r = (case s of
      Inl err \<Rightarrow> Inl (Wrap ''DescribeInstances by tag %s=%s: %w'' [Lit k, Lit v] err)
    | Inr rs \<Rightarrow> (case find (\<lambda>inst. ei_Status inst \<noteq> ''Deleted'') rs of
        Some inst \<Rightarrow> Inr (ei_InstanceId inst) | None \<Rightarrow> Inr []))"
    by (auto simp: alibabacloudClient_FindInstanceByTag_def split: sum.splits option.splits)
  show "acct (cloud w') = acct (cloud w)" using res c1 by simp
  have hits: "set rs = ci_Inst ` {x \<in> set (acct (cloud w)). ci_Region x = region \<and> (k, v) \<in> set (ci_Tags x)}"
    if "s = Inr rs" for rs
    using list_by_tag [of k v c1 rs "cloud w1"] c1 that by simp
  have found: "\<exists>x \<in> set (acct (cloud w)). tagged region k v x \<and> ci_Inst x = inst"
    if "s = Inr rs" "find (\<lambda>inst. ei_Status inst \<noteq> ''Deleted'') rs = Some inst" for rs inst
  proof -
    from that(2) have "inst \<in> set rs" "ei_Status inst \<noteq> ''Deleted''" by (auto simp: find_Some_iff)
    with hits [OF that(1)] show ?thesis by (auto simp: tagged_def)
  qed
  show "\<not> tagged region k v x" if "r = Inr []" "x \<in> set (acct (cloud w))"
  proof (cases s)
    case (Inr rs)
    with that res found ids_named have "find (\<lambda>inst. ei_Status inst \<noteq> ''Deleted'') rs = None"
      by (auto split: option.splits)
    with hits [OF Inr] that(2) show ?thesis by (auto simp: tagged_def find_None_iff)
  qed (use that res in simp)
  show "\<exists>x \<in> set (acct (cloud w)). tagged region k v x \<and> inst_id x = i" if "r = Inr i" "i \<noteq> []"
  proof (cases s)
    case (Inr rs)
    with that res obtain inst where "find (\<lambda>inst. ei_Status inst \<noteq> ''Deleted'') rs = Some inst"
      "i = ei_InstanceId inst" by (auto split: option.splits)
    with found [OF Inr] show ?thesis by auto
  qed (use that res in simp)
qed

lemma client_delete:
  assumes "alibabacloudClient_DeleteECSInstance ecs i force w = (e, w')"
  shows "declines (acct (cloud w)) (acct (cloud w'))" "others i (acct (cloud w')) = others i (acct (cloud w))"
    and "e = None \<Longrightarrow> releases i (acct (cloud w)) (acct (cloud w'))"
proof -
  let ?sq = "\<lparr>sr_InstanceId = i, sr_ForceStop = (if force then ''true'' else [])\<rparr>"
  let ?dq = "\<lparr>dr_InstanceId = i, dr_Force = ''true''\<rparr>"
  let ?P = "\<lambda>c. declines (acct (cloud w)) (acct c) \<and> others i (acct c) = others i (acct (cloud w))"
  obtain u c0 where stop: "ecs_StopInstance ecs ?sq (cloud w) = (u, c0)" by fastforce
  obtain s w1 where call: "retryThrottled ''DeleteInstance'' (ecs_DeleteInstance ecs ?dq) (w\<lparr>cloud := c0\<rparr>)
      = (s, w1)" by fastforce
  have keep: "?P c'" if "ecs_DeleteInstance ecs ?dq c = (r, c')" "?P c" for c r c'
    using delete_inst [OF that(1)] that(2) declines_trans by auto
  obtain c1 where c1: "?P c1" and last: "ecs_DeleteInstance ecs ?dq c1 = (s, cloud w1)"
    by (rule retryThrottled_outcome [where P = ?P, OF call _ keep])
      (use stop_inst [OF stop] in simp_all)
  from assms stop call have res: "cloud w' = cloud w1" "e = None \<longleftrightarrow> (\<exists>v. s = Inr v)"
    by (auto simp: alibabacloudClient_DeleteECSInstance_def split: sum.splits)
  from keep [OF last c1] res show "declines (acct (cloud w)) (acct (cloud w'))"
    "others i (acct (cloud w')) = others i (acct (cloud w))" by simp_all
  show "releases i (acct (cloud w)) (acct (cloud w'))" if "e = None"
  proof -
    from that res obtain v where "s = Inr v" by auto
    with last delete_accepted [of ?dq c1 v "cloud w1"] have "releases i (acct c1) (acct (cloud w1))" by simp
    with c1 res show ?thesis using declines_releases by auto
  qed
qed

text \<open>At most one instance comes out of all the attempts of a retried \<open>RunInstances\<close>.\<close>

lemma retry_run:
  assumes call: "retryThrottled op (ecs_RunInstances ecs rq) w = (r, w')"
    and rq: "rq_Amount rq = ''1''" "rq_ClientToken rq \<noteq> []"
  shows "acct (cloud w') = acct (cloud w)
    \<or> (\<exists>x. acct (cloud w') = acct (cloud w) @ [x] \<and> ci_Region x = rq_RegionId rq \<and> ci_Tags x = rq_Tag rq)"
proof -
  let ?P = "\<lambda>c. acct c = acct (cloud w)
    \<or> (\<exists>x. acct c = acct (cloud w) @ [x] \<and> ci_Region x = rq_RegionId rq \<and> ci_Tags x = rq_Tag rq
          \<and> ci_Token x = rq_ClientToken rq)"
  have keep: "?P c'" if run: "ecs_RunInstances ecs rq c = (r, c')" and P: "?P c" for c r c'
    using P
  proof
    assume "acct c = acct (cloud w)"
    with run_one [OF run rq(1)] show ?thesis by simp
  next
    assume "\<exists>x. acct c = acct (cloud w) @ [x] \<and> ci_Region x = rq_RegionId rq \<and> ci_Tags x = rq_Tag rq
      \<and> ci_Token x = rq_ClientToken rq"
    then obtain x where x: "acct c = acct (cloud w) @ [x]" "ci_Region x = rq_RegionId rq"
      "ci_Tags x = rq_Tag rq" "ci_Token x = rq_ClientToken rq" by blast
    with run_token [OF run rq(2), of x] have "acct c' = acct c" by simp
    with x show ?thesis by auto
  qed
  obtain c1 where "?P c1" "ecs_RunInstances ecs rq c1 = (r, cloud w')"
    by (rule retryThrottled_outcome [where P = ?P, OF call _ keep]) auto
  from keep [OF this(2,1)] show ?thesis by blast
qed

lemma retry_run_ok:
  assumes "retryThrottled op (ecs_RunInstances ecs rq) w = (Inr (i # is'), w')"
  shows "\<exists>x \<in> set (acct (cloud w')). ci_Region x = rq_RegionId rq \<and> inst_id x = i"
proof -
  obtain c1 where "ecs_RunInstances ecs rq c1 = (Inr (i # is'), cloud w')"
    by (rule retryThrottled_outcome [where P = "\<lambda>c. True", OF assms]) auto
  from run_ok [OF this] show ?thesis .
qed

lemma tagging_keeps [simp]:
  "acct (cloud (tagInstanceDisks ecs rg i ts w)) = acct (cloud w)"
  "acct (cloud (tagInstanceENIs ecs rg i ts w)) = acct (cloud w)"
proof -
  have tag: "acct (cloud (snd (retryThrottled op (ecs_TagResources ecs tq) v))) = acct (cloud v)"
    for op tq v
    using retry_keeps [of op "ecs_TagResources ecs tq" v] tag_keeps by (metis prod.exhaust_sel)
  show "acct (cloud (tagInstanceDisks ecs rg i ts w)) = acct (cloud w)"
    using disks_keep [of rg i "cloud w"]
    by (auto simp: tagInstanceDisks_def Let_def tag split: prod.splits sum.splits)
  show "acct (cloud (tagInstanceENIs ecs rg i ts w)) = acct (cloud w)"
    using enis_keep [of rg i "cloud w"]
    by (auto simp: tagInstanceENIs_def Let_def tag split: prod.splits sum.splits)
qed

lemma runNewInstance_account:
  assumes "runNewInstance ecs p w = (r, w')" and "cp_ClientToken p \<noteq> []"
  shows "acct (cloud w') = acct (cloud w)
    \<or> (\<exists>x. acct (cloud w') = acct (cloud w) @ [x] \<and> ci_Region x = cp_RegionID p
          \<and> ci_Tags x = map (\<lambda>t. (ct_Key t, ct_Value t)) (cp_Tags p))"
proof -
  obtain s w1 where call: "retryThrottled ''RunInstances'' (ecs_RunInstances ecs (runInstancesRequest p)) w
      = (s, w1)" by fastforce
  with assms(1) have "acct (cloud w') = acct (cloud w1)"
    by (auto simp: runNewInstance_def Let_def split: sum.splits list.splits if_splits)
  with retry_run [OF call] assms(2) show ?thesis by (simp add: runInstancesRequest_def)
qed

lemma runNewInstance_ok:
  assumes "runNewInstance ecs p w = (Inr resp, w')"
  shows "\<exists>x \<in> set (acct (cloud w')). ci_Region x = cp_RegionID p \<and> inst_id x = cr_InstanceID resp"
proof -
  obtain s w1 where call: "retryThrottled ''RunInstances'' (ecs_RunInstances ecs (runInstancesRequest p)) w
      = (s, w1)" by fastforce
  with assms obtain i is' where "s = Inr (i # is')" "cr_InstanceID resp = i"
    "acct (cloud w') = acct (cloud w1)"
    by (auto simp: runNewInstance_def Let_def split: sum.splits list.splits if_splits)
  with retry_run_ok [of "''RunInstances''" "runInstancesRequest p" w i is' w1] call
  show ?thesis by (simp add: runInstancesRequest_def)
qed

lemma client_create:
  assumes "alibabacloudClient_CreateECSInstance ecs p w = (r, w')"
    and "cp_ClientToken p \<noteq> []" "cp_RegionID p = region" and mv: "machineTag (cp_Tags p) \<noteq> []"
  shows "acct (cloud w') = acct (cloud w)
    \<or> (\<exists>x. acct (cloud w') = acct (cloud w) @ [x] \<and> ci_Region x = region
          \<and> ci_Tags x = map (\<lambda>t. (ct_Key t, ct_Value t)) (cp_Tags p)
          \<and> (\<forall>y \<in> set (acct (cloud w)). \<not> tagged region MachineNameTagKey (machineTag (cp_Tags p)) y))"
proof -
  obtain s w1 where find: "alibabacloudClient_FindInstanceByTag ecs region MachineNameTagKey
      (machineTag (cp_Tags p)) w = (s, w1)" by fastforce
  note keeps = client_find(1) [OF find]
  show ?thesis
  proof (cases "s = Inr []")
    case True
    with assms find have "runNewInstance ecs p w1 = (r, w')"
      by (simp add: alibabacloudClient_CreateECSInstance_def)
    from runNewInstance_account [OF this assms(2)] client_find(2) [OF find True] assms(3) keeps
    show ?thesis by metis
  next
    case False
    with assms find have "acct (cloud w') = acct (cloud w1)"
      by (auto simp: alibabacloudClient_CreateECSInstance_def split: sum.splits if_splits)
    with keeps show ?thesis by simp
  qed
qed

lemma client_create_ok:
  assumes "alibabacloudClient_CreateECSInstance ecs p w = (Inr resp, w')" and "cp_RegionID p = region"
  shows "\<exists>x \<in> set (acct (cloud w')). ci_Region x = region \<and> inst_id x = cr_InstanceID resp"
proof (cases "machineTag (cp_Tags p) = []")
  case True
  with assms show ?thesis
    using runNewInstance_ok [of p w resp w'] by (simp add: alibabacloudClient_CreateECSInstance_def)
next
  case False
  obtain s w1 where find: "alibabacloudClient_FindInstanceByTag ecs region MachineNameTagKey
      (machineTag (cp_Tags p)) w = (s, w1)" by fastforce
  show ?thesis
  proof (cases "s = Inr []")
    case True
    with assms False find have "runNewInstance ecs p w1 = (Inr resp, w')"
      by (simp add: alibabacloudClient_CreateECSInstance_def)
    from runNewInstance_ok [OF this] assms(2) show ?thesis by simp
  next
    case other: False
    with assms False find obtain i where "s = Inr i" "i \<noteq> []" "cr_InstanceID resp = i"
      "acct (cloud w') = acct (cloud w1)"
      by (auto simp: alibabacloudClient_CreateECSInstance_def split: sum.splits if_splits)
    with client_find(1,3) [OF find] show ?thesis by (auto simp: tagged_def)
  qed
qed

lemma client_metadata:
  "alibabacloudClient_ModifyInstanceMetadata ecs i ep tok h w = (e, w') \<Longrightarrow>
   acct (cloud w') = acct (cloud w)"
  using retry_keeps metadata_keeps
  by (fastforce simp: alibabacloudClient_ModifyInstanceMetadata_def Let_def split: prod.splits sum.splits)

lemma client_objects:
  "alibabacloudClient_PutIgnitionObject oss getenv ip w = (u, w') \<Longrightarrow> acct (cloud w') = acct (cloud w)"
  "alibabacloudClient_DeleteIgnitionObject oss getenv ip w = (e, w') \<Longrightarrow> acct (cloud w') = acct (cloud w)"
  by (auto simp: alibabacloudClient_PutIgnitionObject_def alibabacloudClient_DeleteIgnitionObject_def
      Let_def dest: put_object_keeps delete_object_keeps split: prod.splits sum.splits option.splits)

end

text \<open>The client of \<open>capi.go\<close> over the ECS service implements the controller's contract.\<close>

sublocale ecs_service \<subseteq> client: cloud_contract "alibabacloudClient ecs oss getenv" "\<lambda>w. acct (cloud w)" region
proof (unfold_locales, goal_cases)
  case (7 p w r w')
  then show ?case using client_create [of p w r w'] by (simp add: alibabacloudClient_def)
qed (auto simp: alibabacloudClient_def dest: client_describe client_find client_create_ok client_delete
    client_metadata client_objects)

context ecs_service
begin

lemma client_contract:
  "cloud_contract (alibabacloudClient ecs oss getenv) (\<lambda>w. acct (cloud w)) region"
  by (rule client.cloud_contract_axioms)

end

lemma ecs_service_client:
  "ecs_service ecs oss acct region \<Longrightarrow>
   cloud_contract (alibabacloudClient ecs oss getenv) (\<lambda>w. acct (cloud w)) region"
  by (rule ecs_service.client_contract)

end
