(* ===== verification/Machine_System.thy ===== *)
theory Machine_System
  imports Machine_Reconcile Cloud_Contract
begin

text \<open>
  The machine controller against the cloud: what the handlers do to the account, proved in
  the interface \<open>cloud_contract\<close>, and the machine's life as a step relation in which a
  reconcile may lose all or part of its patch, the cloud moves on its own, and the user edits
  or deletes the object.
\<close>

section \<open>Accounts\<close>

text \<open>At most one live instance of the machine in every region.\<close>

definition one_live :: "string \<Rightarrow> CloudInst list \<Rightarrow> bool" where
  "one_live name xs \<longleftrightarrow> (\<forall>rg. length (filter (tagged rg MachineNameTagKey name) xs) \<le> 1)"

text \<open>A change of the account that creates at most one instance, and only where none was live.\<close>

definition grows :: "string \<Rightarrow> string \<Rightarrow> CloudInst list \<Rightarrow> CloudInst list \<Rightarrow> bool" where
  "grows rg name xs ys \<longleftrightarrow>
     ys = xs \<or> (\<exists>x. ys = xs @ [x] \<and> ci_Region x = rg
                 \<and> (\<forall>y \<in> set xs. \<not> tagged rg MachineNameTagKey name y))"

lemma grows_same [simp]: "grows rg name xs xs"
  by (simp add: grows_def)

lemma grows_one_live:
  assumes "grows rg name xs ys" and "one_live name xs"
  shows "one_live name ys"
  unfolding one_live_def
proof
  fix rg'
  from assms(1) consider "ys = xs" | x where "ys = xs @ [x]" "ci_Region x = rg"
    "\<forall>y \<in> set xs. \<not> tagged rg MachineNameTagKey name y" by (auto simp: grows_def)
  then show "length (filter (tagged rg' MachineNameTagKey name) ys) \<le> 1"
  proof cases
    case 1
    with assms(2) show ?thesis by (simp add: one_live_def)
  next
    case (2 x)
    show ?thesis
    proof (cases "rg' = rg")
      case True
      with 2 have "filter (tagged rg' MachineNameTagKey name) xs = []" by (simp add: filter_empty_conv)
      with 2 show ?thesis by simp
    next
      case False
      with 2 have "\<not> tagged rg' MachineNameTagKey name x" by (simp add: tagged_def)
      with 2 assms(2) show ?thesis by (simp add: one_live_def)
    qed
  qed
qed

lemma evolves_one_live: "evolves xs ys \<Longrightarrow> one_live name xs \<Longrightarrow> one_live name ys"
  unfolding one_live_def by (meson evolves_tagged order_trans)

lemma machineTag_toSDKTags [simp]: "machineTag (toSDKTags ts name cluster) = name"
  by (simp add: toSDKTags_def MachineNameTagKey_def)

section \<open>The handlers under the contract\<close>

context cloud_contract
begin

lemma describeInstance_account:
  assumes "describeInstance cl i w = (r, w')"
  shows "insts w' = insts w"
    and "r = Inr None \<Longrightarrow> x \<in> set (insts w) \<Longrightarrow> ci_Region x = reg \<Longrightarrow> inst_id x \<noteq> i"
    and "r = Inr (Some info) \<Longrightarrow> ii_InstanceID info = i
      \<and> (\<exists>x \<in> set (insts w). ci_Region x = reg \<and> inst_id x = i \<and> inst_state x = ii_State info)"
  using assms
  by (auto simp: describeInstance_def split: prod.splits sum.splits option.splits
      dest: describe_keeps describe_none describe_some)

lemma offload_account:
  "maybeOffloadUserData cl cluster m rg ud w = (r, m', w') \<Longrightarrow> insts w' = insts w"
  by (auto simp: maybeOffloadUserData_def Let_def split: if_splits option.splits sum.splits prod.splits
      dest: put_keeps)

lemma cleanup_account: "insts (cleanupOffloadedIgnition cl rg m w) = insts w"
  by (auto simp: cleanupOffloadedIgnition_def split: option.splits)
    (metis prod.exhaust_sel remove_keeps)

lemma harden_account: "maybeHardenMetadata cl mc m i w = (m', w') \<Longrightarrow> insts w' = insts w"
  by (auto simp: maybeHardenMetadata_def Let_def split: if_splits option.splits prod.splits
      dest: modify_keeps)

lemma create_account:
  assumes "CreateECSInstance cl (createParams machine cluster m reg img ud) w = (r, w')"
    and "om_UID (m_Meta m) \<noteq> []" "om_Name (mach_Meta machine) \<noteq> []"
  shows "grows reg (om_Name (mach_Meta machine)) (insts w) (insts w')"
  using create_adds [OF assms(1)] assms(2,3)
  by (simp add: createParams_def split_beta grows_def Let_def) blast

lemma createInstance_account:
  assumes call: "createInstance K cl machine cluster m w = (e, m', w')"
    and region: "resolveRegion m (Some cluster) = reg"
    and named: "om_UID (m_Meta m) \<noteq> []" "om_Name (mach_Meta machine) \<noteq> []"
  shows "grows reg (om_Name (mach_Meta machine)) (insts w) (insts w')"
  using call
proof (cases rule: createInstance_cases)
  case (noOffload ud err)
  with offload_account show ?thesis by fastforce
next
  case (rejected ud ud' w2 err)
  note off = rejected(2) [unfolded region]
  have "m_Meta m' = m_Meta m" using maybeOffloadUserData_frame(1) [OF off] by simp
  with create_account [OF rejected(3) [unfolded region]] named offload_account [OF off]
  show ?thesis by simp
next
  case (created ud ud' m2 w2 resp)
  note off = created(3) [unfolded region]
  have "m_Meta m2 = m_Meta m" using maybeOffloadUserData_frame(1) [OF off] by simp
  with create_account [OF created(4) [unfolded region]] named offload_account [OF off]
  show ?thesis by simp
qed simp_all

lemma findOrCreateInstance_account:
  assumes call: "findOrCreateInstance K cl machine cluster m w = (r, m', w')"
    and "resolveRegion m (Some cluster) = reg"
    and "om_UID (m_Meta m) \<noteq> []" "om_Name (mach_Meta machine) \<noteq> []"
  shows "grows reg (om_Name (mach_Meta machine)) (insts w) (insts w')"
  using call
proof (cases rule: findOrCreateInstance_cases)
  case (running i info w1)
  then have "insts w' = insts w" using describeInstance_account(1) harden_account by metis
  then show ?thesis by simp
qed (use createInstance_account assms(2-) describeInstance_account(1) in \<open>fastforce+\<close>)

lemma sweepAndRelease_account:
  assumes "sweepAndRelease U cl reg m w = (out, m', w')"
  shows "evolves (insts w) (insts w')"
    and "m' \<noteq> m \<Longrightarrow> insts w' = insts w \<and> m' = dropFinalizer U m
      \<and> (\<forall>x \<in> set (insts w). \<not> tagged reg MachineNameTagKey (om_Name (m_Meta m)) x)"
  using assms
  by (auto simp: sweepAndRelease_def split: prod.splits sum.splits if_splits option.splits
      dest: find_keeps find_none delete_evolves simp: cleanup_account)
    (metis delete_evolves find_keeps)+

lemma deletePresent_account:
  assumes "deletePresent U cl i info m w = (out, m', w')"
  shows "evolves (insts w) (insts w')" "m_Meta m' = m_Meta m"
  using assms
  by (auto simp: deletePresent_def deleteInstance_def Let_def split: prod.splits if_splits option.splits
      dest: delete_evolves)

end

text \<open>
  A client builder whose clients keep the contract, each for the region it was asked for.
\<close>

definition contract_builder :: "('w \<Rightarrow> CloudInst list) \<Rightarrow> 'w MachineReconciler \<Rightarrow> bool" where
  "contract_builder insts r \<longleftrightarrow>
     (\<forall>rg w c. r_ClientBuilder r rg w = Inr c \<longrightarrow> cloud_contract c insts rg)"

lemma contract_builderD:
  "contract_builder insts r \<Longrightarrow> r_ClientBuilder r rg w = Inr c \<Longrightarrow> cloud_contract c insts rg"
  by (simp add: contract_builder_def)

lemma reconcileNormal_account:
  assumes B: "contract_builder insts r" and call: "reconcileNormal r machine cluster m w = (out, m', w')"
    and named: "om_UID (m_Meta m) \<noteq> []" "om_Name (mach_Meta machine) \<noteq> []"
  shows "\<exists>rg. grows rg (om_Name (mach_Meta machine)) (insts w) (insts w')"
  using call
proof (cases rule: reconcileNormal_cases)
  case (reached m1 c ri m2)
  have meta: "om_UID (m_Meta m1) \<noteq> []" using resolveFailureDomain_frame(1) [OF reached(3)] named by simp
  show ?thesis
    using cloud_contract.findOrCreateInstance_account
      [OF contract_builderD [OF B reached(4)] reached(5) refl meta named(2)] by blast
qed auto

lemma reconcileDelete_account:
  assumes B: "contract_builder insts r" and call: "reconcileDelete r m w = (out, m', w')"
  shows "evolves (insts w) (insts w')"
  using call
proof (cases rule: reconcileDelete_cases)
  case (unrecorded rg c)
  from cloud_contract.sweepAndRelease_account(1) [OF contract_builderD [OF B unrecorded(2)] unrecorded(4)]
  show ?thesis .
next
  case (unknown rg c err)
  from cloud_contract.describeInstance_account(1) [OF contract_builderD [OF B unknown(2)] unknown(4)]
  show ?thesis by simp
next
  case (gone rg c w1)
  note C = contract_builderD [OF B gone(2)]
  from cloud_contract.describeInstance_account(1) [OF C gone(4)]
    cloud_contract.sweepAndRelease_account(1) [OF C gone(5)] show ?thesis by simp
next
  case (present rg c info w1)
  note C = contract_builderD [OF B present(2)]
  from cloud_contract.describeInstance_account(1) [OF C present(4)]
    cloud_contract.deletePresent_account(1) [OF C present(5)] show ?thesis by simp
qed simp_all

text \<open>
  When the finalizer list is touched, the account is untouched, and either nothing was ever
  recorded or the recorded instance and every live instance with the machine's tag are gone.
\<close>

lemma reconcileDelete_release:
  assumes B: "contract_builder insts r" and call: "reconcileDelete r m w = (out, m', w')"
    and dropped: "m_Meta m' \<noteq> m_Meta m"
  shows "insts w' = insts w \<and>
    ((\<exists>e. regionFromMachine m = Inl e) \<and> recordedInstanceID m = []
     \<or> (\<exists>rg. regionFromMachine m = Inr rg
          \<and> (\<forall>x \<in> set (insts w). \<not> tagged rg MachineNameTagKey (om_Name (m_Meta m)) x)
          \<and> (recordedInstanceID m \<noteq> [] \<longrightarrow>
               (\<forall>x \<in> set (insts w). ci_Region x = rg \<longrightarrow> inst_id x \<noteq> recordedInstanceID m))))"
  using call
proof (cases rule: reconcileDelete_cases)
  case (unrecorded rg c)
  have "m' \<noteq> healInstanceID m" using dropped by auto
  with cloud_contract.sweepAndRelease_account(2) [OF contract_builderD [OF B unrecorded(2)] unrecorded(4)]
    unrecorded show ?thesis by simp
next
  case (gone rg c w1)
  note C = contract_builderD [OF B gone(2)]
  have "m' \<noteq> healInstanceID m" using dropped by auto
  with cloud_contract.sweepAndRelease_account(2) [OF C gone(5)] gone
    cloud_contract.describeInstance_account(1,2) [OF C gone(4)] show ?thesis by auto
next
  case (present rg c info w1)
  note C = contract_builderD [OF B present(2)]
  from cloud_contract.deletePresent_account(2) [OF C present(5)] dropped show ?thesis by simp
qed (use dropped in auto)

section \<open>The machine's life\<close>

text \<open>
  The state is the stored object and the world.  The patch at the end of a reconcile may be
  lost as a whole or in one of its two halves (the status is written separately).
\<close>

definition persisted ::
  "AlibabaCloudMachine \<Rightarrow> AlibabaCloudMachine \<Rightarrow> AlibabaCloudMachine \<Rightarrow> bool" where
  "persisted old new stored \<longleftrightarrow>
     stored = new \<or> stored = old \<or> stored = new\<lparr>m_Status := m_Status old\<rparr>
     \<or> stored = old\<lparr>m_Status := m_Status new\<rparr>"

inductive life_step ::
  "'w MachineReconciler \<Rightarrow> ('w \<Rightarrow> CloudInst list) \<Rightarrow>
   AlibabaCloudMachine \<times> 'w \<Rightarrow> AlibabaCloudMachine \<times> 'w \<Rightarrow> bool"
  for r insts where
  reconcile: "reconcileFetched r m w = (out, m', w') \<Longrightarrow> persisted m m' m'' \<Longrightarrow>
    life_step r insts (m, w) (m'', w')"
| cloud_moves: "evolves (insts w) (insts w') \<Longrightarrow> life_step r insts (m, w) (m, w')"
| user_edits: "om_Name (m_Meta m') = om_Name (m_Meta m) \<Longrightarrow> om_UID (m_Meta m') = om_UID (m_Meta m) \<Longrightarrow>
    life_step r insts (m, w) (m', w)"

inductive_cases life_stepE: "life_step r insts (m, w) (m', w')"

abbreviation life ::
  "'w MachineReconciler \<Rightarrow> ('w \<Rightarrow> CloudInst list) \<Rightarrow>
   AlibabaCloudMachine \<times> 'w \<Rightarrow> AlibabaCloudMachine \<times> 'w \<Rightarrow> bool" where
  "life r insts \<equiv> (life_step r insts)\<^sup>*\<^sup>*"

text \<open>
  Whenever the look-up finds the Machine that owns the object with this UID, it is the one with
  this name, which need not be the object's own.
\<close>

definition owned_by :: "'w MachineReconciler \<Rightarrow> string \<Rightarrow> string \<Rightarrow> bool" where
  "owned_by r uid name \<longleftrightarrow>
     (\<forall>meta w mc. om_UID meta = uid \<longrightarrow> GetOwnerMachine (r_Kube r) meta w = Inr (Some mc) \<longrightarrow>
        om_Name (mach_Meta mc) = name)"

lemma reconcileFetched_cases:
  assumes "reconcileFetched r m w = (out, m', w')"
  obtains (deleting) "om_DeletionTimestamp (m_Meta m) \<noteq> None" "reconcileDelete r m w = (out, m', w')"
  | (skipped) "m' = m" "w' = w"
  | (normal) machine cluster where "om_DeletionTimestamp (m_Meta m) = None"
      "GetOwnerMachine (r_Kube r) (m_Meta m) w = Inr (Some machine)"
      "reconcileNormal r machine cluster m w = (out, m', w')"
proof (cases "om_DeletionTimestamp (m_Meta m)")
  case (Some t)
  with assms show ?thesis by (intro that(1)) (simp_all add: reconcileFetched_def)
next
  case None
  show ?thesis
  proof (cases "m' = m \<and> w' = w")
    case False
    with assms None that(3) show ?thesis
      by (auto simp: reconcileFetched_def Let_def split: sum.splits option.splits if_splits)
  qed (use that(2) in simp)
qed

lemma reconcileFetched_identity:
  assumes "reconcileFetched r m w = (out, m', w')"
  shows "om_Name (m_Meta m') = om_Name (m_Meta m)" "om_UID (m_Meta m') = om_UID (m_Meta m)"
proof -
  have "om_Name (m_Meta m') = om_Name (m_Meta m) \<and> om_UID (m_Meta m') = om_UID (m_Meta m)"
    using assms
  proof (cases rule: reconcileFetched_cases)
    case deleting
    from reconcileDelete_meta(1) [OF deleting(2)] show ?thesis by (auto simp: dropFinalizer_def)
  next
    case (normal machine cluster)
    from reconcileNormal_meta [OF normal(3)] show ?thesis by (simp add: addFinalizer_def)
  qed simp
  then show "om_Name (m_Meta m') = om_Name (m_Meta m)" "om_UID (m_Meta m') = om_UID (m_Meta m)" by simp_all
qed

definition life_inv ::
  "string \<Rightarrow> string \<Rightarrow> ('w \<Rightarrow> CloudInst list) \<Rightarrow> AlibabaCloudMachine \<times> 'w \<Rightarrow> bool" where
  "life_inv uid name insts s \<longleftrightarrow> om_UID (m_Meta (fst s)) = uid \<and> one_live name (insts (snd s))"

lemma persisted_identity:
  "persisted m m' m'' \<Longrightarrow> om_Name (m_Meta m') = om_Name (m_Meta m) \<Longrightarrow>
   om_UID (m_Meta m') = om_UID (m_Meta m) \<Longrightarrow>
   om_Name (m_Meta m'') = om_Name (m_Meta m) \<and> om_UID (m_Meta m'') = om_UID (m_Meta m)"
  by (auto simp: persisted_def)

lemma reconcileFetched_one_live:
  assumes B: "contract_builder insts r" "owned_by r uid name" and run: "reconcileFetched r m w = (out, m', w')"
    and inv: "life_inv uid name insts (m, w)" "name \<noteq> []" "uid \<noteq> []"
  shows "one_live name (insts w')"
  using run
proof (cases rule: reconcileFetched_cases)
  case deleting
  with reconcileDelete_account [OF B(1)] evolves_one_live inv show ?thesis
    by (fastforce simp: life_inv_def)
next
  case (normal machine cluster)
  have owner: "om_Name (mach_Meta machine) = name"
    using normal(2) B(2) inv by (auto simp: owned_by_def life_inv_def)
  from reconcileNormal_account [OF B(1) normal(3)] owner inv
  obtain rg where "grows rg name (insts w) (insts w')" by (auto simp: life_inv_def)
  with grows_one_live inv show ?thesis by (simp add: life_inv_def)
qed (use inv in \<open>simp add: life_inv_def\<close>)

lemma life_step_inv:
  assumes B: "contract_builder insts r" "owned_by r uid name" and "name \<noteq> []" "uid \<noteq> []"
    and step: "life_step r insts s s'" and inv: "life_inv uid name insts s"
  shows "life_inv uid name insts s'"
  using step
proof cases
  case (reconcile m w out m' w' m'')
  from reconcileFetched_one_live [OF B reconcile(3)] inv reconcile assms(3,4)
  have "one_live name (insts w')" by simp
  with persisted_identity [OF reconcile(4) reconcileFetched_identity [OF reconcile(3)]] inv reconcile(1,2)
  show ?thesis by (simp add: life_inv_def)
next
  case (cloud_moves w w' m)
  with inv evolves_one_live show ?thesis by (auto simp: life_inv_def)
next
  case (user_edits m' m w)
  with inv show ?thesis by (simp add: life_inv_def)
qed

lemma life_invariant:
  assumes "contract_builder insts r" "owned_by r uid name" "name \<noteq> []" "uid \<noteq> []"
    and "life r insts s s'" and "life_inv uid name insts s"
  shows "life_inv uid name insts s'"
  using assms(5,6) by (induction rule: rtranclp_induct) (auto intro: life_step_inv [OF assms(1-4)])

section \<open>Deletion makes progress\<close>

text \<open>A client whose calls answer.\<close>

definition answering :: "'w Client \<Rightarrow> bool" where
  "answering c \<longleftrightarrow>
     (\<forall>i w. \<exists>d w'. DescribeInstanceByID c i w = (Inr d, w'))
     \<and> (\<forall>rg k v w. \<exists>i w'. FindInstanceByTag c rg k v w = (Inr i, w'))
     \<and> (\<forall>i f w. \<exists>w'. DeleteECSInstance c i f w = (None, w'))"

definition answering_builder :: "'w MachineReconciler \<Rightarrow> bool" where
  "answering_builder r \<longleftrightarrow> (\<forall>rg w. \<exists>c. r_ClientBuilder r rg w = Inr c \<and> answering c)"

text \<open>The instances a delete reconcile of the machine is after, and how far they have to go in all.\<close>

definition own :: "string \<Rightarrow> AlibabaCloudMachine \<Rightarrow> CloudInst \<Rightarrow> bool" where
  "own rg m x \<longleftrightarrow>
     ci_Region x = rg
     \<and> ((MachineNameTagKey, om_Name (m_Meta m)) \<in> set (ci_Tags x) \<or> inst_id x = recordedInstanceID m)"

definition to_go :: "(CloudInst \<Rightarrow> bool) \<Rightarrow> CloudInst list \<Rightarrow> nat" where
  "to_go P xs = sum_list (map (\<lambda>x. Suc (phase x)) (filter P xs))"

definition leaving :: "CloudInst \<Rightarrow> bool" where
  "leaving x \<longleftrightarrow> inst_state x \<in> {InstanceStateStopping, InstanceStateDeleted}"

lemma to_go_bound: "to_go P xs \<le> 4 * length (filter P xs)"
  by (induction xs) (auto simp: to_go_def phase_def)

lemma own_winding: "winding y x \<Longrightarrow> own rg m y = own rg m x"
  by (simp add: winding_def same_inst_def own_def)

lemma leaving_phase: "leaving x \<longleftrightarrow> phase x = 0 \<or> phase x = 2"
  by (simp add: leaving_def phase_def InstanceState_defs)

lemma declines_own: "declines xs ys \<Longrightarrow> declines (filter (own rg m) xs) (filter (own rg m) ys)"
  unfolding declines_def by (erule emb_filter) (rule own_winding)

lemma releases_own: "releases i xs ys \<Longrightarrow> releases i (filter (own rg m) xs) (filter (own rg m) ys)"
  unfolding releases_def by (erule emb_filter) (simp add: own_winding released_def)

lemma declines_to_go:
  "declines (filter P xs) (filter P ys) \<Longrightarrow> to_go P ys \<le> to_go P xs"
  unfolding declines_def to_go_def by (erule emb_weight) (simp add: winding_def)

text \<open>Nothing moved: every instance is where it was.\<close>

lemma declines_stuck:
  assumes "declines (filter P xs) (filter P ys)" and "to_go P xs \<le> to_go P ys" and "x \<in> set xs" "P x"
  shows "\<exists>y \<in> set ys. P y \<and> inst_id y = inst_id x \<and> phase y = phase x"
proof (rule ccontr)
  assume none: "\<not> ?thesis"
  have "to_go P ys < to_go P xs"
    unfolding to_go_def
    by (rule emb_weight_less [OF assms(1) [unfolded declines_def], of _ x])
      (use none assms(3,4) in \<open>auto simp: winding_def same_inst_def le_less\<close>)
  with assms(2) show False by simp
qed

lemma releases_to_go:
  assumes "releases (inst_id x) xs ys" and "x \<in> set xs" "own rg m x" and "\<not> leaving x"
  shows "to_go (own rg m) ys < to_go (own rg m) xs"
  unfolding to_go_def
proof (rule emb_weight_less [OF releases_own [OF assms(1), unfolded releases_def], of _ x])
  fix y assume "released (inst_id x) y x"
  moreover have "phase x = 1 \<or> phase x = 3" using assms(4) by (auto simp: leaving_phase phase_def)
  ultimately show "Suc (phase y) < Suc (phase x)" by (auto simp: released_def)
qed (use assms(2,3) in \<open>auto simp: released_def winding_def\<close>)

lemma healed_instance:
  "recordedInstanceID m \<noteq> [] \<Longrightarrow> mst_InstanceID (m_Status (healInstanceID m)) = Some (recordedInstanceID m)"
  by (auto simp: healInstanceID_def recordedInstanceID_def split: option.splits)

lemma recorded_healed [simp]: "recordedInstanceID (healInstanceID m) = recordedInstanceID m"
  by (auto simp: healInstanceID_def recordedInstanceID_def split: option.splits)

lemma answering_delete:
  assumes "answering c" and "DeleteECSInstance c i f w = (e, w')"
  shows "e = None"
  using assms unfolding answering_def by (metis fst_conv)

text \<open>
  What a pass that keeps the finalizer does for the machine's own instances: it brings one of them
  further, or finds one that is leaving by itself.
\<close>

definition pass_helps ::
  "string \<Rightarrow> AlibabaCloudMachine \<Rightarrow> CloudInst list \<Rightarrow> CloudInst list \<Rightarrow> bool" where
  "pass_helps rg m xs ys \<longleftrightarrow>
     declines xs ys
     \<and> (to_go (own rg m) ys < to_go (own rg m) xs \<or> (\<exists>x \<in> set xs. own rg m x \<and> leaving x))"

context cloud_contract
begin

lemma delete_helps:
  assumes "DeleteECSInstance cl (inst_id x) force w = (None, w')" and "x \<in> set (insts w)" "own reg m x"
  shows "pass_helps reg m (insts w) (insts w')"
  unfolding pass_helps_def
  using delete_declines [OF assms(1)] releases_to_go [OF delete_releases [OF assms(1)] assms(2,3)] assms(2,3)
  by blast

lemma deletePresent_helps:
  assumes call: "deletePresent U cl (recordedInstanceID m) info (healInstanceID m) w = (out, m', w')"
    and A: "answering cl" and id: "recordedInstanceID m \<noteq> []"
    and x: "x \<in> set (insts w)" "ci_Region x = reg" "inst_id x = recordedInstanceID m" "inst_state x = ii_State info"
  shows "pass_helps reg m (insts w) (insts w') \<and> m_Spec m' = m_Spec m \<and> recordedInstanceID m' = recordedInstanceID m"
proof -
  have own: "own reg m x" using x by (simp add: own_def)
  obtain e w1 where d: "DeleteECSInstance cl (recordedInstanceID m) True w = (e, w1)" by fastforce
  with answering_delete [OF A d] have d: "DeleteECSInstance cl (recordedInstanceID m) True w = (None, w1)" by simp
  have "w' = (if leaving x then w else w1)"
    using call d healed_instance [OF id] x(4)
    by (auto simp: deletePresent_def deleteInstance_def leaving_def Let_def split: if_splits)
  moreover have "pass_helps reg m (insts w) (insts w1)" using delete_helps [of x True w w1 m] d x own by simp
  moreover have "pass_helps reg m (insts w) (insts w)" if "leaving x"
    using that x own by (auto simp: pass_helps_def)
  moreover have "m_Spec m' = m_Spec (healInstanceID m)"
    "mst_InstanceID (m_Status m') = mst_InstanceID (m_Status (healInstanceID m))"
    using call by (auto simp: deletePresent_def Let_def split: if_splits prod.splits option.splits)
  moreover from this healed_instance [OF id] have "recordedInstanceID m' = recordedInstanceID m"
    by (simp add: recordedInstanceID_def)
  ultimately show ?thesis by (auto simp: healInstanceID_def)
qed

lemma sweep_helps:
  assumes call: "sweepAndRelease U cl reg m w = (out, m', w')" and A: "answering cl"
  shows "m' = dropFinalizer U m \<or> m' = m \<and> pass_helps reg m (insts w) (insts w')"
  using call
proof (cases rule: sweepAndRelease_cases)
  case (sweepFailed e)
  with A show ?thesis unfolding answering_def by (metis Inl_Inr_False Pair_inject)
next
  case (orphanKept i w1 e)
  from answering_delete [OF A orphanKept(3)] show ?thesis by simp
next
  case (orphanDeleted i w1)
  from find_some [OF orphanDeleted(1,2)] obtain x where
    x: "x \<in> set (insts w)" "tagged reg MachineNameTagKey (om_Name (m_Meta m)) x" "inst_id x = i" by blast
  then have "own reg m x" by (simp add: own_def tagged_def)
  with delete_helps [of x True w1 w' m] orphanDeleted(3) x find_keeps [OF orphanDeleted(1)]
  have "pass_helps reg m (insts w) (insts w')" by simp
  with orphanDeleted(5) show ?thesis by simp
qed simp

end

lemma pass_helps_cong:
  "om_Name (m_Meta m') = om_Name (m_Meta m) \<Longrightarrow> recordedInstanceID m' = recordedInstanceID m \<Longrightarrow>
   pass_helps rg m' = pass_helps rg m"
proof -
  assume "om_Name (m_Meta m') = om_Name (m_Meta m)" "recordedInstanceID m' = recordedInstanceID m"
  then have own: "own rg m' = own rg m" by (simp add: own_def fun_eq_iff)
  show ?thesis by (intro ext) (simp add: pass_helps_def own)
qed

text \<open>A pass releases the machine or helps.\<close>

lemma delete_progress:
  assumes B: "contract_builder insts r" "answering_builder r"
    and region: "regionFromMachine m = Inr rg" and call: "reconcileDelete r m w = (out, m', w')"
  shows "m_Meta m' = m_Meta (dropFinalizer (r_Util r) m)
    \<or> m_Meta m' = m_Meta m \<and> m_Spec m' = m_Spec m \<and> recordedInstanceID m' = recordedInstanceID m
      \<and> pass_helps rg m (insts w) (insts w')"
proof -
  obtain c0 where c0: "r_ClientBuilder r rg w = Inr c0" "answering c0"
    using B(2) unfolding answering_builder_def by blast
  note C = contract_builderD [OF B(1) c0(1)]
  have heal: "m_Meta (healInstanceID m) = m_Meta m" "m_Spec (healInstanceID m) = m_Spec m"
    "m_Meta (dropFinalizer (r_Util r) (healInstanceID m)) = m_Meta (dropFinalizer (r_Util r) m)"
    by (simp_all add: healInstanceID_def dropFinalizer_def)
  have sweep: ?thesis if "sweepAndRelease (r_Util r) c0 rg (healInstanceID m) v = (out, m', w')"
    and "insts v = insts w" for v
    using cloud_contract.sweep_helps [OF C that(1) c0(2)] heal pass_helps_cong [of "healInstanceID m" m rg] that(2)
    by auto
  show ?thesis
    using call
  proof (cases rule: reconcileDelete_cases)
    case (unrecorded rg' c)
    with region c0 sweep show ?thesis by simp
  next
    case (unknown rg' c err)
    with region c0 have "describeInstance c0 (recordedInstanceID m) w = (Inl err, w')" by simp
    moreover obtain d v where "DescribeInstanceByID c0 (recordedInstanceID m) w = (Inr d, v)"
      using c0(2) unfolding answering_def by blast
    ultimately show ?thesis by (simp add: describeInstance_def split: option.splits)
  next
    case (gone rg' c w1)
    with region c0 have "describeInstance c0 (recordedInstanceID m) w = (Inr None, w1)"
      "sweepAndRelease (r_Util r) c0 rg (healInstanceID m) w1 = (out, m', w')" by simp_all
    with cloud_contract.describeInstance_account(1) [OF C] sweep show ?thesis by blast
  next
    case (present rg' c info w1)
    with region c0 have p: "describeInstance c0 (recordedInstanceID m) w = (Inr (Some info), w1)"
      "deletePresent (r_Util r) c0 (recordedInstanceID m) info (healInstanceID m) w1 = (out, m', w')" by simp_all
    from cloud_contract.describeInstance_account(1,3) [OF C p(1)] obtain x where
      x: "insts w1 = insts w" "x \<in> set (insts w)" "ci_Region x = rg" "inst_id x = recordedInstanceID m"
      "inst_state x = ii_State info" by auto
    with cloud_contract.deletePresent_helps [OF C p(2) c0(2) present(3), of x]
      cloud_contract.deletePresent_account(2) [OF C p(2)] heal
    show ?thesis by simp
  qed (use region c0 in simp_all)
qed

section \<open>Runs of delete passes\<close>

text \<open>
  A run as a sequence of the object and the world before each pass.  Every patch is written; until
  the next pass the machine's own instances may go further on their way out, nobody revives them or
  adds one, and the rest of the account is free.  The run is timely if none of its instances stays
  in \<open>Stopping\<close>, or as a \<open>Deleted\<close> record, for more than \<open>T\<close> passes after the one that finds it so.
\<close>

definition held :: "AlibabaCloudMachine \<Rightarrow> bool" where
  "held m \<longleftrightarrow> MachineFinalizer \<in> set (om_Finalizers (m_Meta m))"

definition deletion_run ::
  "'w MachineReconciler \<Rightarrow> ('w \<Rightarrow> CloudInst list) \<Rightarrow> string \<Rightarrow> (nat \<Rightarrow> AlibabaCloudMachine \<times> 'w) \<Rightarrow> bool" where
  "deletion_run r insts rg s \<longleftrightarrow>
     (\<forall>k. held (fst (s k)) \<longrightarrow>
        (\<exists>out w'. reconcileDelete r (fst (s k)) (snd (s k)) = (out, fst (s (Suc k)), w')
           \<and> declines (filter (own rg (fst (s 0))) (insts w'))
                (filter (own rg (fst (s 0))) (insts (snd (s (Suc k)))))))"

definition timely ::
  "nat \<Rightarrow> ('w \<Rightarrow> CloudInst list) \<Rightarrow> string \<Rightarrow> (nat \<Rightarrow> AlibabaCloudMachine \<times> 'w) \<Rightarrow> bool" where
  "timely T insts rg s \<longleftrightarrow>
     (\<forall>k i p. p \<in> {0, 2} \<longrightarrow>
        \<not> (\<forall>j \<le> T. held (fst (s (k + j)))
             \<and> (\<exists>x \<in> set (insts (snd (s (k + j)))). own rg (fst (s 0)) x \<and> inst_id x = i \<and> phase x = p)))"

text \<open>The object keeps what the passes go by.\<close>

definition on_course :: "(nat \<Rightarrow> AlibabaCloudMachine \<times> 'w) \<Rightarrow> nat \<Rightarrow> bool" where
  "on_course s k \<longleftrightarrow>
     om_Name (m_Meta (fst (s k))) = om_Name (m_Meta (fst (s 0))) \<and> m_Spec (fst (s k)) = m_Spec (fst (s 0))
     \<and> recordedInstanceID (fst (s k)) = recordedInstanceID (fst (s 0))"

abbreviation load :: "('w \<Rightarrow> CloudInst list) \<Rightarrow> string \<Rightarrow> (nat \<Rightarrow> AlibabaCloudMachine \<times> 'w) \<Rightarrow> nat \<Rightarrow> nat" where
  "load insts rg s k \<equiv> to_go (own rg (fst (s 0))) (insts (snd (s k)))"

definition fair_run :: "'w MachineReconciler \<Rightarrow> ('w \<Rightarrow> CloudInst list) \<Rightarrow> string \<Rightarrow> (nat \<Rightarrow> AlibabaCloudMachine \<times> 'w) \<Rightarrow> bool" where
  "fair_run r insts rg s \<longleftrightarrow>
     contract_builder insts r \<and> answering_builder r \<and> capi_util_laws (r_Util r)
     \<and> deletion_run r insts rg s \<and> regionFromMachine (fst (s 0)) = Inr rg"

lemma run_step:
  assumes run: "fair_run r insts rg s" and k: "held (fst (s k))" "held (fst (s (Suc k)))" and inv: "on_course s k"
  shows "on_course s (Suc k)"
    and "declines (filter (own rg (fst (s 0))) (insts (snd (s k)))) (filter (own rg (fst (s 0))) (insts (snd (s (Suc k)))))"
    and "load insts rg s (Suc k) < load insts rg s k \<or> (\<exists>x \<in> set (insts (snd (s k))). own rg (fst (s 0)) x \<and> leaving x)"
proof -
  let ?P = "own rg (fst (s 0))"
  have B: "contract_builder insts r" "answering_builder r" "capi_util_laws (r_Util r)"
    and region: "regionFromMachine (fst (s 0)) = Inr rg" using run by (simp_all add: fair_run_def)
  from run k(1) obtain out w' where call: "reconcileDelete r (fst (s k)) (snd (s k)) = (out, fst (s (Suc k)), w')"
    and env: "declines (filter ?P (insts w')) (filter ?P (insts (snd (s (Suc k)))))"
    unfolding fair_run_def deletion_run_def by blast
  have "regionFromMachine (fst (s k)) = Inr rg"
    using region inv unfolding on_course_def regionFromMachine_def by (simp only:)
  from delete_progress [OF B(1,2) this call] k(2) capi_util_laws.finalizer_removed [OF B(3)]
  have step: "m_Meta (fst (s (Suc k))) = m_Meta (fst (s k))" "m_Spec (fst (s (Suc k))) = m_Spec (fst (s k))"
    "recordedInstanceID (fst (s (Suc k))) = recordedInstanceID (fst (s k))"
    "pass_helps rg (fst (s k)) (insts (snd (s k))) (insts w')"
    by (auto simp: held_def dropFinalizer_def)
  then show "on_course s (Suc k)" using inv by (simp add: on_course_def)
  have better: "pass_helps rg (fst (s 0)) (insts (snd (s k))) (insts w')"
    using step(4) pass_helps_cong [of "fst (s k)" "fst (s 0)" rg] inv by (simp add: on_course_def)
  then show "declines (filter ?P (insts (snd (s k)))) (filter ?P (insts (snd (s (Suc k)))))"
    using declines_trans [OF declines_own env] by (simp add: pass_helps_def)
  show "load insts rg s (Suc k) < load insts rg s k \<or> (\<exists>x \<in> set (insts (snd (s k))). ?P x \<and> leaving x)"
    using better declines_to_go [OF env] by (auto simp: pass_helps_def)
qed

lemma run_on_course:
  assumes "fair_run r insts rg s"
  shows "(\<And>j. j \<le> k \<Longrightarrow> held (fst (s j))) \<Longrightarrow> on_course s k"
proof (induction k)
  case (Suc k)
  then show ?case using run_step(1) [OF assms, of k] by simp
qed (simp add: on_course_def)

lemma run_load:
  assumes run: "fair_run r insts rg s" and up: "\<And>j. j \<le> n \<Longrightarrow> held (fst (s j))"
  shows "k \<le> n \<Longrightarrow> load insts rg s n \<le> load insts rg s k"
proof (induction rule: inc_induct)
  case (step j)
  then have h: "held (fst (s j))" "held (fst (s (Suc j)))" "on_course s j"
    using up run_on_course [OF run, of j] by simp_all
  from declines_to_go [OF run_step(2) [OF run h]] step.IH show ?case by simp
qed simp

text \<open>In a timely run, \<open>T + 1\<close> passes bring the machine's instances further.\<close>

lemma window:
  assumes run: "fair_run r insts rg s" and timely: "timely T insts rg s"
    and up: "\<And>j. j \<le> k + Suc T \<Longrightarrow> held (fst (s j))"
  shows "load insts rg s (k + Suc T) < load insts rg s k"
proof (rule ccontr)
  let ?P = "own rg (fst (s 0))"
  assume "\<not> ?thesis"
  moreover have "load insts rg s (k + Suc T) \<le> load insts rg s (k + a)" if "a \<le> Suc T" for a
    by (rule run_load [OF run up]) (use that in simp_all)
  moreover have "load insts rg s (k + a) \<le> load insts rg s k" if "a \<le> Suc T" for a
    by (rule run_load [OF run]) (use that up in simp_all)
  ultimately have same: "load insts rg s (k + a) = load insts rg s k" if "a \<le> Suc T" for a
    using that by (meson le_antisym not_less order_trans)
  have course: "on_course s (k + a)" if "a \<le> T" for a using run_on_course [OF run] up that by simp
  from run_step(3) [OF run up up, of k] course [of 0] same [of 1] obtain x where
    x: "x \<in> set (insts (snd (s k)))" "?P x" "leaving x" by auto
  have stays: "\<exists>y \<in> set (insts (snd (s (k + a)))). ?P y \<and> inst_id y = inst_id x \<and> phase y = phase x" if "a \<le> T" for a
    using that
  proof (induction a)
    case 0
    with x show ?case by auto
  next
    case (Suc a)
    then obtain y where y: "y \<in> set (insts (snd (s (k + a))))" "?P y" "inst_id y = inst_id x" "phase y = phase x" by auto
    have "declines (filter ?P (insts (snd (s (k + a))))) (filter ?P (insts (snd (s (Suc (k + a))))))"
      by (rule run_step(2) [OF run]) (use Suc.prems up course in simp_all)
    from declines_stuck [OF this _ y(1,2)] y(3,4) same [of a] same [of "Suc a"] Suc.prems show ?case by simp
  qed
  have "phase x \<in> {0, 2}" using x(3) by (simp add: leaving_phase)
  with timely stays up show False unfolding timely_def by (metis add_le_cancel_left le_SucI)
qed

lemma delete_terminates:
  assumes run: "fair_run r insts rg s" and timely: "timely T insts rg s"
  shows "\<exists>n \<le> (T + 1) * (4 * length (filter (own rg (fst (s 0))) (insts (snd (s 0))))) + 1. \<not> held (fst (s n))"
proof (rule ccontr)
  define D where "D = 4 * length (filter (own rg (fst (s 0))) (insts (snd (s 0))))"
  let ?N = "(T + 1) * D"
  assume "\<not> ?thesis"
  then have up: "held (fst (s n))" if "n \<le> ?N + 1" for n using that by (auto simp: D_def)
  have "load insts rg s ((T + 1) * j) + j \<le> D" if "j \<le> D" for j
    using that
  proof (induction j)
    case 0
    show ?case using to_go_bound by (simp add: D_def)
  next
    case (Suc j)
    have "(T + 1) * Suc j \<le> ?N" using Suc.prems by (rule mult_le_mono2)
    then have "load insts rg s ((T + 1) * j + Suc T) < load insts rg s ((T + 1) * j)"
      by (intro window [OF run timely]) (simp add: up)
    with Suc show ?case by (simp add: add.commute)
  qed
  from this [of D] have none: "load insts rg s ?N = 0" by simp
  have "on_course s ?N" by (rule run_on_course [OF run]) (simp add: up)
  from run_step(3) [OF run up up this] none obtain x where
    "x \<in> set (insts (snd (s ?N)))" "own rg (fst (s 0)) x" by auto
  with none show False by (auto simp: to_go_def filter_empty_conv)
qed

end
