(* ===== verification/Sim_Cloud.thy ===== *)
theory Sim_Cloud
  imports Cloud_Contract
begin

text \<open>
  A small executable ECS account: it lists by identifier and by tag, makes one instance per
  client token, stops and releases instances.  It is interpreted as an \<open>ecs_service\<close>, which
  shows that the laws can hold together, and the witnesses run on it.
\<close>

record SimCloud =
  sim_insts :: "CloudInst list"
  sim_next :: nat

definition sim_acct :: "SimCloud \<Rightarrow> CloudInst list" where
  "sim_acct c = filter (\<lambda>x. inst_id x \<noteq> []) (sim_insts c)"

definition sim_list :: "string \<Rightarrow> DescribeInstancesRequest \<Rightarrow> SimCloud \<Rightarrow> EcsInstance list" where
  "sim_list region q c =
     map ci_Inst (filter (\<lambda>x.
       if dir_InstanceIds q \<noteq> []
       then ci_Region x = region \<and> dir_InstanceIds q = ''[\"'' @ inst_id x @ ''\"]''
       else ci_Region x = dir_RegionId q \<and> list_all (\<lambda>t. t \<in> set (ci_Tags x)) (dir_Tag q))
       (sim_acct c))"

text \<open>A new identifier is longer than all the others together.\<close>

definition sim_fresh :: "SimCloud \<Rightarrow> string" where
  "sim_fresh c = ''i-'' @ itoa (int (sim_next c)) @
     replicate (sum_list (map (\<lambda>x. length (inst_id x)) (sim_insts c))) (CHR ''0'')"

definition sim_new :: "RunInstancesRequest \<Rightarrow> string \<Rightarrow> CloudInst" where
  "sim_new rq i =
     \<lparr>ci_Inst = \<lparr>ei_InstanceId = i, ei_Status = ''Pending'',
                ei_HostName = rq_HostName rq, ei_InnerIpAddress = [''10.0.0.1''],
                ei_PublicIpAddress = []\<rparr>,
      ci_Region = rq_RegionId rq, ci_Tags = rq_Tag rq, ci_Token = rq_ClientToken rq\<rparr>"

definition sim_run :: "RunInstancesRequest \<Rightarrow> SimCloud \<Rightarrow> (go_error + string list) \<times> SimCloud" where
  "sim_run rq c =
     (case find (\<lambda>x. rq_ClientToken rq \<noteq> [] \<and> ci_Token x = rq_ClientToken rq) (sim_acct c) of
        Some x \<Rightarrow>
          (if ci_Region x = rq_RegionId rq then Inr [inst_id x]
           else Inl (ServerError ''IdempotentParameterMismatch'' 400 (Lit [])), c)
      | None \<Rightarrow>
          (Inr [sim_fresh c],
           c\<lparr>sim_insts := sim_insts c @ [sim_new rq (sim_fresh c)], sim_next := sim_next c + 1\<rparr>))"

definition stop_inst :: "string \<Rightarrow> CloudInst \<Rightarrow> CloudInst" where
  "stop_inst i x = (if inst_id x = i \<and> inst_state x \<noteq> ''Deleted''
     then x\<lparr>ci_Inst := (ci_Inst x)\<lparr>ei_Status := ''Stopped''\<rparr>\<rparr> else x)"

definition sim_stop :: "string \<Rightarrow> SimCloud \<Rightarrow> SimCloud" where
  "sim_stop i c = c\<lparr>sim_insts := map (stop_inst i) (sim_insts c)\<rparr>"

definition sim_release :: "string \<Rightarrow> SimCloud \<Rightarrow> SimCloud" where
  "sim_release i c = c\<lparr>sim_insts := others i (sim_insts c)\<rparr>"

definition sim_ecs :: "string \<Rightarrow> SimCloud EcsClient" where
  "sim_ecs region =
     \<lparr>ecs_RunInstances = sim_run,
      ecs_DescribeInstances = (\<lambda>q c. (Inr (sim_list region q c), c)),
      ecs_StopInstance = (\<lambda>q c. (Inr (), sim_stop (sr_InstanceId q) c)),
      ecs_DeleteInstance = (\<lambda>q c. (Inr (), sim_release (dr_InstanceId q) c)),
      ecs_ModifyInstanceMetadataOptions = (\<lambda>q c. (Inr (), c)),
      ecs_DescribeInstanceTypes =
        (\<lambda>ts c. (Inr (map (\<lambda>t. \<lparr>it_InstanceTypeId = t, it_CpuCoreCount = 4, it_MemorySize = 16\<rparr>) ts), c)),
      ecs_DescribeDisks = (\<lambda>rg i c. (Inr [''d-1''], c)),
      ecs_DescribeNetworkInterfaces = (\<lambda>rg i c. (Inr [''eni-1''], c)),
      ecs_TagResources = (\<lambda>q c. (Inr (), c))\<rparr>"

definition sim_oss :: "SimCloud OssSdk" where
  "sim_oss =
     \<lparr>oss_New = (\<lambda>h c. None), oss_Bucket = (\<lambda>h b c. None),
      oss_PutObject = (\<lambda>h b k d c. (None, c)),
      oss_SignURL = (\<lambda>h b k m n c. Inr (''https://oss/'' @ k)),
      oss_DeleteObject = (\<lambda>h b k c. (None, c))\<rparr>"

text \<open>The starting process state: no instances, zero counters, a constant random stream.\<close>

definition sim_world :: "CloudInst list \<Rightarrow> SimCloud World" where
  "sim_world xs =
     \<lparr>metrics = \<lparr>CloudAPIRequests = (\<lambda>_. 0), CloudAPIRequestDuration = (\<lambda>_. 0),
                CloudAPIThrottleRetries = (\<lambda>_. 0), InstanceOps = (\<lambda>_. 0)\<rparr>,
      sleeps = [], rands = (\<lambda>_. 7), rand_pos = 0, cloud = \<lparr>sim_insts = xs, sim_next = 1\<rparr>\<rparr>"

definition sim_env :: "string \<Rightarrow> string" where
  "sim_env k = (if k = ''ALIBABA_CLOUD_ACCESS_KEY_ID'' then ''ak''
                else if k = ''ALIBABA_CLOUD_ACCESS_KEY_SECRET'' then ''sk'' else [])"

abbreviation sim_insts_of :: "SimCloud World \<Rightarrow> CloudInst list" where
  "sim_insts_of w \<equiv> sim_acct (cloud w)"

definition sim_client :: "string \<Rightarrow> SimCloud World Client" where
  "sim_client region = alibabacloudClient (sim_ecs region) sim_oss sim_env"

section \<open>The interpretation\<close>

lemma sim_new_id [simp]: "inst_id (sim_new rq i) = i"
  by (simp add: sim_new_def)

lemma sim_fresh_named: "sim_fresh c \<noteq> []"
  by (simp add: sim_fresh_def)

lemma sim_fresh_unused: "x \<in> set (sim_insts c) \<Longrightarrow> inst_id x \<noteq> sim_fresh c"
proof -
  assume "x \<in> set (sim_insts c)"
  then have "length (inst_id x) \<le> sum_list (map (\<lambda>x. length (inst_id x)) (sim_insts c))"
    by (intro member_le_sum_list) auto
  then have "length (inst_id x) < length (sim_fresh c)" by (simp add: sim_fresh_def)
  then show ?thesis by auto
qed

lemma releases_others: "releases i xs (others i xs)"
  unfolding releases_def others_def
  by (induction xs) (auto simp: released_def winding_def same_inst_def)

lemma declines_map_filter:
  "(\<And>x. winding (f x) x) \<Longrightarrow> declines (filter (\<lambda>x. inst_id x \<noteq> []) xs) (filter (\<lambda>x. inst_id x \<noteq> []) (map f xs))"
  unfolding declines_def by (induction xs) (auto simp: winding_def same_inst_def)

lemma stop_inst_winding: "winding (stop_inst i x) x"
  by (simp add: stop_inst_def winding_def same_inst_def phase_def)

lemma stop_inst_frame [simp]: "inst_id (stop_inst i x) = inst_id x"
  by (simp add: stop_inst_def)

lemma sim_stop_acct:
  "declines (sim_acct c) (sim_acct (sim_stop i c))" "others i (sim_acct (sim_stop i c)) = others i (sim_acct c)"
proof -
  show "declines (sim_acct c) (sim_acct (sim_stop i c))"
    by (simp add: sim_acct_def sim_stop_def declines_map_filter stop_inst_winding)
  have "others i (filter (\<lambda>x. inst_id x \<noteq> []) (map (stop_inst i) xs))
      = others i (filter (\<lambda>x. inst_id x \<noteq> []) xs)" for xs
    unfolding others_def by (induction xs) (auto simp: stop_inst_def)
  then show "others i (sim_acct (sim_stop i c)) = others i (sim_acct c)"
    by (simp add: sim_acct_def sim_stop_def)
qed

lemma sim_release_acct: "sim_acct (sim_release i c) = others i (sim_acct c)"
  by (simp add: sim_acct_def sim_release_def others_def conj_commute)

lemma others_facts:
  "declines xs (others i xs)" "others i (others i xs) = others i xs"
  "x \<in> set (others i xs) \<longleftrightarrow> x \<in> set xs \<and> inst_id x \<noteq> i"
  using releases_declines [OF releases_others] by (auto simp: others_def)

lemma sim_acct_named: "x \<in> set (sim_acct c) \<Longrightarrow> inst_id x \<noteq> []"
  by (simp add: sim_acct_def)

lemma sim_run_acct:
  "sim_run rq c = (r, c') \<Longrightarrow>
   acct_c = sim_acct c \<Longrightarrow> sim_acct c' = acct_c
     \<or> (find (\<lambda>x. rq_ClientToken rq \<noteq> [] \<and> ci_Token x = rq_ClientToken rq) acct_c = None
        \<and> sim_acct c' = acct_c @ [sim_new rq (sim_fresh c)])"
  using sim_fresh_named [of c] by (auto simp: sim_run_def sim_acct_def split: option.splits if_splits)

lemma sim_run_ok:
  "sim_run rq c = (Inr (i # is'), c') \<Longrightarrow>
   \<exists>x \<in> set (sim_acct c'). ci_Region x = rq_RegionId rq \<and> inst_id x = i"
  using sim_fresh_named [of c]
  by (auto simp: sim_run_def sim_acct_def sim_new_def dest!: find_SomeD split: option.splits if_splits)

interpretation sim: ecs_service "sim_ecs rg" sim_oss getenv sim_acct rg for rg getenv
proof (unfold_locales, goal_cases)
  case (5 rq c r' c')
  then show ?case using sim_run_acct [of rq c r' c' "sim_acct c"]
    by (auto simp: sim_ecs_def sim_new_def)
next
  case (6 rq c r' c' x)
  then have "find (\<lambda>x. rq_ClientToken rq \<noteq> [] \<and> ci_Token x = rq_ClientToken rq) (sim_acct c) \<noteq> None"
    by (auto simp: find_None_iff)
  with 6 show ?case by (auto simp: sim_ecs_def sim_run_def split: if_splits option.splits)
next
  case (7 rq c i is' c')
  then show ?case using sim_run_ok [of rq c i is' c'] by (simp add: sim_ecs_def)
qed (auto simp: sim_ecs_def sim_oss_def sim_list_def sim_stop_acct sim_release_acct sim_acct_named
    others_facts releases_others)

section \<open>The client refines its contract\<close>

text \<open>
  C11.  The client of \<open>capi.go\<close> - retries, adopt-by-tag guard, stop-then-delete, best-effort
  tagging - implements the contract the machine controller relies on, for every ECS and OSS
  backend that keeps the documented laws and every environment.
\<close>

theorem client_refines_contract:
  "ecs_service ecs oss acct region \<Longrightarrow>
   cloud_contract (alibabacloudClient ecs oss getenv) (\<lambda>w. acct (cloud w)) region"
  by (rule ecs_service.client_contract)

theorem client_refines_contract_witness:
  "cloud_contract (sim_client ''cn-x'') (\<lambda>w. sim_acct (cloud w)) ''cn-x''"
  unfolding sim_client_def by (rule client_refines_contract [OF sim.ecs_service_axioms])

end
