(* ===== verification/Failure_Reasons.thy ===== *)
theory Failure_Reasons
  imports Machine_Reconcile Sim_Cloud
begin

text \<open>
  Which terminal failures a reconcile can record.  A \<open>*terminalError\<close> is a type of the
  controller package that no other package can make, so an error of the Kubernetes client, of
  the SDKs or of \<open>capi.go\<close> never is one; under that hypothesis the reasons are the seven the
  controller writes itself.
\<close>

definition terminal_reasons :: "string list" where
  "terminal_reasons =
     [''ProviderIDInstanceMismatch'', ''InstanceDisappeared'', ''InstanceTerminalState'', ''NoBootImage'',
      ''UserDataTooLarge'', ''InstanceCapacityExhausted'', ''SpotConfigurationRejected'']"

definition plain :: "go_error \<Rightarrow> bool" where
  "plain err \<longleftrightarrow> asTerminalError err = None"

lemma plain_simps [simp]:
  "plain (Errorf f as)" "plain (ServerError code hs msg)" "plain (StatusError nf msg)" "plain (ForeignError msg)"
  "plain (Wrap f as err) = plain err" "\<not> plain (TerminalError reason msg)"
  by (simp_all add: plain_def)

section \<open>Clients\<close>

definition plain_client :: "'w Client \<Rightarrow> bool" where
  "plain_client c \<longleftrightarrow>
     (\<forall>i w e w'. DescribeInstanceByID c i w = (Inl e, w') \<longrightarrow> plain e)
     \<and> (\<forall>p w e w'. CreateECSInstance c p w = (Inl e, w') \<longrightarrow> plain e)
     \<and> (\<forall>p w e w'. PutIgnitionObject c p w = (Inl e, w') \<longrightarrow> plain e)"

lemma plain_clientD:
  assumes "plain_client c"
  shows "DescribeInstanceByID c i w = (Inl e, w') \<Longrightarrow> plain e"
    and "CreateECSInstance c p w = (Inl e, w') \<Longrightarrow> plain e"
    and "PutIgnitionObject c q w = (Inl e, w') \<Longrightarrow> plain e"
  using assms unfolding plain_client_def by blast+

text \<open>The SDK calls behind these three operations.\<close>

definition plain_sdk :: "'c EcsClient \<Rightarrow> 'c OssSdk \<Rightarrow> bool" where
  "plain_sdk ecs oss \<longleftrightarrow>
     (\<forall>q c e c'. ecs_DescribeInstances ecs q c = (Inl e, c') \<longrightarrow> plain e)
     \<and> (\<forall>q c e c'. ecs_RunInstances ecs q c = (Inl e, c') \<longrightarrow> plain e)
     \<and> (\<forall>h c e. oss_New oss h c = Some e \<longrightarrow> plain e)
     \<and> (\<forall>h b c e. oss_Bucket oss h b c = Some e \<longrightarrow> plain e)
     \<and> (\<forall>h b k d c e c'. oss_PutObject oss h b k d c = (Some e, c') \<longrightarrow> plain e)
     \<and> (\<forall>h b k v n c e. oss_SignURL oss h b k v n c = Inl e \<longrightarrow> plain e)"

lemma plain_sdkD:
  assumes "plain_sdk ecs oss"
  shows "ecs_DescribeInstances ecs q c = (Inl e, c') \<Longrightarrow> plain e"
    and "ecs_RunInstances ecs rq c = (Inl e, c') \<Longrightarrow> plain e"
    and "oss_New oss h c = Some e \<Longrightarrow> plain e" and "oss_Bucket oss h b c = Some e \<Longrightarrow> plain e"
    and "oss_PutObject oss h b k d c = (Some e, c') \<Longrightarrow> plain e"
    and "oss_SignURL oss h b k v n c = Inl e \<Longrightarrow> plain e"
  using assms unfolding plain_sdk_def by metis+

lemma retry_plain:
  assumes "retryThrottled op fn w = (Inl e, w')" and "\<And>c e c'. fn c = (Inl e, c') \<Longrightarrow> plain e"
  shows "plain e"
  by (rule retryThrottled_outcome [where P = "\<lambda>c. True", OF assms(1)]) (auto dest: assms(2))

lemma capi_client_plain:
  assumes sdk: "plain_sdk ecs oss"
  shows "plain_client (alibabacloudClient ecs oss getenv)"
proof -
  have list: "plain e" if "retryThrottled op (ecs_DescribeInstances ecs q) w = (Inl e, w')" for op q w e w'
    by (rule retry_plain [OF that]) (rule plain_sdkD(1) [OF sdk])
  have run: "plain e" if "retryThrottled op (ecs_RunInstances ecs q) w = (Inl e, w')" for op q w e w'
    by (rule retry_plain [OF that]) (rule plain_sdkD(2) [OF sdk])
  have new: "plain e" if "runNewInstance ecs p w = (Inl e, w')" for p w e w'
    using that by (auto simp: runNewInstance_def Let_def dest: run split: prod.splits sum.splits list.splits)
  have find: "plain e" if "alibabacloudClient_FindInstanceByTag ecs rg k v w = (Inl e, w')" for rg k v w e w'
    using that by (auto simp: alibabacloudClient_FindInstanceByTag_def Let_def dest: list
        split: prod.splits sum.splits option.splits)
  have "plain e" if "alibabacloudClient_DescribeInstanceByID ecs i w = (Inl e, w')" for i w e w'
    using that by (auto simp: alibabacloudClient_DescribeInstanceByID_def Let_def dest: list
        split: prod.splits sum.splits list.splits)
  moreover have "plain e" if "alibabacloudClient_CreateECSInstance ecs p w = (Inl e, w')" for p w e w'
    using that by (auto simp: alibabacloudClient_CreateECSInstance_def Let_def dest: new find
        split: prod.splits sum.splits if_splits)
  moreover have "plain e" if "alibabacloudClient_PutIgnitionObject oss getenv p w = (Inl e, w')" for p w e w'
    using that by (auto simp: alibabacloudClient_PutIgnitionObject_def newOSSClient_def Let_def
        dest: plain_sdkD [OF sdk] split: prod.splits sum.splits option.splits if_splits)
  ultimately show ?thesis unfolding plain_client_def alibabacloudClient_def by simp
qed

lemma sim_client_plain: "plain_client (sim_client rg)"
  unfolding sim_client_def
  by (rule capi_client_plain)
    (auto simp: plain_sdk_def sim_ecs_def sim_oss_def sim_run_def split: option.splits if_splits)

section \<open>The reasons\<close>

definition plain_errors :: "'w MachineReconciler \<Rightarrow> bool" where
  "plain_errors r \<longleftrightarrow>
     (\<forall>k w e. GetSecret (r_Kube r) k w = Inl e \<longrightarrow> plain e)
     \<and> (\<forall>rg w c. r_ClientBuilder r rg w = Inr c \<longrightarrow> plain_client c)"

text \<open>An error of the controller's own steps is plain, or terminal with a reason of the list.\<close>

definition classified :: "go_error \<Rightarrow> bool" where
  "classified err \<longleftrightarrow> (case asTerminalError err of None \<Rightarrow> True | Some (reason, _) \<Rightarrow> reason \<in> set terminal_reasons)"

lemma plain_classified: "plain err \<Longrightarrow> classified err"
  by (simp add: plain_def classified_def)

lemma classified_simps [simp]:
  "classified (Wrap f as err) = classified err" "classified (ForeignError msg)"
  by (simp_all add: classified_def)

lemma terminal_classified [simp]: "classified (TerminalError reason msg) \<longleftrightarrow> reason \<in> set terminal_reasons"
  by (simp add: classified_def)

lemma classifyCreateError_classified: "plain err \<Longrightarrow> classified (classifyCreateError err)"
  by (simp add: classifyCreateError_def newTerminalError_def plain_classified terminal_reasons_def)

lemma maybeOffloadUserData_classified:
  assumes "maybeOffloadUserData c cluster m region ud w = (Inl err, m', w')" and "plain_client c"
  shows "classified err"
  using assms
  by (auto simp: maybeOffloadUserData_def tooLargeError_def terminal_reasons_def Let_def
      dest!: plain_clientD(3) [OF assms(2)] plain_classified split: if_splits option.splits sum.splits prod.splits)

lemma getUserData_plain:
  assumes "getUserData K machine m w = Inl err" and "\<And>k w e. GetSecret K k w = Inl e \<Longrightarrow> plain e"
  shows "plain err"
  using assms by (auto simp: getUserData_def Let_def split: option.splits sum.splits if_splits)

lemma createInstance_classified:
  assumes "createInstance K c machine cluster m w = (Some err, m', w')" and "plain_client c"
    and "\<And>k w e. GetSecret K k w = Inl e \<Longrightarrow> plain e"
  shows "classified err"
  using assms(1)
proof (cases rule: createInstance_cases)
  case (noData e)
  with getUserData_plain [OF noData(1) assms(3)] show ?thesis by (simp add: plain_classified)
next
  case (noImage ud)
  then show ?thesis by (simp add: noBootImage_def newTerminalError_def terminal_reasons_def)
next
  case (noOffload ud e)
  with maybeOffloadUserData_classified [OF noOffload(3) assms(2)] show ?thesis by simp
next
  case (rejected ud ud' w2 e)
  then have "plain e" using plain_clientD(2) [OF assms(2)] by blast
  with rejected(4) classifyCreateError_classified show ?thesis by simp
qed simp

lemma findOrCreateInstance_classified:
  assumes "findOrCreateInstance K c machine cluster m w = (Inl err, m', w')" and "plain_client c"
    and "\<And>k w e. GetSecret K k w = Inl e \<Longrightarrow> plain e"
  shows "classified err"
  using assms(1)
proof (cases rule: findOrCreateInstance_cases)
  case (unknown i e)
  then have "plain e"
    by (auto simp: describeInstance_def dest: plain_clientD(1) [OF assms(2)] split: prod.splits sum.splits option.splits)
  with unknown(4) show ?thesis by (simp add: plain_classified)
next
  case (failed e)
  with createInstance_classified [OF failed(3) assms(2,3)] show ?thesis by simp
qed (simp_all add: mismatchError_def newTerminalError_def terminal_reasons_def)

end
