(* ===== verification/Webhooks.thy ===== *)
theory Webhooks
  imports Api_Types
begin

text \<open>
  \<open>internal/webhook/v1beta1\<close>: defaulting and validation of \<open>AlibabaCloudMachine\<close>, validation
  of \<open>AlibabaCloudCluster\<close>, and the two helpers they share.  A \<open>field.ErrorList\<close> is a list of
  field errors, each with its path.
\<close>

section \<open>Field errors\<close>

datatype path_elem = Child string | Index nat

type_synonym path = "path_elem list"

datatype field_value = StrValue string | IntValue int | FloatValue rat

datatype field_error =
    Required path string
  | Invalid path field_value gotext
  | Duplicate path string
  | Forbidden path string

text \<open>
  How \<open>k8s.io/apimachinery\<close> renders a field error (its path, the kind of error, the value and
  the detail), and \<open>apierrors.NewInvalid\<close>: a status error with one cause per field error.
\<close>

fun elem_text :: "path_elem \<Rightarrow> gotext" where
  "elem_text (Child s) = Lit s"
| "elem_text (Index i) = Num (int i)"

fun value_text :: "field_value \<Rightarrow> gotext" where
  "value_text (StrValue s) = Lit s"
| "value_text (IntValue n) = Num n"
| "value_text (FloatValue q) = Texts [Num (fst (quotient_of q)), Num (snd (quotient_of q))]"

fun field_text :: "field_error \<Rightarrow> gotext" where
  "field_text (Required p m) = Sprintf ''%v: Required value: %s'' [Texts (map elem_text p), Lit m]"
| "field_text (Invalid p v m) =
     Sprintf ''%v: Invalid value: %v: %s'' [Texts (map elem_text p), value_text v, m]"
| "field_text (Duplicate p v) = Sprintf ''%v: Duplicate value: %q'' [Texts (map elem_text p), Lit v]"
| "field_text (Forbidden p m) = Sprintf ''%v: Forbidden: %s'' [Texts (map elem_text p), Lit m]"

definition NewInvalid :: "string \<Rightarrow> string \<Rightarrow> field_error list \<Rightarrow> go_error" where
  "NewInvalid kind name errs =
     StatusError False (Sprintf ''%s %q is invalid: %v'' [Lit kind, Lit name, Texts (map field_text errs)])"

text \<open>The object an admission request carries; the last constructor names another Go type.\<close>

datatype runtime_Object =
    MachineObject AlibabaCloudMachine
  | ClusterObject AlibabaCloudCluster
  | OtherObject string

fun go_type :: "runtime_Object \<Rightarrow> gotext" where
  "go_type (MachineObject m) = Lit ''*v1beta1.AlibabaCloudMachine''"
| "go_type (ClusterObject c) = Lit ''*v1beta1.AlibabaCloudCluster''"
| "go_type (OtherObject t) = Lit t"

section \<open>webhook.go\<close>

definition aggregateErrors :: "string \<Rightarrow> string \<Rightarrow> field_error list \<Rightarrow> go_error option" where
  "aggregateErrors kind name allErrs =
     (if allErrs = [] then None else Some (NewInvalid kind name allErrs))"

fun validateTags_loop :: "string list \<Rightarrow> nat \<Rightarrow> Tag list \<Rightarrow> path \<Rightarrow> field_error list" where
  "validateTags_loop seen i [] parent = []"
| "validateTags_loop seen i (t # ts) parent =
     (let keyPath = parent @ [Index i, Child ''key'']
      in if TrimSpace (t_Key t) = [] then
           Required keyPath ''tag key must not be empty''
             # validateTags_loop seen (i + 1) ts parent
         else
           (if t_Key t \<in> set seen then [Duplicate keyPath (t_Key t)] else [])
             @ validateTags_loop (t_Key t # seen) (i + 1) ts parent)"

definition validateTags :: "Tag list \<Rightarrow> path \<Rightarrow> field_error list" where
  "validateTags tags parent = validateTags_loop [] 0 tags parent"

section \<open>alibabacloudmachine\_webhook.go\<close>

definition defaultSystemDiskCategory :: string where "defaultSystemDiskCategory = ''cloud_essd''"

definition defaultSystemDiskSizeGiB :: int where "defaultSystemDiskSizeGiB = 40"

definition minDiskSizeGiB :: int where "minDiskSizeGiB = 20"

definition ecsInstanceTypePrefix :: string where "ecsInstanceTypePrefix = ''ecs.''"

definition machine_Default :: "runtime_Object \<Rightarrow> go_error option \<times> runtime_Object" where
  "machine_Default obj =
     (case obj of
        MachineObject m \<Rightarrow>
          (let disk = (case ms_SystemDisk (m_Spec m) of
                 None \<Rightarrow> \<lparr>sd_Category = defaultSystemDiskCategory, sd_Size = defaultSystemDiskSizeGiB,
                          sd_PerformanceLevel = [], sd_Encrypted = None, sd_KMSKeyID = []\<rparr>
               | Some d \<Rightarrow>
                   d\<lparr>sd_Category := (if sd_Category d = [] then defaultSystemDiskCategory
                                     else sd_Category d),
                     sd_Size := (if sd_Size d = 0 then defaultSystemDiskSizeGiB else sd_Size d)\<rparr>)
           in (None, MachineObject (m\<lparr>m_Spec := (m_Spec m)\<lparr>ms_SystemDisk := Some disk\<rparr>\<rparr>)))
      | _ \<Rightarrow> (Some (Errorf ''expected an AlibabaCloudMachine but got a %T'' [go_type obj]), obj))"

definition validateSpot :: "AlibabaCloudMachine \<Rightarrow> path \<Rightarrow> field_error list" where
  "validateSpot m spec =
     (let plPath = spec @ [Child ''spotPriceLimit'']
      in if ms_SpotStrategy (m_Spec m) = ''SpotWithPriceLimit'' then
           (case ms_SpotPriceLimit (m_Spec m) of
              None \<Rightarrow> [Required plPath ''spotPriceLimit is required when spotStrategy is SpotWithPriceLimit'']
            | Some l \<Rightarrow>
                if l \<le> 0 then [Invalid plPath (FloatValue l) (Lit ''must be greater than 0'')] else [])
         else
           (case ms_SpotPriceLimit (m_Spec m) of
              None \<Rightarrow> []
            | Some l \<Rightarrow>
                [Invalid plPath (FloatValue l)
                   (Lit ''spotPriceLimit is only allowed when spotStrategy is SpotWithPriceLimit'')]))"

definition validateDiskExtras ::
  "string \<Rightarrow> string \<Rightarrow> bool option \<Rightarrow> string \<Rightarrow> path \<Rightarrow> field_error list" where
  "validateDiskExtras category perfLevel encrypted kmsKeyID path =
     (if kmsKeyID \<noteq> [] \<and> (encrypted = None \<or> encrypted = Some False)
      then [Invalid (path @ [Child ''kmsKeyID'']) (StrValue kmsKeyID)
              (Lit ''kmsKeyID requires encrypted=true'')] else [])
     @ (if perfLevel \<noteq> [] \<and> category \<noteq> ''cloud_essd''
        then [Invalid (path @ [Child ''performanceLevel'']) (StrValue perfLevel)
                (Lit ''performanceLevel is only valid for the cloud_essd category'')] else [])"

text \<open>The two loops of \<open>validateMachineSpec\<close> over the data disks, from index \<open>i\<close>.\<close>

definition sizeMessage :: gotext where
  "sizeMessage = Sprintf ''must be at least %d GiB'' [Num minDiskSizeGiB]"

fun dataDiskSizes :: "nat \<Rightarrow> DataDisk list \<Rightarrow> field_error list" where
  "dataDiskSizes i [] = []"
| "dataDiskSizes i (d # ds) =
     (if dd_Size d < minDiskSizeGiB
      then [Invalid [Child ''spec'', Child ''dataDisks'', Index i, Child ''size'']
              (IntValue (dd_Size d)) sizeMessage] else [])
     @ dataDiskSizes (i + 1) ds"

fun dataDiskExtras :: "nat \<Rightarrow> DataDisk list \<Rightarrow> field_error list" where
  "dataDiskExtras i [] = []"
| "dataDiskExtras i (d # ds) =
     validateDiskExtras (dd_Category d) (dd_PerformanceLevel d) (dd_Encrypted d) (dd_KMSKeyID d)
       [Child ''spec'', Child ''dataDisks'', Index i]
     @ dataDiskExtras (i + 1) ds"

definition validateMachineSpec :: "AlibabaCloudMachine \<Rightarrow> field_error list" where
  "validateMachineSpec m =
     (let spec = [Child ''spec'']; s = m_Spec m
      in (if TrimSpace (ms_InstanceType s) = []
          then [Required (spec @ [Child ''instanceType'']) ''instanceType is required'']
          else if \<not> HasPrefix (ms_InstanceType s) ecsInstanceTypePrefix
          then [Invalid (spec @ [Child ''instanceType'']) (StrValue (ms_InstanceType s))
                  (Lit ''must be an Alibaba Cloud ECS instance type (e.g. ecs.g7.large)'')]
          else [])
         @ (case ms_SystemDisk s of
              None \<Rightarrow> []
            | Some d \<Rightarrow>
                if sd_Size d \<noteq> 0 \<and> sd_Size d < minDiskSizeGiB
                then [Invalid (spec @ [Child ''systemDisk'', Child ''size'']) (IntValue (sd_Size d))
                        sizeMessage] else [])
         @ dataDiskSizes 0 (go_slice (ms_DataDisks s))
         @ (case ms_SystemDisk s of
              None \<Rightarrow> []
            | Some d \<Rightarrow>
                validateDiskExtras (sd_Category d) (sd_PerformanceLevel d) (sd_Encrypted d)
                  (sd_KMSKeyID d) (spec @ [Child ''systemDisk'']))
         @ dataDiskExtras 0 (go_slice (ms_DataDisks s))
         @ validateSpot m spec
         @ validateTags (ms_Tags s) (spec @ [Child ''tags'']))"

text \<open>The two closures of \<open>validateMachineImmutable\<close>.\<close>

definition immutable :: "string \<Rightarrow> 'a \<Rightarrow> 'a \<Rightarrow> field_error list" where
  "immutable child oldVal newVal =
     (if oldVal \<noteq> newVal then [Forbidden [Child ''spec'', Child child] ''field is immutable''] else [])"

definition immutableOnceSet :: "string \<Rightarrow> string \<Rightarrow> string \<Rightarrow> field_error list" where
  "immutableOnceSet child oldVal newVal =
     (if oldVal \<noteq> [] \<and> oldVal \<noteq> newVal
      then [Forbidden [Child ''spec'', Child child] ''field is immutable once set''] else [])"

definition validateMachineImmutable ::
  "AlibabaCloudMachine \<Rightarrow> AlibabaCloudMachine \<Rightarrow> field_error list" where
  "validateMachineImmutable oldM newM =
     (let a = m_Spec oldM; b = m_Spec newM
      in immutable ''instanceType'' (ms_InstanceType a) (ms_InstanceType b)
         @ immutable ''imageID'' (ms_ImageID a) (ms_ImageID b)
         @ immutableOnceSet ''regionID'' (ms_RegionID a) (ms_RegionID b)
         @ immutableOnceSet ''zoneID'' (ms_ZoneID a) (ms_ZoneID b)
         @ immutableOnceSet ''vSwitchID'' (ms_VSwitchID a) (ms_VSwitchID b)
         @ immutable ''systemDisk'' (ms_SystemDisk a) (ms_SystemDisk b)
         @ immutable ''dataDisks'' (ms_DataDisks a) (ms_DataDisks b)
         @ immutable ''spotStrategy'' (ms_SpotStrategy a) (ms_SpotStrategy b)
         @ immutable ''spotPriceLimit'' (ms_SpotPriceLimit a) (ms_SpotPriceLimit b)
         @ (case ms_ProviderID a of
              None \<Rightarrow> []
            | Some p \<Rightarrow>
                if ms_ProviderID b \<noteq> Some p
                then [Forbidden [Child ''spec'', Child ''providerID''] ''providerID is immutable once set'']
                else []))"

definition machine_ValidateCreate :: "runtime_Object \<Rightarrow> go_error option" where
  "machine_ValidateCreate obj =
     (case obj of
        MachineObject m \<Rightarrow>
          aggregateErrors ''AlibabaCloudMachine'' (om_Name (m_Meta m)) (validateMachineSpec m)
      | _ \<Rightarrow> Some (Errorf ''expected an AlibabaCloudMachine but got a %T'' [go_type obj]))"

definition machine_ValidateUpdate :: "runtime_Object \<Rightarrow> runtime_Object \<Rightarrow> go_error option" where
  "machine_ValidateUpdate oldObj newObj =
     (case newObj of
        MachineObject newM \<Rightarrow>
          (case oldObj of
             MachineObject oldM \<Rightarrow>
               aggregateErrors ''AlibabaCloudMachine'' (om_Name (m_Meta newM))
                 (validateMachineSpec newM @ validateMachineImmutable oldM newM)
           | _ \<Rightarrow> Some (Errorf ''expected an AlibabaCloudMachine but got a %T'' [go_type oldObj]))
      | _ \<Rightarrow> Some (Errorf ''expected an AlibabaCloudMachine but got a %T'' [go_type newObj]))"

definition machine_ValidateDelete :: "runtime_Object \<Rightarrow> go_error option" where
  "machine_ValidateDelete obj = None"

section \<open>alibabacloudcluster\_webhook.go\<close>

fun failureDomains_loop :: "string list \<Rightarrow> nat \<Rightarrow> FailureDomain list \<Rightarrow> field_error list" where
  "failureDomains_loop seen i [] = []"
| "failureDomains_loop seen i (fd # fds) =
     (let fdPath = [Child ''spec'', Child ''failureDomains'', Index i];
          blank = TrimSpace (fd_ZoneID fd) = [];
          dup = fd_ZoneID fd \<in> set seen
      in (if blank then [Required (fdPath @ [Child ''zoneID'']) ''zoneID is required'']
          else if dup then [Duplicate (fdPath @ [Child ''zoneID'']) (fd_ZoneID fd)] else [])
         @ (if TrimSpace (fd_VSwitchID fd) = []
            then [Required (fdPath @ [Child ''vSwitchID'']) ''vSwitchID is required''] else [])
         @ failureDomains_loop (if blank \<or> dup then seen else fd_ZoneID fd # seen) (i + 1) fds)"

definition validateClusterSpec :: "AlibabaCloudCluster \<Rightarrow> field_error list" where
  "validateClusterSpec c =
     (let spec = [Child ''spec'']; ep = cs_ControlPlaneEndpoint (ac_Spec c);
          epPath = spec @ [Child ''controlPlaneEndpoint'']
      in (if TrimSpace (cs_Region (ac_Spec c)) = []
          then [Required (spec @ [Child ''region'']) ''region is required''] else [])
         @ (if ep_Host ep \<noteq> [] \<or> ep_Port ep \<noteq> 0 then
              (if ep_Host ep = [] then [Required (epPath @ [Child ''host'']) ''host is required when port is set'']
               else [])
              @ (if ep_Port ep \<le> 0 \<or> ep_Port ep > 65535
                 then [Invalid (epPath @ [Child ''port'']) (IntValue (ep_Port ep))
                         (Lit ''must be between 1 and 65535'')] else [])
            else [])
         @ failureDomains_loop [] 0 (cs_FailureDomains (ac_Spec c)))"

definition cluster_ValidateCreate :: "runtime_Object \<Rightarrow> go_error option" where
  "cluster_ValidateCreate obj =
     (case obj of
        ClusterObject c \<Rightarrow>
          aggregateErrors ''AlibabaCloudCluster'' (om_Name (ac_Meta c)) (validateClusterSpec c)
      | _ \<Rightarrow> Some (Errorf ''expected an AlibabaCloudCluster but got a %T'' [go_type obj]))"

definition cluster_ValidateUpdate :: "runtime_Object \<Rightarrow> runtime_Object \<Rightarrow> go_error option" where
  "cluster_ValidateUpdate oldObj newObj =
     (case newObj of
        ClusterObject newC \<Rightarrow>
          (case oldObj of
             ClusterObject oldC \<Rightarrow>
               aggregateErrors ''AlibabaCloudCluster'' (om_Name (ac_Meta newC))
                 (validateClusterSpec newC
                  @ (if cs_Region (ac_Spec oldC) \<noteq> cs_Region (ac_Spec newC)
                     then [Forbidden [Child ''spec'', Child ''region''] ''region is immutable''] else []))
           | _ \<Rightarrow> Some (Errorf ''expected an AlibabaCloudCluster but got a %T'' [go_type oldObj]))
      | _ \<Rightarrow> Some (Errorf ''expected an AlibabaCloudCluster but got a %T'' [go_type newObj]))"

definition cluster_ValidateDelete :: "runtime_Object \<Rightarrow> go_error option" where
  "cluster_ValidateDelete obj = None"

section \<open>What the validators accept\<close>

lemma aggregateErrors_None [simp]: "aggregateErrors kind name errs = None \<longleftrightarrow> errs = []"
  by (simp add: aggregateErrors_def)

lemma validateTags_loop_accepts:
  "validateTags_loop seen i ts parent = [] \<longleftrightarrow>
     (\<forall>t \<in> set ts. TrimSpace (t_Key t) \<noteq> []) \<and> distinct (map t_Key ts)
     \<and> set (map t_Key ts) \<inter> set seen = {}"
  by (induction seen i ts parent rule: validateTags_loop.induct) (auto simp: Let_def)

lemma validateTags_accepts:
  "validateTags ts parent = [] \<longleftrightarrow>
     (\<forall>t \<in> set ts. TrimSpace (t_Key t) \<noteq> []) \<and> distinct (map t_Key ts)"
  by (simp add: validateTags_def validateTags_loop_accepts)

lemma dataDiskSizes_accepts:
  "dataDiskSizes i ds = [] \<longleftrightarrow> (\<forall>d \<in> set ds. minDiskSizeGiB \<le> dd_Size d)"
  by (induction i ds rule: dataDiskSizes.induct) auto

text \<open>The encryption and performance-level rule of one disk.\<close>

definition disk_extras_ok :: "string \<Rightarrow> string \<Rightarrow> bool option \<Rightarrow> string \<Rightarrow> bool" where
  "disk_extras_ok category perfLevel encrypted kmsKeyID \<longleftrightarrow>
     (kmsKeyID = [] \<or> encrypted = Some True) \<and> (perfLevel = [] \<or> category = ''cloud_essd'')"

lemma validateDiskExtras_accepts:
  "validateDiskExtras cat pl enc kms p = [] \<longleftrightarrow> disk_extras_ok cat pl enc kms"
  by (cases enc) (auto simp: validateDiskExtras_def disk_extras_ok_def)

lemma dataDiskExtras_accepts:
  "dataDiskExtras i ds = [] \<longleftrightarrow>
     (\<forall>d \<in> set ds. disk_extras_ok (dd_Category d) (dd_PerformanceLevel d) (dd_Encrypted d) (dd_KMSKeyID d))"
  by (induction i ds rule: dataDiskExtras.induct) (auto simp: validateDiskExtras_accepts)

definition spot_ok :: "string \<Rightarrow> rat option \<Rightarrow> bool" where
  "spot_ok strategy limit \<longleftrightarrow>
     (if strategy = ''SpotWithPriceLimit'' then (\<exists>l. limit = Some l \<and> 0 < l) else limit = None)"

lemma validateSpot_accepts:
  "validateSpot m p = [] \<longleftrightarrow> spot_ok (ms_SpotStrategy (m_Spec m)) (ms_SpotPriceLimit (m_Spec m))"
  by (auto simp: validateSpot_def spot_ok_def Let_def split: option.splits)

text \<open>A machine spec the provider can turn into a valid request.\<close>

definition machine_spec_ok :: "AlibabaCloudMachineSpec \<Rightarrow> bool" where
  "machine_spec_ok s \<longleftrightarrow>
     HasPrefix (ms_InstanceType s) ''ecs.''
     \<and> (\<forall>d. ms_SystemDisk s = Some d \<longrightarrow>
          (sd_Size d = 0 \<or> 20 \<le> sd_Size d)
          \<and> disk_extras_ok (sd_Category d) (sd_PerformanceLevel d) (sd_Encrypted d) (sd_KMSKeyID d))
     \<and> (\<forall>d \<in> set (go_slice (ms_DataDisks s)).
          20 \<le> dd_Size d
          \<and> disk_extras_ok (dd_Category d) (dd_PerformanceLevel d) (dd_Encrypted d) (dd_KMSKeyID d))
     \<and> spot_ok (ms_SpotStrategy s) (ms_SpotPriceLimit s)
     \<and> (\<forall>t \<in> set (ms_Tags s). TrimSpace (t_Key t) \<noteq> []) \<and> distinct (map t_Key (ms_Tags s))"

lemma ecs_prefix_not_blank: "HasPrefix s ''ecs.'' \<Longrightarrow> TrimSpace s \<noteq> []"
  by (rule TrimSpace_not_blank) (auto simp: HasPrefix_iff)

lemma validateMachineSpec_accepts: "validateMachineSpec m = [] \<longleftrightarrow> machine_spec_ok (m_Spec m)"
  by (auto simp: validateMachineSpec_def machine_spec_ok_def Let_def validateTags_accepts
      dataDiskSizes_accepts dataDiskExtras_accepts validateDiskExtras_accepts validateSpot_accepts
      ecsInstanceTypePrefix_def minDiskSizeGiB_def ecs_prefix_not_blank
      split: option.splits if_splits)

text \<open>What an update may change.\<close>

definition machine_update_ok :: "AlibabaCloudMachineSpec \<Rightarrow> AlibabaCloudMachineSpec \<Rightarrow> bool" where
  "machine_update_ok a b \<longleftrightarrow>
     ms_InstanceType b = ms_InstanceType a \<and> ms_ImageID b = ms_ImageID a
     \<and> ms_SystemDisk b = ms_SystemDisk a \<and> ms_DataDisks b = ms_DataDisks a
     \<and> ms_SpotStrategy b = ms_SpotStrategy a \<and> ms_SpotPriceLimit b = ms_SpotPriceLimit a
     \<and> (ms_RegionID a \<noteq> [] \<longrightarrow> ms_RegionID b = ms_RegionID a)
     \<and> (ms_ZoneID a \<noteq> [] \<longrightarrow> ms_ZoneID b = ms_ZoneID a)
     \<and> (ms_VSwitchID a \<noteq> [] \<longrightarrow> ms_VSwitchID b = ms_VSwitchID a)
     \<and> (ms_ProviderID a \<noteq> None \<longrightarrow> ms_ProviderID b = ms_ProviderID a)"

lemma machine_update_ok_refl [simp]: "machine_update_ok a a"
  by (simp add: machine_update_ok_def)

lemma machine_update_ok_trans:
  "machine_update_ok a b \<Longrightarrow> machine_update_ok b c \<Longrightarrow> machine_update_ok a c"
  unfolding machine_update_ok_def by (metis option.distinct(1))

lemma validateMachineImmutable_accepts:
  "validateMachineImmutable a b = [] \<longleftrightarrow> machine_update_ok (m_Spec a) (m_Spec b)"
  by (auto simp: validateMachineImmutable_def machine_update_ok_def immutable_def
      immutableOnceSet_def Let_def split: option.splits if_splits)

lemma machine_ValidateUpdate_accepts:
  "machine_ValidateUpdate (MachineObject a) (MachineObject b) = None
   \<longleftrightarrow> machine_spec_ok (m_Spec b) \<and> machine_update_ok (m_Spec a) (m_Spec b)"
  by (simp add: machine_ValidateUpdate_def validateMachineSpec_accepts validateMachineImmutable_accepts)

text \<open>A cluster spec: a region, a consistent endpoint, and distinct named zones with a switch.\<close>

definition cluster_spec_ok :: "AlibabaCloudClusterSpec \<Rightarrow> bool" where
  "cluster_spec_ok s \<longleftrightarrow>
     TrimSpace (cs_Region s) \<noteq> []
     \<and> (cs_ControlPlaneEndpoint s = \<lparr>ep_Host = [], ep_Port = 0\<rparr>
        \<or> ep_Host (cs_ControlPlaneEndpoint s) \<noteq> []
          \<and> 1 \<le> ep_Port (cs_ControlPlaneEndpoint s) \<and> ep_Port (cs_ControlPlaneEndpoint s) \<le> 65535)
     \<and> (\<forall>fd \<in> set (cs_FailureDomains s).
          TrimSpace (fd_ZoneID fd) \<noteq> [] \<and> TrimSpace (fd_VSwitchID fd) \<noteq> [])
     \<and> distinct (map fd_ZoneID (cs_FailureDomains s))"

lemma failureDomains_loop_accepts:
  "failureDomains_loop seen i fds = [] \<longleftrightarrow>
     (\<forall>fd \<in> set fds. TrimSpace (fd_ZoneID fd) \<noteq> [] \<and> TrimSpace (fd_VSwitchID fd) \<noteq> [])
     \<and> distinct (map fd_ZoneID fds) \<and> set (map fd_ZoneID fds) \<inter> set seen = {}"
  by (induction seen i fds rule: failureDomains_loop.induct) (auto simp: Let_def)

lemma validateClusterSpec_accepts: "validateClusterSpec c = [] \<longleftrightarrow> cluster_spec_ok (ac_Spec c)"
proof -
  obtain h p where ep: "cs_ControlPlaneEndpoint (ac_Spec c) = \<lparr>ep_Host = h, ep_Port = p\<rparr>"
    by (metis APIEndpoint.surjective unit.exhaust)
  show ?thesis
    by (auto simp: validateClusterSpec_def cluster_spec_ok_def failureDomains_loop_accepts Let_def ep)
qed

section \<open>Properties\<close>

text \<open>
  C13.  The identity of a machine is stable: along any sequence of updates the webhook accepts,
  instance type, image, disks and spot settings never change, and region, zone, switch and
  provider ID never change once they are set.
\<close>

theorem accepted_updates_keep_identity:
  assumes "(\<lambda>a b. machine_ValidateUpdate (MachineObject a) (MachineObject b) = None)\<^sup>*\<^sup>* m m'"
  shows "machine_update_ok (m_Spec m) (m_Spec m')"
  using assms
proof (induction rule: rtranclp_induct)
  case (step b c)
  then show ?case using machine_ValidateUpdate_accepts machine_update_ok_trans by blast
qed simp

definition wh_meta :: ObjectMeta where
  "wh_meta = \<lparr>om_Name = ''w'', om_Namespace = ''ns'', om_UID = ''u'', om_DeletionTimestamp = None,
     om_Finalizers = [], om_Annotations = [], om_OwnerReferences = []\<rparr>"

definition wh_machine :: "string \<Rightarrow> string option \<Rightarrow> AlibabaCloudMachine" where
  "wh_machine instanceType pid =
     \<lparr>m_Meta = wh_meta,
      m_Spec = \<lparr>ms_ProviderID = pid, ms_InstanceType = instanceType, ms_ImageID = [], ms_RegionID = [],
               ms_ZoneID = [], ms_SecurityGroupIDs = [], ms_VSwitchID = [], ms_SystemDisk = None,
               ms_DataDisks = None, ms_RAMRoleName = [], ms_SpotStrategy = [], ms_SpotPriceLimit = None,
               ms_Tags = [\<lparr>t_Key = ''k'', t_Value = ''v''\<rparr>], ms_MetadataOptions = None,
               ms_UserDataSecret = None, ms_CredentialsSecret = None\<rparr>,
      m_Status = \<lparr>mst_Ready = False, mst_Initialization = None, mst_InstanceID = None,
                 mst_InstanceState = None, mst_MetadataHardened = None, mst_Addresses = [],
                 mst_Conditions = [], mst_FailureReason = None, mst_FailureMessage = None,
                 mst_IgnitionOSS = None\<rparr>\<rparr>"

lemma tag_key_not_blank: "TrimSpace ''k'' \<noteq> []"
proof
  assume "TrimSpace ''k'' = []"
  from TrimSpace_empty_bytes [OF this] have "CHR ''k'' \<in> (\<Union>e \<in> set space_encodings. set e)" by simp
  then show False
    by (simp only: space_encodings_def UN_iff bex_simps list.set insert_iff empty_iff
        eq_commute [of "CHR ''k''"] byte_eq_iff HOL.simp_thms) simp
qed

theorem accepted_updates_keep_identity_witness:
  "machine_update_ok (m_Spec (wh_machine ''ecs.g7.large'' None))
     (m_Spec (wh_machine ''ecs.g7.large'' (Some ''alicloud://r.i'')))"
proof (rule accepted_updates_keep_identity)
  have "machine_ValidateUpdate (MachineObject (wh_machine ''ecs.g7.large'' None))
      (MachineObject (wh_machine ''ecs.g7.large'' (Some ''alicloud://r.i''))) = None"
    unfolding machine_ValidateUpdate_accepts
    by (simp add: wh_machine_def machine_spec_ok_def machine_update_ok_def go_slice_def spot_ok_def
        tag_key_not_blank)
  then show "(\<lambda>a b. machine_ValidateUpdate (MachineObject a) (MachineObject b) = None)\<^sup>*\<^sup>*
      (wh_machine ''ecs.g7.large'' None) (wh_machine ''ecs.g7.large'' (Some ''alicloud://r.i''))"
    by (rule r_into_rtranclp)
qed

text \<open>
  C14.  Admission of a new machine, exactly: an ECS instance type, disks of at least 20 GiB (the
  system disk may leave its size open), a key only for encrypted disks, a performance level
  only for \<open>cloud_essd\<close>, a positive price limit exactly with \<open>SpotWithPriceLimit\<close>, and
  distinct tag keys that are not blank.  Every object of another kind is rejected.  A performance
  level or price limit out of place is thus rejected, where the API documentation says it is ignored.
\<close>

theorem machine_create_admission:
  "machine_ValidateCreate obj = None \<longleftrightarrow> (\<exists>m. obj = MachineObject m \<and> machine_spec_ok (m_Spec m))"
  by (cases obj) (simp_all add: machine_ValidateCreate_def validateMachineSpec_accepts)

text \<open>
  C15.  Admission of a cluster, exactly: creation needs a region, a consistent control-plane
  endpoint and named failure domains that are distinct and have a switch; an update must in
  addition leave the region alone.
\<close>

theorem cluster_admission:
  "(cluster_ValidateCreate (ClusterObject c) = None \<longleftrightarrow> cluster_spec_ok (ac_Spec c))
   \<and> (cluster_ValidateUpdate (ClusterObject c0) (ClusterObject c) = None \<longleftrightarrow>
        cluster_spec_ok (ac_Spec c) \<and> cs_Region (ac_Spec c) = cs_Region (ac_Spec c0))"
  by (auto simp: cluster_ValidateCreate_def cluster_ValidateUpdate_def validateClusterSpec_accepts
      split: if_splits)

text \<open>
  C16.  Defaulting fills what the user left open of the system disk and nothing else: without a disk it
  adds a \<open>cloud_essd\<close> disk of 40 GiB; of a disk that is there it sets an empty category and a zero size,
  and keeps every value that is given.  It is idempotent, and never turns an admissible machine into a
  rejected one.
\<close>

theorem defaulting_is_safe:
  assumes "machine_Default (MachineObject m) = (e, obj)"
  shows "e = None \<and> machine_Default obj = (None, obj)
    \<and> (\<exists>d. obj = MachineObject (m\<lparr>m_Spec := (m_Spec m)\<lparr>ms_SystemDisk := Some d\<rparr>\<rparr>)
         \<and> (case ms_SystemDisk (m_Spec m) of
               None \<Rightarrow> d = \<lparr>sd_Category = ''cloud_essd'', sd_Size = 40, sd_PerformanceLevel = [],
                            sd_Encrypted = None, sd_KMSKeyID = []\<rparr>
             | Some d0 \<Rightarrow>
                 sd_Category d = (if sd_Category d0 = [] then ''cloud_essd'' else sd_Category d0)
                 \<and> sd_Size d = (if sd_Size d0 = 0 then 40 else sd_Size d0)
                 \<and> sd_PerformanceLevel d = sd_PerformanceLevel d0
                 \<and> sd_Encrypted d = sd_Encrypted d0 \<and> sd_KMSKeyID d = sd_KMSKeyID d0))
    \<and> (machine_ValidateCreate (MachineObject m) = None \<longrightarrow> machine_ValidateCreate obj = None)"
proof -
  let ?d = "case ms_SystemDisk (m_Spec m) of
      None \<Rightarrow> \<lparr>sd_Category = ''cloud_essd'', sd_Size = 40, sd_PerformanceLevel = [], sd_Encrypted = None,
               sd_KMSKeyID = []\<rparr>
    | Some d \<Rightarrow> d\<lparr>sd_Category := (if sd_Category d = [] then ''cloud_essd'' else sd_Category d),
                   sd_Size := (if sd_Size d = 0 then 40 else sd_Size d)\<rparr>"
  have obj: "e = None" "obj = MachineObject (m\<lparr>m_Spec := (m_Spec m)\<lparr>ms_SystemDisk := Some ?d\<rparr>\<rparr>)"
    using assms unfolding machine_Default_def Let_def defaultSystemDiskCategory_def
      defaultSystemDiskSizeGiB_def by simp_all
  have filled: "sd_Category ?d \<noteq> []" "sd_Size ?d \<noteq> 0" by (auto split: option.splits)
  have again: "machine_Default obj = (None, obj)"
    using filled by (simp add: obj machine_Default_def Let_def)
  have "machine_spec_ok (m_Spec m) \<Longrightarrow> machine_spec_ok ((m_Spec m)\<lparr>ms_SystemDisk := Some ?d\<rparr>)"
    by (auto simp: machine_spec_ok_def disk_extras_ok_def split: option.splits)
  then have "machine_ValidateCreate (MachineObject m) = None \<longrightarrow> machine_ValidateCreate obj = None"
    by (simp add: obj machine_ValidateCreate_def validateMachineSpec_accepts)
  with obj again show ?thesis by (intro conjI exI [of _ ?d]) (simp_all split: option.splits)
qed

theorem defaulting_is_safe_witness:
  "machine_Default (snd (machine_Default (MachineObject (wh_machine ''ecs.g7.large'' None))))
   = (None, snd (machine_Default (MachineObject (wh_machine ''ecs.g7.large'' None))))"
  using defaulting_is_safe [of "wh_machine ''ecs.g7.large'' None"
      "fst (machine_Default (MachineObject (wh_machine ''ecs.g7.large'' None)))"
      "snd (machine_Default (MachineObject (wh_machine ''ecs.g7.large'' None)))"] by simp

end
