(* ===== verification/Machine_Properties.thy ===== *)
theory Machine_Properties
  imports Machine_System Failure_Reasons Webhooks
begin

text \<open>
  The properties of the machine controller, over the client of \<open>capi.go\<close> and the ECS service
  it calls, with a concrete reconciler on the simulated account for their witnesses.
\<close>

section \<open>A reconciler on the simulated account\<close>

definition sim_cluster :: AlibabaCloudCluster where
  "sim_cluster =
     \<lparr>ac_Meta = blank_meta ''c1'',
      ac_Spec = \<lparr>cs_Region = ''cn-x'', cs_VpcID = ''vpc-1'', cs_BootImageID = ''boot'',
                cs_ResourceGroupID = [], cs_ControlPlaneEndpoint = \<lparr>ep_Host = ''api'', ep_Port = 6443\<rparr>,
                cs_AdditionalTags = [], cs_IgnitionStorage = None, cs_FailureDomains = []\<rparr>,
      ac_Status = \<lparr>cst_Ready = True, cst_Initialization = Some (Some True), cst_VpcID = ''vpc-1'',
                  cst_ControlPlaneEndpoint = \<lparr>ep_Host = ''api'', ep_Port = 6443\<rparr>,
                  cst_SLBInstanceID = [], cst_FailureDomains = [], cst_Conditions = []\<rparr>\<rparr>"

definition sim_owner :: "string \<Rightarrow> Machine" where
  "sim_owner name =
     \<lparr>mach_Meta = blank_meta name, mach_FailureDomain = [], mach_DataSecretName = Some ''boot-data'',
      mach_NodeRefName = []\<rparr>"

definition sim_capi_cluster :: Cluster where
  "sim_capi_cluster =
     \<lparr>cl_Meta = blank_meta ''c1'', cl_Paused = False, cl_InfraKind = ''AlibabaCloudCluster'',
      cl_InfraAPIGroup = ''infrastructure.cluster.x-k8s.io'', cl_InfraName = ''c1''\<rparr>"

definition sim_kube :: "'w Kube" where
  "sim_kube =
     \<lparr>GetAlibabaCloudMachine = (\<lambda>k w. Inr (blank_machine (ok_Name k))),
      GetAlibabaCloudCluster = (\<lambda>k w. Inr sim_cluster),
      GetSecret = (\<lambda>k w. Inr [(''value'', ''ignition'')]),
      GetOwnerMachine = (\<lambda>meta w. Inr (Some (sim_owner ''w''))),
      GetClusterFromMetadata = (\<lambda>meta w. Inr (Some sim_capi_cluster)),
      IsPaused = (\<lambda>c meta. cl_Paused c),
      NewHelper = (\<lambda>m w. None),
      Patch = (\<lambda>m m' w. (None, w))\<rparr>"

definition sim_reconciler :: "SimCloud World MachineReconciler" where
  "sim_reconciler =
     \<lparr>r_Kube = sim_kube, r_Util = std_util, r_ClientBuilder = (\<lambda>rg w. Inr (sim_client rg))\<rparr>"

text \<open>Clients of \<open>capi.go\<close> over an ECS service, each for the region it was asked for.\<close>

definition ecs_builder :: "('c \<Rightarrow> CloudInst list) \<Rightarrow> 'c World MachineReconciler \<Rightarrow> bool" where
  "ecs_builder acct r \<longleftrightarrow>
     (\<forall>rg w c. r_ClientBuilder r rg w = Inr c \<longrightarrow>
        (\<exists>ecs oss getenv. c = alibabacloudClient ecs oss getenv \<and> ecs_service ecs oss acct rg))"

lemma ecs_builder_contract: "ecs_builder acct r \<Longrightarrow> contract_builder (\<lambda>w. acct (cloud w)) r"
  unfolding ecs_builder_def contract_builder_def using ecs_service_client by blast

lemma sim_ecs_builder: "ecs_builder sim_acct sim_reconciler"
  unfolding ecs_builder_def sim_reconciler_def sim_client_def
  using sim.ecs_service_axioms by auto

lemma sim_owned_by: "owned_by sim_reconciler uid ''w''"
  by (simp add: owned_by_def sim_reconciler_def sim_kube_def sim_owner_def blank_meta_def)


lemma sim_plain_errors: "plain_errors sim_reconciler"
  by (simp add: plain_errors_def sim_reconciler_def sim_kube_def sim_client_plain)


text \<open>A machine that is being deleted, with its region recorded and the finalizer set.\<close>

definition deleting_machine :: AlibabaCloudMachine where
  "deleting_machine =
     \<lparr>m_Meta = (blank_meta ''w'')\<lparr>om_DeletionTimestamp := Some 1, om_Finalizers := [MachineFinalizer]\<rparr>,
      m_Spec = blank_spec\<lparr>ms_RegionID := ''cn-x''\<rparr>, m_Status = blank_status\<rparr>"

definition sim_instance :: "string \<Rightarrow> string \<Rightarrow> CloudInst" where
  "sim_instance i state =
     \<lparr>ci_Inst = \<lparr>ei_InstanceId = i, ei_Status = state, ei_HostName = ''w'',
                ei_InnerIpAddress = [''10.0.0.1''], ei_PublicIpAddress = []\<rparr>,
      ci_Region = ''cn-x'', ci_Tags = [(MachineNameTagKey, ''w'')], ci_Token = ''uid-1''\<rparr>"

section \<open>One instance per machine\<close>

text \<open>
  C1.  Whatever happens to a machine - reconciles whose patch is lost in whole or in part,
  instances that change state or vanish, edits of the object - the account never holds two
  live instances with the machine's tag, which is the name of the owner Machine, in one region, if it
  started with at most one, the object keeps its owner, and the ECS service keeps its documented
  laws, complete and current answers to a query by tag among them.  This is the adopt-by-tag guard
  of \<open>CreateECSInstance\<close> together with the client token, through the retry loop.
\<close>

theorem one_instance_per_machine:
  assumes "ecs_builder acct r" and "owned_by r (om_UID (m_Meta m)) owner"
    and "owner \<noteq> []" "om_UID (m_Meta m) \<noteq> []"
    and "\<forall>rg. length (filter (tagged rg MachineNameTagKey owner) (acct (cloud w))) \<le> 1"
    and "life r (\<lambda>w. acct (cloud w)) (m, w) (m', w')"
  shows "length (filter (tagged rg MachineNameTagKey owner) (acct (cloud w'))) \<le> 1"
  using life_invariant [OF ecs_builder_contract [OF assms(1)] assms(2-4,6)] assms(5)
  by (simp add: life_inv_def one_live_def)

definition after_lost_patch :: "SimCloud World \<Rightarrow> SimCloud World" where
  "after_lost_patch w = snd (snd (reconcileFetched sim_reconciler (blank_machine ''infra-w'') w))"

lemma lost_patch_step:
  "life_step sim_reconciler (\<lambda>w. sim_acct (cloud w)) (blank_machine ''infra-w'', w) (blank_machine ''infra-w'', after_lost_patch w)"
  by (rule life_step.reconcile [of _ _ _ "fst (reconcileFetched sim_reconciler (blank_machine ''infra-w'') w)"
        "fst (snd (reconcileFetched sim_reconciler (blank_machine ''infra-w'') w))"])
    (simp_all add: after_lost_patch_def persisted_def)

theorem one_instance_per_machine_witness:
  "length (filter (tagged ''cn-x'' MachineNameTagKey ''w'')
     (sim_insts_of (after_lost_patch (after_lost_patch (sim_world []))))) \<le> 1
   \<and> length (sim_insts_of (after_lost_patch (sim_world []))) = 1"
proof -
  have "life sim_reconciler (\<lambda>w. sim_acct (cloud w)) (blank_machine ''infra-w'', sim_world [])
      (blank_machine ''infra-w'', after_lost_patch (after_lost_patch (sim_world [])))"
    using lost_patch_step by (meson rtranclp.rtrancl_into_rtrancl rtranclp.rtrancl_refl)
  from one_instance_per_machine [OF sim_ecs_builder sim_owned_by _ _ _ this, of "''cn-x''"]
  have "length (filter (tagged ''cn-x'' MachineNameTagKey ''w'')
     (sim_insts_of (after_lost_patch (after_lost_patch (sim_world []))))) \<le> 1"
    by (simp add: blank_defs sim_world_def sim_acct_def)
  moreover have "length (sim_insts_of (after_lost_patch (sim_world []))) = 1" by code_simp
  ultimately show ?thesis by blast
qed

section \<open>Deletion\<close>

text \<open>
  C2.  The finalizer is only released when the infrastructure is gone: if a delete reconcile
  changes the object's metadata and the machine's region is known, then the account holds no
  live instance in that region with the tag the sweep looks for, the name of the AlibabaCloudMachine,
  and none with the recorded identifier.
\<close>

theorem finalizer_released_only_when_gone:
  assumes "ecs_builder acct r" and "reconcileDelete r m w = (out, m', w')"
    and "m_Meta m' \<noteq> m_Meta m" and "regionFromMachine m = Inr rg"
  shows "(\<forall>x \<in> set (acct (cloud w')). \<not> tagged rg MachineNameTagKey (om_Name (m_Meta m)) x)
    \<and> (\<forall>x \<in> set (acct (cloud w')). recordedInstanceID m \<noteq> [] \<and> ci_Region x = rg
         \<longrightarrow> inst_id x \<noteq> recordedInstanceID m)"
  using reconcileDelete_release [OF ecs_builder_contract [OF assms(1)] assms(2,3)] assms(4) by auto

theorem finalizer_released_only_when_gone_witness:
  "\<not> tagged ''cn-x'' MachineNameTagKey ''w'' (sim_instance ''i-9'' ''Deleted'')
   \<and> m_Meta (fst (snd (reconcileDelete sim_reconciler deleting_machine
       (sim_world [sim_instance ''i-9'' ''Deleted''])))) \<noteq> m_Meta deleting_machine"
proof -
  let ?w = "sim_world [sim_instance ''i-9'' ''Deleted'']"
  obtain out m' w' where run: "reconcileDelete sim_reconciler deleting_machine ?w = (out, m', w')"
    by (metis prod.exhaust)
  have fin: "om_Finalizers (m_Meta (fst (snd (reconcileDelete sim_reconciler deleting_machine ?w)))) = []"
    by code_simp
  have acct: "sim_insts_of (snd (snd (reconcileDelete sim_reconciler deleting_machine ?w)))
      = [sim_instance ''i-9'' ''Deleted'']" by code_simp
  have meta: "m_Meta m' \<noteq> m_Meta deleting_machine"
    using fin run by (auto simp: deleting_machine_def)
  have rg: "regionFromMachine deleting_machine = Inr ''cn-x''"
    by (simp add: regionFromMachine_def deleting_machine_def)
  from finalizer_released_only_when_gone [OF sim_ecs_builder run meta rg] acct run meta
  show ?thesis by (simp add: deleting_machine_def blank_meta_def)
qed







text \<open>The same object, marked for deletion.\<close>

definition marked_deleted :: "int \<Rightarrow> AlibabaCloudMachine \<Rightarrow> AlibabaCloudMachine" where
  "marked_deleted t m = m\<lparr>m_Meta := (m_Meta m)\<lparr>om_DeletionTimestamp := Some t\<rparr>\<rparr>"

text \<open>
  C36.  The limit of C2: if the region field of a machine is empty and nothing of an instance is
  recorded on it, a pass that creates an instance and loses its patch leaves no trace on the object,
  and the next delete reconcile releases the finalizer without a single call to the cloud: the
  instance the first pass created stays in the account.
\<close>

theorem lost_patch_orphans_instance:
  assumes "capi_util_laws (r_Util r)"
    and "ms_RegionID (m_Spec m) = []" "ms_ProviderID (m_Spec m) = None" "mst_InstanceID (m_Status m) = None"
    and "reconcileFetched r m w = (out, m1, w1)"
    and "x \<in> set (acct (cloud w1))" "x \<notin> set (acct (cloud w))"
  shows "\<exists>m' w'. reconcileFetched r (marked_deleted t m) w1 = ((noRequeue, None), m', w')
    \<and> MachineFinalizer \<notin> set (om_Finalizers (m_Meta m')) \<and> w' = w1 \<and> x \<in> set (acct (cloud w'))"
proof -
  let ?d = "marked_deleted t m"
  have "\<exists>err. regionFromMachine ?d = Inl err" "recordedInstanceID ?d = []"
    using assms(2-4) by (simp_all add: regionFromMachine_def recordedInstanceID_def marked_deleted_def)
  then have "reconcileDelete r ?d w1 = ((noRequeue, None), dropFinalizer (r_Util r) ?d, w1)"
    by (auto simp: reconcileDelete_def)
  then have "reconcileFetched r ?d w1 = ((noRequeue, None), dropFinalizer (r_Util r) ?d, w1)"
    by (simp add: reconcileFetched_def marked_deleted_def)
  with assms(6) capi_util_laws.finalizer_removed [OF assms(1)] show ?thesis by (simp add: dropFinalizer_def)
qed

definition unpersisted_machine :: AlibabaCloudMachine where
  "unpersisted_machine =
     \<lparr>m_Meta = (blank_meta ''w'')\<lparr>om_Finalizers := [MachineFinalizer]\<rparr>, m_Spec = blank_spec,
      m_Status = blank_status\<rparr>"

theorem lost_patch_orphans_instance_witness:
  "\<exists>w1 m'. snd (snd (reconcileFetched sim_reconciler unpersisted_machine (sim_world []))) = w1
    \<and> reconcileFetched sim_reconciler (marked_deleted 1 unpersisted_machine) w1 = ((noRequeue, None), m', w1)
    \<and> MachineFinalizer \<notin> set (om_Finalizers (m_Meta m')) \<and> sim_insts_of w1 \<noteq> []"
proof -
  let ?run = "reconcileFetched sim_reconciler unpersisted_machine (sim_world [])"
  obtain out m1 w1 where run: "?run = (out, m1, w1)" by (metis prod.exhaust)
  have "length (sim_insts_of (snd (snd ?run))) = 1" by code_simp
  then obtain x where x: "x \<in> set (sim_insts_of w1)" using run by (cases "sim_insts_of w1") auto
  have new: "x \<notin> set (sim_insts_of (sim_world []))" by (simp add: sim_world_def sim_acct_def)
  have util: "capi_util_laws (r_Util sim_reconciler)"
    using std_capi.capi_util_laws_axioms by (simp add: sim_reconciler_def)
  have blank: "ms_RegionID (m_Spec unpersisted_machine) = []" "ms_ProviderID (m_Spec unpersisted_machine) = None"
    "mst_InstanceID (m_Status unpersisted_machine) = None"
    by (simp_all add: unpersisted_machine_def blank_defs)
  from lost_patch_orphans_instance [OF util blank run x new, of 1] run x show ?thesis by fastforce
qed

text \<open>
  C4.  A delete reconcile that finds the recorded instance issues the forced delete in every
  state but \<open>Stopping\<close> and \<open>Deleted\<close> - in particular in the resting state \<open>Stopped\<close> - and keeps
  the finalizer; in those two states it makes no call.  It polls again after the delay, unless the
  delete fails, in which case that error is returned.
\<close>

theorem delete_issued_unless_leaving:
  assumes "regionFromMachine m = Inr rg" and "r_ClientBuilder r rg w = Inr c"
    and "recordedInstanceID m \<noteq> []"
    and "describeInstance c (recordedInstanceID m) w = (Inr (Some info), w1)"
    and "reconcileDelete r m w = (out, m', w')"
  shows "w' = (if ii_State info \<in> {InstanceStateStopping, InstanceStateDeleted} then w1
               else snd (DeleteECSInstance c (recordedInstanceID m) True w1))
    \<and> out = (if ii_State info \<in> {InstanceStateStopping, InstanceStateDeleted} then (requeue, None)
              else case fst (DeleteECSInstance c (recordedInstanceID m) True w1) of
                     None \<Rightarrow> (requeue, None)
                   | Some err \<Rightarrow> (noRequeue, Some (Wrap ''failed to delete ECS instance %s: %w''
                                                   [Lit (recordedInstanceID m)] err)))
    \<and> m_Meta m' = m_Meta m \<and> mst_InstanceID (m_Status m') = Some (recordedInstanceID m)
    \<and> mst_InstanceState (m_Status m') = Some (ii_State info)"
  using assms healed_instance [OF assms(3)]
  by (auto simp: reconcileDelete_def deletePresent_def deleteInstance_def Let_def
      split: if_splits prod.splits option.splits)

definition recorded_machine :: AlibabaCloudMachine where
  "recorded_machine = deleting_machine\<lparr>m_Spec := blank_spec\<lparr>ms_RegionID := ''cn-x'',
     ms_ProviderID := Some (providerIDFor ''cn-x'' ''i-9'')\<rparr>\<rparr>"

theorem delete_issued_unless_leaving_witness:
  "sim_insts_of (snd (snd (reconcileDelete sim_reconciler recorded_machine
     (sim_world [sim_instance ''i-9'' ''Stopped''])))) = []"
proof -
  let ?w = "sim_world [sim_instance ''i-9'' ''Stopped'']"
  let ?info = "\<lparr>ii_InstanceID = ''i-9'', ii_State = ''Stopped'', ii_HostName = ''w'',
    ii_PrivateIP = ''10.0.0.1'', ii_PublicIP = []\<rparr>"
  obtain out m' w' where run: "reconcileDelete sim_reconciler recorded_machine ?w = (out, m', w')"
    by (metis prod.exhaust)
  obtain d w1 where desc: "describeInstance (sim_client ''cn-x'') ''i-9'' ?w = (d, w1)" by fastforce
  have "fst (describeInstance (sim_client ''cn-x'') ''i-9'' ?w) = Inr (Some ?info)" by code_simp
  with desc have d: "describeInstance (sim_client ''cn-x'') ''i-9'' ?w = (Inr (Some ?info), w1)" by simp
  have rec: "recordedInstanceID recorded_machine = ''i-9''" by code_simp
  have "w' = snd (DeleteECSInstance (sim_client ''cn-x'') ''i-9'' True w1)"
    using delete_issued_unless_leaving [of recorded_machine "''cn-x''" sim_reconciler ?w
        "sim_client ''cn-x''" ?info w1 out m' w'] d rec run
    by (simp add: regionFromMachine_def recorded_machine_def deleting_machine_def sim_reconciler_def
        InstanceState_defs)
  moreover have "sim_insts_of (snd (DeleteECSInstance (sim_client ''cn-x'') ''i-9'' True
      (snd (describeInstance (sim_client ''cn-x'') ''i-9'' ?w)))) = []" by code_simp
  ultimately show ?thesis using run desc by simp
qed

section \<open>Provisioning\<close>

text \<open>
  C5.  A reconcile turns a machine that is not Ready into a Ready one only on an
  observed \<open>Running\<close> instance: the recorded instance was described in that state in this very pass, by the client of the
  machine's region, the status carries it, the
  cluster infrastructure was ready, and the provider ID names that instance (or carries no
  instance name).
\<close>

theorem ready_means_running:
  assumes "reconcileNormal r machine cluster m w = (out, m', w')"
    and "\<not> mst_Ready (m_Status m)" and "mst_Ready (m_Status m')"
  shows "\<exists>c i info w1 pid. cst_Ready (ac_Status cluster)
    \<and> r_ClientBuilder r (resolveRegion m (Some cluster)) w = Inr c
    \<and> mst_InstanceID (m_Status m) = Some i
    \<and> describeInstance c i w = (Inr (Some info), w1) \<and> ii_State info = InstanceStateRunning
    \<and> mst_InstanceState (m_Status m') = Some InstanceStateRunning
    \<and> mst_InstanceID (m_Status m') = Some (ii_InstanceID info)
    \<and> ms_ProviderID (m_Spec m') = Some pid
    \<and> (providerInstanceID pid \<in> {i, []} \<or> pid = providerIDFor (resolveRegion m (Some cluster)) i)
    \<and> out = (noRequeue, None)"
  using assms(1)
proof (cases rule: reconcileNormal_cases)
  case (reached m1 c ri m2)
  note fd = resolveFailureDomain_frame [OF reached(3)]
  have "mst_Ready (m_Status m2) = mst_Ready (m_Status m)"
    using findOrCreateInstance_ready [OF reached(5)] fd by simp
  with reached(6) assms(2,3) have "\<exists>info. ri = Inr (Some info)"
    by (auto split: sum.splits option.splits)
  then obtain info where ri: "ri = Inr (Some info)" ..
  from reached(5) obtain i w1 where run: "mst_InstanceID (m_Status m1) = Some i"
    "providerIDMismatch m1 i = None" "describeInstance c i w = (Inr (Some info), w1)"
    "ii_State info = InstanceStateRunning"
    "maybeHardenMetadata c (Some machine) (syncInstanceStatus info (healProviderID cluster i m1)) i w1
       = (m2, w')"
    by (cases rule: findOrCreateInstance_cases) (auto simp: ri)
  have spec: "m_Spec m2 = m_Spec (healProviderID cluster i m1)"
    using maybeHardenMetadata_frame(2) [OF run(5)] by simp
  have region: "resolveRegion m1 (Some cluster) = resolveRegion m (Some cluster)"
    using fd(3) by (simp add: resolveRegion_def)
  have pid: "\<exists>pid. ms_ProviderID (m_Spec m2) = Some pid
      \<and> (providerInstanceID pid \<in> {i, []} \<or> pid = providerIDFor (resolveRegion m (Some cluster)) i)"
    using run(2) spec region
    by (auto simp: healProviderID_def providerIDMismatch_def Let_def split: option.splits if_splits)
  have "mst_InstanceState (m_Status m') = Some InstanceStateRunning"
    "mst_InstanceID (m_Status m') = Some (ii_InstanceID info)" "m_Spec m' = m_Spec m2"
    "out = (noRequeue, None)"
    using reached(6) ri run(4) maybeHardenMetadata_frame(3,4) [OF run(5)]
    by (simp_all add: markReady_def Let_def)
  with reached(1) reached(4) [unfolded region] run(1,3,4) fd(2) pid show ?thesis by auto
qed (use assms in \<open>auto simp: markReady_def dest: resolveFailureDomain_frame(2)\<close>)

definition joined_machine :: AlibabaCloudMachine where
  "joined_machine = \<lparr>m_Meta = blank_meta ''w'', m_Spec = blank_spec,
     m_Status = blank_status\<lparr>mst_InstanceID := Some ''i-9''\<rparr>\<rparr>"

theorem ready_means_running_witness:
  "\<exists>m' w'. reconcileNormal sim_reconciler (sim_owner ''w'') sim_cluster joined_machine
      (sim_world [sim_instance ''i-9'' ''Running'']) = ((noRequeue, None), m', w')
    \<and> mst_InstanceState (m_Status m') = Some ''Running''"
proof -
  let ?run = "reconcileNormal sim_reconciler (sim_owner ''w'') sim_cluster joined_machine
      (sim_world [sim_instance ''i-9'' ''Running''])"
  obtain out m' w' where run: "?run = (out, m', w')" by (metis prod.exhaust)
  have "mst_Ready (m_Status (fst (snd ?run)))" by code_simp
  with run have "mst_Ready (m_Status m')" by simp
  moreover have "\<not> mst_Ready (m_Status joined_machine)" by (simp add: joined_machine_def blank_status_def)
  ultimately show ?thesis using ready_means_running [OF run] run by (auto simp: InstanceState_defs)
qed

lemma resolveFailureDomain_found:
  assumes "resolveFailureDomain machine cluster m = (None, m1)" and "mach_FailureDomain machine \<noteq> []"
  shows "\<exists>fd. find (\<lambda>fd. cfd_Name fd = mach_FailureDomain machine) (cst_FailureDomains (ac_Status cluster)) = Some fd
    \<and> (ms_VSwitchID (m_Spec m) \<noteq> [] \<or> (\<exists>v. map_of (cfd_Attributes fd) ''vSwitchID'' = Some v \<and> v \<noteq> []))"
  using assms by (auto simp: resolveFailureDomain_def Let_def split: option.splits if_splits)

text \<open>
  C6.  No cloud call is made for a machine whose cluster is not ready, whose bootstrap data is
  not there (neither the data secret nor the legacy secret), or whose failure domain cannot be
  resolved, because the cluster does not publish it or because neither the machine nor the domain
  names a switch; and whenever a cloud call was made, the object carries the finalizer.
\<close>

theorem no_instance_before_bootstrap:
  assumes "capi_util_laws (r_Util r)"
    and "reconcileNormal r machine cluster m w = (out, m', w')" and "w' \<noteq> w"
  shows "cst_Ready (ac_Status cluster)
    \<and> (mach_DataSecretName machine \<noteq> None \<or> ms_UserDataSecret (m_Spec m) \<noteq> None)
    \<and> (mach_FailureDomain machine \<noteq> [] \<longrightarrow>
         (\<exists>fd. find (\<lambda>fd. cfd_Name fd = mach_FailureDomain machine) (cst_FailureDomains (ac_Status cluster)) = Some fd
            \<and> (ms_VSwitchID (m_Spec m) \<noteq> [] \<or> (\<exists>v. map_of (cfd_Attributes fd) ''vSwitchID'' = Some v \<and> v \<noteq> []))))
    \<and> MachineFinalizer \<in> set (om_Finalizers (m_Meta m'))"
  using assms(2)
proof (cases rule: reconcileNormal_cases)
  case (reached m1 c ri m2)
  from resolveFailureDomain_found [OF reached(3)] reached(1,2) reconcileNormal_meta [OF assms(2)] capi_util_laws.finalizer_added [OF assms(1)]
  show ?thesis by (auto simp: addFinalizer_def)
qed (use assms(3) in simp_all)

theorem no_instance_before_bootstrap_witness:
  "\<exists>m' w'. snd (reconcileNormal sim_reconciler (sim_owner ''w'') sim_cluster (blank_machine ''w'')
      (sim_world [])) = (m', w') \<and> MachineFinalizer \<in> set (om_Finalizers (m_Meta m'))"
proof -
  let ?run = "reconcileNormal sim_reconciler (sim_owner ''w'') sim_cluster (blank_machine ''w'') (sim_world [])"
  obtain out m' w' where run: "?run = (out, m', w')" by (metis prod.exhaust)
  have "length (sim_insts_of (snd (snd ?run))) = 1" by code_simp
  then have "w' \<noteq> sim_world []" using run by (auto simp: sim_world_def sim_acct_def)
  moreover have "capi_util_laws (r_Util sim_reconciler)"
    using std_capi.capi_util_laws_axioms by (simp add: sim_reconciler_def)
  ultimately show ?thesis using no_instance_before_bootstrap [OF _ run] run by auto
qed

text \<open>
  C7.  The terminal-failure contract: when a reconcile records a failure reason that was not
  there before, it is one of the seven reasons of the controller, the machine is not Ready, the
  Ready condition is false with that reason and message, and the request is neither retried nor
  reported as an error.
\<close>

theorem terminal_failure_contract:
  assumes "capi_util_laws (r_Util r)"
    and "reconcileNormal r machine cluster m w = (out, m', w')"
    and "mst_FailureReason (m_Status m) = None" and "mst_FailureReason (m_Status m') = Some reason"
    and "plain_errors r"
  shows "reason \<in> set terminal_reasons \<and> out = (noRequeue, None) \<and> \<not> mst_Ready (m_Status m')
    \<and> (\<exists>msg. mst_FailureMessage (m_Status m') = Some msg
         \<and> condition_get ReadyCondition (mst_Conditions (m_Status m')) = Some (notReady reason msg))"
  using assms(2)
proof (cases rule: reconcileNormal_cases)
  case (reached m1 c ri m2)
  have "mst_FailureReason (m_Status m2) = mst_FailureReason (m_Status m1)"
    using reached(5)
  proof (cases rule: findOrCreateInstance_cases)
    case (running i info w1)
    from maybeHardenMetadata_frame(6) [OF running(6)] show ?thesis by simp
  next
    case (failed err)
    then show ?thesis by (metis createInstance_failure_frame)
  next
    case fresh
    then show ?thesis by (metis createInstance_failure_frame)
  qed simp_all
  then have none: "mst_FailureReason (m_Status m2) = None"
    using resolveFailureDomain_frame(2) [OF reached(3)] assms(3) by simp
  from reached(6) obtain err rs msg where err: "ri = Inl err" "asTerminalError err = Some (rs, msg)"
    and out: "out = (noRequeue, None)" "m' = setFailed (r_Util r) rs msg m2"
    using assms(4) none by (auto simp: markReady_def Let_def split: sum.splits option.splits)
  have "plain_client c" "\<And>k w e. GetSecret (r_Kube r) k w = Inl e \<Longrightarrow> plain e"
    using assms(5) reached(4) unfolding plain_errors_def by blast+
  with findOrCreateInstance_classified [OF reached(5) [unfolded err(1)]] err(2)
  have "rs \<in> set terminal_reasons" by (simp add: classified_def)
  moreover from this have "rs \<noteq> []" by (auto simp: terminal_reasons_def)
  ultimately show ?thesis
    using capi_util_laws.machine_ready_after_set [OF assms(1)] out assms(4) by (auto simp: setFailed_def)
qed (use assms(3,4) in \<open>auto dest: resolveFailureDomain_frame(2)\<close>)

theorem terminal_failure_contract_witness:
  "\<exists>m' w' msg. reconcileNormal sim_reconciler (sim_owner ''w'') sim_cluster joined_machine (sim_world [])
     = ((noRequeue, None), m', w')
   \<and> condition_get ReadyCondition (mst_Conditions (m_Status m')) = Some (notReady ''InstanceDisappeared'' msg)"
proof -
  let ?run = "reconcileNormal sim_reconciler (sim_owner ''w'') sim_cluster joined_machine (sim_world [])"
  obtain out m' w' where run: "?run = (out, m', w')" by (metis prod.exhaust)
  have "mst_FailureReason (m_Status (fst (snd ?run))) = Some ''InstanceDisappeared''" by code_simp
  with run have "mst_FailureReason (m_Status m') = Some ''InstanceDisappeared''" by simp
  moreover have "mst_FailureReason (m_Status joined_machine) = None"
    by (simp add: joined_machine_def blank_status_def)
  moreover have "capi_util_laws (r_Util sim_reconciler)"
    using std_capi.capi_util_laws_axioms by (simp add: sim_reconciler_def)
  ultimately show ?thesis using terminal_failure_contract [OF _ run _ _ sim_plain_errors] run by auto
qed

section \<open>The controller against the webhook\<close>

text \<open>The spec fields the controller writes, each only while it is unset.\<close>

definition controller_write :: "AlibabaCloudMachineSpec \<Rightarrow> AlibabaCloudMachineSpec \<Rightarrow> bool" where
  "controller_write a b \<longleftrightarrow>
     (\<exists>p rg z v. b = a\<lparr>ms_ProviderID := p, ms_RegionID := rg, ms_ZoneID := z, ms_VSwitchID := v\<rparr>
        \<and> (ms_ProviderID a \<noteq> None \<longrightarrow> p = ms_ProviderID a) \<and> (ms_RegionID a \<noteq> [] \<longrightarrow> rg = ms_RegionID a)
        \<and> (ms_ZoneID a \<noteq> [] \<longrightarrow> z = ms_ZoneID a) \<and> (ms_VSwitchID a \<noteq> [] \<longrightarrow> v = ms_VSwitchID a))"

lemma controller_write_intro:
  assumes "b = a\<lparr>ms_ProviderID := ms_ProviderID b, ms_RegionID := ms_RegionID b, ms_ZoneID := ms_ZoneID b,
      ms_VSwitchID := ms_VSwitchID b\<rparr>"
    and "ms_ProviderID a \<noteq> None \<Longrightarrow> ms_ProviderID b = ms_ProviderID a"
    and "ms_RegionID a \<noteq> [] \<Longrightarrow> ms_RegionID b = ms_RegionID a"
    and "ms_ZoneID a \<noteq> [] \<Longrightarrow> ms_ZoneID b = ms_ZoneID a"
    and "ms_VSwitchID a \<noteq> [] \<Longrightarrow> ms_VSwitchID b = ms_VSwitchID a"
  shows "controller_write a b"
  unfolding controller_write_def using assms by blast

lemma controller_write_refl [simp]: "controller_write a a"
  by (rule controller_write_intro) simp_all

lemma controller_write_trans: "controller_write a b \<Longrightarrow> controller_write b c \<Longrightarrow> controller_write a c"
proof -
  assume "controller_write a b" "controller_write b c"
  then obtain p rg z v p' rg' z' v' where
    b: "b = a\<lparr>ms_ProviderID := p, ms_RegionID := rg, ms_ZoneID := z, ms_VSwitchID := v\<rparr>"
      "ms_ProviderID a \<noteq> None \<longrightarrow> p = ms_ProviderID a" "ms_RegionID a \<noteq> [] \<longrightarrow> rg = ms_RegionID a"
      "ms_ZoneID a \<noteq> [] \<longrightarrow> z = ms_ZoneID a" "ms_VSwitchID a \<noteq> [] \<longrightarrow> v = ms_VSwitchID a"
    and c: "c = b\<lparr>ms_ProviderID := p', ms_RegionID := rg', ms_ZoneID := z', ms_VSwitchID := v'\<rparr>"
      "ms_ProviderID b \<noteq> None \<longrightarrow> p' = ms_ProviderID b" "ms_RegionID b \<noteq> [] \<longrightarrow> rg' = ms_RegionID b"
      "ms_ZoneID b \<noteq> [] \<longrightarrow> z' = ms_ZoneID b" "ms_VSwitchID b \<noteq> [] \<longrightarrow> v' = ms_VSwitchID b"
    unfolding controller_write_def by (elim exE conjE)
  show ?thesis
    unfolding controller_write_def
    by (intro exI [of _ p'] exI [of _ rg'] exI [of _ z'] exI [of _ v'] conjI) (use b c in simp_all)
qed

lemma controller_write_admitted:
  "controller_write a b \<Longrightarrow> machine_spec_ok a \<Longrightarrow> machine_spec_ok b \<and> machine_update_ok a b"
  by (auto simp: controller_write_def machine_spec_ok_def machine_update_ok_def)

lemma resolveFailureDomain_write:
  "resolveFailureDomain machine cluster m = (e, m') \<Longrightarrow> controller_write (m_Spec m) (m_Spec m')"
  by (rule controller_write_intro)
    (auto simp: resolveFailureDomain_def Let_def split: option.splits if_splits)

lemma withRegion_write: "controller_write (m_Spec m) (m_Spec (withRegion rg m))"
  by (rule controller_write_intro) (simp_all add: withRegion_def)

lemma healProviderID_write: "controller_write (m_Spec m) (m_Spec (healProviderID cluster i m))"
  by (rule controller_write_intro) (simp_all add: healProviderID_def)

lemma createInstance_write:
  assumes "createInstance K c machine cluster m w = (e, m', w')" and "ms_ProviderID (m_Spec m) = None"
  shows "controller_write (m_Spec m) (m_Spec m')"
  using assms(1)
proof (cases rule: createInstance_cases)
  case (noOffload ud err)
  from maybeOffloadUserData_frame(2) [OF noOffload(3)] withRegion_write show ?thesis by simp
next
  case (rejected ud ud' w2 err)
  from maybeOffloadUserData_frame(2) [OF rejected(2)] withRegion_write show ?thesis by simp
next
  case (created ud ud' m2 w2 resp)
  let ?rg = "resolveRegion m (Some cluster)"
  have spec: "m_Spec m2 = m_Spec (withRegion ?rg m)" using maybeOffloadUserData_frame(2) [OF created(3)] .
  have "controller_write (m_Spec m2) (m_Spec m')"
    by (rule controller_write_intro) (use spec created(5) assms(2) in \<open>simp_all add: recordInstance_def withRegion_def split: if_splits\<close>)
  with withRegion_write [of m ?rg] show ?thesis unfolding spec by (rule controller_write_trans)
qed simp_all

lemma findOrCreateInstance_write:
  assumes "findOrCreateInstance K c machine cluster m w = (r, m', w')"
    and "mst_InstanceID (m_Status m) = None \<Longrightarrow> ms_ProviderID (m_Spec m) = None"
  shows "controller_write (m_Spec m) (m_Spec m')"
  using assms(1)
proof (cases rule: findOrCreateInstance_cases)
  case (running i info w1)
  from maybeHardenMetadata_frame(2) [OF running(6)] healProviderID_write show ?thesis by simp
qed (use assms(2) createInstance_write healProviderID_write in auto)

text \<open>
  C12.  The webhook never rejects the controller's own spec write: for an admitted machine
  whose provider ID is not set without a recorded instance, the object a reconcile produces
  passes update validation against the stored one - on every path, errors included.
\<close>

theorem controller_writes_admitted:
  assumes "reconcileNormal r machine cluster m w = (out, m', w')"
    and "machine_spec_ok (m_Spec m)"
    and "mst_InstanceID (m_Status m) = None \<Longrightarrow> ms_ProviderID (m_Spec m) = None"
  shows "machine_ValidateUpdate (MachineObject m) (MachineObject m') = None"
proof -
  have "controller_write (m_Spec m) (m_Spec m')"
    using assms(1)
  proof (cases rule: reconcileNormal_cases)
    case (noDomain err m1)
    with resolveFailureDomain_write [OF noDomain(1)] show ?thesis by simp
  next
    case (noClient err m1)
    with resolveFailureDomain_write [OF noClient(1)] show ?thesis by simp
  next
    case (reached m1 c ri m2)
    have "controller_write (m_Spec m1) (m_Spec m2)"
      using findOrCreateInstance_write [OF reached(5)] resolveFailureDomain_frame [OF reached(3)] assms(3)
      by simp
    moreover have "m_Spec m' = m_Spec m2" using reached(6) by (auto split: sum.splits option.splits)
    ultimately show ?thesis using resolveFailureDomain_write [OF reached(3)] controller_write_trans by simp
  qed simp_all
  from controller_write_admitted [OF this assms(2)] show ?thesis
    by (simp add: machine_ValidateUpdate_accepts)
qed

theorem controller_writes_admitted_witness:
  "machine_ValidateUpdate (MachineObject (blank_machine ''w''))
     (MachineObject (fst (snd (reconcileNormal sim_reconciler (sim_owner ''w'') sim_cluster
        (blank_machine ''w'') (sim_world []))))) = None"
  by (rule controller_writes_admitted [of sim_reconciler "sim_owner ''w''" sim_cluster _ "sim_world []"
        "fst (reconcileNormal sim_reconciler (sim_owner ''w'') sim_cluster (blank_machine ''w'') (sim_world []))"
        _ "snd (snd (reconcileNormal sim_reconciler (sim_owner ''w'') sim_cluster (blank_machine ''w'') (sim_world [])))"])
    (simp_all add: blank_defs machine_spec_ok_def go_slice_def spot_ok_def)

section \<open>Creation requests\<close>

text \<open>
  Classification of create errors: exactly the five capacity and spot codes become
  terminal failures; every other error stays retryable and keeps its server code for
  \<open>errors.As\<close>.
\<close>

theorem create_error_classification:
  assumes "asTerminalError err = None"
  shows "(asTerminalError (classifyCreateError err) \<noteq> None \<longleftrightarrow>
      (\<exists>code hs. asServerError err = Some (code, hs)
         \<and> code \<in> {''Invalid.Zone.NotEnoughResource'', ''InsufficientCapacity'', ''OperationDenied.NoStock'',
                    ''Invalid.SpotStrategy.NotSupported'', ''Invalid.SpotPriceLimit.Exceeded''}))
    \<and> (asTerminalError (classifyCreateError err) = None \<longrightarrow>
         asServerError (classifyCreateError err) = asServerError err)"
  using assms
  by (auto simp: classifyCreateError_def alibabaErrorCode_def newTerminalError_def
      split: option.splits if_splits)

text \<open>
  Metadata tokens are required unless the spec says otherwise: the RunInstances request
  of a machine asks for anything but \<open>required\<close> only if its metadata options name that value.
\<close>

theorem imds_token_required:
  assumes "rq_HttpTokens (runInstancesRequest (createParams machine cluster m region img ud)) \<noteq> ''required''"
  shows "\<exists>mo. ms_MetadataOptions (m_Spec m) = Some mo \<and> mo_HttpTokens mo \<noteq> []
    \<and> rq_HttpTokens (runInstancesRequest (createParams machine cluster m region img ud)) = mo_HttpTokens mo"
  using assms
  by (auto simp: runInstancesRequest_def createParams_def resolveMetadataOptions_def split_beta Let_def
      defaultHTTPTokens_def split: option.splits if_splits)

text \<open>
  C19.  Hardening waits for the node: the metadata options of a live instance are only changed
  when the spec asks for it, the owning Machine has a node reference and the change was not
  made before; the call carries the requested token mode, and on success it is recorded, after
  which no further call is made.
\<close>

theorem hardening_only_after_join:
  assumes "maybeHardenMetadata c (Some machine) m i w = (m', w')" and "(m', w') \<noteq> (m, w)"
  shows "\<exists>mo ep tok hop e. ms_MetadataOptions (m_Spec m) = Some mo \<and> mo_HttpTokensAfterBoot mo \<noteq> []
    \<and> resolveMetadataOptions (Some mo) = (ep, tok, hop)
    \<and> mach_NodeRefName machine \<noteq> [] \<and> mst_MetadataHardened (m_Status m) \<noteq> Some True
    \<and> ModifyInstanceMetadata c i ep (mo_HttpTokensAfterBoot mo) hop w = (e, w')
    \<and> (e = None \<longrightarrow> mst_MetadataHardened (m_Status m') = Some True
         \<and> maybeHardenMetadata c' (Some machine') m' i' w'' = (m', w''))
    \<and> (e \<noteq> None \<longrightarrow> m' = m)"
  using assms
  by (auto simp: maybeHardenMetadata_def Let_def split: option.splits if_splits prod.splits)

definition optional_machine :: AlibabaCloudMachine where
  "optional_machine = (blank_machine ''w'')\<lparr>m_Spec := blank_spec\<lparr>ms_MetadataOptions :=
     Some \<lparr>mo_HttpEndpoint = [], mo_HttpTokens = ''optional'', mo_HttpTokensAfterBoot = ''required'',
           mo_HttpPutResponseHopLimit = 2\<rparr>\<rparr>\<rparr>"

theorem hardening_only_after_join_witness:
  "\<exists>m' w'. maybeHardenMetadata (sim_client ''cn-x'') (Some ((sim_owner ''w'')\<lparr>mach_NodeRefName := ''n1''\<rparr>))
      optional_machine ''i-9'' (sim_world []) = (m', w') \<and> mst_MetadataHardened (m_Status m') = Some True"
proof -
  let ?run = "maybeHardenMetadata (sim_client ''cn-x'') (Some ((sim_owner ''w'')\<lparr>mach_NodeRefName := ''n1''\<rparr>))
      optional_machine ''i-9'' (sim_world [])"
  obtain m' w' where run: "?run = (m', w')" by fastforce
  have "mst_MetadataHardened (m_Status (fst ?run)) = Some True" by code_simp
  then have h: "mst_MetadataHardened (m_Status m') = Some True" using run by simp
  then have "m' \<noteq> optional_machine" by (auto simp: optional_machine_def blank_defs)
  with hardening_only_after_join [OF run, of "sim_client ''cn-x''" "sim_owner ''w''" "''i-9''" "sim_world []"] run h
  show ?thesis by auto
qed

end
