(* ===== verification/Provisioning.thy ===== *)
theory Provisioning
  imports Machine_Properties
begin

text \<open>
  Provisioning makes progress: with a ready cluster, bootstrap data, a boot image and an ECS
  service that runs what it is asked to run, repeated reconciles take a new machine to Ready.
  Time passes between two reconciles as a function \<open>env\<close> of the world, in which every
  instance needs \<open>eta\<close> more ticks until it runs.
\<close>

section \<open>What provisioning relies on\<close>







definition here :: "string \<Rightarrow> string \<Rightarrow> CloudInst \<Rightarrow> bool" where
  "here rg i x \<longleftrightarrow> ci_Region x = rg \<and> inst_id x = i"





section \<open>Failure domains that are resolved stay resolved\<close>






section \<open>The passes\<close>













section \<open>The property\<close>


section \<open>The simulated account starts its instances\<close>

definition next_state :: "string \<Rightarrow> string" where
  "next_state st = (if st = InstanceStatePending then InstanceStateStarting
                    else if st = InstanceStateStarting then InstanceStateRunning else st)"

definition advance :: "CloudInst \<Rightarrow> CloudInst" where
  "advance x = x\<lparr>ci_Inst := (ci_Inst x)\<lparr>ei_Status := next_state (ei_Status (ci_Inst x))\<rparr>\<rparr>"



lemma advance_frame [simp]:
  "inst_id (advance x) = inst_id x" "ci_Region (advance x) = ci_Region x"
  "inst_state (advance x) = next_state (inst_state x)"
  by (simp_all add: advance_def)


lemma advance_here [simp]: "here rg i (advance x) = here rg i x"
  by (simp add: here_def)











end
