(* ===== verification/Capi_Core.thy ===== *)
theory Capi_Core
  imports Prelude "HOL-Library.Char_ord" "HOL-Library.List_Lexorder"
begin

text \<open>
  \<open>internal/controller/capi_core.go\<close>: which namespaces run a Cluster API core, and what that
  means for the provider.  Listing Deployments by label is the API server's: it is an
  argument that returns the namespaces of the Deployments with that label.
\<close>

definition capiCoreProviderLabel :: string where
  "capiCoreProviderLabel = ''cluster.x-k8s.io/provider''"

definition capiCoreProviderValue :: string where "capiCoreProviderValue = ''cluster-api''"

definition ocpHostedCAPINamespace :: string where "ocpHostedCAPINamespace = ''openshift-cluster-api''"

datatype CAPICoreMode = CAPICoreBundled | CAPICoreReused | CAPICoreConflict | CAPICoreNone

text \<open>
  The loop collects the namespaces into a set and sorts its elements; the order the map is
  ranged over does not matter, since the elements are distinct.
\<close>

definition DetectCAPICoreNamespaces ::
  "(string \<times> string \<Rightarrow> 'w \<Rightarrow> go_error + string list) \<Rightarrow> 'w \<Rightarrow> go_error + string list" where
  "DetectCAPICoreNamespaces listDeployments w =
     (case listDeployments (capiCoreProviderLabel, capiCoreProviderValue) w of
        Inl err \<Rightarrow> Inl err
      | Inr deploys \<Rightarrow> Inr (sort (remdups deploys)))"

definition ClassifyCAPICore :: "string list \<Rightarrow> CAPICoreMode" where
  "ClassifyCAPICore namespaces =
     (case namespaces of
        [] \<Rightarrow> CAPICoreNone
      | [ns] \<Rightarrow> if ns = ocpHostedCAPINamespace then CAPICoreReused else CAPICoreBundled
      | _ \<Rightarrow> CAPICoreConflict)"

lemma DetectCAPICoreNamespaces_unique:
  assumes "DetectCAPICoreNamespaces ls w = Inr out" and "ls (capiCoreProviderLabel, capiCoreProviderValue) w = Inr ds"
  shows "sorted out" "distinct out" "set out = set ds"
  using assms by (auto simp: DetectCAPICoreNamespaces_def)

lemma ClassifyCAPICore_set:
  assumes "distinct out"
  shows "ClassifyCAPICore out = CAPICoreNone \<longleftrightarrow> set out = {}"
    and "ClassifyCAPICore out = CAPICoreReused \<longleftrightarrow> set out = {ocpHostedCAPINamespace}"
    and "ClassifyCAPICore out = CAPICoreBundled \<longleftrightarrow> (\<exists>ns. ns \<noteq> ocpHostedCAPINamespace \<and> set out = {ns})"
    and "ClassifyCAPICore out = CAPICoreConflict \<longleftrightarrow> 2 \<le> card (set out)"
proof -
  show "ClassifyCAPICore out = CAPICoreNone \<longleftrightarrow> set out = {}"
    by (auto simp: ClassifyCAPICore_def split: list.splits)
  show "ClassifyCAPICore out = CAPICoreReused \<longleftrightarrow> set out = {ocpHostedCAPINamespace}"
    using assms by (auto simp: ClassifyCAPICore_def split: list.splits)
  show "ClassifyCAPICore out = CAPICoreBundled \<longleftrightarrow> (\<exists>ns. ns \<noteq> ocpHostedCAPINamespace \<and> set out = {ns})"
    using assms by (auto simp: ClassifyCAPICore_def split: list.splits)
  show "ClassifyCAPICore out = CAPICoreConflict \<longleftrightarrow> 2 \<le> card (set out)"
    using distinct_card [OF assms]
    by (auto simp: ClassifyCAPICore_def split: list.splits)
qed

end
