(* ===== verification/Cluster_Controller.thy ===== *)
theory Cluster_Controller
  imports Capi_Util Cloud_Client Capi_Core
begin

text \<open>
  \<open>internal/controller/alibabacloudcluster_controller.go\<close> and \<open>util.go\<close>: the reconciler of
  \<open>AlibabaCloudCluster\<close>.  The Kubernetes client, the clock, the patch helper and the event
  recorder are the record \<open>ClusterReconciler\<close>; the recorder may be nil.
\<close>

section \<open>Definitions\<close>

record 'w ClusterReconciler =
  cr_Get :: "ObjectKey \<Rightarrow> 'w \<Rightarrow> go_error + AlibabaCloudCluster"
  cr_GetOwnerCluster :: "ObjectMeta \<Rightarrow> 'w \<Rightarrow> go_error + Cluster option"
  cr_IsPaused :: "Cluster \<Rightarrow> ObjectMeta \<Rightarrow> bool"
  cr_NewHelper :: "AlibabaCloudCluster \<Rightarrow> 'w \<Rightarrow> go_error option"
  cr_Patch :: "AlibabaCloudCluster \<Rightarrow> AlibabaCloudCluster \<Rightarrow> 'w \<Rightarrow> go_error option \<times> 'w"
  cr_ListNodes :: "'w \<Rightarrow> go_error + Node list"
  cr_ListDeployments :: "string \<times> string \<Rightarrow> 'w \<Rightarrow> go_error + string list"
  cr_Now :: "'w \<Rightarrow> int"
  cr_Event :: "(string \<Rightarrow> gotext \<Rightarrow> 'w \<Rightarrow> 'w) option"
  cr_Util :: capi_util
  cr_ClientBuilder :: "string \<Rightarrow> 'w \<Rightarrow> go_error + 'w Client"
  cr_CCMGracePeriod :: int

definition uninitializedTaintKey :: string where
  "uninitializedTaintKey = ''node.cloudprovider.kubernetes.io/uninitialized''"

definition recordEvent :: "'w ClusterReconciler \<Rightarrow> string \<Rightarrow> gotext \<Rightarrow> 'w \<Rightarrow> 'w" where
  "recordEvent r reason msg w = (case cr_Event r of Some ev \<Rightarrow> ev reason msg w | None \<Rightarrow> w)"

definition stuckNodes :: "int \<Rightarrow> Node list \<Rightarrow> string list" where
  "stuckNodes cutoff nodes =
     map node_Name
       (filter (\<lambda>n. \<not> node_CreationTimestamp n > cutoff \<and> uninitializedTaintKey \<in> set (node_Taints n))
          nodes)"

definition ccmMessage :: "'w ClusterReconciler \<Rightarrow> string list \<Rightarrow> gotext" where
  "ccmMessage r stuck =
     Sprintf (''%d Node(s) stuck with the %q taint for over %s '' @ emDash @ '' is the Alibaba cloud-controller-manager (CCM) running? CAPA does not initialize Nodes; without the CCM, workers never become Ready. Nodes: %v'')
       [Num (int (length stuck)), Lit uninitializedTaintKey, Num (cr_CCMGracePeriod r),
        Texts (map Lit stuck)]"

definition ccmCondition :: "'w ClusterReconciler \<Rightarrow> string list \<Rightarrow> Condition" where
  "ccmCondition r stuck =
     (if stuck \<noteq> [] then
        \<lparr>c_Type = CloudControllerManagerReadyCondition, c_Status = ConditionFalse,
         c_Reason = NodesAwaitingCloudProviderReason, c_Message = ccmMessage r stuck\<rparr>
      else
        \<lparr>c_Type = CloudControllerManagerReadyCondition, c_Status = ConditionTrue,
         c_Reason = CloudControllerManagerHealthyReason, c_Message = Lit []\<rparr>)"

definition checkCloudControllerManager ::
  "'w ClusterReconciler \<Rightarrow> AlibabaCloudCluster \<Rightarrow> 'w \<Rightarrow> AlibabaCloudCluster \<times> 'w" where
  "checkCloudControllerManager r ac w =
     (case cr_ListNodes r w of
        Inl err \<Rightarrow> (ac, w)
      | Inr nodes \<Rightarrow>
          (let stuck = stuckNodes (cr_Now r w - cr_CCMGracePeriod r) nodes
           in (cluster_set_condition (cr_Util r) (ccmCondition r stuck) ac,
               if stuck \<noteq> [] then recordEvent r NodesAwaitingCloudProviderReason (ccmMessage r stuck) w
               else w)))"

definition checkClusterAPICore ::
  "'w ClusterReconciler \<Rightarrow> AlibabaCloudCluster \<Rightarrow> 'w \<Rightarrow> AlibabaCloudCluster \<times> 'w" where
  "checkClusterAPICore r ac w =
     (case DetectCAPICoreNamespaces (cr_ListDeployments r) w of
        Inl err \<Rightarrow> (ac, w)
      | Inr namespaces \<Rightarrow>
          (case ClassifyCAPICore namespaces of
             CAPICoreConflict \<Rightarrow>
               (let msg = Sprintf (''Cluster API core (cluster.x-k8s.io) detected in multiple namespaces %v '' @ emDash @ '' a self-bundled core and the OCP-hosted core (cluster-capi-operator) are mutually exclusive and will fight over the shared CRDs/webhooks/leader election. Run provider-only against the OCP-hosted core, or remove the OCP-hosted core and keep the self-bundled one.'')
                      [Texts (map Lit namespaces)]
                in (cluster_set_condition (cr_Util r)
                      \<lparr>c_Type = ClusterAPICoreReadyCondition, c_Status = ConditionFalse,
                       c_Reason = MultipleCAPICoresConflictReason, c_Message = msg\<rparr> ac,
                    recordEvent r MultipleCAPICoresConflictReason msg w))
           | CAPICoreReused \<Rightarrow>
               (cluster_set_condition (cr_Util r)
                  \<lparr>c_Type = ClusterAPICoreReadyCondition, c_Status = ConditionTrue,
                   c_Reason = ReusingHostedCAPICoreReason,
                   c_Message = Sprintf ''reusing the OCP-hosted Cluster API core in %q (provider-only)''
                     [Lit ocpHostedCAPINamespace]\<rparr> ac, w)
           | CAPICoreBundled \<Rightarrow>
               (cluster_set_condition (cr_Util r)
                  \<lparr>c_Type = ClusterAPICoreReadyCondition, c_Status = ConditionTrue,
                   c_Reason = BundledCAPICoreReason,
                   c_Message = Sprintf ''using the self-bundled Cluster API core in %q''
                     [Lit (hd namespaces)]\<rparr> ac, w)
           | CAPICoreNone \<Rightarrow> (ac, w)))"

definition reconcileFailureDomains ::
  "AlibabaCloudCluster \<Rightarrow> go_error option \<times> AlibabaCloudCluster" where
  "reconcileFailureDomains ac =
     (if cs_FailureDomains (ac_Spec ac) = [] then (None, ac)
      else (None,
        ac\<lparr>ac_Status := (ac_Status ac)\<lparr>cst_FailureDomains :=
             map (\<lambda>fd. \<lparr>cfd_Name = fd_ZoneID fd, cfd_ControlPlane = Some False,
                        cfd_Attributes = [(''vSwitchID'', fd_VSwitchID fd)]\<rparr>)
               (cs_FailureDomains (ac_Spec ac))\<rparr>\<rparr>))"

definition reconcileVPC :: "AlibabaCloudCluster \<Rightarrow> go_error option \<times> AlibabaCloudCluster" where
  "reconcileVPC ac =
     (if cst_VpcID (ac_Status ac) \<noteq> [] then (None, ac)
      else if cs_VpcID (ac_Spec ac) \<noteq> []
      then (None, ac\<lparr>ac_Status := (ac_Status ac)\<lparr>cst_VpcID := cs_VpcID (ac_Spec ac)\<rparr>\<rparr>)
      else (None, ac))"

definition reconcileControlPlaneEndpoint ::
  "AlibabaCloudCluster \<Rightarrow> go_error option \<times> AlibabaCloudCluster" where
  "reconcileControlPlaneEndpoint ac =
     (if ep_Host (cs_ControlPlaneEndpoint (ac_Spec ac)) \<noteq> []
      then (None, ac\<lparr>ac_Status := (ac_Status ac)
                       \<lparr>cst_ControlPlaneEndpoint := cs_ControlPlaneEndpoint (ac_Spec ac)\<rparr>\<rparr>)
      else (None, ac))"

definition deleteSLB :: "AlibabaCloudCluster \<Rightarrow> go_error option" where
  "deleteSLB ac = (if cst_SLBInstanceID (ac_Status ac) = [] then None else None)"

definition deleteVPC :: "AlibabaCloudCluster \<Rightarrow> go_error option" where
  "deleteVPC ac = (if cst_VpcID (ac_Status ac) = [] then None else None)"

definition cluster_reconcileDelete ::
  "'w ClusterReconciler \<Rightarrow> AlibabaCloudCluster \<Rightarrow> 'w \<Rightarrow> outcome \<times> AlibabaCloudCluster \<times> 'w" where
  "cluster_reconcileDelete r ac w =
     (let release = ac\<lparr>ac_Meta := (ac_Meta ac)\<lparr>om_Finalizers :=
                        RemoveFinalizer (cr_Util r) ClusterFinalizer (om_Finalizers (ac_Meta ac))\<rparr>\<rparr>
      in case deleteSLB ac of
           Some err \<Rightarrow> ((noRequeue, Some err), ac, w)
         | None \<Rightarrow>
             if cs_VpcID (ac_Spec ac) = [] then
               (case deleteVPC ac of
                  Some err \<Rightarrow> ((noRequeue, Some err), ac, w)
                | None \<Rightarrow> ((noRequeue, None), release, w))
             else ((noRequeue, None), release, w))"

text \<open>The failure exit of a step of \<open>reconcileNormal\<close>: the reason on the Ready condition.\<close>

definition stepFailed ::
  "capi_util \<Rightarrow> string \<Rightarrow> go_error \<Rightarrow> AlibabaCloudCluster \<Rightarrow> 'w \<Rightarrow> outcome \<times> AlibabaCloudCluster \<times> 'w" where
  "stepFailed U reason err ac w =
     ((noRequeue, Some err), cluster_set_condition U (notReady reason (Error err)) ac, w)"

definition endpointMissing :: Condition where
  "endpointMissing = notReady ''ControlPlaneEndpointMissing''
     (Lit ''spec.controlPlaneEndpoint is required (BYO infrastructure) and is not set'')"

definition cluster_reconcileNormal ::
  "'w ClusterReconciler \<Rightarrow> AlibabaCloudCluster \<Rightarrow> 'w \<Rightarrow> outcome \<times> AlibabaCloudCluster \<times> 'w" where
  "cluster_reconcileNormal r ac w =
     (let U = cr_Util r;
          a0 = ac\<lparr>ac_Meta := (ac_Meta ac)\<lparr>om_Finalizers :=
                  AddFinalizer U ClusterFinalizer (om_Finalizers (ac_Meta ac))\<rparr>\<rparr>
      in case cr_ClientBuilder r (cs_Region (ac_Spec a0)) w of
           Inl err \<Rightarrow>
             ((noRequeue, Some (Wrap ''failed to create Alibaba Cloud client: %w'' [] err)),
              cluster_set_condition U (notReady ''AlibabaClientError'' (Error err)) a0, w)
         | Inr _ \<Rightarrow>
             (case reconcileFailureDomains a0 of
                (Some err, a1) \<Rightarrow> stepFailed U ''FailureDomainError'' err a1 w
              | (None, a1) \<Rightarrow>
                  (case reconcileVPC a1 of
                     (Some err, a2) \<Rightarrow> stepFailed U ''VPCReconcileError'' err a2 w
                   | (None, a2) \<Rightarrow>
                       (case reconcileControlPlaneEndpoint a2 of
                          (Some err, a3) \<Rightarrow> stepFailed U ''ControlPlaneEndpointError'' err a3 w
                        | (None, a3) \<Rightarrow>
                            if ep_Host (cst_ControlPlaneEndpoint (ac_Status a3)) = [] then
                              ((requeue, None), cluster_set_condition U endpointMissing a3, w)
                            else
                              (let (a4, w4) = checkCloudControllerManager r a3 w;
                                   (a5, w5) = checkClusterAPICore r a4 w4;
                                   a6 = cluster_set_condition U (isReady ''AlibabaCloudClusterReady'') a5
                               in ((noRequeue, None),
                                   a6\<lparr>ac_Status := (ac_Status a6)\<lparr>cst_Ready := True,
                                        cst_Initialization := Some (Some True)\<rparr>\<rparr>,
                                   w5))))))"

definition cluster_Reconcile ::
  "'w ClusterReconciler \<Rightarrow> ObjectKey \<Rightarrow> 'w \<Rightarrow> outcome \<times> 'w" where
  "cluster_Reconcile r req w =
     (case cr_Get r req w of
        Inl err \<Rightarrow> if IsNotFound err then ((noRequeue, None), w) else ((noRequeue, Some err), w)
      | Inr ac \<Rightarrow>
          (case cr_GetOwnerCluster r (ac_Meta ac) w of
             Inl err \<Rightarrow> ((noRequeue, Some err), w)
           | Inr None \<Rightarrow> ((noRequeue, None), w)
           | Inr (Some cluster) \<Rightarrow>
               if cr_IsPaused r cluster (ac_Meta ac) then ((noRequeue, None), w)
               else
                 (case cr_NewHelper r ac w of
                    Some err \<Rightarrow> ((noRequeue, Some err), w)
                  | None \<Rightarrow>
                      (let ((res, reterr), ac', w1) =
                             (if om_DeletionTimestamp (ac_Meta ac) \<noteq> None
                              then cluster_reconcileDelete r ac w
                              else cluster_reconcileNormal r ac w);
                           (patchErr, w2) = cr_Patch r ac ac' w1
                       in ((res, if reterr = None then patchErr else reterr), w2)))))"

text \<open>
  \<open>enqueueAlibabaCloudClusterForCluster\<close>: the requests a changed Cluster enqueues; \<open>None\<close> is
  an object of another type.
\<close>

definition infraGroup :: string where "infraGroup = ''infrastructure.cluster.x-k8s.io''"

definition enqueueAlibabaCloudClusterForCluster :: "Cluster option \<Rightarrow> ObjectKey list" where
  "enqueueAlibabaCloudClusterForCluster obj =
     (case obj of
        None \<Rightarrow> []
      | Some cluster \<Rightarrow>
          if cl_InfraKind cluster = [] \<or> cl_InfraName cluster = [] then []
          else if cl_InfraAPIGroup cluster \<noteq> infraGroup then []
          else [\<lparr>ok_Namespace = om_Namespace (cl_Meta cluster), ok_Name = cl_InfraName cluster\<rparr>])"

section \<open>What the steps change\<close>

lemma checkCloudControllerManager_frame:
  assumes "checkCloudControllerManager r ac w = (ac', w')"
  shows "ac_Meta ac' = ac_Meta ac" "ac_Spec ac' = ac_Spec ac"
    "cst_Ready (ac_Status ac') = cst_Ready (ac_Status ac)"
    "cst_FailureDomains (ac_Status ac') = cst_FailureDomains (ac_Status ac)"
    "cst_ControlPlaneEndpoint (ac_Status ac') = cst_ControlPlaneEndpoint (ac_Status ac)"
    "cst_VpcID (ac_Status ac') = cst_VpcID (ac_Status ac)"
  using assms
  by (auto simp: checkCloudControllerManager_def Let_def split: sum.splits if_splits)

lemma checkClusterAPICore_frame:
  assumes "checkClusterAPICore r ac w = (ac', w')"
  shows "ac_Meta ac' = ac_Meta ac" "ac_Spec ac' = ac_Spec ac"
    "cst_Ready (ac_Status ac') = cst_Ready (ac_Status ac)"
    "cst_FailureDomains (ac_Status ac') = cst_FailureDomains (ac_Status ac)"
    "cst_ControlPlaneEndpoint (ac_Status ac') = cst_ControlPlaneEndpoint (ac_Status ac)"
    "cst_VpcID (ac_Status ac') = cst_VpcID (ac_Status ac)"
  using assms
  by (auto simp: checkClusterAPICore_def Let_def split: sum.splits if_splits CAPICoreMode.splits)

lemma ccmCondition_facts:
  "c_Type (ccmCondition r stuck) = CloudControllerManagerReadyCondition"
  "c_Reason (ccmCondition r stuck) \<noteq> []"
  "c_Status (ccmCondition r stuck) = (if stuck = [] then ConditionTrue else ConditionFalse)"
  "stuck \<noteq> [] \<Longrightarrow> c_Message (ccmCondition r stuck) = ccmMessage r stuck"
  by (simp_all add: ccmCondition_def NodesAwaitingCloudProviderReason_def
      CloudControllerManagerHealthyReason_def)

text \<open>The three steps that write the status never fail.\<close>

lemma step_successes:
  "fst (reconcileFailureDomains a) = None" "fst (reconcileVPC a) = None"
  "fst (reconcileControlPlaneEndpoint a) = None" "deleteSLB a = None" "deleteVPC a = None"
  by (auto simp: reconcileFailureDomains_def reconcileVPC_def reconcileControlPlaneEndpoint_def
      deleteSLB_def deleteVPC_def)

text \<open>The status the three steps produce, and \<open>reconcileNormal\<close> in terms of it.\<close>

definition published :: "capi_util \<Rightarrow> AlibabaCloudCluster \<Rightarrow> AlibabaCloudCluster" where
  "published U ac =
     snd (reconcileControlPlaneEndpoint (snd (reconcileVPC (snd (reconcileFailureDomains
       (ac\<lparr>ac_Meta := (ac_Meta ac)\<lparr>om_Finalizers :=
            AddFinalizer U ClusterFinalizer (om_Finalizers (ac_Meta ac))\<rparr>\<rparr>))))))"

lemma published_simps [simp]:
  "ac_Spec (published U ac) = ac_Spec ac"
  "om_Finalizers (ac_Meta (published U ac))
     = AddFinalizer U ClusterFinalizer (om_Finalizers (ac_Meta ac))"
  "cst_Ready (ac_Status (published U ac)) = cst_Ready (ac_Status ac)"
  "cst_ControlPlaneEndpoint (ac_Status (published U ac)) =
     (if ep_Host (cs_ControlPlaneEndpoint (ac_Spec ac)) \<noteq> [] then cs_ControlPlaneEndpoint (ac_Spec ac)
      else cst_ControlPlaneEndpoint (ac_Status ac))"
  "cst_FailureDomains (ac_Status (published U ac)) =
     (if cs_FailureDomains (ac_Spec ac) = [] then cst_FailureDomains (ac_Status ac)
      else map (\<lambda>fd. \<lparr>cfd_Name = fd_ZoneID fd, cfd_ControlPlane = Some False,
                      cfd_Attributes = [(''vSwitchID'', fd_VSwitchID fd)]\<rparr>)
             (cs_FailureDomains (ac_Spec ac)))"
  by (auto simp: published_def reconcileFailureDomains_def reconcileVPC_def
      reconcileControlPlaneEndpoint_def)

lemma cluster_reconcileNormal_published:
  "cr_ClientBuilder r (cs_Region (ac_Spec ac)) w = Inr c \<Longrightarrow>
   cluster_reconcileNormal r ac w =
     (let a3 = published (cr_Util r) ac
      in if ep_Host (cst_ControlPlaneEndpoint (ac_Status a3)) = [] then
           ((requeue, None), cluster_set_condition (cr_Util r) endpointMissing a3, w)
         else
           (let (a4, w4) = checkCloudControllerManager r a3 w;
                (a5, w5) = checkClusterAPICore r a4 w4;
                a6 = cluster_set_condition (cr_Util r) (isReady ''AlibabaCloudClusterReady'') a5
            in ((noRequeue, None),
                a6\<lparr>ac_Status := (ac_Status a6)\<lparr>cst_Ready := True,
                     cst_Initialization := Some (Some True)\<rparr>\<rparr>, w5)))"
  using step_successes(1-3)
  by (simp add: cluster_reconcileNormal_def published_def Let_def split_beta split: option.splits)

lemma cluster_reconcileNormal_failureDomains:
  assumes "cr_ClientBuilder r (cs_Region (ac_Spec ac)) w = Inr c"
    and "cluster_reconcileNormal r ac w = (out, ac', w')"
  shows "cst_FailureDomains (ac_Status ac') = cst_FailureDomains (ac_Status (published (cr_Util r) ac))"
proof (cases "ep_Host (cst_ControlPlaneEndpoint (ac_Status (published (cr_Util r) ac))) = []")
  case True
  with assms(2) show ?thesis by (auto simp: cluster_reconcileNormal_published [OF assms(1)] Let_def)
next
  case False
  obtain a4 w4 where a4: "checkCloudControllerManager r (published (cr_Util r) ac) w = (a4, w4)" by fastforce
  obtain a5 w5 where a5: "checkClusterAPICore r a4 w4 = (a5, w5)" by fastforce
  from assms(2) False a4 a5 have "cst_FailureDomains (ac_Status ac') = cst_FailureDomains (ac_Status a5)"
    by (auto simp: cluster_reconcileNormal_published [OF assms(1)] Let_def)
  with checkCloudControllerManager_frame(4) [OF a4] checkClusterAPICore_frame(4) [OF a5]
  show ?thesis by simp
qed

section \<open>Properties\<close>

text \<open>
  C30.  The infrastructure-cluster contract: readiness implies a published control-plane host.
  A reconcile keeps this invariant on every path, and it reports Ready exactly when a client
  could be built and a host is known from the spec or from before; otherwise it leaves Ready
  as it was.
\<close>

theorem cluster_ready_has_endpoint:
  assumes "cluster_reconcileNormal r ac w = (out, ac', w')"
    and "cst_Ready (ac_Status ac) \<longrightarrow> ep_Host (cst_ControlPlaneEndpoint (ac_Status ac)) \<noteq> []"
  shows "(cst_Ready (ac_Status ac') \<longrightarrow> ep_Host (cst_ControlPlaneEndpoint (ac_Status ac')) \<noteq> [])
    \<and> (cst_Ready (ac_Status ac') \<longleftrightarrow>
         cst_Ready (ac_Status ac)
         \<or> (\<exists>c. cr_ClientBuilder r (cs_Region (ac_Spec ac)) w = Inr c)
            \<and> (ep_Host (cs_ControlPlaneEndpoint (ac_Spec ac)) \<noteq> []
               \<or> ep_Host (cst_ControlPlaneEndpoint (ac_Status ac)) \<noteq> []))"
proof (cases "cr_ClientBuilder r (cs_Region (ac_Spec ac)) w")
  case (Inl err)
  with assms show ?thesis by (auto simp: cluster_reconcileNormal_def Let_def)
next
  case (Inr c)
  let ?a3 = "published (cr_Util r) ac"
  show ?thesis
  proof (cases "ep_Host (cst_ControlPlaneEndpoint (ac_Status ?a3)) = []")
    case True
    with assms cluster_reconcileNormal_published [OF Inr] show ?thesis
      by (auto simp: Let_def split: if_splits)
  next
    case False
    obtain a4 w4 where a4: "checkCloudControllerManager r ?a3 w = (a4, w4)" by fastforce
    obtain a5 w5 where a5: "checkClusterAPICore r a4 w4 = (a5, w5)" by fastforce
    from assms(1) False a4 a5 have ready: "cst_Ready (ac_Status ac')"
      and ep: "cst_ControlPlaneEndpoint (ac_Status ac') = cst_ControlPlaneEndpoint (ac_Status a5)"
      by (auto simp: cluster_reconcileNormal_published [OF Inr] Let_def)
    have "ep_Host (cst_ControlPlaneEndpoint (ac_Status ac')) \<noteq> []"
      using ep checkCloudControllerManager_frame(5) [OF a4] checkClusterAPICore_frame(5) [OF a5] False by simp
    with ready False Inr show ?thesis by (auto split: if_splits)
  qed
qed

definition kind_cluster :: "string \<Rightarrow> AlibabaCloudCluster" where
  "kind_cluster host =
     \<lparr>ac_Meta = \<lparr>om_Name = ''c'', om_Namespace = ''ns'', om_UID = [], om_DeletionTimestamp = None,
                om_Finalizers = [], om_Annotations = [], om_OwnerReferences = []\<rparr>,
      ac_Spec = \<lparr>cs_Region = ''eu'', cs_VpcID = [], cs_BootImageID = [], cs_ResourceGroupID = [],
                cs_ControlPlaneEndpoint = \<lparr>ep_Host = host, ep_Port = 6443\<rparr>, cs_AdditionalTags = [],
                cs_IgnitionStorage = None,
                cs_FailureDomains = [\<lparr>fd_ZoneID = ''zone-1'', fd_VSwitchID = ''vsw-e1''\<rparr>]\<rparr>,
      ac_Status = \<lparr>cst_Ready = False, cst_Initialization = None, cst_VpcID = [],
                  cst_ControlPlaneEndpoint = \<lparr>ep_Host = [], ep_Port = 0\<rparr>, cst_SLBInstanceID = [],
                  cst_FailureDomains = [], cst_Conditions = []\<rparr>\<rparr>"

definition late_node :: Node where
  "late_node = \<lparr>node_Name = ''n1'', node_ProviderID = [], node_CreationTimestamp = 0,
     node_Taints = [uninitializedTaintKey], node_Addresses = []\<rparr>"

definition kind_reconciler :: "unit ClusterReconciler" where
  "kind_reconciler =
     \<lparr>cr_Get = (\<lambda>k w. Inr (kind_cluster ''api'')), cr_GetOwnerCluster = (\<lambda>m w. Inr None),
      cr_IsPaused = (\<lambda>c m. False), cr_NewHelper = (\<lambda>a w. None), cr_Patch = (\<lambda>a b w. (None, w)),
      cr_ListNodes = (\<lambda>w. Inr [late_node]), cr_ListDeployments = (\<lambda>l w. Inr [''capi-system'']),
      cr_Now = (\<lambda>w. 1000), cr_Event = None, cr_Util = std_util,
      cr_ClientBuilder = (\<lambda>rg w. Inr idle_client), cr_CCMGracePeriod = 300\<rparr>"

theorem cluster_ready_has_endpoint_witness:
  "cst_Ready (ac_Status (fst (snd (cluster_reconcileNormal kind_reconciler (kind_cluster ''api'') ()))))
   \<and> \<not> cst_Ready (ac_Status (fst (snd (cluster_reconcileNormal kind_reconciler (kind_cluster []) ()))))"
proof -
  have "cst_Ready (ac_Status (fst (snd (cluster_reconcileNormal kind_reconciler (kind_cluster h) ()))))
      \<longleftrightarrow> h \<noteq> []" for h
  proof -
    obtain out ac' w' where run: "cluster_reconcileNormal kind_reconciler (kind_cluster h) () = (out, ac', w')"
      by (metis prod.exhaust)
    have facts: "\<not> cst_Ready (ac_Status (kind_cluster h))"
      "ep_Host (cst_ControlPlaneEndpoint (ac_Status (kind_cluster h))) = []"
      "ep_Host (cs_ControlPlaneEndpoint (ac_Spec (kind_cluster h))) = h"
      "\<exists>c. cr_ClientBuilder kind_reconciler (cs_Region (ac_Spec (kind_cluster h))) () = Inr c"
      by (simp_all add: kind_cluster_def kind_reconciler_def)
    with cluster_ready_has_endpoint [OF run] run show ?thesis by simp
  qed
  then show ?thesis by simp
qed

text \<open>
  C31.  The cloud-controller-manager check flags exactly the nodes that are past the grace period
  and still carry the uninitialized taint.  If the nodes cannot be listed, nothing changes; if
  they can, the condition is false with a message that counts and lists the flagged nodes, or
  true when there is none, and the Ready condition is not touched.
\<close>

theorem ccm_check_exact:
  assumes "capi_util_laws (cr_Util r)"
    and "checkCloudControllerManager r ac w = (ac', w')"
  shows "(\<forall>err. cr_ListNodes r w = Inl err \<longrightarrow> ac' = ac \<and> w' = w)
    \<and> (\<forall>nodes late. cr_ListNodes r w = Inr nodes
         \<and> late = [n \<leftarrow> nodes. node_CreationTimestamp n \<le> cr_Now r w - cr_CCMGracePeriod r
                            \<and> uninitializedTaintKey \<in> set (node_Taints n)] \<longrightarrow>
         (\<exists>c. condition_get CloudControllerManagerReadyCondition (cst_Conditions (ac_Status ac')) = Some c
            \<and> c_Status c = (if late = [] then ConditionTrue else ConditionFalse)
            \<and> (late \<noteq> [] \<longrightarrow> c_Message c = ccmMessage r (map node_Name late)))
         \<and> condition_get ReadyCondition (cst_Conditions (ac_Status ac'))
             = condition_get ReadyCondition (cst_Conditions (ac_Status ac)))"
proof (intro conjI allI impI, goal_cases)
  case (1 err)
  with assms(2) show ?case by (simp add: checkCloudControllerManager_def)
next
  case (2 err)
  with assms(2) show ?case by (simp add: checkCloudControllerManager_def)
next
  case (3 nodes late)
  define stuck where "stuck = stuckNodes (cr_Now r w - cr_CCMGracePeriod r) nodes"
  have stuck: "stuck = map node_Name late" using 3 by (simp add: stuck_def stuckNodes_def not_less)
  note c = ccmCondition_facts [where r = r and stuck = stuck]
  have "condition_get CloudControllerManagerReadyCondition (cst_Conditions (ac_Status ac'))
      = Some (ccmCondition r stuck)"
    using 3 assms(2) capi_util_laws.set_same [OF assms(1) c(2)] c(1)
    by (auto simp: checkCloudControllerManager_def Let_def stuck_def cluster_set_condition_def
        cluster_GetConditions_def)
  with c stuck show ?case by auto
next
  case (4 nodes late)
  have "ReadyCondition \<noteq> c_Type (ccmCondition r ns)" for ns
    by (simp add: ccmCondition_facts ReadyCondition_def CloudControllerManagerReadyCondition_def)
  with 4 assms(2) capi_util_laws.set_other [OF assms(1)] show ?case
    by (auto simp: checkCloudControllerManager_def Let_def cluster_set_condition_def
        cluster_GetConditions_def)
qed

theorem ccm_check_exact_witness:
  "\<exists>c. condition_get CloudControllerManagerReadyCondition
      (cst_Conditions (ac_Status (fst (checkCloudControllerManager kind_reconciler (kind_cluster ''api'') ()))))
      = Some c \<and> c_Status c = ConditionFalse"
proof -
  have util: "capi_util_laws (cr_Util kind_reconciler)"
    using std_capi.capi_util_laws_axioms by (simp add: kind_reconciler_def)
  obtain ac' w' where run: "checkCloudControllerManager kind_reconciler (kind_cluster ''api'') () = (ac', w')"
    by (metis prod.exhaust)
  have late: "cr_ListNodes kind_reconciler () = Inr [late_node]
      \<and> [late_node] = [n \<leftarrow> [late_node]. node_CreationTimestamp n
            \<le> cr_Now kind_reconciler () - cr_CCMGracePeriod kind_reconciler
          \<and> uninitializedTaintKey \<in> set (node_Taints n)]"
    by (simp add: late_node_def kind_reconciler_def)
  have ne: "[late_node] \<noteq> []" by simp
  show ?thesis
    using ccm_check_exact [OF util run, THEN conjunct2, rule_format, OF late, THEN conjunct1]
    unfolding if_not_P [OF ne] run fst_conv by (elim exE conjE) (intro exI conjI)
qed

text \<open>
  C32.  What the Cluster API core check reports depends only on the set of namespaces that run a
  core: none leaves the cluster as it was, one is healthy (reused if it is the platform's own,
  bundled otherwise), two or more are a conflict, reported as a false condition.
\<close>

theorem core_check_exact:
  assumes "capi_util_laws (cr_Util r)"
    and "cr_ListDeployments r (capiCoreProviderLabel, capiCoreProviderValue) w = Inr ds"
    and "checkClusterAPICore r ac w = (ac', w')"
  shows "(set ds = {} \<longrightarrow> ac' = ac \<and> w' = w)
    \<and> (\<forall>ns. set ds = {ns} \<longrightarrow> w' = w
         \<and> (\<exists>c. condition_get ClusterAPICoreReadyCondition (cst_Conditions (ac_Status ac')) = Some c
              \<and> c_Status c = ConditionTrue
              \<and> c_Reason c = (if ns = ocpHostedCAPINamespace then ReusingHostedCAPICoreReason
                              else BundledCAPICoreReason)))
    \<and> (2 \<le> card (set ds) \<longrightarrow>
         (\<exists>c. condition_get ClusterAPICoreReadyCondition (cst_Conditions (ac_Status ac')) = Some c
            \<and> c_Status c = ConditionFalse \<and> c_Reason c = MultipleCAPICoresConflictReason))"
proof -
  define out where "out = sort (remdups ds)"
  have out: "distinct out" "set out = set ds"
    and det: "DetectCAPICoreNamespaces (cr_ListDeployments r) w = Inr out"
    using assms(2) by (simp_all add: out_def DetectCAPICoreNamespaces_def)
  note mode = ClassifyCAPICore_set [OF out(1), unfolded out(2)]
  have set_cond: "condition_get ClusterAPICoreReadyCondition
      (cst_Conditions (ac_Status (cluster_set_condition (cr_Util r) c ac))) = Some c"
    if "c_Type c = ClusterAPICoreReadyCondition" "c_Reason c \<noteq> []" for c
    using capi_util_laws.set_same [OF assms(1) that(2)] that(1)
    by (simp add: cluster_set_condition_def cluster_GetConditions_def)
  note run = assms(3)[unfolded checkClusterAPICore_def det, simplified]
  show ?thesis
  proof (intro conjI allI impI, goal_cases)
    case 1 with run mode(1) show ?case by simp
  next
    case 2 with run mode(1) show ?case by simp
  next
    case (3 ns)
    with run mode(2,3) show ?case by (cases "ns = ocpHostedCAPINamespace") auto
  next
    case (4 ns)
    show ?case
    proof (cases "ns = ocpHostedCAPINamespace")
      case True
      with 4 mode(2) have "ClassifyCAPICore out = CAPICoreReused" by simp
      with run True show ?thesis by (auto simp: set_cond ReusingHostedCAPICoreReason_def)
    next
      case False
      with 4 mode(3) have "ClassifyCAPICore out = CAPICoreBundled" by auto
      with run False show ?thesis by (auto simp: set_cond BundledCAPICoreReason_def)
    qed
  next
    case 5
    with mode(4) have "ClassifyCAPICore out = CAPICoreConflict" by simp
    with run show ?case by (auto simp: Let_def set_cond MultipleCAPICoresConflictReason_def)
  qed
qed

theorem core_check_exact_witness:
  "\<exists>c. condition_get ClusterAPICoreReadyCondition
      (cst_Conditions (ac_Status (fst (checkClusterAPICore kind_reconciler (kind_cluster ''api'') ()))))
      = Some c \<and> c_Status c = ConditionTrue \<and> c_Reason c = BundledCAPICoreReason"
proof -
  have util: "capi_util_laws (cr_Util kind_reconciler)"
    using std_capi.capi_util_laws_axioms by (simp add: kind_reconciler_def)
  have list: "cr_ListDeployments kind_reconciler (capiCoreProviderLabel, capiCoreProviderValue) ()
      = Inr [''capi-system'']" by (simp add: kind_reconciler_def)
  obtain ac' w' where run: "checkClusterAPICore kind_reconciler (kind_cluster ''api'') () = (ac', w')"
    by (metis prod.exhaust)
  have one: "set [''capi-system''] = {''capi-system''}" by simp
  have other: "''capi-system'' \<noteq> ocpHostedCAPINamespace" by (simp add: ocpHostedCAPINamespace_def)
  show ?thesis
    using core_check_exact [OF util list run, THEN conjunct2, THEN conjunct1, rule_format, OF one,
        THEN conjunct2]
    unfolding if_not_P [OF other] run fst_conv by (elim exE conjE) (intro exI conjI)
qed

end
