(* ===== verification/Scheduling.thy ===== *)
theory Scheduling
  imports Machine_Properties Cluster_Controller
begin

text \<open>
  Who makes the next pass happen.  The properties on progress repeat a reconcile; the work queue
  repeats it when the pass returns an error or asks for a delay.  A pass that does neither is
  only followed by another one when some object changes, so it must have nothing left to do.
\<close>

section \<open>Passes and the work queue\<close>

text \<open>The outcomes after which the queue runs the request again by itself.\<close>

definition reschedules :: "outcome \<Rightarrow> bool" where
  "reschedules out \<longleftrightarrow> snd out \<noteq> None \<or> 0 < RequeueAfter (fst out)"

lemma reschedules_simps [simp]:
  "reschedules (res, Some err)" "reschedules (requeue, None)" "\<not> reschedules (noRequeue, None)"
  by (simp_all add: reschedules_def)

text \<open>A machine that waits for its owner, for its cluster, or to be unpaused.\<close>

definition machine_on_hold :: "'w MachineReconciler \<Rightarrow> AlibabaCloudMachine \<Rightarrow> 'w \<Rightarrow> bool" where
  "machine_on_hold r m w \<longleftrightarrow>
     om_DeletionTimestamp (m_Meta m) = None \<and>
     (case GetOwnerMachine (r_Kube r) (m_Meta m) w of
        Inl _ \<Rightarrow> False
      | Inr None \<Rightarrow> True
      | Inr (Some machine) \<Rightarrow>
          (case GetClusterFromMetadata (r_Kube r) (mach_Meta machine) w of
             Inl _ \<Rightarrow> False
           | Inr None \<Rightarrow> True
           | Inr (Some cluster) \<Rightarrow> IsPaused (r_Kube r) cluster (m_Meta m)))"

text \<open>
  A machine with nothing left to do: on its way out and released, or failed for good, or Ready on
  an instance that runs.
\<close>

definition machine_settled :: "capi_util \<Rightarrow> AlibabaCloudMachine \<Rightarrow> AlibabaCloudMachine \<Rightarrow> bool" where
  "machine_settled U m m' \<longleftrightarrow>
     (if om_DeletionTimestamp (m_Meta m) \<noteq> None
      then om_Finalizers (m_Meta m') = RemoveFinalizer U MachineFinalizer (om_Finalizers (m_Meta m))
      else mst_FailureReason (m_Status m') \<noteq> None
        \<or> mst_Ready (m_Status m') \<and> mst_InstanceState (m_Status m') = Some InstanceStateRunning)"

definition cluster_settled :: "capi_util \<Rightarrow> AlibabaCloudCluster \<Rightarrow> AlibabaCloudCluster \<Rightarrow> bool" where
  "cluster_settled U ac ac' \<longleftrightarrow>
     (if om_DeletionTimestamp (ac_Meta ac) \<noteq> None
      then om_Finalizers (ac_Meta ac') = RemoveFinalizer U ClusterFinalizer (om_Finalizers (ac_Meta ac))
      else cst_Ready (ac_Status ac') \<and> ep_Host (cst_ControlPlaneEndpoint (ac_Status ac')) \<noteq> [])"

section \<open>The machine controller\<close>

lemma sweepAndRelease_settles:
  assumes "sweepAndRelease U c rg m w = (out, m', w')" and "\<not> reschedules out"
  shows "out = (noRequeue, None) \<and> m' = dropFinalizer U m"
  using assms by (cases rule: sweepAndRelease_cases) simp_all

lemma deletePresent_reschedules:
  assumes "deletePresent U c i info m w = (out, m', w')"
  shows "reschedules out"
  using assms by (auto simp: deletePresent_def Let_def split: if_splits option.splits prod.splits)

lemma reconcileDelete_settles:
  assumes "reconcileDelete r m w = (out, m', w')" and "\<not> reschedules out"
  shows "out = (noRequeue, None) \<and>
    om_Finalizers (m_Meta m') = RemoveFinalizer (r_Util r) MachineFinalizer (om_Finalizers (m_Meta m))"
  using assms(1)
proof (cases rule: reconcileDelete_cases)
  case (unrecorded rg c)
  from sweepAndRelease_settles [OF unrecorded(4) assms(2)] show ?thesis
    by (simp add: dropFinalizer_def healInstanceID_def)
next
  case (gone rg c w1)
  from sweepAndRelease_settles [OF gone(5) assms(2)] show ?thesis
    by (simp add: dropFinalizer_def healInstanceID_def)
next
  case (present rg c info w1)
  from deletePresent_reschedules [OF present(5)] assms(2) show ?thesis by simp
qed (use assms(2) in \<open>simp_all add: dropFinalizer_def\<close>)

lemma reconcileNormal_settles:
  assumes "reconcileNormal r machine cluster m w = (out, m', w')" and "\<not> reschedules out"
  shows "out = (noRequeue, None) \<and> (mst_FailureReason (m_Status m') \<noteq> None
    \<or> mst_Ready (m_Status m') \<and> mst_InstanceState (m_Status m') = Some InstanceStateRunning)"
  using assms(1)
proof (cases rule: reconcileNormal_cases)
  case (reached m1 c ri m2)
  show ?thesis
  proof (cases ri)
    case (Inl err)
    with reached(6) assms(2) show ?thesis by (cases "asTerminalError err") auto
  next
    case (Inr oi)
    with reached(6) assms(2) obtain info where ri: "ri = Inr (Some info)" by (cases oi) auto
    have "mst_InstanceState (m_Status m2) = Some InstanceStateRunning"
      using reached(5) by (cases rule: findOrCreateInstance_cases)
        (auto simp: ri dest: maybeHardenMetadata_frame(4))
    with reached(6) ri show ?thesis by (simp add: markReady_def Let_def)
  qed
qed (use assms(2) in simp_all)

lemma reconcileFetched_settles:
  assumes "reconcileFetched r m w = (out, m', w')" and "\<not> reschedules out"
  shows "out = (noRequeue, None) \<and> (machine_on_hold r m w \<or> machine_settled (r_Util r) m m')"
proof (cases "om_DeletionTimestamp (m_Meta m)")
  case None
  show ?thesis
  proof (cases "machine_on_hold r m w")
    case True
    with assms None show ?thesis
      by (auto simp: reconcileFetched_def machine_on_hold_def Let_def split: sum.splits option.splits if_splits)
  next
    case False
    with assms None obtain machine cluster where "reconcileNormal r machine cluster m w = (out, m', w')"
      by (auto simp: reconcileFetched_def machine_on_hold_def Let_def split: sum.splits option.splits if_splits)
    from reconcileNormal_settles [OF this assms(2)] None show ?thesis by (simp add: machine_settled_def)
  qed
next
  case (Some t)
  with assms(1) have "reconcileDelete r m w = (out, m', w')" by (simp add: reconcileFetched_def)
  from reconcileDelete_settles [OF this assms(2)] Some show ?thesis by (simp add: machine_settled_def)
qed

lemma machine_pass_settles:
  assumes "machine_Reconcile r req w = (out, w')" and "\<not> reschedules out"
  shows "(\<exists>err. GetAlibabaCloudMachine (r_Kube r) req w = Inl err \<and> IsNotFound err)
    \<or> (\<exists>m m' w1. GetAlibabaCloudMachine (r_Kube r) req w = Inr m
         \<and> reconcileFetched r m w = ((noRequeue, None), m', w1) \<and> Patch (r_Kube r) m m' w1 = (None, w')
         \<and> (machine_on_hold r m w \<or> machine_settled (r_Util r) m m'))"
proof (cases "GetAlibabaCloudMachine (r_Kube r) req w")
  case (Inl err)
  with assms show ?thesis by (auto simp: machine_Reconcile_def Let_def split: if_splits)
next
  case (Inr m)
  obtain out1 m' w1 where run: "reconcileFetched r m w = (out1, m', w1)" by (metis prod.exhaust)
  obtain e w2 where patch: "Patch (r_Kube r) m m' w1 = (e, w2)" by fastforce
  obtain res err where out1: "out1 = (res, err)" by fastforce
  from assms Inr run patch have "NewHelper (r_Kube r) m w = None"
    by (cases "NewHelper (r_Kube r) m w") (auto simp: machine_Reconcile_def Let_def)
  with assms Inr run patch out1 have "\<not> reschedules out1" "e = None" "w' = w2"
    by (auto simp: machine_Reconcile_def Let_def reschedules_def split: if_splits)
  with reconcileFetched_settles [OF run] run patch Inr show ?thesis by blast
qed

section \<open>The cluster controller\<close>

lemma cluster_reconcileNormal_settles:
  assumes "cluster_reconcileNormal r ac w = (out, ac', w')" and "\<not> reschedules out"
  shows "out = (noRequeue, None) \<and> cst_Ready (ac_Status ac')
    \<and> ep_Host (cst_ControlPlaneEndpoint (ac_Status ac')) \<noteq> []"
  using assms
  by (auto simp: cluster_reconcileNormal_def stepFailed_def Let_def split: sum.splits prod.splits option.splits if_splits
      dest!: checkCloudControllerManager_frame(5) checkClusterAPICore_frame(5))

lemma cluster_reconcileDelete_settles:
  "cluster_reconcileDelete r ac w = ((noRequeue, None), ac\<lparr>ac_Meta := (ac_Meta ac)\<lparr>om_Finalizers :=
     RemoveFinalizer (cr_Util r) ClusterFinalizer (om_Finalizers (ac_Meta ac))\<rparr>\<rparr>, w)"
  by (simp add: cluster_reconcileDelete_def step_successes Let_def)

text \<open>The handler a pass runs, and a cluster that waits for its owner or to be unpaused.\<close>

definition cluster_handler ::
  "'w ClusterReconciler \<Rightarrow> AlibabaCloudCluster \<Rightarrow> 'w \<Rightarrow> outcome \<times> AlibabaCloudCluster \<times> 'w" where
  "cluster_handler r ac w =
     (if om_DeletionTimestamp (ac_Meta ac) \<noteq> None then cluster_reconcileDelete r ac w
      else cluster_reconcileNormal r ac w)"

definition cluster_on_hold :: "'w ClusterReconciler \<Rightarrow> AlibabaCloudCluster \<Rightarrow> 'w \<Rightarrow> bool" where
  "cluster_on_hold r ac w \<longleftrightarrow>
     (case cr_GetOwnerCluster r (ac_Meta ac) w of
        Inl _ \<Rightarrow> False
      | Inr None \<Rightarrow> True
      | Inr (Some cluster) \<Rightarrow> cr_IsPaused r cluster (ac_Meta ac))"

lemma cluster_handler_settles:
  assumes "cluster_handler r ac w = (out, ac', w')" and "\<not> reschedules out"
  shows "out = (noRequeue, None) \<and> cluster_settled (cr_Util r) ac ac'"
proof (cases "om_DeletionTimestamp (ac_Meta ac)")
  case None
  with assms(1) have "cluster_reconcileNormal r ac w = (out, ac', w')" by (simp add: cluster_handler_def)
  from cluster_reconcileNormal_settles [OF this assms(2)] None show ?thesis by (simp add: cluster_settled_def)
next
  case (Some t)
  with assms(1) show ?thesis
    by (auto simp: cluster_handler_def cluster_reconcileDelete_settles cluster_settled_def)
qed

lemma cluster_pass_settles:
  assumes "cluster_Reconcile r req w = (out, w')" and "\<not> reschedules out"
  shows "(\<exists>err. cr_Get r req w = Inl err \<and> IsNotFound err)
    \<or> (\<exists>ac. cr_Get r req w = Inr ac \<and> (cluster_on_hold r ac w
         \<or> (\<exists>ac' w1. cluster_handler r ac w = ((noRequeue, None), ac', w1) \<and> cr_Patch r ac ac' w1 = (None, w')
              \<and> cluster_settled (cr_Util r) ac ac')))"
proof (cases "cr_Get r req w")
  case (Inl err)
  with assms show ?thesis by (auto simp: cluster_Reconcile_def split: if_splits)
next
  case (Inr ac)
  show ?thesis
  proof (cases "cluster_on_hold r ac w")
    case False
    obtain res err ac' w1 where run: "cluster_handler r ac w = ((res, err), ac', w1)" by (metis prod.exhaust)
    obtain e w2 where patch: "cr_Patch r ac ac' w1 = (e, w2)" by fastforce
    from assms Inr False have "cr_NewHelper r ac w = None"
      and "out = (res, if err = None then e else err)" and "w' = w2"
      using run [unfolded cluster_handler_def] patch
      by (auto simp: cluster_Reconcile_def cluster_on_hold_def split: sum.splits option.splits if_splits)
    with assms(2) have "\<not> reschedules (res, err)" "e = None" by (auto simp: reschedules_def split: if_splits)
    with cluster_handler_settles [OF run] run patch Inr \<open>w' = w2\<close> show ?thesis by blast
  qed (use Inr in simp)
qed

section \<open>Properties\<close>

text \<open>
  C23.  No pass is forgotten.  A pass of the machine controller that returns neither an error nor a
  delay found no object, or a machine that is on hold (no owner, no cluster, paused), or its object
  was written back with nothing left to do: released if it is being deleted, otherwise failed for
  good or Ready on an instance observed Running.  The same holds of the cluster controller, whose
  objects are then released, or Ready with a control-plane host.
\<close>

theorem no_pass_is_forgotten:
  "(machine_Reconcile r req w = (out, w') \<and> \<not> reschedules out \<longrightarrow>
     (\<exists>err. GetAlibabaCloudMachine (r_Kube r) req w = Inl err \<and> IsNotFound err)
     \<or> (\<exists>m m' w1. GetAlibabaCloudMachine (r_Kube r) req w = Inr m
          \<and> reconcileFetched r m w = ((noRequeue, None), m', w1) \<and> Patch (r_Kube r) m m' w1 = (None, w')
          \<and> (machine_on_hold r m w \<or> machine_settled (r_Util r) m m')))
   \<and> (cluster_Reconcile r\<^sub>c req\<^sub>c v = (out\<^sub>c, v') \<and> \<not> reschedules out\<^sub>c \<longrightarrow>
     (\<exists>err. cr_Get r\<^sub>c req\<^sub>c v = Inl err \<and> IsNotFound err)
     \<or> (\<exists>ac. cr_Get r\<^sub>c req\<^sub>c v = Inr ac \<and> (cluster_on_hold r\<^sub>c ac v
          \<or> (\<exists>ac' v1. cluster_handler r\<^sub>c ac v = ((noRequeue, None), ac', v1)
               \<and> cr_Patch r\<^sub>c ac ac' v1 = (None, v') \<and> cluster_settled (cr_Util r\<^sub>c) ac ac'))))"
  using machine_pass_settles [of r req w out w'] cluster_pass_settles [of r\<^sub>c req\<^sub>c v out\<^sub>c v'] by blast

text \<open>A machine on its way out that never had an instance, and an owned cluster.\<close>

definition leaving_machine :: AlibabaCloudMachine where
  "leaving_machine = (blank_machine ''w'')\<lparr>m_Meta :=
     (blank_meta ''w'')\<lparr>om_DeletionTimestamp := Some 1, om_Finalizers := [MachineFinalizer]\<rparr>\<rparr>"

definition leaving_reconciler :: "SimCloud World MachineReconciler" where
  "leaving_reconciler = sim_reconciler\<lparr>r_Kube := sim_kube\<lparr>GetAlibabaCloudMachine := (\<lambda>k w. Inr leaving_machine)\<rparr>\<rparr>"

definition owned_reconciler :: "unit ClusterReconciler" where
  "owned_reconciler = kind_reconciler\<lparr>cr_GetOwnerCluster := (\<lambda>m w. Inr (Some sim_capi_cluster))\<rparr>"

theorem no_pass_is_forgotten_witness:
  "\<exists>out w' v'. machine_Reconcile leaving_reconciler \<lparr>ok_Namespace = ''ns'', ok_Name = ''w''\<rparr> (sim_world []) = (out, w')
     \<and> \<not> reschedules out
     \<and> cluster_Reconcile owned_reconciler \<lparr>ok_Namespace = ''ns'', ok_Name = ''c1''\<rparr> () = ((noRequeue, None), v')
     \<and> (\<exists>m' w1. reconcileFetched leaving_reconciler leaving_machine (sim_world []) = ((noRequeue, None), m', w1)
          \<and> machine_settled std_util leaving_machine m')
     \<and> (\<exists>ac' v1. cluster_handler owned_reconciler (kind_cluster ''api'') () = ((noRequeue, None), ac', v1)
          \<and> cluster_settled std_util (kind_cluster ''api'') ac')"
proof -
  let ?req = "\<lparr>ok_Namespace = ''ns'', ok_Name = ''w''\<rparr>" and ?creq = "\<lparr>ok_Namespace = ''ns'', ok_Name = ''c1''\<rparr>"
  obtain out w' where run: "machine_Reconcile leaving_reconciler ?req (sim_world []) = (out, w')" by fastforce
  have "fst (machine_Reconcile leaving_reconciler ?req (sim_world [])) = (noRequeue, None)" by code_simp
  with run have out: "\<not> reschedules out" by simp
  have kube: "r_Kube leaving_reconciler = sim_kube\<lparr>GetAlibabaCloudMachine := (\<lambda>k w. Inr leaving_machine)\<rparr>"
    and util: "r_Util leaving_reconciler = std_util"
    by (simp_all add: leaving_reconciler_def sim_reconciler_def)
  have hold: "\<not> machine_on_hold leaving_reconciler leaving_machine w" for w
    by (simp add: machine_on_hold_def leaving_machine_def)
  obtain cout v' where crun: "cluster_Reconcile owned_reconciler ?creq () = (cout, v')"
    by (metis prod.exhaust)
  have "fst (cluster_Reconcile owned_reconciler ?creq ()) = (noRequeue, None)" by code_simp
  with crun have cout: "cout = (noRequeue, None)" by simp
  have chold: "\<not> cluster_on_hold owned_reconciler (kind_cluster ''api'') ()"
    and cget: "cr_Get owned_reconciler ?creq () = Inr (kind_cluster ''api'')" "cr_Util owned_reconciler = std_util"
    by (simp_all add: cluster_on_hold_def owned_reconciler_def kind_reconciler_def)
  from no_pass_is_forgotten [of leaving_reconciler ?req "sim_world []" out w' owned_reconciler ?creq "()" cout v']
    run out crun cout hold chold cget kube util
  show ?thesis by auto
qed

end
