(* ===== verification/Control_Plane.thy ===== *)
theory Control_Plane
  imports Capi_Util
begin

text \<open>
  \<open>internal/controller/alibabacloudcontrolplane_controller.go\<close> and the types of
  \<open>api/controlplane/v1beta1\<close>: an externally managed control plane is reported as initialised.
\<close>

section \<open>Types\<close>

definition ControlPlaneModeExternal :: string where "ControlPlaneModeExternal = ''external''"

record AlibabaCloudControlPlaneSpec =
  cps_Mode :: string
  cps_Version :: string
  cps_ControlPlaneEndpoint :: APIEndpoint

record AlibabaCloudControlPlaneStatus =
  cpst_Ready :: bool
  cpst_ExternalManagedControlPlane :: "bool option"
  cpst_Initialization :: "bool option option"
  cpst_Version :: string
  cpst_Conditions :: "Condition list"

record AlibabaCloudControlPlane =
  cpl_Meta :: ObjectMeta
  cpl_Spec :: AlibabaCloudControlPlaneSpec
  cpl_Status :: AlibabaCloudControlPlaneStatus

definition controlPlane_set_condition ::
  "capi_util \<Rightarrow> Condition \<Rightarrow> AlibabaCloudControlPlane \<Rightarrow> AlibabaCloudControlPlane" where
  "controlPlane_set_condition U c cp =
     cp\<lparr>cpl_Status := (cpl_Status cp)\<lparr>cpst_Conditions :=
          conditions_Set U c (cpst_Conditions (cpl_Status cp))\<rparr>\<rparr>"

section \<open>The reconciler\<close>

record 'w ControlPlaneReconciler =
  p_Get :: "ObjectKey \<Rightarrow> 'w \<Rightarrow> go_error + AlibabaCloudControlPlane"
  p_GetOwnerCluster :: "ObjectMeta \<Rightarrow> 'w \<Rightarrow> go_error + Cluster option"
  p_IsPaused :: "Cluster \<Rightarrow> ObjectMeta \<Rightarrow> bool"
  p_NewHelper :: "AlibabaCloudControlPlane \<Rightarrow> 'w \<Rightarrow> go_error option"
  p_Patch :: "AlibabaCloudControlPlane \<Rightarrow> AlibabaCloudControlPlane \<Rightarrow> 'w \<Rightarrow> go_error option \<times> 'w"
  p_Util :: capi_util

definition reconcileExternal ::
  "capi_util \<Rightarrow> AlibabaCloudControlPlane \<Rightarrow> AlibabaCloudControlPlane" where
  "reconcileExternal U cp =
     controlPlane_set_condition U (isReady ''ExternalControlPlaneAdopted'')
       (cp\<lparr>cpl_Status := (cpl_Status cp)
            \<lparr>cpst_ExternalManagedControlPlane := Some True,
             cpst_Initialization := Some (Some True),
             cpst_Ready := True,
             cpst_Version := cps_Version (cpl_Spec cp)\<rparr>\<rparr>)"

definition reconcileMode ::
  "capi_util \<Rightarrow> AlibabaCloudControlPlane \<Rightarrow> AlibabaCloudControlPlane" where
  "reconcileMode U cp =
     (if cps_Mode (cpl_Spec cp) = ControlPlaneModeExternal \<or> cps_Mode (cpl_Spec cp) = []
      then reconcileExternal U cp
      else controlPlane_set_condition U
             (notReady ''UnsupportedMode''
                (Sprintf ''control plane mode %q is not supported (only %q is implemented)''
                   [Lit (cps_Mode (cpl_Spec cp)), Lit ControlPlaneModeExternal])) cp)"

definition controlPlane_Reconcile ::
  "'w ControlPlaneReconciler \<Rightarrow> ObjectKey \<Rightarrow> 'w \<Rightarrow> outcome \<times> 'w" where
  "controlPlane_Reconcile r req w =
     (case p_Get r req w of
        Inl err \<Rightarrow> ((noRequeue, if IsNotFound err then None else Some err), w)
      | Inr cp \<Rightarrow>
          (case p_GetOwnerCluster r (cpl_Meta cp) w of
             Inl err \<Rightarrow> ((noRequeue, Some err), w)
           | Inr owner \<Rightarrow>
               if (case owner of None \<Rightarrow> False | Some cluster \<Rightarrow> p_IsPaused r cluster (cpl_Meta cp))
               then ((noRequeue, None), w)
               else
                 (case p_NewHelper r cp w of
                    Some err \<Rightarrow> ((noRequeue, Some err), w)
                  | None \<Rightarrow>
                      (let cp' = (if om_DeletionTimestamp (cpl_Meta cp) \<noteq> None then cp
                                  else reconcileMode (p_Util r) cp);
                           (patchErr, w2) = p_Patch r cp cp' w
                       in ((noRequeue, patchErr), w2)))))"

section \<open>What a pass writes\<close>

lemma controlPlane_set_condition_frame [simp]:
  "cpl_Meta (controlPlane_set_condition U c cp) = cpl_Meta cp"
  "cpl_Spec (controlPlane_set_condition U c cp) = cpl_Spec cp"
  "cpst_Ready (cpl_Status (controlPlane_set_condition U c cp)) = cpst_Ready (cpl_Status cp)"
  "cpst_ExternalManagedControlPlane (cpl_Status (controlPlane_set_condition U c cp))
     = cpst_ExternalManagedControlPlane (cpl_Status cp)"
  "cpst_Initialization (cpl_Status (controlPlane_set_condition U c cp))
     = cpst_Initialization (cpl_Status cp)"
  "cpst_Version (cpl_Status (controlPlane_set_condition U c cp)) = cpst_Version (cpl_Status cp)"
  by (simp_all add: controlPlane_set_condition_def)

lemma controlPlane_condition_after_set:
  assumes "capi_util_laws U" and "c_Reason c \<noteq> []"
  shows "condition_get (c_Type c) (cpst_Conditions (cpl_Status (controlPlane_set_condition U c cp))) = Some c"
  using capi_util_laws.set_same [OF assms] by (simp add: controlPlane_set_condition_def)

definition adopted :: "AlibabaCloudControlPlane \<Rightarrow> bool" where
  "adopted cp \<longleftrightarrow>
     cpst_Ready (cpl_Status cp) \<and> cpst_ExternalManagedControlPlane (cpl_Status cp) = Some True
     \<and> cpst_Initialization (cpl_Status cp) = Some (Some True)
     \<and> cpst_Version (cpl_Status cp) = cps_Version (cpl_Spec cp)
     \<and> (\<exists>c. condition_get ReadyCondition (cpst_Conditions (cpl_Status cp)) = Some c
           \<and> c_Status c = ConditionTrue)"

lemma reconcileExternal_adopts:
  assumes "capi_util_laws U"
  shows "adopted (reconcileExternal U cp)"
proof -
  let ?c = "isReady ''ExternalControlPlaneAdopted''"
  have "c_Type ?c = ReadyCondition" "c_Status ?c = ConditionTrue" "c_Reason ?c \<noteq> []"
    by (simp_all add: isReady_def)
  with controlPlane_condition_after_set [OF assms, of ?c] show ?thesis
    by (auto simp: adopted_def reconcileExternal_def)
qed

text \<open>
  C35.  The control-plane contract.  A pass over a control plane that is found and not paused, and for
  which a patch helper can be made, writes exactly one object, whose metadata and spec are those read, so no finalizer is ever
  taken.  Under deletion it is the object as read; in external or empty mode it is reported
  ready, initialised, externally managed and at the version of the spec; in any other mode the
  Ready condition is false and the rest of the status, the other conditions included, is kept.  An error of the patch is the
  error of the pass.
\<close>

theorem control_plane_contract:
  assumes "capi_util_laws (p_Util r)"
    and "p_Get r req w = Inr cp" and "p_GetOwnerCluster r (cpl_Meta cp) w = Inr owner"
    and "\<And>cl. owner = Some cl \<Longrightarrow> \<not> p_IsPaused r cl (cpl_Meta cp)"
    and "p_NewHelper r cp w = None"
    and "controlPlane_Reconcile r req w = ((res, err), w')"
  shows "\<exists>cp'. p_Patch r cp cp' w = (err, w') \<and> res = noRequeue
    \<and> cpl_Meta cp' = cpl_Meta cp \<and> cpl_Spec cp' = cpl_Spec cp
    \<and> (om_DeletionTimestamp (cpl_Meta cp) \<noteq> None \<longrightarrow> cp' = cp)
    \<and> (om_DeletionTimestamp (cpl_Meta cp) = None \<longrightarrow>
         (if cps_Mode (cpl_Spec cp) \<in> {ControlPlaneModeExternal, []} then adopted cp'
          else (\<exists>c. condition_get ReadyCondition (cpst_Conditions (cpl_Status cp')) = Some c
                  \<and> c_Status c = ConditionFalse \<and> c_Reason c = ''UnsupportedMode'')
               \<and> cpl_Status cp' = (cpl_Status cp)\<lparr>cpst_Conditions := cpst_Conditions (cpl_Status cp')\<rparr>
               \<and> (\<forall>ty. ty \<noteq> ReadyCondition \<longrightarrow> condition_get ty (cpst_Conditions (cpl_Status cp'))
                     = condition_get ty (cpst_Conditions (cpl_Status cp)))))"
proof -
  let ?cp' = "if om_DeletionTimestamp (cpl_Meta cp) \<noteq> None then cp else reconcileMode (p_Util r) cp"
  have run: "p_Patch r cp ?cp' w = (err, w')" "res = noRequeue"
    using assms(2-6) by (auto simp: controlPlane_Reconcile_def Let_def split: option.splits prod.splits)
  have frame: "cpl_Meta ?cp' = cpl_Meta cp" "cpl_Spec ?cp' = cpl_Spec cp"
    by (simp_all add: reconcileMode_def reconcileExternal_def)
  have mode: "if cps_Mode (cpl_Spec cp) \<in> {ControlPlaneModeExternal, []} then adopted (reconcileMode (p_Util r) cp)
      else (\<exists>c. condition_get ReadyCondition (cpst_Conditions (cpl_Status (reconcileMode (p_Util r) cp))) = Some c
              \<and> c_Status c = ConditionFalse \<and> c_Reason c = ''UnsupportedMode'')
           \<and> cpl_Status (reconcileMode (p_Util r) cp)
               = (cpl_Status cp)\<lparr>cpst_Conditions := cpst_Conditions (cpl_Status (reconcileMode (p_Util r) cp))\<rparr>
           \<and> (\<forall>ty. ty \<noteq> ReadyCondition \<longrightarrow>
                 condition_get ty (cpst_Conditions (cpl_Status (reconcileMode (p_Util r) cp)))
                 = condition_get ty (cpst_Conditions (cpl_Status cp)))"
  proof (cases "cps_Mode (cpl_Spec cp) \<in> {ControlPlaneModeExternal, []}")
    case True
    then show ?thesis using reconcileExternal_adopts [OF assms(1)] by (simp add: reconcileMode_def)
  next
    case False
    let ?msg = "Sprintf ''control plane mode %q is not supported (only %q is implemented)''
                   [Lit (cps_Mode (cpl_Spec cp)), Lit ControlPlaneModeExternal]"
    let ?c = "notReady ''UnsupportedMode'' ?msg"
    have c: "c_Type ?c = ReadyCondition" "c_Status ?c = ConditionFalse" "c_Reason ?c = ''UnsupportedMode''"
      by (simp_all add: notReady_def)
    have cp': "reconcileMode (p_Util r) cp = controlPlane_set_condition (p_Util r) ?c cp"
      using False by (simp add: reconcileMode_def)
    have "condition_get ReadyCondition (cpst_Conditions (cpl_Status (reconcileMode (p_Util r) cp))) = Some ?c"
      using controlPlane_condition_after_set [OF assms(1), of ?c cp] unfolding cp' c by simp
    moreover have "condition_get ty (cpst_Conditions (cpl_Status (reconcileMode (p_Util r) cp)))
        = condition_get ty (cpst_Conditions (cpl_Status cp))" if "ty \<noteq> ReadyCondition" for ty
      using capi_util_laws.set_other [OF assms(1), of ty ?c] that c(1)
      by (simp add: cp' controlPlane_set_condition_def)
    moreover have "cpl_Status (reconcileMode (p_Util r) cp)
        = (cpl_Status cp)\<lparr>cpst_Conditions := cpst_Conditions (cpl_Status (reconcileMode (p_Util r) cp))\<rparr>"
      by (simp add: cp' controlPlane_set_condition_def)
    ultimately show ?thesis using False c by simp
  qed
  show ?thesis using run frame mode by (intro exI [of _ ?cp']) auto
qed

definition external_plane :: "string \<Rightarrow> AlibabaCloudControlPlane" where
  "external_plane mode =
     \<lparr>cpl_Meta = \<lparr>om_Name = ''cp'', om_Namespace = ''ns'', om_UID = [], om_DeletionTimestamp = None,
                  om_Finalizers = [], om_Annotations = [], om_OwnerReferences = []\<rparr>,
      cpl_Spec = \<lparr>cps_Mode = mode, cps_Version = ''v1.31.0'',
                  cps_ControlPlaneEndpoint = \<lparr>ep_Host = [], ep_Port = 0\<rparr>\<rparr>,
      cpl_Status = \<lparr>cpst_Ready = False, cpst_ExternalManagedControlPlane = None,
                    cpst_Initialization = None, cpst_Version = [], cpst_Conditions = []\<rparr>\<rparr>"

text \<open>An API server whose state is the one control plane it stores.\<close>

definition plane_reconciler :: "AlibabaCloudControlPlane ControlPlaneReconciler" where
  "plane_reconciler =
     \<lparr>p_Get = (\<lambda>k w. Inr w), p_GetOwnerCluster = (\<lambda>m w. Inr None), p_IsPaused = (\<lambda>c m. False),
      p_NewHelper = (\<lambda>a w. None), p_Patch = (\<lambda>old new w. (None, new)), p_Util = std_util\<rparr>"

theorem control_plane_contract_witness:
  "adopted (snd (controlPlane_Reconcile plane_reconciler \<lparr>ok_Namespace = ''ns'', ok_Name = ''cp''\<rparr>
      (external_plane ''external'')))"
proof -
  let ?k = "\<lparr>ok_Namespace = ''ns'', ok_Name = ''cp''\<rparr>" and ?cp = "external_plane ''external''"
  have util: "capi_util_laws (p_Util plane_reconciler)"
    using std_capi.capi_util_laws_axioms by (simp add: plane_reconciler_def)
  have steps: "p_Get plane_reconciler ?k ?cp = Inr ?cp"
    "p_GetOwnerCluster plane_reconciler (cpl_Meta ?cp) ?cp = Inr None"
    "p_NewHelper plane_reconciler ?cp ?cp = None"
    "\<And>cl. None = Some cl \<Longrightarrow> \<not> p_IsPaused plane_reconciler cl (cpl_Meta ?cp)"
    by (simp_all add: plane_reconciler_def)
  obtain res err w' where run: "controlPlane_Reconcile plane_reconciler ?k ?cp = ((res, err), w')"
    by (metis prod.exhaust)
  have "om_DeletionTimestamp (cpl_Meta ?cp) = None"
    "cps_Mode (cpl_Spec ?cp) \<in> {ControlPlaneModeExternal, []}"
    by (simp_all add: external_plane_def ControlPlaneModeExternal_def)
  moreover have patch: "p_Patch plane_reconciler a b c = (None, b)" for a b c
    by (simp add: plane_reconciler_def)
  ultimately have "adopted w'"
    using control_plane_contract [OF util steps(1,2,4,3) run] by (auto simp: patch)
  with run show ?thesis by simp
qed

end
