(* ===== verification/Template_Controller.thy ===== *)
theory Template_Controller
  imports Provider_ID Cloud_Client Go_Encoding
begin

text \<open>
  \<open>internal/controller/alibabacloudmachinetemplate_controller.go\<close>: the scale-from-zero capacity
  of a machine template.  A \<open>corev1.ResourceList\<close> is an association list from resource names
  to quantities (64-bit integers; arithmetic on them wraps); the reconciler's cache, which a
  mutex protects around each access, is an association list the handler threads through.
\<close>

section \<open>Definitions\<close>

type_synonym ResourceList = "(string \<times> int) list"

text \<open>\<open>m[k] = v\<close>, and \<open>equality.Semantic.DeepEqual\<close> on two resource lists.\<close>

definition rl_set :: "string \<Rightarrow> 'a \<Rightarrow> (string \<times> 'a) list \<Rightarrow> (string \<times> 'a) list" where
  "rl_set k v rl = (k, v) # filter (\<lambda>(k', _). k' \<noteq> k) rl"

definition rl_equal :: "ResourceList \<Rightarrow> ResourceList \<Rightarrow> bool" where
  "rl_equal a b \<longleftrightarrow> list_all (\<lambda>k. map_of a k = map_of b k) (map fst a @ map fst b)"

record AlibabaCloudMachineTemplate =
  tmpl_Meta :: ObjectMeta
  tmpl_Spec :: AlibabaCloudMachineSpec
  tmpl_Capacity :: ResourceList

definition defaultMaxPodsPerNode :: int where "defaultMaxPodsPerNode = 110"

record 'w TemplateReconciler =
  t_Get :: "ObjectKey \<Rightarrow> 'w \<Rightarrow> go_error + AlibabaCloudMachineTemplate"
  t_StatusPatch :: "AlibabaCloudMachineTemplate \<Rightarrow> AlibabaCloudMachineTemplate \<Rightarrow> 'w
                      \<Rightarrow> go_error option \<times> 'w"
  t_ClientBuilder :: "string \<Rightarrow> 'w \<Rightarrow> go_error + 'w Client"

type_synonym capacityCache = "(string \<times> ResourceList) list"

text \<open>The per-template part: pods, and ephemeral storage when a system disk size is set.\<close>

definition withTemplateCapacity :: "AlibabaCloudMachineSpec \<Rightarrow> ResourceList \<Rightarrow> ResourceList" where
  "withTemplateCapacity spec base =
     (let out = rl_set ''pods'' defaultMaxPodsPerNode base
      in case ms_SystemDisk spec of
           None \<Rightarrow> out
         | Some d \<Rightarrow>
             if sd_Size d > 0
             then rl_set ''ephemeral-storage'' (wrap64 (sd_Size d * 1024 * 1024 * 1024)) out
             else out)"

definition baseCapacity :: "int \<Rightarrow> int \<Rightarrow> ResourceList" where
  "baseCapacity vcpu memMiB = [(''cpu'', vcpu), (''memory'', wrap64 (memMiB * 1024 * 1024))]"

definition resolveCapacity ::
  "'w TemplateReconciler \<Rightarrow> AlibabaCloudMachineSpec \<Rightarrow> capacityCache \<Rightarrow> 'w
     \<Rightarrow> (go_error + ResourceList) \<times> capacityCache \<times> 'w" where
  "resolveCapacity r spec cache w =
     (case map_of cache (ms_InstanceType spec) of
        Some base \<Rightarrow> (Inr (withTemplateCapacity spec base), cache, w)
      | None \<Rightarrow>
          (case t_ClientBuilder r (ms_RegionID spec) w of
             Inl err \<Rightarrow> (Inl err, cache, w)
           | Inr cli \<Rightarrow>
               (case InstanceTypeCapacity cli (ms_InstanceType spec) w of
                  (Inl err, w1) \<Rightarrow> (Inl err, cache, w1)
                | (Inr (vcpu, memMiB), w1) \<Rightarrow>
                    (let base = baseCapacity vcpu memMiB
                     in (Inr (withTemplateCapacity spec base),
                         rl_set (ms_InstanceType spec) base cache, w1)))))"

definition template_Reconcile ::
  "'w TemplateReconciler \<Rightarrow> ObjectKey \<Rightarrow> capacityCache \<Rightarrow> 'w \<Rightarrow> outcome \<times> capacityCache \<times> 'w" where
  "template_Reconcile r req cache w =
     (case t_Get r req w of
        Inl err \<Rightarrow> ((noRequeue, if IsNotFound err then None else Some err), cache, w)
      | Inr tmpl \<Rightarrow>
          if ms_InstanceType (tmpl_Spec tmpl) = [] then ((noRequeue, None), cache, w)
          else if ms_RegionID (tmpl_Spec tmpl) = [] then ((noRequeue, None), cache, w)
          else
            (case resolveCapacity r (tmpl_Spec tmpl) cache w of
               (Inl err, cache1, w1) \<Rightarrow> ((noRequeue, Some err), cache1, w1)
             | (Inr capacity, cache1, w1) \<Rightarrow>
                 if rl_equal (tmpl_Capacity tmpl) capacity then ((noRequeue, None), cache1, w1)
                 else
                   (case t_StatusPatch r tmpl (tmpl\<lparr>tmpl_Capacity := capacity\<rparr>) w1 of
                      (Some err, w2) \<Rightarrow> ((noRequeue, Some err), cache1, w2)
                    | (None, w2) \<Rightarrow> ((noRequeue, None), cache1, w2))))"

section \<open>Lemmas\<close>

lemma map_of_rl_set [simp]: "map_of (rl_set k v rl) k' = (if k' = k then Some v else map_of rl k')"
proof -
  have "map_of (filter (\<lambda>(k', _). k' \<noteq> k) rl) k' = map_of rl k'" if "k' \<noteq> k"
    using that by (induction rl) auto
  then show ?thesis by (simp add: rl_set_def)
qed

lemma rl_equal_iff: "rl_equal a b \<longleftrightarrow> map_of a = map_of b"
proof
  assume eq: "rl_equal a b"
  show "map_of a = map_of b"
  proof
    fix k
    show "map_of a k = map_of b k"
    proof (cases "k \<in> fst ` set a \<or> k \<in> fst ` set b")
      case True
      with eq show ?thesis by (auto simp: rl_equal_def list_all_iff)
    next
      case False
      then have "map_of a k = None" "map_of b k = None" by (auto simp: map_of_eq_None_iff)
      then show ?thesis by simp
    qed
  qed
qed (simp add: rl_equal_def list_all_iff)

text \<open>A machine type the service reports is cached, and the next resolution is answered from it.\<close>

lemma resolveCapacity_caches:
  assumes "resolveCapacity r spec cache w = (Inr cap, cache', w')"
  obtains base where "map_of cache' (ms_InstanceType spec) = Some base"
    and "cap = withTemplateCapacity spec base"
  using assms
  by (auto simp: resolveCapacity_def Let_def split: option.splits sum.splits prod.splits)

lemma resolveCapacity_cached:
  "map_of cache (ms_InstanceType spec) = Some base \<Longrightarrow>
   resolveCapacity r spec cache w = (Inr (withTemplateCapacity spec base), cache, w)"
  by (simp add: resolveCapacity_def)

lemma withTemplateCapacity_lookup:
  "map_of (withTemplateCapacity spec base) k =
     (if k = ''ephemeral-storage'' \<and> (\<exists>d. ms_SystemDisk spec = Some d \<and> 0 < sd_Size d)
      then Some (wrap64 (sd_Size (the (ms_SystemDisk spec)) * 1024 * 1024 * 1024))
      else if k = ''pods'' then Some defaultMaxPodsPerNode else map_of base k)"
  by (auto simp: withTemplateCapacity_def Let_def split: option.splits)

section \<open>The capacity a template should report\<close>

text \<open>
  The reference: what a node of a machine type with \<open>vcpu\<close> cores and \<open>mem\<close> MiB offers, in exact
  integers and with no cache.
\<close>

definition referenceCapacity :: "AlibabaCloudMachineSpec \<Rightarrow> int \<Rightarrow> int \<Rightarrow> string \<rightharpoonup> int" where
  "referenceCapacity spec vcpu mem k =
     (if k = ''cpu'' then Some vcpu
      else if k = ''memory'' then Some (mem * 2 ^ 20)
      else if k = ''pods'' then Some 110
      else if k = ''ephemeral-storage''
      then (case ms_SystemDisk spec of
              Some d \<Rightarrow> if 0 < sd_Size d then Some (sd_Size d * 2 ^ 30) else None
            | None \<Rightarrow> None)
      else None)"

text \<open>
  \<open>types\<close> is what the service knows of its machine types; the specification of a type is static,
  so every client reports the same values whenever it reports any.
\<close>

definition static_types :: "'w TemplateReconciler \<Rightarrow> (string \<rightharpoonup> int \<times> int) \<Rightarrow> bool" where
  "static_types r types \<longleftrightarrow>
     (\<forall>rg w cli t v w1. t_ClientBuilder r rg w = Inr cli \<longrightarrow>
        InstanceTypeCapacity cli t w = (Inr v, w1) \<longrightarrow> types t = Some v)
     \<and> (\<forall>t vcpu mem. types t = Some (vcpu, mem) \<longrightarrow> 0 \<le> mem \<and> mem < 2 ^ 43)"

definition cache_ok :: "(string \<rightharpoonup> int \<times> int) \<Rightarrow> capacityCache \<Rightarrow> bool" where
  "cache_ok types cache \<longleftrightarrow>
     (\<forall>t base. map_of cache t = Some base \<longrightarrow>
        (\<exists>vcpu mem. types t = Some (vcpu, mem) \<and> base = baseCapacity vcpu mem))"

lemma cache_ok_update:
  "cache_ok types cache \<Longrightarrow> types t = Some (vcpu, mem) \<Longrightarrow>
   cache_ok types (rl_set t (baseCapacity vcpu mem) cache)"
  by (simp add: cache_ok_def)

lemma withTemplateCapacity_exact:
  assumes "0 \<le> mem" "mem < 2 ^ 43"
    and "\<And>d. ms_SystemDisk spec = Some d \<Longrightarrow> sd_Size d < 2 ^ 33"
  shows "map_of (withTemplateCapacity spec (baseCapacity vcpu mem)) = referenceCapacity spec vcpu mem"
proof
  fix k
  have "wrap64 (mem * 1024 * 1024) = mem * 2 ^ 20"
    using assms(1,2) by (subst wrap64_id) auto
  moreover have "wrap64 (sd_Size d * 1024 * 1024 * 1024) = sd_Size d * 2 ^ 30"
    if "ms_SystemDisk spec = Some d" "0 < sd_Size d" for d
    using assms(3) [OF that(1)] that(2) by (subst wrap64_id) auto
  ultimately show "map_of (withTemplateCapacity spec (baseCapacity vcpu mem)) k
      = referenceCapacity spec vcpu mem k"
    by (auto simp: withTemplateCapacity_lookup referenceCapacity_def baseCapacity_def
        defaultMaxPodsPerNode_def split: option.splits)
qed

lemma resolveCapacity_cases:
  assumes "resolveCapacity r spec cache w = (res, cache', w')"
  obtains (hit) base where "map_of cache (ms_InstanceType spec) = Some base"
      "res = Inr (withTemplateCapacity spec base)" "cache' = cache" "w' = w"
    | (miss) cli vcpu mem where "map_of cache (ms_InstanceType spec) = None"
      "t_ClientBuilder r (ms_RegionID spec) w = Inr cli"
      "InstanceTypeCapacity cli (ms_InstanceType spec) w = (Inr (vcpu, mem), w')"
      "res = Inr (withTemplateCapacity spec (baseCapacity vcpu mem))"
      "cache' = rl_set (ms_InstanceType spec) (baseCapacity vcpu mem) cache"
    | (failed) err where "map_of cache (ms_InstanceType spec) = None" "res = Inl err" "cache' = cache"
  using assms
  by (auto simp: resolveCapacity_def Let_def split: option.splits sum.splits prod.splits)

section \<open>Properties\<close>

text \<open>
  C33.  The capacity cache is transparent.  While every cached entry is what the service reports
  for its type, a resolution keeps it so, and what it returns is the reference capacity, with no
  overflow for any memory below 8 EiB and any disk below 2^33 GiB; a type already in the cache
  is answered without a call to the service.
\<close>

theorem capacity_refines_reference:
  assumes "static_types r types" and "cache_ok types cache"
    and "\<And>d. ms_SystemDisk spec = Some d \<Longrightarrow> sd_Size d < 2 ^ 33"
    and "resolveCapacity r spec cache w = (res, cache', w')"
  shows "cache_ok types cache'
    \<and> (\<forall>cap. res = Inr cap \<longrightarrow>
         (\<exists>vcpu mem. types (ms_InstanceType spec) = Some (vcpu, mem)
            \<and> map_of cap = referenceCapacity spec vcpu mem))
    \<and> (ms_InstanceType spec \<in> dom (map_of cache) \<longrightarrow> (\<exists>cap. res = Inr cap) \<and> w' = w)"
  using assms(4)
proof (cases rule: resolveCapacity_cases)
  case (hit base)
  then obtain vcpu mem where v: "types (ms_InstanceType spec) = Some (vcpu, mem)"
    and base: "base = baseCapacity vcpu mem"
    using assms(2) unfolding cache_ok_def by meson
  have "0 \<le> mem" "mem < 2 ^ 43" using assms(1) v by (auto simp: static_types_def)
  with withTemplateCapacity_exact [OF _ _ assms(3)] hit v base assms(2) show ?thesis by auto
next
  case (miss cli vcpu mem)
  then have v: "types (ms_InstanceType spec) = Some (vcpu, mem)"
    using assms(1) unfolding static_types_def by blast
  have "0 \<le> mem" "mem < 2 ^ 43" using assms(1) v by (auto simp: static_types_def)
  with withTemplateCapacity_exact [OF _ _ assms(3)] miss v cache_ok_update [OF assms(2) v]
  show ?thesis by (auto simp: domIff)
next
  case (failed err)
  with assms(2) show ?thesis by (auto simp: domIff)
qed

definition worker_spec :: AlibabaCloudMachineSpec where
  "worker_spec = blank_spec\<lparr>ms_RegionID := ''r'', ms_InstanceType := ''ecs.g7.xlarge'',
     ms_SystemDisk := Some \<lparr>sd_Category = [], sd_Size = 120, sd_PerformanceLevel = [],
                            sd_Encrypted = None, sd_KMSKeyID = []\<rparr>\<rparr>"

definition worker_template :: AlibabaCloudMachineTemplate where
  "worker_template = \<lparr>tmpl_Meta = blank_meta ''worker'', tmpl_Spec = worker_spec, tmpl_Capacity = []\<rparr>"

text \<open>An API server that stores one template; its state is that template.\<close>

definition stored_client :: "AlibabaCloudMachineTemplate Client" where
  "stored_client =
     \<lparr>DescribeInstanceByID = (\<lambda>i w. (Inr None, w)),
      CreateECSInstance = (\<lambda>p w. (Inr \<lparr>cr_InstanceID = ''i''\<rparr>, w)),
      DeleteECSInstance = (\<lambda>i f w. (None, w)), FindInstanceByTag = (\<lambda>rg k v w. (Inr [], w)),
      ModifyInstanceMetadata = (\<lambda>i e t h w. (None, w)), InstanceTypeCapacity = (\<lambda>t w. (Inr (4, 16384), w)),
      PutIgnitionObject = (\<lambda>p w. (Inr [], w)), DeleteIgnitionObject = (\<lambda>p w. (None, w))\<rparr>"

definition stored_template :: "AlibabaCloudMachineTemplate TemplateReconciler" where
  "stored_template =
     \<lparr>t_Get = (\<lambda>k w. Inr w), t_StatusPatch = (\<lambda>old new w. (None, new)),
      t_ClientBuilder = (\<lambda>rg w. Inr stored_client)\<rparr>"

theorem capacity_refines_reference_witness:
  "\<exists>cap. fst (resolveCapacity stored_template worker_spec [] worker_template) = Inr cap
     \<and> map_of cap = referenceCapacity worker_spec 4 16384"
proof -
  have static: "static_types stored_template (\<lambda>_. Some (4, 16384))"
    by (simp add: static_types_def stored_template_def stored_client_def)
  have empty: "cache_ok (\<lambda>_. Some (4, 16384)) []" by (simp add: cache_ok_def)
  have disk: "sd_Size d < 2 ^ 33" if "ms_SystemDisk worker_spec = Some d" for d
    using that by (auto simp: worker_spec_def)
  obtain res cache' w' where run: "resolveCapacity stored_template worker_spec [] worker_template = (res, cache', w')"
    by (metis prod.exhaust)
  then obtain cap where "res = Inr cap"
    by (auto simp: resolveCapacity_def stored_template_def stored_client_def Let_def)
  with run capacity_refines_reference [OF static empty disk run] show ?thesis by auto
qed

text \<open>
  C34.  A template converges in one pass: after a reconcile that succeeds, another one changes
  nothing and makes no call, provided the API server returns the object that was written last
  and calls to the cloud do not change it.
\<close>

theorem template_reconcile_converges:
  assumes get: "t_Get r req w = Inr tmpl"
    and patched: "\<And>old new v v'. t_StatusPatch r old new v = (None, v') \<Longrightarrow> t_Get r req v' = Inr new"
    and cloud: "\<And>rg cli t v res v'. t_ClientBuilder r rg w = Inr cli \<Longrightarrow>
      InstanceTypeCapacity cli t v = (res, v') \<Longrightarrow> t_Get r req v' = t_Get r req v"
    and run: "template_Reconcile r req cache w = ((res, None), cache', w')"
  shows "template_Reconcile r req cache' w' = ((noRequeue, None), cache', w')"
proof (cases "ms_InstanceType (tmpl_Spec tmpl) = [] \<or> ms_RegionID (tmpl_Spec tmpl) = []")
  case True
  with get run show ?thesis by (auto simp: template_Reconcile_def split: if_splits)
next
  case False
  let ?spec = "tmpl_Spec tmpl"
  obtain rc c1 w1 where rc: "resolveCapacity r ?spec cache w = (rc, c1, w1)" by (metis prod.exhaust)
  with get run False obtain cap where cap: "rc = Inr cap"
    by (cases rc) (auto simp: template_Reconcile_def)
  obtain base where base: "map_of c1 (ms_InstanceType ?spec) = Some base"
    "cap = withTemplateCapacity ?spec base"
    using rc unfolding cap by (rule resolveCapacity_caches)
  have get1: "t_Get r req w1 = Inr tmpl"
    using rc by (cases rule: resolveCapacity_cases) (use get cloud cap in auto)
  have again: "resolveCapacity r ?spec c1 v = (Inr cap, c1, v)" for v
    by (simp add: resolveCapacity_cached [OF base(1)] base(2))
  show ?thesis
  proof (cases "rl_equal (tmpl_Capacity tmpl) cap")
    case True
    with run get False rc cap have "cache' = c1" "w' = w1" by (auto simp: template_Reconcile_def)
    with get1 False again True show ?thesis by (simp add: template_Reconcile_def)
  next
    case differs: False
    obtain e w2 where p: "t_StatusPatch r tmpl (tmpl\<lparr>tmpl_Capacity := cap\<rparr>) w1 = (e, w2)"
      by (metis prod.exhaust)
    with run get False rc cap differs have "e = None" "cache' = c1" "w' = w2"
      by (auto simp: template_Reconcile_def split: option.splits)
    with patched p have "t_Get r req w' = Inr (tmpl\<lparr>tmpl_Capacity := cap\<rparr>)" by simp
    with False again \<open>cache' = c1\<close> show ?thesis
      by (simp add: template_Reconcile_def rl_equal_iff)
  qed
qed

definition worker_key :: ObjectKey where
  "worker_key = \<lparr>ok_Namespace = ''default'', ok_Name = ''worker''\<rparr>"

theorem template_reconcile_converges_witness:
  "\<exists>cache' w'. template_Reconcile stored_template worker_key [] worker_template = ((noRequeue, None), cache', w')
     \<and> w' \<noteq> worker_template
     \<and> template_Reconcile stored_template worker_key cache' w' = ((noRequeue, None), cache', w')"
proof -
  have get: "t_Get stored_template worker_key worker_template = Inr worker_template"
    by (simp add: stored_template_def)
  have patched: "t_Get stored_template worker_key v' = Inr new"
    if "t_StatusPatch stored_template old new v = (None, v')" for old new v v'
    using that by (simp add: stored_template_def)
  have cloud: "t_Get stored_template worker_key v' = t_Get stored_template worker_key v"
    if "t_ClientBuilder stored_template rg worker_template = Inr cli"
      "InstanceTypeCapacity cli t v = (res, v')" for rg cli t v res v'
    using that by (auto simp: stored_template_def stored_client_def)
  obtain cache' w' where run: "template_Reconcile stored_template worker_key [] worker_template
      = ((noRequeue, None), cache', w')" and w': "tmpl_Capacity w' \<noteq> []"
    by (auto simp: template_Reconcile_def stored_template_def stored_client_def resolveCapacity_def
        worker_template_def worker_spec_def blank_defs withTemplateCapacity_def baseCapacity_def
        rl_set_def rl_equal_def Let_def)
  have "w' \<noteq> worker_template" using w' by (auto simp: worker_template_def)
  moreover have "template_Reconcile stored_template worker_key cache' w' = ((noRequeue, None), cache', w')"
    by (rule template_reconcile_converges [OF get _ _ run]) (erule patched, erule (1) cloud)
  ultimately show ?thesis using run by blast
qed

end
