(* ===== verification/Csr_Approver.thy ===== *)
theory Csr_Approver
  imports Provider_ID
begin

text \<open>
  \<open>internal/controller/csr_controller.go\<close>: which kubelet certificate requests are approved.
  PEM and X.509 decoding (\<open>encoding/pem\<close>, \<open>crypto/x509\<close>) are two functions of the
  reconciler's environment, next to the Kubernetes client; of a parsed request the model
  keeps the subject and the IP and DNS names (an IP by its \<open>String()\<close>).
\<close>

section \<open>Definitions\<close>

record CertificateRequest =
  x_CommonName :: string
  x_Organization :: "string list"
  x_IPAddresses :: "string list"
  x_DNSNames :: "string list"

record CsrCondition =
  cc_Type :: string
  cc_Status :: string
  cc_Reason :: string
  cc_Message :: gotext

record CertificateSigningRequest =
  csr_Name :: string
  csr_SignerName :: string
  csr_Username :: string
  csr_Request :: string
  csr_Conditions :: "CsrCondition list"
  csr_Certificate :: string

record 'w CsrReconciler =
  k_GetCSR :: "string \<Rightarrow> 'w \<Rightarrow> go_error + CertificateSigningRequest"
  k_ListMachines :: "'w \<Rightarrow> go_error + AlibabaCloudMachine list"
  k_ListNodes :: "'w \<Rightarrow> go_error + Node list"
  k_GetNode :: "string \<Rightarrow> 'w \<Rightarrow> go_error + Node"
  k_UpdateApproval :: "CertificateSigningRequest \<Rightarrow> 'w \<Rightarrow> go_error option \<times> 'w"
  k_pemDecode :: "string \<Rightarrow> (string \<times> string) option"
  k_ParseCertificateRequest :: "string \<Rightarrow> go_error + CertificateRequest"

definition nodeBootstrapperUser :: string where
  "nodeBootstrapperUser = ''system:serviceaccount:openshift-machine-config-operator:node-bootstrapper''"

definition nodeUserPrefix :: string where "nodeUserPrefix = ''system:node:''"

definition nodesGroup :: string where "nodesGroup = ''system:nodes''"

text \<open>Constants of \<open>k8s.io/api/certificates/v1\<close> and \<open>core/v1\<close>.\<close>

definition KubeAPIServerClientKubeletSignerName :: string where
  "KubeAPIServerClientKubeletSignerName = ''kubernetes.io/kube-apiserver-client-kubelet''"

definition KubeletServingSignerName :: string where
  "KubeletServingSignerName = ''kubernetes.io/kubelet-serving''"

definition CertificateApproved :: string where "CertificateApproved = ''Approved''"

definition CertificateDenied :: string where "CertificateDenied = ''Denied''"

definition isCSRDecided :: "CertificateSigningRequest \<Rightarrow> bool" where
  "isCSRDecided csr \<longleftrightarrow>
     list_ex (\<lambda>c. cc_Type c = CertificateApproved \<or> cc_Type c = CertificateDenied) (csr_Conditions csr)"

definition parseCSR :: "'w CsrReconciler \<Rightarrow> string \<Rightarrow> go_error + CertificateRequest" where
  "parseCSR r pemBytes =
     (case k_pemDecode r pemBytes of
        None \<Rightarrow> Inl (Errorf ''PEM block is not a CERTIFICATE REQUEST'' [])
      | Some (ty, block) \<Rightarrow>
          if ty \<noteq> ''CERTIFICATE REQUEST''
          then Inl (Errorf ''PEM block is not a CERTIFICATE REQUEST'' [])
          else k_ParseCertificateRequest r block)"

definition containsStr :: "string list \<Rightarrow> string \<Rightarrow> bool" where
  "containsStr ss want \<longleftrightarrow> list_ex (\<lambda>s. s = want) ss"

text \<open>The set \<open>joined\<close> is the list of instance IDs of the nodes, without the empty ID.\<close>

definition joinedInstances :: "Node list \<Rightarrow> string list" where
  "joinedInstances nodes = filter (\<lambda>i. i \<noteq> []) (map (\<lambda>n. providerInstanceID (node_ProviderID n)) nodes)"

fun pending_loop :: "string list \<Rightarrow> AlibabaCloudMachine list \<Rightarrow> bool" where
  "pending_loop joined [] = False"
| "pending_loop joined (m # ms) =
     (case (ms_ProviderID (m_Spec m), mst_InstanceID (m_Status m)) of
        (Some pid, Some _) \<Rightarrow>
          if providerInstanceID pid \<notin> set joined then True else pending_loop joined ms
      | _ \<Rightarrow> pending_loop joined ms)"

definition hasPendingMachine ::
  "'w CsrReconciler \<Rightarrow> AlibabaCloudMachine list \<Rightarrow> 'w \<Rightarrow> go_error + bool" where
  "hasPendingMachine r machines w =
     (case k_ListNodes r w of
        Inl err \<Rightarrow> Inl err
      | Inr nodes \<Rightarrow> Inr (pending_loop (joinedInstances nodes) machines))"

definition nodeBackedByCAPAMachine :: "Node \<Rightarrow> AlibabaCloudMachine list \<Rightarrow> bool" where
  "nodeBackedByCAPAMachine node machines =
     (let i = providerInstanceID (node_ProviderID node)
      in if i = [] then False
         else list_ex (\<lambda>m. case ms_ProviderID (m_Spec m) of
                             None \<Rightarrow> False | Some pid \<Rightarrow> providerInstanceID pid = i) machines)"

definition nodeIPs :: "Node \<Rightarrow> string list" where
  "nodeIPs node =
     map snd (filter (\<lambda>(t, a). t \<in> {''InternalIP'', ''ExternalIP''}) (node_Addresses node))"

definition nodeDNS :: "Node \<Rightarrow> string list" where
  "nodeDNS node = node_Name node #
     map snd (filter (\<lambda>(t, a). t \<in> {''Hostname'', ''InternalDNS'', ''ExternalDNS''}) (node_Addresses node))"

definition sansSubsetOfNode :: "CertificateRequest \<Rightarrow> Node \<Rightarrow> bool" where
  "sansSubsetOfNode cr node =
     (if x_IPAddresses cr = [] \<and> x_DNSNames cr = [] then False
      else list_all (\<lambda>ip. ip \<in> set (nodeIPs node)) (x_IPAddresses cr)
           \<and> list_all (\<lambda>d. d \<in> set (nodeDNS node)) (x_DNSNames cr))"

text \<open>\<open>client.IgnoreNotFound\<close>.\<close>

definition IgnoreNotFound :: "go_error \<Rightarrow> go_error option" where
  "IgnoreNotFound err = (if IsNotFound err then None else Some err)"

definition shouldApprove ::
  "'w CsrReconciler \<Rightarrow> CertificateSigningRequest \<Rightarrow> CertificateRequest \<Rightarrow> 'w
     \<Rightarrow> go_error + gotext option" where
  "shouldApprove r csr cr w =
     (if \<not> HasPrefix (x_CommonName cr) nodeUserPrefix \<or> \<not> containsStr (x_Organization cr) nodesGroup
      then Inr None
      else
        (let nodeName = TrimPrefix (x_CommonName cr) nodeUserPrefix
         in case k_ListMachines r w of
              Inl err \<Rightarrow> Inl err
            | Inr machines \<Rightarrow>
                if csr_SignerName csr = KubeAPIServerClientKubeletSignerName then
                  (if csr_Username csr \<noteq> nodeBootstrapperUser then Inr None
                   else case hasPendingMachine r machines w of
                          Inl err \<Rightarrow> Inl err
                        | Inr pending \<Rightarrow>
                            if \<not> pending then Inr None
                            else Inr (Some (Sprintf ''bootstrap CSR for %q; a provisioned AlibabaCloudMachine is awaiting its node''
                                              [Lit nodeName])))
                else if csr_SignerName csr = KubeletServingSignerName then
                  (if csr_Username csr \<noteq> nodeUserPrefix @ nodeName then Inr None
                   else case k_GetNode r nodeName w of
                          Inl err \<Rightarrow>
                            (case IgnoreNotFound err of None \<Rightarrow> Inr None | Some e \<Rightarrow> Inl e)
                        | Inr node \<Rightarrow>
                            if \<not> sansSubsetOfNode cr node then Inr None
                            else
                              (let provenance =
                                     (if nodeBackedByCAPAMachine node machines then ''CAPA-backed''
                                      else ''no AlibabaCloudMachine '' @ emDash @ '' e.g. an ABI-installed node'')
                               in Inr (Some (Sprintf ''serving CSR SANs all match node %q addresses (%s)''
                                               [Lit nodeName, Lit provenance]))))
                else Inr None))"

definition approvedCSR :: "CertificateSigningRequest \<Rightarrow> gotext \<Rightarrow> CertificateSigningRequest" where
  "approvedCSR csr reason =
     csr\<lparr>csr_Conditions := csr_Conditions csr @
          [\<lparr>cc_Type = CertificateApproved, cc_Status = ''True'', cc_Reason = ''CAPAApprove'',
            cc_Message = reason\<rparr>]\<rparr>"

definition csr_Reconcile ::
  "'w CsrReconciler \<Rightarrow> string \<Rightarrow> 'w \<Rightarrow> outcome \<times> 'w" where
  "csr_Reconcile r req w =
     (case k_GetCSR r req w of
        Inl err \<Rightarrow> ((noRequeue, IgnoreNotFound err), w)
      | Inr csr \<Rightarrow>
          if isCSRDecided csr \<or> csr_Certificate csr \<noteq> [] then ((noRequeue, None), w)
          else if csr_SignerName csr \<noteq> KubeAPIServerClientKubeletSignerName
                  \<and> csr_SignerName csr \<noteq> KubeletServingSignerName then ((noRequeue, None), w)
          else
            (case parseCSR r (csr_Request csr) of
               Inl err \<Rightarrow> ((noRequeue, None), w)
             | Inr cr \<Rightarrow>
                 (case shouldApprove r csr cr w of
                    Inl err \<Rightarrow> ((noRequeue, Some err), w)
                  | Inr None \<Rightarrow> ((noRequeue, None), w)
                  | Inr (Some reason) \<Rightarrow>
                      (case k_UpdateApproval r (approvedCSR csr reason) w of
                         (Some err, w1) \<Rightarrow>
                           ((noRequeue, Some (Wrap ''approve CSR %s: %w'' [Lit (csr_Name csr)] err)), w1)
                       | (None, w1) \<Rightarrow> ((noRequeue, None), w1)))))"

section \<open>The approval rules\<close>

text \<open>A machine is awaiting its node: it is provisioned, and no node carries its instance.\<close>

definition awaits_node :: "Node list \<Rightarrow> AlibabaCloudMachine \<Rightarrow> bool" where
  "awaits_node nodes m \<longleftrightarrow>
     mst_InstanceID (m_Status m) \<noteq> None
     \<and> (\<exists>pid. ms_ProviderID (m_Spec m) = Some pid
          \<and> (\<forall>n \<in> set nodes. providerInstanceID (node_ProviderID n) \<noteq> []
               \<longrightarrow> providerInstanceID (node_ProviderID n) \<noteq> providerInstanceID pid))"

lemma pending_loop_iff:
  "pending_loop joined ms \<longleftrightarrow>
     (\<exists>m \<in> set ms. mst_InstanceID (m_Status m) \<noteq> None
        \<and> (\<exists>pid. ms_ProviderID (m_Spec m) = Some pid \<and> providerInstanceID pid \<notin> set joined))"
  by (induction joined ms rule: pending_loop.induct) (auto split: option.splits if_splits)

lemma pending_iff_awaits:
  "pending_loop (joinedInstances nodes) ms \<longleftrightarrow> (\<exists>m \<in> set ms. awaits_node nodes m)"
proof -
  have "i \<notin> set (joinedInstances nodes) \<longleftrightarrow>
      (\<forall>n \<in> set nodes. providerInstanceID (node_ProviderID n) \<noteq> []
         \<longrightarrow> providerInstanceID (node_ProviderID n) \<noteq> i)" for i
    by (auto simp: joinedInstances_def)
  then show ?thesis unfolding pending_loop_iff awaits_node_def by simp
qed

definition kubelet_subject :: "CertificateRequest \<Rightarrow> string \<Rightarrow> bool" where
  "kubelet_subject cr name \<longleftrightarrow>
     x_CommonName cr = ''system:node:'' @ name \<and> ''system:nodes'' \<in> set (x_Organization cr)"

text \<open>A client request: from the bootstrapper, while a provisioned machine awaits its node.\<close>

definition client_rule :: "'w CsrReconciler \<Rightarrow> CertificateSigningRequest \<Rightarrow> 'w \<Rightarrow> bool" where
  "client_rule r csr w \<longleftrightarrow>
     csr_SignerName csr = KubeAPIServerClientKubeletSignerName
     \<and> csr_Username csr = nodeBootstrapperUser
     \<and> (\<exists>machines nodes. k_ListMachines r w = Inr machines \<and> k_ListNodes r w = Inr nodes
          \<and> (\<exists>m \<in> set machines. awaits_node nodes m))"

text \<open>
  A serving request: from the node's own kubelet, for an existing node, and with at least
  one name, each of them an address of the node.
\<close>

definition serving_rule ::
  "'w CsrReconciler \<Rightarrow> CertificateSigningRequest \<Rightarrow> CertificateRequest \<Rightarrow> string \<Rightarrow> 'w \<Rightarrow> bool" where
  "serving_rule r csr cr name w \<longleftrightarrow>
     csr_SignerName csr = KubeletServingSignerName
     \<and> csr_Username csr = ''system:node:'' @ name
     \<and> (\<exists>machines. k_ListMachines r w = Inr machines)
     \<and> (\<exists>node. k_GetNode r name w = Inr node
          \<and> (x_IPAddresses cr \<noteq> [] \<or> x_DNSNames cr \<noteq> [])
          \<and> set (x_IPAddresses cr) \<subseteq> set (nodeIPs node)
          \<and> set (x_DNSNames cr) \<subseteq> set (nodeDNS node))"

lemma sansSubsetOfNode_iff:
  "sansSubsetOfNode cr node \<longleftrightarrow>
     (x_IPAddresses cr \<noteq> [] \<or> x_DNSNames cr \<noteq> [])
     \<and> set (x_IPAddresses cr) \<subseteq> set (nodeIPs node) \<and> set (x_DNSNames cr) \<subseteq> set (nodeDNS node)"
  by (auto simp: sansSubsetOfNode_def list_all_iff)

lemma signers_distinct: "KubeAPIServerClientKubeletSignerName \<noteq> KubeletServingSignerName"
  by (simp add: KubeAPIServerClientKubeletSignerName_def KubeletServingSignerName_def)

lemma kubelet_subject_iff:
  "HasPrefix (x_CommonName cr) nodeUserPrefix \<and> containsStr (x_Organization cr) nodesGroup
   \<longleftrightarrow> kubelet_subject cr (TrimPrefix (x_CommonName cr) nodeUserPrefix)"
  by (auto simp: kubelet_subject_def HasPrefix_iff TrimPrefix_def nodeUserPrefix_def nodesGroup_def
      containsStr_def list_ex_iff split: if_splits)

lemma kubelet_subject_name:
  "kubelet_subject cr name \<Longrightarrow> TrimPrefix (x_CommonName cr) nodeUserPrefix = name"
  using TrimPrefix_append [of "''system:node:''" name]
  by (simp add: kubelet_subject_def nodeUserPrefix_def)

text \<open>The decision for a well-formed subject, per signer.\<close>

lemma shouldApprove_client:
  assumes "kubelet_subject cr name" and "csr_SignerName csr = KubeAPIServerClientKubeletSignerName"
  shows "(\<exists>reason. shouldApprove r csr cr w = Inr (Some reason)) \<longleftrightarrow> client_rule r csr w"
  using assms(2) kubelet_subject_iff [of cr] kubelet_subject_name [OF assms(1)] assms(1)
  by (auto simp: shouldApprove_def client_rule_def hasPendingMachine_def pending_iff_awaits
      split: sum.splits if_splits)

lemma shouldApprove_serving:
  assumes "kubelet_subject cr name" and "csr_SignerName csr = KubeletServingSignerName"
  shows "(\<exists>reason. shouldApprove r csr cr w = Inr (Some reason)) \<longleftrightarrow> serving_rule r csr cr name w"
  using assms(2) kubelet_subject_iff [of cr] kubelet_subject_name [OF assms(1)] assms(1)
    signers_distinct
  by (auto simp: shouldApprove_def serving_rule_def sansSubsetOfNode_iff nodeUserPrefix_def
      IgnoreNotFound_def split: sum.splits if_splits)

lemma shouldApprove_subject:
  "shouldApprove r csr cr w = Inr (Some reason) \<Longrightarrow> \<exists>name. kubelet_subject cr name"
  using kubelet_subject_iff [of cr] by (auto simp: shouldApprove_def split: if_splits)

lemma shouldApprove_signer:
  "shouldApprove r csr cr w = Inr (Some reason) \<Longrightarrow>
     csr_SignerName csr = KubeAPIServerClientKubeletSignerName \<or> csr_SignerName csr = KubeletServingSignerName"
  by (auto simp: shouldApprove_def Let_def split: if_splits sum.splits)

lemma shouldApprove_iff:
  "(\<exists>reason. shouldApprove r csr cr w = Inr (Some reason)) \<longleftrightarrow>
     (\<exists>name. kubelet_subject cr name \<and> (client_rule r csr w \<or> serving_rule r csr cr name w))"
proof
  assume "\<exists>reason. shouldApprove r csr cr w = Inr (Some reason)"
  then obtain reason where ok: "shouldApprove r csr cr w = Inr (Some reason)" ..
  from shouldApprove_subject [OF ok] obtain name where name: "kubelet_subject cr name" ..
  from shouldApprove_signer [OF ok] have "client_rule r csr w \<or> serving_rule r csr cr name w"
    using shouldApprove_client [OF name, THEN iffD1, OF _ exI, OF _ ok]
      shouldApprove_serving [OF name, THEN iffD1, OF _ exI, OF _ ok] by (elim disjE) simp_all
  with name show "\<exists>name. kubelet_subject cr name \<and> (client_rule r csr w \<or> serving_rule r csr cr name w)"
    by (intro exI conjI)
next
  assume "\<exists>name. kubelet_subject cr name \<and> (client_rule r csr w \<or> serving_rule r csr cr name w)"
  then obtain name where name: "kubelet_subject cr name"
    and rules: "client_rule r csr w \<or> serving_rule r csr cr name w" by (elim exE conjE)
  from rules show "\<exists>reason. shouldApprove r csr cr w = Inr (Some reason)"
  proof
    assume rule: "client_rule r csr w"
    then have "csr_SignerName csr = KubeAPIServerClientKubeletSignerName" by (simp add: client_rule_def)
    from shouldApprove_client [OF name this] rule show ?thesis by (rule iffD2)
  next
    assume rule: "serving_rule r csr cr name w"
    then have "csr_SignerName csr = KubeletServingSignerName" by (simp add: serving_rule_def)
    from shouldApprove_serving [OF name this] rule show ?thesis by (rule iffD2)
  qed
qed

lemma csr_Reconcile_no_approval:
  assumes "\<And>csr cr. k_GetCSR r req w = Inr csr \<Longrightarrow> \<not> isCSRDecided csr \<Longrightarrow> csr_Certificate csr = []
      \<Longrightarrow> parseCSR r (csr_Request csr) = Inr cr \<Longrightarrow> \<not> (\<exists>reason. shouldApprove r csr cr w = Inr (Some reason))"
  shows "snd (csr_Reconcile r req w) = w"
  using assms
  by (auto simp: csr_Reconcile_def split: sum.splits option.splits prod.splits)

section \<open>Properties\<close>

text \<open>
  C27.  The approver approves exactly by its two rules.  An undecided, unissued request whose
  PEM parses to a kubelet subject \<open>system:node:<name>\<close> in \<open>system:nodes\<close> is approved - one
  approval condition appended, the rest untouched - if it is a client request of the
  bootstrapper while a provisioned machine awaits its node, or a serving request of that very
  node for an existing node with at least one name, all of them addresses of the node; in every
  other case nothing is written.
\<close>

theorem csr_approval_exact:
  "(\<exists>csr cr name. k_GetCSR r req w = Inr csr \<and> \<not> isCSRDecided csr \<and> csr_Certificate csr = []
      \<and> parseCSR r (csr_Request csr) = Inr cr \<and> kubelet_subject cr name
      \<and> (client_rule r csr w \<or> serving_rule r csr cr name w)
      \<and> (\<exists>reason. snd (csr_Reconcile r req w) = snd (k_UpdateApproval r (approvedCSR csr reason) w)))
   \<or> snd (csr_Reconcile r req w) = w
     \<and> \<not> (\<exists>csr cr name. k_GetCSR r req w = Inr csr \<and> \<not> isCSRDecided csr \<and> csr_Certificate csr = []
           \<and> parseCSR r (csr_Request csr) = Inr cr \<and> kubelet_subject cr name
           \<and> (client_rule r csr w \<or> serving_rule r csr cr name w))"
proof (cases "\<exists>csr cr name. k_GetCSR r req w = Inr csr \<and> \<not> isCSRDecided csr \<and> csr_Certificate csr = []
           \<and> parseCSR r (csr_Request csr) = Inr cr \<and> kubelet_subject cr name
           \<and> (client_rule r csr w \<or> serving_rule r csr cr name w)")
  case True
  then obtain csr cr name where csr: "k_GetCSR r req w = Inr csr" "\<not> isCSRDecided csr"
    "csr_Certificate csr = []" "parseCSR r (csr_Request csr) = Inr cr" "kubelet_subject cr name"
    and rules: "client_rule r csr w \<or> serving_rule r csr cr name w" by (elim exE conjE)
  then have "\<exists>name. kubelet_subject cr name \<and> (client_rule r csr w \<or> serving_rule r csr cr name w)"
    by (intro exI [of _ name] conjI)
  then obtain reason where ok: "shouldApprove r csr cr w = Inr (Some reason)"
    unfolding shouldApprove_iff [symmetric] ..
  have "snd (csr_Reconcile r req w) = snd (k_UpdateApproval r (approvedCSR csr reason) w)"
    using csr(1-4) ok shouldApprove_signer [OF ok]
    by (auto simp: csr_Reconcile_def split: prod.splits option.splits)
  with csr rules show ?thesis by - (rule disjI1, intro exI conjI)
next
  case False
  have "snd (csr_Reconcile r req w) = w"
  proof (rule csr_Reconcile_no_approval)
    fix csr cr
    assume csr: "k_GetCSR r req w = Inr csr" "\<not> isCSRDecided csr" "csr_Certificate csr = []"
      "parseCSR r (csr_Request csr) = Inr cr"
    show "\<not> (\<exists>reason. shouldApprove r csr cr w = Inr (Some reason))"
      unfolding shouldApprove_iff using False csr by blast
  qed
  with False show ?thesis by - (rule disjI2, intro conjI)
qed

definition provisioned :: "AlibabaCloudMachine \<Rightarrow> bool" where
  "provisioned m \<longleftrightarrow>
     (\<exists>region i. segment region \<and> segment i \<and> ms_ProviderID (m_Spec m) = Some (providerIDFor region i)
        \<and> mst_InstanceID (m_Status m) = Some i)"

definition node_of :: "string \<Rightarrow> Node \<Rightarrow> bool" where
  "node_of i n \<longleftrightarrow>
     (\<exists>region. segment region \<and> node_ProviderID n \<in> {providerIDFor region i, slashProviderID region i})"

lemma node_of_instance: "segment i \<Longrightarrow> node_of i n \<Longrightarrow> providerInstanceID (node_ProviderID n) = i"
  using dotID.id_of_mk slashID.id_of_mk by (auto simp: node_of_def)

lemma awaits_node_provisioned:
  assumes "provisioned m" and "\<And>n. n \<in> set nodes \<Longrightarrow> node_ProviderID n = [] \<or> (\<exists>i. segment i \<and> node_of i n)"
  shows "awaits_node nodes m \<longleftrightarrow> \<not> (\<exists>n \<in> set nodes. node_of (the (mst_InstanceID (m_Status m))) n)"
proof -
  obtain region i where m: "segment region" "segment i" "mst_InstanceID (m_Status m) = Some i"
    "ms_ProviderID (m_Spec m) = Some (providerIDFor region i)"
    using assms(1) by (auto simp: provisioned_def)
  have pid: "providerInstanceID (providerIDFor region i) = i" using m dotID.id_of_mk by simp
  have blank: "providerInstanceID [] = []" by code_simp
  have ne: "i \<noteq> []" using m(2) by (simp add: segment_def)
  have "providerInstanceID (node_ProviderID n) = i \<longleftrightarrow> node_of i n" if "n \<in> set nodes" for n
    using assms(2) [OF that] node_of_instance [OF m(2), of n] node_of_instance blank ne by metis
  with m pid ne show ?thesis by (auto simp: awaits_node_def)
qed

text \<open>
  C28.  The bootstrap window is exact: with provisioned machines (both identities recorded, as the
  controller writes them) and nodes whose provider ID is empty or in either of its two forms, a
  machine counts as pending if and only if no node carries its instance, whatever the region
  written there - so the approver stops signing client requests when the last machine has joined.
\<close>

theorem pending_iff_instance_without_node:
  assumes "k_ListNodes r w = Inr nodes"
    and "\<And>m. m \<in> set ms \<Longrightarrow> provisioned m"
    and "\<And>n. n \<in> set nodes \<Longrightarrow> node_ProviderID n = [] \<or> (\<exists>i. segment i \<and> node_of i n)"
  shows "hasPendingMachine r ms w =
    Inr (\<exists>m \<in> set ms. \<not> (\<exists>n \<in> set nodes. node_of (the (mst_InstanceID (m_Status m))) n))"
proof -
  have "(\<exists>m \<in> set ms. awaits_node nodes m)
      \<longleftrightarrow> (\<exists>m \<in> set ms. \<not> (\<exists>n \<in> set nodes. node_of (the (mst_InstanceID (m_Status m))) n))"
    using awaits_node_provisioned [OF assms(2) assms(3)] by auto
  then show ?thesis using assms(1) by (simp add: hasPendingMachine_def pending_iff_awaits)
qed

definition csr_node :: Node where
  "csr_node = \<lparr>node_Name = ''w'', node_ProviderID = slashProviderID ''cn-x'' ''i-1'',
     node_CreationTimestamp = 0, node_Taints = [], node_Addresses = [(''InternalIP'', ''10.0.0.1'')]\<rparr>"

definition csr_machine :: AlibabaCloudMachine where
  "csr_machine = (blank_machine ''w'')
     \<lparr>m_Spec := blank_spec\<lparr>ms_ProviderID := Some (providerIDFor ''cn-x'' ''i-1'')\<rparr>,
      m_Status := blank_status\<lparr>mst_InstanceID := Some ''i-1''\<rparr>\<rparr>"

definition csr_reconciler :: "Node list CsrReconciler" where
  "csr_reconciler =
     \<lparr>k_GetCSR = (\<lambda>n w. Inl (ForeignError (Lit []))), k_ListMachines = (\<lambda>w. Inr [csr_machine]),
      k_ListNodes = (\<lambda>w. Inr w), k_GetNode = (\<lambda>n w. Inl (ForeignError (Lit []))),
      k_UpdateApproval = (\<lambda>c w. (None, w)), k_pemDecode = (\<lambda>b. None),
      k_ParseCertificateRequest = (\<lambda>b. Inl (ForeignError (Lit [])))\<rparr>"

theorem pending_iff_instance_without_node_witness:
  "hasPendingMachine csr_reconciler [csr_machine] [csr_node] = Inr False
   \<and> hasPendingMachine csr_reconciler [csr_machine] [] = Inr True"
proof -
  have seg: "segment ''cn-x''" "segment ''i-1''" by (simp_all add: segment_def)
  have prov: "provisioned m" if "m \<in> set [csr_machine]" for m
    using that seg by (auto simp: provisioned_def csr_machine_def)
  have i: "the (mst_InstanceID (m_Status csr_machine)) = ''i-1''" by (simp add: csr_machine_def)
  have node: "node_of ''i-1'' csr_node" using seg by (auto simp: node_of_def csr_node_def)
  have nodes: "node_ProviderID n = [] \<or> (\<exists>i. segment i \<and> node_of i n)" if "n \<in> set [csr_node]" for n
    using that seg(2) node by auto
  have list: "k_ListNodes csr_reconciler w = Inr w" for w by (simp add: csr_reconciler_def)
  note pending = pending_iff_instance_without_node [of csr_reconciler _ _ "[csr_machine]", OF list prov]
  have "hasPendingMachine csr_reconciler [csr_machine] [csr_node] = Inr False"
    using pending [of "[csr_node]"] nodes node i by auto
  moreover have "hasPendingMachine csr_reconciler [csr_machine] [] = Inr True"
    using pending [of "[]"] by auto
  ultimately show ?thesis ..
qed

end
