(* ===== verification/Wiring.thy ===== *)
theory Wiring
  imports Scheduling Control_Plane Template_Controller Csr_Approver
begin

text \<open>
  The \<open>SetupWithManager\<close> functions: which objects each controller is started for and what else it
  watches, with the handlers and event filters it names.  Together with \<open>Scheduling\<close> they say when a
  request that is on hold is looked at again.  The predicates and the map function of Cluster API
  are arguments.
\<close>

section \<open>What the builders are told\<close>

datatype object_kind =
    KindAlibabaCloudMachine | KindAlibabaCloudCluster | KindAlibabaCloudControlPlane
  | KindAlibabaCloudMachineTemplate | KindCertificateSigningRequest | KindMachine | KindCluster

datatype event_predicate = ResourceNotPaused | ClusterUnpaused

datatype event_handler =
    MachineToInfrastructure string object_kind
  | AlibabaCloudClusterForCluster

record Watch =
  w_Kind :: object_kind
  w_Handler :: event_handler
  w_Predicates :: "event_predicate list"

record ControllerBuilder =
  b_For :: object_kind
  b_Watches :: "Watch list"
  b_EventFilters :: "event_predicate list"

definition machine_SetupWithManager :: ControllerBuilder where
  "machine_SetupWithManager =
     \<lparr>b_For = KindAlibabaCloudMachine,
      b_Watches = [\<lparr>w_Kind = KindMachine,
                    w_Handler = MachineToInfrastructure infraGroup KindAlibabaCloudMachine, w_Predicates = []\<rparr>],
      b_EventFilters = [ResourceNotPaused]\<rparr>"

definition cluster_SetupWithManager :: ControllerBuilder where
  "cluster_SetupWithManager =
     \<lparr>b_For = KindAlibabaCloudCluster,
      b_Watches = [\<lparr>w_Kind = KindCluster, w_Handler = AlibabaCloudClusterForCluster,
                    w_Predicates = [ClusterUnpaused]\<rparr>],
      b_EventFilters = [ResourceNotPaused]\<rparr>"

definition controlPlane_SetupWithManager :: ControllerBuilder where
  "controlPlane_SetupWithManager =
     \<lparr>b_For = KindAlibabaCloudControlPlane, b_Watches = [], b_EventFilters = [ResourceNotPaused]\<rparr>"

definition template_SetupWithManager :: ControllerBuilder where
  "template_SetupWithManager =
     \<lparr>b_For = KindAlibabaCloudMachineTemplate, b_Watches = [], b_EventFilters = []\<rparr>"

definition csr_SetupWithManager :: ControllerBuilder where
  "csr_SetupWithManager =
     \<lparr>b_For = KindCertificateSigningRequest, b_Watches = [], b_EventFilters = []\<rparr>"

section \<open>Events and requests\<close>

text \<open>
  An event concerns one object; \<open>'e\<close> is all it carries.  The library says of an event which kind of
  object it concerns, which request names that object, whether a predicate accepts it, to which
  request the owner Machine leads, and, for a Cluster, the object itself.
\<close>

record 'e EventLib =
  e_Kind :: "'e \<Rightarrow> object_kind"
  e_Key :: "'e \<Rightarrow> ObjectKey"
  e_Accepts :: "event_predicate \<Rightarrow> 'e \<Rightarrow> bool"
  e_Infrastructure :: "string \<Rightarrow> object_kind \<Rightarrow> 'e \<Rightarrow> ObjectKey list"
  e_Cluster :: "'e \<Rightarrow> Cluster option"

definition handler_requests :: "'e EventLib \<Rightarrow> event_handler \<Rightarrow> 'e \<Rightarrow> ObjectKey list" where
  "handler_requests lib eh e =
     (case eh of
        MachineToInfrastructure g k \<Rightarrow> e_Infrastructure lib g k e
      | AlibabaCloudClusterForCluster \<Rightarrow> enqueueAlibabaCloudClusterForCluster (e_Cluster lib e))"

text \<open>The filters of the controller hold for all its watches, the predicates of a watch for that one.\<close>

definition enqueued :: "'e EventLib \<Rightarrow> ControllerBuilder \<Rightarrow> 'e \<Rightarrow> ObjectKey list" where
  "enqueued lib b e =
     (if list_all (\<lambda>p. e_Accepts lib p e) (b_EventFilters b)
      then (if e_Kind lib e = b_For b then [e_Key lib e] else [])
        @ concat (map (\<lambda>wt. if w_Kind wt = e_Kind lib e \<and> list_all (\<lambda>p. e_Accepts lib p e) (w_Predicates wt)
                            then handler_requests lib (w_Handler wt) e else []) (b_Watches b))
      else [])"

section \<open>Passes of the other controllers\<close>

text \<open>
  The control-plane and the template controller never ask for a delay: a pass without an error has
  written its object or found nothing to do, or waits for an event.
\<close>

theorem other_passes_settle:
  "controlPlane_Reconcile r\<^sub>p req w\<^sub>p = (out\<^sub>p, w\<^sub>p') \<Longrightarrow> \<not> reschedules out\<^sub>p \<Longrightarrow>
     (\<exists>err. p_Get r\<^sub>p req w\<^sub>p = Inl err \<and> IsNotFound err)
     \<or> (\<exists>cp cluster. p_Get r\<^sub>p req w\<^sub>p = Inr cp \<and> p_GetOwnerCluster r\<^sub>p (cpl_Meta cp) w\<^sub>p = Inr (Some cluster)
          \<and> p_IsPaused r\<^sub>p cluster (cpl_Meta cp))
     \<or> (\<exists>cp cp'. p_Get r\<^sub>p req w\<^sub>p = Inr cp \<and> p_Patch r\<^sub>p cp cp' w\<^sub>p = (None, w\<^sub>p')
          \<and> (if om_DeletionTimestamp (cpl_Meta cp) \<noteq> None then cp' = cp else cp' = reconcileMode (p_Util r\<^sub>p) cp))"
  "template_Reconcile r\<^sub>t req cache w\<^sub>t = (out\<^sub>t, cache', w\<^sub>t') \<Longrightarrow> \<not> reschedules out\<^sub>t \<Longrightarrow>
     (\<exists>err. t_Get r\<^sub>t req w\<^sub>t = Inl err \<and> IsNotFound err)
     \<or> (\<exists>tmpl. t_Get r\<^sub>t req w\<^sub>t = Inr tmpl
          \<and> (ms_InstanceType (tmpl_Spec tmpl) = [] \<or> ms_RegionID (tmpl_Spec tmpl) = []
             \<or> (\<exists>capacity w1. resolveCapacity r\<^sub>t (tmpl_Spec tmpl) cache w\<^sub>t = (Inr capacity, cache', w1)
                  \<and> (rl_equal (tmpl_Capacity tmpl) capacity
                     \<or> t_StatusPatch r\<^sub>t tmpl (tmpl\<lparr>tmpl_Capacity := capacity\<rparr>) w1 = (None, w\<^sub>t')))))"
proof -
  show "(\<exists>err. p_Get r\<^sub>p req w\<^sub>p = Inl err \<and> IsNotFound err)
     \<or> (\<exists>cp cluster. p_Get r\<^sub>p req w\<^sub>p = Inr cp \<and> p_GetOwnerCluster r\<^sub>p (cpl_Meta cp) w\<^sub>p = Inr (Some cluster)
          \<and> p_IsPaused r\<^sub>p cluster (cpl_Meta cp))
     \<or> (\<exists>cp cp'. p_Get r\<^sub>p req w\<^sub>p = Inr cp \<and> p_Patch r\<^sub>p cp cp' w\<^sub>p = (None, w\<^sub>p')
          \<and> (if om_DeletionTimestamp (cpl_Meta cp) \<noteq> None then cp' = cp else cp' = reconcileMode (p_Util r\<^sub>p) cp))"
    if "controlPlane_Reconcile r\<^sub>p req w\<^sub>p = (out\<^sub>p, w\<^sub>p')" "\<not> reschedules out\<^sub>p"
    using that
    by (auto simp: controlPlane_Reconcile_def reschedules_def Let_def
        split: sum.splits option.splits if_splits prod.splits)
  show "(\<exists>err. t_Get r\<^sub>t req w\<^sub>t = Inl err \<and> IsNotFound err)
     \<or> (\<exists>tmpl. t_Get r\<^sub>t req w\<^sub>t = Inr tmpl
          \<and> (ms_InstanceType (tmpl_Spec tmpl) = [] \<or> ms_RegionID (tmpl_Spec tmpl) = []
             \<or> (\<exists>capacity w1. resolveCapacity r\<^sub>t (tmpl_Spec tmpl) cache w\<^sub>t = (Inr capacity, cache', w1)
                  \<and> (rl_equal (tmpl_Capacity tmpl) capacity
                     \<or> t_StatusPatch r\<^sub>t tmpl (tmpl\<lparr>tmpl_Capacity := capacity\<rparr>) w1 = (None, w\<^sub>t')))))"
    if "template_Reconcile r\<^sub>t req cache w\<^sub>t = (out\<^sub>t, cache', w\<^sub>t')" "\<not> reschedules out\<^sub>t"
    using that
    by (auto simp: template_Reconcile_def reschedules_def split: sum.splits option.splits if_splits prod.splits)
qed

section \<open>Who is woken\<close>

text \<open>A change of the object itself wakes its controller, unless a filter drops the event.\<close>

lemma own_change_enqueues:
  "e_Kind lib e = b_For b \<Longrightarrow> list_all (\<lambda>p. e_Accepts lib p e) (b_EventFilters b)
   \<Longrightarrow> e_Key lib e \<in> set (enqueued lib b e)"
  by (simp add: enqueued_def)

text \<open>A change of the owner Machine wakes the machine it leads to; this is how a node that joins is noticed.\<close>

lemma owner_change_enqueues:
  assumes "e_Kind lib e = KindMachine" and "e_Accepts lib ResourceNotPaused e"
  shows "enqueued lib machine_SetupWithManager e = e_Infrastructure lib infraGroup KindAlibabaCloudMachine e"
  using assms by (simp add: enqueued_def machine_SetupWithManager_def handler_requests_def)

text \<open>
  Unpausing a Cluster wakes the infrastructure cluster it refers to, if that is one of this
  provider, and no other controller.
\<close>

theorem unpausing_wakes_cluster_only:
  assumes "e_Kind lib e = KindCluster" and "e_Cluster lib e = Some cluster"
    and "e_Accepts lib ResourceNotPaused e" and "e_Accepts lib ClusterUnpaused e"
  shows "enqueued lib cluster_SetupWithManager e =
      (if cl_InfraKind cluster \<noteq> [] \<and> cl_InfraName cluster \<noteq> [] \<and> cl_InfraAPIGroup cluster = infraGroup
       then [\<lparr>ok_Namespace = om_Namespace (cl_Meta cluster), ok_Name = cl_InfraName cluster\<rparr>] else [])"
    and "\<forall>b \<in> {machine_SetupWithManager, controlPlane_SetupWithManager, template_SetupWithManager, csr_SetupWithManager}.
      enqueued lib b e = []"
  using assms
  by (simp_all add: enqueued_def cluster_SetupWithManager_def handler_requests_def machine_SetupWithManager_def
      controlPlane_SetupWithManager_def template_SetupWithManager_def csr_SetupWithManager_def
      enqueueAlibabaCloudClusterForCluster_def)

text \<open>
  So a control plane that was skipped because its Cluster is paused is not looked at again when the
  Cluster is unpaused: the pass asks for nothing, and the event is not watched.
\<close>

theorem unpaused_control_plane_not_woken:
  assumes "p_Get r req w = Inr cp" and "p_GetOwnerCluster r (cpl_Meta cp) w = Inr (Some cluster)"
    and "p_IsPaused r cluster (cpl_Meta cp)" and "e_Kind lib e = KindCluster"
  shows "controlPlane_Reconcile r req w = ((noRequeue, None), w)"
    and "enqueued lib controlPlane_SetupWithManager e = []"
  using assms by (simp_all add: controlPlane_Reconcile_def enqueued_def controlPlane_SetupWithManager_def)

end
