(* ===== verification/Node_Join.thy ===== *)
theory Node_Join
  imports Machine_Properties Csr_Approver
begin

text \<open>
  How a new machine becomes a node: the machine controller records the instance it creates, and
  from then on the CSR approver lets the bootstrapper's client requests pass until the node
  carries that instance.
\<close>

section \<open>What a creating pass records\<close>

lemma createInstance_records:
  assumes "createInstance K c machine cluster m w = (None, m', w')"
  shows "\<exists>i. ms_ProviderID (m_Spec m') = Some (providerIDFor (resolveRegion m (Some cluster)) i)
    \<and> mst_InstanceID (m_Status m') = Some i"
  using assms by (cases rule: createInstance_cases) (auto simp: recordInstance_def)

lemma createInstance_failed:
  assumes "createInstance K c machine cluster m w = (Some err, m', w')"
  shows "mst_InstanceID (m_Status m') = mst_InstanceID (m_Status m)"
  using assms
proof (cases rule: createInstance_cases)
  case (noOffload ud err)
  from maybeOffloadUserData_frame(3) [OF noOffload(3)] show ?thesis by simp
next
  case (rejected ud ud' w2 err)
  from maybeOffloadUserData_frame(3) [OF rejected(2)] show ?thesis by simp
qed simp_all

lemma creating_pass_provisions:
  assumes "reconcileNormal r machine cluster m w = (out, m', w')"
    and "mst_InstanceID (m_Status m) = None" and "mst_InstanceID (m_Status m') = Some i"
    and "segment (resolveRegion m (Some cluster))" and "segment i"
  shows "provisioned m'"
  using assms(1)
proof (cases rule: reconcileNormal_cases)
  case (reached m1 c ri m2)
  note fd = resolveFailureDomain_frame [OF reached(3)]
  have none: "mst_InstanceID (m_Status m1) = None" using fd(2) assms(2) by simp
  have region: "resolveRegion m1 (Some cluster) = resolveRegion m (Some cluster)"
    using fd(3) by (simp add: resolveRegion_def)
  have same: "mst_InstanceID (m_Status m') = mst_InstanceID (m_Status m2)" if "ri = Inl err" for err
    using reached(6) that by (auto split: option.splits)
  have "ri = Inr None \<and> createInstance (r_Kube r) c machine cluster m1 w = (None, m2, w')"
    using reached(5)
  proof (cases rule: findOrCreateInstance_cases)
    case (failed err)
    with createInstance_failed [OF failed(3)] same none assms(3) show ?thesis by simp
  qed (use none in simp_all)
  then have ri: "ri = Inr None" and new: "createInstance (r_Kube r) c machine cluster m1 w = (None, m2, w')"
    by simp_all
  have "m' = m2" using reached(6) ri by simp
  with createInstance_records [OF new] region assms(3-5) show ?thesis by (auto simp: provisioned_def)
qed (use assms(2,3) in \<open>auto dest: resolveFailureDomain_frame(2)\<close>)

section \<open>The decision on a bootstrap request\<close>

text \<open>An undecided request of the bootstrapper for a kubelet's client certificate.\<close>

definition bootstrap_request :: "'w CsrReconciler \<Rightarrow> string \<Rightarrow> 'w \<Rightarrow> CertificateSigningRequest \<Rightarrow> bool" where
  "bootstrap_request r req w csr \<longleftrightarrow>
     k_GetCSR r req w = Inr csr \<and> \<not> isCSRDecided csr \<and> csr_Certificate csr = []
     \<and> csr_SignerName csr = KubeAPIServerClientKubeletSignerName \<and> csr_Username csr = nodeBootstrapperUser
     \<and> (\<exists>cr name. parseCSR r (csr_Request csr) = Inr cr \<and> kubelet_subject cr name)"

lemma bootstrap_request_decided:
  assumes "bootstrap_request r req w csr" and "k_ListMachines r w = Inr ms" and "k_ListNodes r w = Inr nodes"
  shows "if \<exists>m \<in> set ms. awaits_node nodes m
    then \<exists>reason. snd (csr_Reconcile r req w) = snd (k_UpdateApproval r (approvedCSR csr reason) w)
    else csr_Reconcile r req w = ((noRequeue, None), w)"
proof -
  from assms(1) obtain cr name where csr: "k_GetCSR r req w = Inr csr" "\<not> isCSRDecided csr"
    "csr_Certificate csr = []" "csr_SignerName csr = KubeAPIServerClientKubeletSignerName"
    "csr_Username csr = nodeBootstrapperUser" "parseCSR r (csr_Request csr) = Inr cr"
    and name: "kubelet_subject cr name" by (auto simp: bootstrap_request_def)
  let ?reason = "Sprintf ''bootstrap CSR for %q; a provisioned AlibabaCloudMachine is awaiting its node'' [Lit name]"
  have decision: "shouldApprove r csr cr w = Inr (if \<exists>m \<in> set ms. awaits_node nodes m then Some ?reason else None)"
    using csr assms(2,3) kubelet_subject_iff [of cr] kubelet_subject_name [OF name] name
    by (simp add: shouldApprove_def hasPendingMachine_def pending_iff_awaits)
  show ?thesis
  proof (cases "\<exists>m \<in> set ms. awaits_node nodes m")
    case True
    with csr decision have "snd (csr_Reconcile r req w) = snd (k_UpdateApproval r (approvedCSR csr ?reason) w)"
      by (simp add: csr_Reconcile_def split: prod.splits option.splits)
    then show ?thesis unfolding if_P [OF True] by (rule exI)
  qed (use csr decision in \<open>simp add: csr_Reconcile_def\<close>)
qed

section \<open>Properties\<close>

text \<open>
  C25.  A machine that the controller has created can join, and no request passes once every
  machine has.  After a reconcile that creates the instance \<open>i\<close> (none was recorded before it),
  an undecided bootstrap request of a kubelet is approved as long as the approver's list of
  machines holds that machine and no node carries \<open>i\<close>; and when every machine listed is
  provisioned and has its node, the same request is left as it is, with no error and no retry.
\<close>

theorem created_machine_can_join:
  assumes "reconcileNormal r machine cluster m w = (out, m', w')"
    and "mst_InstanceID (m_Status m) = None" and "mst_InstanceID (m_Status m') = Some i"
    and "segment (resolveRegion m (Some cluster))" and "segment i"
    and "bootstrap_request k req u csr" and "k_ListMachines k u = Inr ms" and "m' \<in> set ms"
    and "k_ListNodes k u = Inr nodes"
    and "\<And>n. n \<in> set nodes \<Longrightarrow> node_ProviderID n = [] \<or> (\<exists>i. segment i \<and> node_of i n)"
  shows "(\<not> (\<exists>n \<in> set nodes. node_of i n)
       \<longrightarrow> (\<exists>reason. snd (csr_Reconcile k req u) = snd (k_UpdateApproval k (approvedCSR csr reason) u)))
    \<and> ((\<forall>x \<in> set ms. provisioned x \<and> (\<exists>n \<in> set nodes. node_of (the (mst_InstanceID (m_Status x))) n))
       \<longrightarrow> csr_Reconcile k req u = ((noRequeue, None), u))"
proof (intro conjI impI)
  note decided = bootstrap_request_decided [OF assms(6,7,9)]
  note awaits = awaits_node_provisioned [OF _ assms(10)]
  {
    assume "\<not> (\<exists>n \<in> set nodes. node_of i n)"
    with awaits [OF creating_pass_provisions [OF assms(1-5)]] assms(3) have "awaits_node nodes m'" by simp
    with assms(8) have "\<exists>x \<in> set ms. awaits_node nodes x" ..
    with decided show "\<exists>reason. snd (csr_Reconcile k req u) = snd (k_UpdateApproval k (approvedCSR csr reason) u)"
      by (simp only: if_True)
  next
    assume "\<forall>x \<in> set ms. provisioned x \<and> (\<exists>n \<in> set nodes. node_of (the (mst_InstanceID (m_Status x))) n)"
    with awaits have "\<not> (\<exists>x \<in> set ms. awaits_node nodes x)" by blast
    with decided show "csr_Reconcile k req u = ((noRequeue, None), u)" by (simp only: if_False)
  }
qed

definition join_csr :: CertificateSigningRequest where
  "join_csr = \<lparr>csr_Name = ''csr-1'', csr_SignerName = KubeAPIServerClientKubeletSignerName,
     csr_Username = nodeBootstrapperUser, csr_Request = ''w'', csr_Conditions = [], csr_Certificate = []\<rparr>"

definition join_approver :: "AlibabaCloudMachine \<Rightarrow> (Node list \<times> CertificateSigningRequest) CsrReconciler" where
  "join_approver m =
     \<lparr>k_GetCSR = (\<lambda>n w. Inr (snd w)), k_ListMachines = (\<lambda>w. Inr [m]), k_ListNodes = (\<lambda>w. Inr (fst w)),
      k_GetNode = (\<lambda>n w. Inl (ForeignError (Lit []))), k_UpdateApproval = (\<lambda>c w. (None, (fst w, c))),
      k_pemDecode = (\<lambda>b. Some (''CERTIFICATE REQUEST'', b)),
      k_ParseCertificateRequest = (\<lambda>b. Inr \<lparr>x_CommonName = ''system:node:'' @ b,
        x_Organization = [''system:nodes''], x_IPAddresses = [], x_DNSNames = []\<rparr>)\<rparr>"

lemma join_csr_bootstrap: "bootstrap_request (join_approver m) req (nodes, join_csr) join_csr"
  by (auto simp: bootstrap_request_def join_approver_def join_csr_def parseCSR_def isCSRDecided_def kubelet_subject_def)

theorem created_machine_can_join_witness:
  "\<exists>m'. fst (snd (reconcileNormal sim_reconciler (sim_owner ''w'') sim_cluster (blank_machine ''w'') (sim_world []))) = m'
    \<and> isCSRDecided (snd (snd (csr_Reconcile (join_approver m') ''csr-1'' ([], join_csr))))
    \<and> snd (csr_Reconcile (join_approver m') ''csr-1'' ([csr_node], join_csr)) = ([csr_node], join_csr)"
proof -
  let ?run = "reconcileNormal sim_reconciler (sim_owner ''w'') sim_cluster (blank_machine ''w'') (sim_world [])"
  obtain out m' w' where run: "?run = (out, m', w')" by (metis prod.exhaust)
  have "mst_InstanceID (m_Status (fst (snd ?run))) = Some ''i-1''
      \<and> ms_ProviderID (m_Spec (fst (snd ?run))) = Some (providerIDFor ''cn-x'' ''i-1'')" by code_simp
  then have ids: "mst_InstanceID (m_Status m') = Some ''i-1''"
    "ms_ProviderID (m_Spec m') = Some (providerIDFor ''cn-x'' ''i-1'')" using run by simp_all
  have none: "mst_InstanceID (m_Status (blank_machine ''w'')) = None" by code_simp
  have seg: "segment ''cn-x''" "segment ''i-1''" by (simp_all add: segment_def)
  have region: "segment (resolveRegion (blank_machine ''w'') (Some sim_cluster))" by code_simp
  have node: "node_of ''i-1'' csr_node" using seg by (auto simp: node_of_def csr_node_def)
  have shaped: "\<exists>i. segment i \<and> node_of i csr_node" using seg(2) node by (intro exI conjI)
  have prov: "provisioned m'" using ids seg by (auto simp: provisioned_def)
  have lists: "k_ListMachines (join_approver m') u = Inr [m']" "k_ListNodes (join_approver m') u = Inr (fst u)"
    "k_UpdateApproval (join_approver m') c u = (None, (fst u, c))" for u c by (simp_all add: join_approver_def)
  note join = created_machine_can_join
    [OF run none ids(1) region seg(2) join_csr_bootstrap [of m' "''csr-1''"] lists(1) _ lists(2)]
  have "\<exists>reason. snd (csr_Reconcile (join_approver m') ''csr-1'' ([], join_csr)) = ([], approvedCSR join_csr reason)"
    using join [of "[]"] lists(3) by simp
  then have "isCSRDecided (snd (snd (csr_Reconcile (join_approver m') ''csr-1'' ([], join_csr))))"
    by (auto simp: approvedCSR_def isCSRDecided_def)
  moreover have "snd (csr_Reconcile (join_approver m') ''csr-1'' ([csr_node], join_csr)) = ([csr_node], join_csr)"
    using join [of "[csr_node]"] node shaped prov ids(1) by simp
  ultimately show ?thesis using run by simp
qed

end
