(* ===== verification/Go_Heap.thy ===== *)
theory Go_Heap
  imports Complex_Main
begin

text \<open>
  Go's references, for the claims that depend on aliasing: an explicit store of allocated cells,
  the values that refer to it, and the types of the API objects as loaders that read a value and
  everything it refers to back as a tree.  A store is the list of its cells; allocating appends.
  The contract of a deep copy is the locale \<open>deep_copier\<close>; the rules below build deep copies of
  pointers, slices, maps and structs from those of their parts.
\<close>

section \<open>Values, cells and stores\<close>

datatype basic = GoString string | GoInt int | GoBool bool | GoFloat rat

text \<open>A slice is a window (offset and length) of its backing array.\<close>

datatype gval =
    Basic basic
  | NilRef
  | Pointer nat
  | SliceRef nat nat nat
  | MapRef nat
  | Struct "(string \<times> gval) list"

datatype cell = Cell gval | Array "gval list" | Table "(basic \<times> gval) list"

type_synonym go_heap = "cell list"

text \<open>What a value means, its references followed.\<close>

datatype tree =
    BasicTree basic
  | NilTree
  | PointerTree tree
  | SliceTree "tree list"
  | MapTree "(basic \<times> tree) list"
  | StructTree "(string \<times> tree) list"

text \<open>
  A loader follows a value of its type, and returns its meaning with the addresses it went
  through; \<open>None\<close> is a value of another type or a dangling reference.
\<close>

type_synonym loader = "go_heap \<Rightarrow> gval \<Rightarrow> (tree \<times> nat list) option"

definition cell_at :: "go_heap \<Rightarrow> nat \<Rightarrow> cell option" where
  "cell_at h a = (if a < length h then Some (h ! a) else None)"

fun load_basic :: loader where
  "load_basic h (Basic b) = Some (BasicTree b, [])"
| "load_basic h _ = None"

fun load_ptr :: "loader \<Rightarrow> loader" where
  "load_ptr L h NilRef = Some (NilTree, [])"
| "load_ptr L h (Pointer a) =
     (case cell_at h a of
        Some (Cell v) \<Rightarrow> map_option (\<lambda>(t, as). (PointerTree t, a # as)) (L h v)
      | _ \<Rightarrow> None)"
| "load_ptr L h _ = None"

fun load_all :: "loader \<Rightarrow> go_heap \<Rightarrow> gval list \<Rightarrow> (tree list \<times> nat list) option" where
  "load_all L h [] = Some ([], [])"
| "load_all L h (v # vs) =
     (case (L h v, load_all L h vs) of
        (Some (t, as), Some (ts, bs)) \<Rightarrow> Some (t # ts, as @ bs)
      | _ \<Rightarrow> None)"

fun load_slice :: "loader \<Rightarrow> loader" where
  "load_slice L h NilRef = Some (NilTree, [])"
| "load_slice L h (SliceRef a off n) =
     (case cell_at h a of
        Some (Array vs) \<Rightarrow>
          if off + n \<le> length vs
          then map_option (\<lambda>(ts, as). (SliceTree ts, a # as)) (load_all L h (take n (drop off vs)))
          else None
      | _ \<Rightarrow> None)"
| "load_slice L h _ = None"

fun load_map :: "loader \<Rightarrow> loader" where
  "load_map L h NilRef = Some (NilTree, [])"
| "load_map L h (MapRef a) =
     (case cell_at h a of
        Some (Table kvs) \<Rightarrow>
          map_option (\<lambda>(ts, as). (MapTree (zip (map fst kvs) ts), a # as)) (load_all L h (map snd kvs))
      | _ \<Rightarrow> None)"
| "load_map L h _ = None"

fun load_fields :: "(string \<times> loader) list \<Rightarrow> go_heap \<Rightarrow> (string \<times> gval) list
    \<Rightarrow> ((string \<times> tree) list \<times> nat list) option" where
  "load_fields [] h [] = Some ([], [])"
| "load_fields ((x, L) # Ls) h ((y, v) # vs) =
     (if x = y
      then (case (L h v, load_fields Ls h vs) of
              (Some (t, as), Some (ts, bs)) \<Rightarrow> Some ((x, t) # ts, as @ bs)
            | _ \<Rightarrow> None)
      else None)"
| "load_fields _ h _ = None"

fun load_struct :: "(string \<times> loader) list \<Rightarrow> loader" where
  "load_struct Ls h (Struct vs) = map_option (\<lambda>(ts, as). (StructTree ts, as)) (load_fields Ls h vs)"
| "load_struct Ls h _ = None"

section \<open>Copying\<close>

text \<open>
  The statements of a generated \<open>DeepCopyInto\<close>.  A copier takes the value to copy and returns the
  copy.  \<open>copy_value\<close> is an assignment (\<open>*out = *in\<close>), \<open>copy_ptr\<close> is \<open>new\<close> with the copy of what is
  pointed to, \<open>copy_slice\<close> and \<open>copy_map\<close> are \<open>make\<close> with a copy of each element; all of them keep nil.
  \<open>copy_struct\<close> assigns every field and then runs the statements of the fields that have one.
\<close>

type_synonym copier = "gval \<Rightarrow> go_heap \<Rightarrow> gval \<times> go_heap"

definition alloc :: "cell \<Rightarrow> go_heap \<Rightarrow> nat \<times> go_heap" where
  "alloc c h = (length h, h @ [c])"

definition copy_value :: copier where
  "copy_value v h = (v, h)"

fun copy_all :: "copier \<Rightarrow> gval list \<Rightarrow> go_heap \<Rightarrow> gval list \<times> go_heap" where
  "copy_all f [] h = ([], h)"
| "copy_all f (v # vs) h =
     (let (v', h1) = f v h; (vs', h2) = copy_all f vs h1 in (v' # vs', h2))"

definition copy_ptr :: "copier \<Rightarrow> copier" where
  "copy_ptr f v h =
     (case v of
        Pointer a \<Rightarrow>
          (case cell_at h a of
             Some (Cell x) \<Rightarrow>
               (let (x', h1) = f x h; (p, h2) = alloc (Cell x') h1 in (Pointer p, h2))
           | _ \<Rightarrow> (v, h))
      | _ \<Rightarrow> (v, h))"

definition copy_slice :: "copier \<Rightarrow> copier" where
  "copy_slice f v h =
     (case v of
        SliceRef a off n \<Rightarrow>
          (case cell_at h a of
             Some (Array vs) \<Rightarrow>
               (let (vs', h1) = copy_all f (take n (drop off vs)) h; (p, h2) = alloc (Array vs') h1
                in (SliceRef p 0 (length vs'), h2))
           | _ \<Rightarrow> (v, h))
      | _ \<Rightarrow> (v, h))"

definition copy_map :: "copier \<Rightarrow> copier" where
  "copy_map f v h =
     (case v of
        MapRef a \<Rightarrow>
          (case cell_at h a of
             Some (Table kvs) \<Rightarrow>
               (let (vs', h1) = copy_all f (map snd kvs) h; (p, h2) = alloc (Table (zip (map fst kvs) vs')) h1
                in (MapRef p, h2))
           | _ \<Rightarrow> (v, h))
      | _ \<Rightarrow> (v, h))"

fun copy_fields :: "(string \<times> copier) list \<Rightarrow> (string \<times> gval) list \<Rightarrow> go_heap
    \<Rightarrow> (string \<times> gval) list \<times> go_heap" where
  "copy_fields stmts [] h = ([], h)"
| "copy_fields stmts ((x, v) # vs) h =
     (let (v', h1) = (case map_of stmts x of Some f \<Rightarrow> f v h | None \<Rightarrow> copy_value v h);
          (vs', h2) = copy_fields stmts vs h1
      in ((x, v') # vs', h2))"

definition copy_struct :: "(string \<times> copier) list \<Rightarrow> copier" where
  "copy_struct stmts v h =
     (case v of
        Struct vs \<Rightarrow> (let (vs', h1) = copy_fields stmts vs h in (Struct vs', h1))
      | _ \<Rightarrow> (v, h))"

section \<open>Contracts\<close>

text \<open>
  What a type promises: a value is determined by the cells it goes through, and these are
  allocated.  A value type goes through none.
\<close>

locale go_type =
  fixes load :: loader
  assumes load_frame: "load h v = Some (t, as) \<Longrightarrow> \<forall>a \<in> set as. cell_at h' a = cell_at h a
      \<Longrightarrow> load h' v = Some (t, as)"
    and load_bound: "load h v = Some (t, as) \<Longrightarrow> \<forall>a \<in> set as. a < length h"

locale value_type = go_type +
  assumes load_value: "load h v = Some (t, as) \<Longrightarrow> as = []"

text \<open>
  What a deep copy promises: it only allocates, the copy means what the original means, and it
  goes through new cells only.
\<close>

locale deep_copier = go_type load for load :: loader +
  fixes copy :: copier
  assumes copy_deep: "load h v = Some (t, as) \<Longrightarrow> \<exists>v' new as'. copy v h = (v', h @ new)
      \<and> load (h @ new) v' = Some (t, as') \<and> (\<forall>a \<in> set as'. length h \<le> a)"
begin

text \<open>The original is untouched, and neither side sees a later write to the other.\<close>

lemma original_kept:
  assumes "load h v = Some (t, as)" and "copy v h = (v', h')"
  shows "load h' v = Some (t, as)"
  using assms copy_deep [OF assms(1)] load_bound [OF assms(1)]
  by (auto intro!: load_frame [OF assms(1)] simp: cell_at_def nth_append)

lemma copy_independent:
  assumes "load h v = Some (t, as)" and "copy v h = (v', h')"
  obtains as' where "load h' v' = Some (t, as')" and "set as \<inter> set as' = {}"
    and "\<And>a c. a \<in> set as' \<Longrightarrow> load (h'[a := c]) v = Some (t, as)"
    and "\<And>a c. a < length h \<Longrightarrow> load (h'[a := c]) v' = Some (t, as')"
proof -
  from copy_deep [OF assms(1)] assms(2) obtain new as' where h': "h' = h @ new"
    and v': "load h' v' = Some (t, as')" and fresh: "\<forall>a \<in> set as'. length h \<le> a" by auto
  have old: "\<forall>a \<in> set as. a < length h" by (rule load_bound [OF assms(1)])
  have "load (h'[a := c]) v = Some (t, as)" if "a \<in> set as'" for a c
    using that fresh old
    by (intro load_frame [OF original_kept [OF assms]]) (force simp: cell_at_def nth_list_update)
  moreover have "load (h'[a := c]) v' = Some (t, as')" if "a < length h" for a c
    using that fresh by (intro load_frame [OF v']) (force simp: cell_at_def nth_list_update)
  moreover have "set as \<inter> set as' = {}" using fresh old by force
  ultimately show thesis using v' that by blast
qed

end

section \<open>Types\<close>

named_theorems go_types \<open>the types of the API objects are types\<close>

named_theorems deep_copiers \<open>copiers that keep the contract\<close>

lemma load_all_frame:
  assumes "go_type L" and "load_all L h vs = Some (ts, as)" and "\<forall>a \<in> set as. cell_at h' a = cell_at h a"
  shows "load_all L h' vs = Some (ts, as)"
  using assms(2,3)
proof (induction vs arbitrary: ts as)
  case (Cons v vs)
  then show ?case
    using go_type.load_frame [OF assms(1), of h v _ _ h'] by (auto split: option.splits)
qed simp

lemma load_all_bound:
  assumes "go_type L" and "load_all L h vs = Some (ts, as)"
  shows "\<forall>a \<in> set as. a < length h"
  using assms(2)
proof (induction vs arbitrary: ts as)
  case (Cons v vs)
  then show ?case using go_type.load_bound [OF assms(1), of h v] by (auto split: option.splits)
qed simp

lemma load_fields_frame:
  assumes "\<forall>(x, L) \<in> set Ls. go_type L" and "load_fields Ls h vs = Some (ts, as)"
    and "\<forall>a \<in> set as. cell_at h' a = cell_at h a"
  shows "load_fields Ls h' vs = Some (ts, as)"
  using assms
proof (induction Ls h vs arbitrary: ts as rule: load_fields.induct)
  case (2 x L Ls h y v vs)
  then show ?case
    using go_type.load_frame [of L h v _ _ h'] by (auto split: option.splits if_splits)
qed simp_all

lemma load_fields_bound:
  assumes "\<forall>(x, L) \<in> set Ls. go_type L" and "load_fields Ls h vs = Some (ts, as)"
  shows "\<forall>a \<in> set as. a < length h"
  using assms
proof (induction Ls h vs arbitrary: ts as rule: load_fields.induct)
  case (2 x L Ls h y v vs)
  then show ?case using go_type.load_bound [of L h v] by (auto split: option.splits if_splits)
qed simp_all

lemma load_fields_value:
  assumes "\<forall>(x, L) \<in> set Ls. value_type L" and "load_fields Ls h vs = Some (ts, as)"
  shows "as = []"
  using assms
proof (induction Ls h vs arbitrary: ts as rule: load_fields.induct)
  case (2 x L Ls h y v vs)
  then show ?case using value_type.load_value [of L h v] by (auto split: option.splits if_splits)
qed simp_all

lemma cell_at_SomeD: "cell_at h a = Some c \<Longrightarrow> a < length h"
  by (simp add: cell_at_def split: if_splits)

lemma load_ptr_SomeE:
  assumes "load_ptr L h v = Some (t, as)"
  obtains "v = NilRef" "t = NilTree" "as = []"
  | a x u bs where "v = Pointer a" "cell_at h a = Some (Cell x)" "L h x = Some (u, bs)"
      "t = PointerTree u" "as = a # bs"
  using assms by (cases v) (auto split: option.splits cell.splits)

lemma load_slice_SomeE:
  assumes "load_slice L h v = Some (t, as)"
  obtains "v = NilRef" "t = NilTree" "as = []"
  | a off n vs us bs where "v = SliceRef a off n" "cell_at h a = Some (Array vs)" "off + n \<le> length vs"
      "load_all L h (take n (drop off vs)) = Some (us, bs)" "t = SliceTree us" "as = a # bs"
  using assms by (cases v) (auto split: option.splits cell.splits if_splits)

lemma load_map_SomeE:
  assumes "load_map L h v = Some (t, as)"
  obtains "v = NilRef" "t = NilTree" "as = []"
  | a kvs us bs where "v = MapRef a" "cell_at h a = Some (Table kvs)"
      "load_all L h (map snd kvs) = Some (us, bs)" "t = MapTree (zip (map fst kvs) us)" "as = a # bs"
  using assms by (cases v) (auto split: option.splits cell.splits)

lemma load_struct_SomeE:
  assumes "load_struct Ls h v = Some (t, as)"
  obtains vs us where "v = Struct vs" "load_fields Ls h vs = Some (us, as)" "t = StructTree us"
  using assms by (cases v) auto

interpretation basic_type: value_type load_basic
proof
  fix h h' v t as
  assume "load_basic h v = Some (t, as)"
  then show "load_basic h' v = Some (t, as)" "\<forall>a \<in> set as. a < length h" "as = []"
    by (cases v; simp)+
qed

lemma go_type_ptr [go_types]: "go_type L \<Longrightarrow> go_type (load_ptr L)"
proof
  fix h h' v t as
  assume L: "go_type L" and l: "load_ptr L h v = Some (t, as)"
  show "\<forall>a \<in> set as. a < length h"
    using l by (rule load_ptr_SomeE) (auto dest: cell_at_SomeD go_type.load_bound [OF L])
  assume same: "\<forall>a \<in> set as. cell_at h' a = cell_at h a"
  from l show "load_ptr L h' v = Some (t, as)"
  proof (cases rule: load_ptr_SomeE)
    case (2 a x u bs)
    with same go_type.load_frame [OF L 2(3), of h'] show ?thesis by simp
  qed simp
qed

lemma go_type_slice [go_types]: "go_type L \<Longrightarrow> go_type (load_slice L)"
proof
  fix h h' v t as
  assume L: "go_type L" and l: "load_slice L h v = Some (t, as)"
  show "\<forall>a \<in> set as. a < length h"
    using l by (rule load_slice_SomeE) (auto dest: cell_at_SomeD load_all_bound [OF L])
  assume same: "\<forall>a \<in> set as. cell_at h' a = cell_at h a"
  from l show "load_slice L h' v = Some (t, as)"
  proof (cases rule: load_slice_SomeE)
    case (2 a off n vs us bs)
    with same load_all_frame [OF L 2(4), of h'] show ?thesis by simp
  qed simp
qed

lemma go_type_map [go_types]: "go_type L \<Longrightarrow> go_type (load_map L)"
proof
  fix h h' v t as
  assume L: "go_type L" and l: "load_map L h v = Some (t, as)"
  show "\<forall>a \<in> set as. a < length h"
    using l by (rule load_map_SomeE) (auto dest: cell_at_SomeD load_all_bound [OF L])
  assume same: "\<forall>a \<in> set as. cell_at h' a = cell_at h a"
  from l show "load_map L h' v = Some (t, as)"
  proof (cases rule: load_map_SomeE)
    case (2 a kvs us bs)
    with same load_all_frame [OF L 2(3), of h'] show ?thesis by simp
  qed simp
qed

lemma go_type_struct [go_types]: "\<forall>(x, L) \<in> set Ls. go_type L \<Longrightarrow> go_type (load_struct Ls)"
proof
  fix h h' v t as
  assume Ls: "\<forall>(x, L) \<in> set Ls. go_type L" and l: "load_struct Ls h v = Some (t, as)"
  show "\<forall>a \<in> set as. a < length h"
    using l by (rule load_struct_SomeE) (use load_fields_bound [OF Ls] in blast)
  assume same: "\<forall>a \<in> set as. cell_at h' a = cell_at h a"
  from l show "load_struct Ls h' v = Some (t, as)"
  proof (cases rule: load_struct_SomeE)
    case (1 vs us)
    with load_fields_frame [OF Ls 1(2) same] show ?thesis by simp
  qed
qed

lemma value_struct [go_types]:
  assumes "\<forall>(x, L) \<in> set Ls. value_type L"
  shows "value_type (load_struct Ls)"
proof (rule value_type.intro)
  show "go_type (load_struct Ls)" using assms by (auto intro!: go_type_struct simp: value_type_def)
  show "value_type_axioms (load_struct Ls)"
    using load_fields_value [OF assms] by unfold_locales (auto elim!: load_struct_SomeE)
qed

section \<open>Deep copies\<close>

lemma deep_value [deep_copiers]:
  assumes "value_type L"
  shows "deep_copier L copy_value"
proof (intro deep_copier.intro)
  show "go_type L" using assms by (rule value_type.axioms)
  show "deep_copier_axioms L copy_value"
    by unfold_locales (auto dest: value_type.load_value [OF assms] simp: copy_value_def)
qed

lemma deep_all:
  assumes "deep_copier L f" and "load_all L h vs = Some (ts, as)"
  shows "\<exists>vs' new as'. copy_all f vs h = (vs', h @ new) \<and> length vs' = length vs
    \<and> load_all L (h @ new) vs' = Some (ts, as') \<and> (\<forall>a \<in> set as'. length h \<le> a)"
  using assms(2)
proof (induction vs arbitrary: h ts as)
  case (Cons v vs)
  note L = deep_copier.axioms(1) [OF assms(1)]
  from Cons.prems obtain t bs us cs where v: "L h v = Some (t, bs)" and vs: "load_all L h vs = Some (us, cs)"
    and ts: "ts = t # us" by (auto split: option.splits)
  from deep_copier.copy_deep [OF assms(1) v] obtain v' new bs' where one: "f v h = (v', h @ new)"
    "L (h @ new) v' = Some (t, bs')" "\<forall>a \<in> set bs'. length h \<le> a" by blast
  have "load_all L (h @ new) vs = Some (us, cs)"
    using load_all_bound [OF L vs] by (intro load_all_frame [OF L vs]) (auto simp: cell_at_def nth_append)
  from Cons.IH [OF this] obtain vs' more cs' where rest: "copy_all f vs (h @ new) = (vs', h @ new @ more)"
    "length vs' = length vs" "load_all L (h @ new @ more) vs' = Some (us, cs')"
    "\<forall>a \<in> set cs'. length (h @ new) \<le> a" by auto
  have "L (h @ new @ more) v' = Some (t, bs')"
    using go_type.load_bound [OF L one(2)]
    by (intro go_type.load_frame [OF L one(2)]) (auto simp: cell_at_def nth_append)
  with one rest ts show ?case
    by (intro exI [of _ "v' # vs'"] exI [of _ "new @ more"] exI [of _ "bs' @ cs'"]) auto
qed simp

lemma deep_ptr [deep_copiers]:
  assumes "deep_copier L f"
  shows "deep_copier (load_ptr L) (copy_ptr f)"
proof (intro deep_copier.intro)
  note L = deep_copier.axioms(1) [OF assms]
  then show "go_type (load_ptr L)" by (rule go_type_ptr)
  show "deep_copier_axioms (load_ptr L) (copy_ptr f)"
  proof
    fix h v t as
    assume "load_ptr L h v = Some (t, as)"
    then show "\<exists>v' new as'. copy_ptr f v h = (v', h @ new) \<and> load_ptr L (h @ new) v' = Some (t, as')
        \<and> (\<forall>a \<in> set as'. length h \<le> a)"
    proof (cases rule: load_ptr_SomeE)
      case 1
      then show ?thesis by (simp add: copy_ptr_def)
    next
      case (2 a x u bs)
      from deep_copier.copy_deep [OF assms 2(3)] obtain x' new bs' where c: "f x h = (x', h @ new)"
        "L (h @ new) x' = Some (u, bs')" "\<forall>a \<in> set bs'. length h \<le> a" by blast
      have "L (h @ new @ [Cell x']) x' = Some (u, bs')"
        using go_type.load_bound [OF L c(2)]
        by (intro go_type.load_frame [OF L c(2)]) (auto simp: cell_at_def nth_append)
      with 2 c show ?thesis
        by (intro exI [of _ "Pointer (length (h @ new))"] exI [of _ "new @ [Cell x']"] exI [of _ "length (h @ new) # bs'"])
          (auto simp: copy_ptr_def alloc_def cell_at_def nth_append)
    qed
  qed
qed

text \<open>The cell a slice or a map is copied into comes after the copies of its elements.\<close>

lemma deep_elements:
  assumes "deep_copier L f" and "load_all L h vs = Some (ts, as)"
  obtains vs' new as' where "copy_all f vs h = (vs', h @ new)" "length vs' = length vs"
    "\<And>c. load_all L (h @ new @ [c]) vs' = Some (ts, as')" "\<forall>a \<in> set as'. length h \<le> a"
proof -
  note L = deep_copier.axioms(1) [OF assms(1)]
  from deep_all [OF assms] obtain vs' new as' where c: "copy_all f vs h = (vs', h @ new)" "length vs' = length vs"
    "load_all L (h @ new) vs' = Some (ts, as')" "\<forall>a \<in> set as'. length h \<le> a" by blast
  have "load_all L (h @ new @ [d]) vs' = Some (ts, as')" for d
    using load_all_bound [OF L c(3)] by (intro load_all_frame [OF L c(3)]) (auto simp: cell_at_def nth_append)
  with c that show thesis by blast
qed

lemma deep_slice [deep_copiers]:
  assumes "deep_copier L f"
  shows "deep_copier (load_slice L) (copy_slice f)"
proof (intro deep_copier.intro)
  show "go_type (load_slice L)" using deep_copier.axioms(1) [OF assms] by (rule go_type_slice)
  show "deep_copier_axioms (load_slice L) (copy_slice f)"
  proof
    fix h v t as
    assume "load_slice L h v = Some (t, as)"
    then show "\<exists>v' new as'. copy_slice f v h = (v', h @ new) \<and> load_slice L (h @ new) v' = Some (t, as')
        \<and> (\<forall>a \<in> set as'. length h \<le> a)"
    proof (cases rule: load_slice_SomeE)
      case 1
      then show ?thesis by (simp add: copy_slice_def)
    next
      case (2 a off n vs us bs)
      from deep_elements [OF assms 2(4)] obtain vs' new as' where c:
        "copy_all f (take n (drop off vs)) h = (vs', h @ new)"
        "\<And>c. load_all L (h @ new @ [c]) vs' = Some (us, as')" "\<forall>a \<in> set as'. length h \<le> a" by metis
      with 2 show ?thesis
        by (intro exI [of _ "SliceRef (length (h @ new)) 0 (length vs')"] exI [of _ "new @ [Array vs']"]
            exI [of _ "length (h @ new) # as'"])
          (auto simp: copy_slice_def alloc_def cell_at_def nth_append)
    qed
  qed
qed

lemma deep_map [deep_copiers]:
  assumes "deep_copier L f"
  shows "deep_copier (load_map L) (copy_map f)"
proof (intro deep_copier.intro)
  show "go_type (load_map L)" using deep_copier.axioms(1) [OF assms] by (rule go_type_map)
  show "deep_copier_axioms (load_map L) (copy_map f)"
  proof
    fix h v t as
    assume "load_map L h v = Some (t, as)"
    then show "\<exists>v' new as'. copy_map f v h = (v', h @ new) \<and> load_map L (h @ new) v' = Some (t, as')
        \<and> (\<forall>a \<in> set as'. length h \<le> a)"
    proof (cases rule: load_map_SomeE)
      case 1
      then show ?thesis by (simp add: copy_map_def)
    next
      case (2 a kvs us bs)
      from deep_elements [OF assms 2(3)] obtain vs' new as' where c:
        "copy_all f (map snd kvs) h = (vs', h @ new)" "length vs' = length (map snd kvs)"
        "\<And>c. load_all L (h @ new @ [c]) vs' = Some (us, as')" "\<forall>a \<in> set as'. length h \<le> a" by metis
      with 2 show ?thesis
        by (intro exI [of _ "MapRef (length (h @ new))"] exI [of _ "new @ [Table (zip (map fst kvs) vs')]"]
            exI [of _ "length (h @ new) # as'"])
          (auto simp: copy_map_def alloc_def cell_at_def nth_append)
    qed
  qed
qed

text \<open>
  A struct is copied deeply if every field has a statement that copies it deeply, or is of a value
  type.
\<close>

definition fields_copied :: "(string \<times> loader) list \<Rightarrow> (string \<times> copier) list \<Rightarrow> bool" where
  "fields_copied Ls stmts \<longleftrightarrow>
     (\<forall>(x, L) \<in> set Ls. case map_of stmts x of Some f \<Rightarrow> deep_copier L f | None \<Rightarrow> value_type L)"

lemma fields_copied_simps [simp]:
  "fields_copied [] stmts"
  "fields_copied ((x, L) # Ls) stmts \<longleftrightarrow>
     (case map_of stmts x of Some f \<Rightarrow> deep_copier L f | None \<Rightarrow> value_type L) \<and> fields_copied Ls stmts"
  by (simp_all add: fields_copied_def)

lemma fields_copied_copier:
  assumes "fields_copied ((x, L) # Ls) stmts"
  shows "deep_copier L (case map_of stmts x of Some f \<Rightarrow> f | None \<Rightarrow> copy_value)"
  using assms by (auto intro: deep_value split: option.splits)

lemma fields_copied_types: "fields_copied Ls stmts \<Longrightarrow> \<forall>(x, L) \<in> set Ls. go_type L"
  by (auto simp: fields_copied_def deep_copier_def value_type_def split: option.splits)

lemma deep_fields:
  assumes "fields_copied Ls stmts" and "load_fields Ls h vs = Some (ts, as)"
  shows "\<exists>vs' new as'. copy_fields stmts vs h = (vs', h @ new)
    \<and> load_fields Ls (h @ new) vs' = Some (ts, as') \<and> (\<forall>a \<in> set as'. length h \<le> a)"
  using assms
proof (induction Ls arbitrary: h vs ts as)
  case Nil
  then show ?case by (cases vs) auto
next
  case (Cons xL Ls)
  obtain x L where xL: "xL = (x, L)" by fastforce
  with Cons.prems(2) obtain v ws t bs us cs where vs: "vs = (x, v) # ws" and v: "L h v = Some (t, bs)"
    and ws: "load_fields Ls h ws = Some (us, cs)" and ts: "ts = (x, t) # us"
    by (cases vs) (auto split: option.splits if_splits)
  let ?f = "case map_of stmts x of Some f \<Rightarrow> f | None \<Rightarrow> copy_value"
  have f: "deep_copier L ?f" using fields_copied_copier Cons.prems(1) xL by blast
  note L = deep_copier.axioms(1) [OF f]
  have rest: "fields_copied Ls stmts" using Cons.prems(1) xL by simp
  note Ls = fields_copied_types [OF rest]
  from deep_copier.copy_deep [OF f v] obtain v' new bs' where one: "?f v h = (v', h @ new)"
    "L (h @ new) v' = Some (t, bs')" "\<forall>a \<in> set bs'. length h \<le> a" by blast
  have "load_fields Ls (h @ new) ws = Some (us, cs)"
    using load_fields_bound [OF Ls ws] by (intro load_fields_frame [OF Ls ws]) (auto simp: cell_at_def nth_append)
  from Cons.IH [OF rest this] obtain vs' more cs' where two:
    "copy_fields stmts ws (h @ new) = (vs', h @ new @ more)"
    "load_fields Ls (h @ new @ more) vs' = Some (us, cs')" "\<forall>a \<in> set cs'. length (h @ new) \<le> a" by auto
  have "L (h @ new @ more) v' = Some (t, bs')"
    using go_type.load_bound [OF L one(2)]
    by (intro go_type.load_frame [OF L one(2)]) (auto simp: cell_at_def nth_append)
  moreover have "(case map_of stmts x of Some f \<Rightarrow> f v h | None \<Rightarrow> copy_value v h) = (v', h @ new)"
    using one(1) by (simp split: option.splits)
  ultimately show ?case using one two vs ts xL
    by (intro exI [of _ "(x, v') # vs'"] exI [of _ "new @ more"] exI [of _ "bs' @ cs'"]) auto
qed

lemma deep_struct:
  assumes "fields_copied Ls stmts"
  shows "deep_copier (load_struct Ls) (copy_struct stmts)"
proof (intro deep_copier.intro)
  show "go_type (load_struct Ls)" by (rule go_type_struct [OF fields_copied_types [OF assms]])
  show "deep_copier_axioms (load_struct Ls) (copy_struct stmts)"
  proof
    fix h v t as
    assume "load_struct Ls h v = Some (t, as)"
    then show "\<exists>v' new as'. copy_struct stmts v h = (v', h @ new) \<and> load_struct Ls (h @ new) v' = Some (t, as')
        \<and> (\<forall>a \<in> set as'. length h \<le> a)"
    proof (cases rule: load_struct_SomeE)
      case (1 vs us)
      from deep_fields [OF assms 1(2)] obtain vs' new as' where "copy_fields stmts vs h = (vs', h @ new)"
        "load_fields Ls (h @ new) vs' = Some (us, as')" "\<forall>a \<in> set as'. length h \<le> a" by blast
      with 1 show ?thesis
        by (intro exI [of _ "Struct vs'"] exI [of _ new] exI [of _ as']) (simp add: copy_struct_def)
    qed
  qed
qed

end
