(* ===== verification/Deep_Copy.thy ===== *)
theory Deep_Copy
  imports Go_Heap
begin

text \<open>
  The deep copies of \<open>zz_generated.deepcopy.go\<close> (both API groups), function by function, over the
  store of \<open>Go_Heap\<close>, and the struct types they copy, field by field, from \<open>api/v1beta1\<close> and
  \<open>api/controlplane/v1beta1\<close>.  The controllers rely on them: the patch helper and \<open>client.MergeFrom\<close>
  compare the object a handler changes with a deep copy taken before, and the template controller
  extends a deep copy of a cached capacity; the value semantics of the other theories is right only
  if such a copy shares no memory with its original.  The types and copies of Kubernetes and Cluster
  API are arguments.
\<close>

section \<open>Types and copies from other packages\<close>

record ForeignTypes =
  TypeMeta_type :: loader
  APIEndpoint_type :: loader
  MachineAddress_type :: loader
  LocalObjectReference_type :: loader
  ObjectMeta_type :: loader
  ListMeta_type :: loader
  Condition_type :: loader
  CapiFailureDomain_type :: loader
  Quantity_type :: loader
  ObjectMeta_copy :: copier
  ListMeta_copy :: copier
  Condition_copy :: copier
  CapiFailureDomain_copy :: copier
  Quantity_copy :: copier

text \<open>
  What the code relies on: \<open>metav1.TypeMeta\<close>, \<open>APIEndpoint\<close>, \<open>MachineAddress\<close> and
  \<open>LocalObjectReference\<close> hold no references, and the other five come with a deep copy of their own.
\<close>

definition foreign_copies :: "ForeignTypes \<Rightarrow> bool" where
  "foreign_copies F \<longleftrightarrow>
     value_type (TypeMeta_type F)
     \<and> value_type (APIEndpoint_type F)
     \<and> value_type (MachineAddress_type F)
     \<and> value_type (LocalObjectReference_type F)
     \<and> deep_copier (ObjectMeta_type F) (ObjectMeta_copy F)
     \<and> deep_copier (ListMeta_type F) (ListMeta_copy F)
     \<and> deep_copier (Condition_type F) (Condition_copy F)
     \<and> deep_copier (CapiFailureDomain_type F) (CapiFailureDomain_copy F)
     \<and> deep_copier (Quantity_type F) (Quantity_copy F)"

section \<open>The types of the API\<close>

definition FailureDomain_type :: loader where
  "FailureDomain_type = load_struct
    [(''ZoneID'', load_basic), (''VSwitchID'', load_basic)]"

definition IgnitionStorageSpec_type :: loader where
  "IgnitionStorageSpec_type = load_struct
    [(''OSSBucket'', load_basic), (''OSSEndpoint'', load_basic), (''ExpirySeconds'', load_basic),
     (''MaxUserDataBytes'', load_basic)]"

definition Tag_type :: loader where
  "Tag_type = load_struct
    [(''Key'', load_basic), (''Value'', load_basic)]"

definition AlibabaCloudClusterSpec_type :: "ForeignTypes \<Rightarrow> loader" where
  "AlibabaCloudClusterSpec_type F = load_struct
    [(''Region'', load_basic), (''VpcID'', load_basic), (''BootImageID'', load_basic),
     (''ResourceGroupID'', load_basic), (''ControlPlaneEndpoint'', APIEndpoint_type F),
     (''AdditionalTags'', load_slice Tag_type), (''IgnitionStorage'', load_ptr IgnitionStorageSpec_type),
     (''FailureDomains'', load_slice FailureDomain_type)]"

definition AlibabaCloudClusterInitializationStatus_type :: loader where
  "AlibabaCloudClusterInitializationStatus_type = load_struct
    [(''Provisioned'', load_ptr load_basic)]"

definition AlibabaCloudClusterStatus_type :: "ForeignTypes \<Rightarrow> loader" where
  "AlibabaCloudClusterStatus_type F = load_struct
    [(''Ready'', load_basic), (''Initialization'', load_ptr AlibabaCloudClusterInitializationStatus_type),
     (''VpcID'', load_basic), (''ControlPlaneEndpoint'', APIEndpoint_type F), (''SLBInstanceID'', load_basic),
     (''FailureDomains'', load_slice (CapiFailureDomain_type F)),
     (''Conditions'', load_slice (Condition_type F))]"

definition AlibabaCloudCluster_type :: "ForeignTypes \<Rightarrow> loader" where
  "AlibabaCloudCluster_type F = load_struct
    [(''TypeMeta'', TypeMeta_type F), (''ObjectMeta'', ObjectMeta_type F),
     (''Spec'', AlibabaCloudClusterSpec_type F), (''Status'', AlibabaCloudClusterStatus_type F)]"

definition AlibabaCloudClusterList_type :: "ForeignTypes \<Rightarrow> loader" where
  "AlibabaCloudClusterList_type F = load_struct
    [(''TypeMeta'', TypeMeta_type F), (''ListMeta'', ListMeta_type F),
     (''Items'', load_slice (AlibabaCloudCluster_type F))]"

definition AlibabaCloudClusterTemplateResource_type :: "ForeignTypes \<Rightarrow> loader" where
  "AlibabaCloudClusterTemplateResource_type F = load_struct
    [(''Spec'', AlibabaCloudClusterSpec_type F)]"

definition AlibabaCloudClusterTemplateSpec_type :: "ForeignTypes \<Rightarrow> loader" where
  "AlibabaCloudClusterTemplateSpec_type F = load_struct
    [(''Template'', AlibabaCloudClusterTemplateResource_type F)]"

definition AlibabaCloudClusterTemplate_type :: "ForeignTypes \<Rightarrow> loader" where
  "AlibabaCloudClusterTemplate_type F = load_struct
    [(''TypeMeta'', TypeMeta_type F), (''ObjectMeta'', ObjectMeta_type F),
     (''Spec'', AlibabaCloudClusterTemplateSpec_type F)]"

definition AlibabaCloudClusterTemplateList_type :: "ForeignTypes \<Rightarrow> loader" where
  "AlibabaCloudClusterTemplateList_type F = load_struct
    [(''TypeMeta'', TypeMeta_type F), (''ListMeta'', ListMeta_type F),
     (''Items'', load_slice (AlibabaCloudClusterTemplate_type F))]"

definition AlibabaCloudControlPlaneSpec_type :: "ForeignTypes \<Rightarrow> loader" where
  "AlibabaCloudControlPlaneSpec_type F = load_struct
    [(''Mode'', load_basic), (''Version'', load_basic), (''ControlPlaneEndpoint'', APIEndpoint_type F)]"

definition AlibabaCloudControlPlaneInitializationStatus_type :: loader where
  "AlibabaCloudControlPlaneInitializationStatus_type = load_struct
    [(''ControlPlaneInitialized'', load_ptr load_basic)]"

definition AlibabaCloudControlPlaneStatus_type :: "ForeignTypes \<Rightarrow> loader" where
  "AlibabaCloudControlPlaneStatus_type F = load_struct
    [(''Ready'', load_basic), (''ExternalManagedControlPlane'', load_ptr load_basic),
     (''Initialization'', load_ptr AlibabaCloudControlPlaneInitializationStatus_type),
     (''Version'', load_basic), (''Conditions'', load_slice (Condition_type F))]"

definition AlibabaCloudControlPlane_type :: "ForeignTypes \<Rightarrow> loader" where
  "AlibabaCloudControlPlane_type F = load_struct
    [(''TypeMeta'', TypeMeta_type F), (''ObjectMeta'', ObjectMeta_type F),
     (''Spec'', AlibabaCloudControlPlaneSpec_type F), (''Status'', AlibabaCloudControlPlaneStatus_type F)]"

definition AlibabaCloudControlPlaneList_type :: "ForeignTypes \<Rightarrow> loader" where
  "AlibabaCloudControlPlaneList_type F = load_struct
    [(''TypeMeta'', TypeMeta_type F), (''ListMeta'', ListMeta_type F),
     (''Items'', load_slice (AlibabaCloudControlPlane_type F))]"

definition DataDisk_type :: loader where
  "DataDisk_type = load_struct
    [(''Category'', load_basic), (''Size'', load_basic), (''Name'', load_basic),
     (''PerformanceLevel'', load_basic), (''Encrypted'', load_ptr load_basic), (''KMSKeyID'', load_basic)]"

definition MetadataOptions_type :: loader where
  "MetadataOptions_type = load_struct
    [(''HttpEndpoint'', load_basic), (''HttpTokens'', load_basic), (''HttpTokensAfterBoot'', load_basic),
     (''HttpPutResponseHopLimit'', load_basic)]"

definition SystemDisk_type :: loader where
  "SystemDisk_type = load_struct
    [(''Category'', load_basic), (''Size'', load_basic), (''PerformanceLevel'', load_basic),
     (''Encrypted'', load_ptr load_basic), (''KMSKeyID'', load_basic)]"

definition AlibabaCloudMachineSpec_type :: "ForeignTypes \<Rightarrow> loader" where
  "AlibabaCloudMachineSpec_type F = load_struct
    [(''ProviderID'', load_ptr load_basic), (''InstanceType'', load_basic), (''ImageID'', load_basic),
     (''RegionID'', load_basic), (''ZoneID'', load_basic), (''SecurityGroupIDs'', load_slice load_basic),
     (''VSwitchID'', load_basic), (''SystemDisk'', load_ptr SystemDisk_type),
     (''DataDisks'', load_slice DataDisk_type), (''RAMRoleName'', load_basic), (''SpotStrategy'', load_basic),
     (''SpotPriceLimit'', load_ptr load_basic), (''Tags'', load_slice Tag_type),
     (''MetadataOptions'', load_ptr MetadataOptions_type),
     (''UserDataSecret'', load_ptr (LocalObjectReference_type F)),
     (''CredentialsSecret'', load_ptr (LocalObjectReference_type F))]"

definition AlibabaCloudMachineInitializationStatus_type :: loader where
  "AlibabaCloudMachineInitializationStatus_type = load_struct
    [(''Provisioned'', load_ptr load_basic)]"

definition IgnitionOSSRef_type :: loader where
  "IgnitionOSSRef_type = load_struct
    [(''Bucket'', load_basic), (''Endpoint'', load_basic), (''Key'', load_basic)]"

definition AlibabaCloudMachineStatus_type :: "ForeignTypes \<Rightarrow> loader" where
  "AlibabaCloudMachineStatus_type F = load_struct
    [(''Ready'', load_basic), (''Initialization'', load_ptr AlibabaCloudMachineInitializationStatus_type),
     (''InstanceID'', load_ptr load_basic), (''InstanceState'', load_ptr load_basic),
     (''MetadataHardened'', load_ptr load_basic), (''Addresses'', load_slice (MachineAddress_type F)),
     (''Conditions'', load_slice (Condition_type F)), (''FailureReason'', load_ptr load_basic),
     (''FailureMessage'', load_ptr load_basic), (''IgnitionOSS'', load_ptr IgnitionOSSRef_type)]"

definition AlibabaCloudMachine_type :: "ForeignTypes \<Rightarrow> loader" where
  "AlibabaCloudMachine_type F = load_struct
    [(''TypeMeta'', TypeMeta_type F), (''ObjectMeta'', ObjectMeta_type F),
     (''Spec'', AlibabaCloudMachineSpec_type F), (''Status'', AlibabaCloudMachineStatus_type F)]"

definition AlibabaCloudMachineList_type :: "ForeignTypes \<Rightarrow> loader" where
  "AlibabaCloudMachineList_type F = load_struct
    [(''TypeMeta'', TypeMeta_type F), (''ListMeta'', ListMeta_type F),
     (''Items'', load_slice (AlibabaCloudMachine_type F))]"

definition AlibabaCloudMachineTemplateResource_type :: "ForeignTypes \<Rightarrow> loader" where
  "AlibabaCloudMachineTemplateResource_type F = load_struct
    [(''Spec'', AlibabaCloudMachineSpec_type F)]"

definition AlibabaCloudMachineTemplateSpec_type :: "ForeignTypes \<Rightarrow> loader" where
  "AlibabaCloudMachineTemplateSpec_type F = load_struct
    [(''Template'', AlibabaCloudMachineTemplateResource_type F)]"

definition AlibabaCloudMachineTemplateStatus_type :: "ForeignTypes \<Rightarrow> loader" where
  "AlibabaCloudMachineTemplateStatus_type F = load_struct
    [(''Capacity'', load_map (Quantity_type F))]"

definition AlibabaCloudMachineTemplate_type :: "ForeignTypes \<Rightarrow> loader" where
  "AlibabaCloudMachineTemplate_type F = load_struct
    [(''TypeMeta'', TypeMeta_type F), (''ObjectMeta'', ObjectMeta_type F),
     (''Spec'', AlibabaCloudMachineTemplateSpec_type F),
     (''Status'', AlibabaCloudMachineTemplateStatus_type F)]"

definition AlibabaCloudMachineTemplateList_type :: "ForeignTypes \<Rightarrow> loader" where
  "AlibabaCloudMachineTemplateList_type F = load_struct
    [(''TypeMeta'', TypeMeta_type F), (''ListMeta'', ListMeta_type F),
     (''Items'', load_slice (AlibabaCloudMachineTemplate_type F))]"

definition NetworkInterface_type :: loader where
  "NetworkInterface_type = load_struct
    [(''SubnetID'', load_basic), (''SecurityGroupIDs'', load_slice load_basic)]"

section \<open>DeepCopyInto\<close>

definition FailureDomain_DeepCopyInto :: copier where
  "FailureDomain_DeepCopyInto = copy_struct
    []"

definition IgnitionStorageSpec_DeepCopyInto :: copier where
  "IgnitionStorageSpec_DeepCopyInto = copy_struct
    []"

definition Tag_DeepCopyInto :: copier where
  "Tag_DeepCopyInto = copy_struct
    []"

definition AlibabaCloudClusterSpec_DeepCopyInto :: copier where
  "AlibabaCloudClusterSpec_DeepCopyInto = copy_struct
    [(''ControlPlaneEndpoint'', copy_value), (''AdditionalTags'', copy_slice copy_value),
     (''IgnitionStorage'', copy_ptr copy_value), (''FailureDomains'', copy_slice copy_value)]"

definition AlibabaCloudClusterInitializationStatus_DeepCopyInto :: copier where
  "AlibabaCloudClusterInitializationStatus_DeepCopyInto = copy_struct
    [(''Provisioned'', copy_ptr copy_value)]"

definition AlibabaCloudClusterStatus_DeepCopyInto :: "ForeignTypes \<Rightarrow> copier" where
  "AlibabaCloudClusterStatus_DeepCopyInto F = copy_struct
    [(''Initialization'', copy_ptr AlibabaCloudClusterInitializationStatus_DeepCopyInto),
     (''ControlPlaneEndpoint'', copy_value), (''FailureDomains'', copy_slice (CapiFailureDomain_copy F)),
     (''Conditions'', copy_slice (Condition_copy F))]"

definition AlibabaCloudCluster_DeepCopyInto :: "ForeignTypes \<Rightarrow> copier" where
  "AlibabaCloudCluster_DeepCopyInto F = copy_struct
    [(''TypeMeta'', copy_value), (''ObjectMeta'', ObjectMeta_copy F),
     (''Spec'', AlibabaCloudClusterSpec_DeepCopyInto), (''Status'', AlibabaCloudClusterStatus_DeepCopyInto F)]"

definition AlibabaCloudClusterList_DeepCopyInto :: "ForeignTypes \<Rightarrow> copier" where
  "AlibabaCloudClusterList_DeepCopyInto F = copy_struct
    [(''TypeMeta'', copy_value), (''ListMeta'', ListMeta_copy F),
     (''Items'', copy_slice (AlibabaCloudCluster_DeepCopyInto F))]"

definition AlibabaCloudClusterTemplateResource_DeepCopyInto :: copier where
  "AlibabaCloudClusterTemplateResource_DeepCopyInto = copy_struct
    [(''Spec'', AlibabaCloudClusterSpec_DeepCopyInto)]"

definition AlibabaCloudClusterTemplateSpec_DeepCopyInto :: copier where
  "AlibabaCloudClusterTemplateSpec_DeepCopyInto = copy_struct
    [(''Template'', AlibabaCloudClusterTemplateResource_DeepCopyInto)]"

definition AlibabaCloudClusterTemplate_DeepCopyInto :: "ForeignTypes \<Rightarrow> copier" where
  "AlibabaCloudClusterTemplate_DeepCopyInto F = copy_struct
    [(''TypeMeta'', copy_value), (''ObjectMeta'', ObjectMeta_copy F),
     (''Spec'', AlibabaCloudClusterTemplateSpec_DeepCopyInto)]"

definition AlibabaCloudClusterTemplateList_DeepCopyInto :: "ForeignTypes \<Rightarrow> copier" where
  "AlibabaCloudClusterTemplateList_DeepCopyInto F = copy_struct
    [(''TypeMeta'', copy_value), (''ListMeta'', ListMeta_copy F),
     (''Items'', copy_slice (AlibabaCloudClusterTemplate_DeepCopyInto F))]"

definition AlibabaCloudControlPlaneSpec_DeepCopyInto :: copier where
  "AlibabaCloudControlPlaneSpec_DeepCopyInto = copy_struct
    [(''ControlPlaneEndpoint'', copy_value)]"

definition AlibabaCloudControlPlaneInitializationStatus_DeepCopyInto :: copier where
  "AlibabaCloudControlPlaneInitializationStatus_DeepCopyInto = copy_struct
    [(''ControlPlaneInitialized'', copy_ptr copy_value)]"

definition AlibabaCloudControlPlaneStatus_DeepCopyInto :: "ForeignTypes \<Rightarrow> copier" where
  "AlibabaCloudControlPlaneStatus_DeepCopyInto F = copy_struct
    [(''ExternalManagedControlPlane'', copy_ptr copy_value),
     (''Initialization'', copy_ptr AlibabaCloudControlPlaneInitializationStatus_DeepCopyInto),
     (''Conditions'', copy_slice (Condition_copy F))]"

definition AlibabaCloudControlPlane_DeepCopyInto :: "ForeignTypes \<Rightarrow> copier" where
  "AlibabaCloudControlPlane_DeepCopyInto F = copy_struct
    [(''TypeMeta'', copy_value), (''ObjectMeta'', ObjectMeta_copy F), (''Spec'', copy_value),
     (''Status'', AlibabaCloudControlPlaneStatus_DeepCopyInto F)]"

definition AlibabaCloudControlPlaneList_DeepCopyInto :: "ForeignTypes \<Rightarrow> copier" where
  "AlibabaCloudControlPlaneList_DeepCopyInto F = copy_struct
    [(''TypeMeta'', copy_value), (''ListMeta'', ListMeta_copy F),
     (''Items'', copy_slice (AlibabaCloudControlPlane_DeepCopyInto F))]"

definition DataDisk_DeepCopyInto :: copier where
  "DataDisk_DeepCopyInto = copy_struct
    [(''Encrypted'', copy_ptr copy_value)]"

definition MetadataOptions_DeepCopyInto :: copier where
  "MetadataOptions_DeepCopyInto = copy_struct
    []"

definition SystemDisk_DeepCopyInto :: copier where
  "SystemDisk_DeepCopyInto = copy_struct
    [(''Encrypted'', copy_ptr copy_value)]"

definition AlibabaCloudMachineSpec_DeepCopyInto :: copier where
  "AlibabaCloudMachineSpec_DeepCopyInto = copy_struct
    [(''ProviderID'', copy_ptr copy_value), (''SecurityGroupIDs'', copy_slice copy_value),
     (''SystemDisk'', copy_ptr SystemDisk_DeepCopyInto), (''DataDisks'', copy_slice DataDisk_DeepCopyInto),
     (''SpotPriceLimit'', copy_ptr copy_value), (''Tags'', copy_slice copy_value),
     (''MetadataOptions'', copy_ptr copy_value), (''UserDataSecret'', copy_ptr copy_value),
     (''CredentialsSecret'', copy_ptr copy_value)]"

definition AlibabaCloudMachineInitializationStatus_DeepCopyInto :: copier where
  "AlibabaCloudMachineInitializationStatus_DeepCopyInto = copy_struct
    [(''Provisioned'', copy_ptr copy_value)]"

definition IgnitionOSSRef_DeepCopyInto :: copier where
  "IgnitionOSSRef_DeepCopyInto = copy_struct
    []"

definition AlibabaCloudMachineStatus_DeepCopyInto :: "ForeignTypes \<Rightarrow> copier" where
  "AlibabaCloudMachineStatus_DeepCopyInto F = copy_struct
    [(''Initialization'', copy_ptr AlibabaCloudMachineInitializationStatus_DeepCopyInto),
     (''InstanceID'', copy_ptr copy_value), (''InstanceState'', copy_ptr copy_value),
     (''MetadataHardened'', copy_ptr copy_value), (''Addresses'', copy_slice copy_value),
     (''Conditions'', copy_slice (Condition_copy F)), (''FailureReason'', copy_ptr copy_value),
     (''FailureMessage'', copy_ptr copy_value), (''IgnitionOSS'', copy_ptr copy_value)]"

definition AlibabaCloudMachine_DeepCopyInto :: "ForeignTypes \<Rightarrow> copier" where
  "AlibabaCloudMachine_DeepCopyInto F = copy_struct
    [(''TypeMeta'', copy_value), (''ObjectMeta'', ObjectMeta_copy F),
     (''Spec'', AlibabaCloudMachineSpec_DeepCopyInto), (''Status'', AlibabaCloudMachineStatus_DeepCopyInto F)]"

definition AlibabaCloudMachineList_DeepCopyInto :: "ForeignTypes \<Rightarrow> copier" where
  "AlibabaCloudMachineList_DeepCopyInto F = copy_struct
    [(''TypeMeta'', copy_value), (''ListMeta'', ListMeta_copy F),
     (''Items'', copy_slice (AlibabaCloudMachine_DeepCopyInto F))]"

definition AlibabaCloudMachineTemplateResource_DeepCopyInto :: copier where
  "AlibabaCloudMachineTemplateResource_DeepCopyInto = copy_struct
    [(''Spec'', AlibabaCloudMachineSpec_DeepCopyInto)]"

definition AlibabaCloudMachineTemplateSpec_DeepCopyInto :: copier where
  "AlibabaCloudMachineTemplateSpec_DeepCopyInto = copy_struct
    [(''Template'', AlibabaCloudMachineTemplateResource_DeepCopyInto)]"

definition AlibabaCloudMachineTemplateStatus_DeepCopyInto :: "ForeignTypes \<Rightarrow> copier" where
  "AlibabaCloudMachineTemplateStatus_DeepCopyInto F = copy_struct
    [(''Capacity'', copy_map (Quantity_copy F))]"

definition AlibabaCloudMachineTemplate_DeepCopyInto :: "ForeignTypes \<Rightarrow> copier" where
  "AlibabaCloudMachineTemplate_DeepCopyInto F = copy_struct
    [(''TypeMeta'', copy_value), (''ObjectMeta'', ObjectMeta_copy F),
     (''Spec'', AlibabaCloudMachineTemplateSpec_DeepCopyInto),
     (''Status'', AlibabaCloudMachineTemplateStatus_DeepCopyInto F)]"

definition AlibabaCloudMachineTemplateList_DeepCopyInto :: "ForeignTypes \<Rightarrow> copier" where
  "AlibabaCloudMachineTemplateList_DeepCopyInto F = copy_struct
    [(''TypeMeta'', copy_value), (''ListMeta'', ListMeta_copy F),
     (''Items'', copy_slice (AlibabaCloudMachineTemplate_DeepCopyInto F))]"

definition NetworkInterface_DeepCopyInto :: copier where
  "NetworkInterface_DeepCopyInto = copy_struct
    [(''SecurityGroupIDs'', copy_slice copy_value)]"

section \<open>DeepCopy and DeepCopyObject\<close>

text \<open>
  \<open>DeepCopy\<close> allocates the copy, and keeps a nil receiver; \<open>DeepCopyObject\<close> returns it as an
  interface, which is nil (\<open>None\<close>) exactly for a nil copy and never holds a nil pointer.
\<close>

definition as_object :: "copier \<Rightarrow> gval \<Rightarrow> go_heap \<Rightarrow> gval option \<times> go_heap" where
  "as_object copy v h = (let (c, h') = copy v h in (if c \<noteq> NilRef then Some c else None, h'))"

definition FailureDomain_DeepCopy :: copier where
  "FailureDomain_DeepCopy = copy_ptr FailureDomain_DeepCopyInto"

definition IgnitionStorageSpec_DeepCopy :: copier where
  "IgnitionStorageSpec_DeepCopy = copy_ptr IgnitionStorageSpec_DeepCopyInto"

definition Tag_DeepCopy :: copier where
  "Tag_DeepCopy = copy_ptr Tag_DeepCopyInto"

definition AlibabaCloudClusterSpec_DeepCopy :: copier where
  "AlibabaCloudClusterSpec_DeepCopy = copy_ptr AlibabaCloudClusterSpec_DeepCopyInto"

definition AlibabaCloudClusterInitializationStatus_DeepCopy :: copier where
  "AlibabaCloudClusterInitializationStatus_DeepCopy = copy_ptr AlibabaCloudClusterInitializationStatus_DeepCopyInto"

definition AlibabaCloudClusterStatus_DeepCopy :: "ForeignTypes \<Rightarrow> copier" where
  "AlibabaCloudClusterStatus_DeepCopy F = copy_ptr (AlibabaCloudClusterStatus_DeepCopyInto F)"

definition AlibabaCloudCluster_DeepCopy :: "ForeignTypes \<Rightarrow> copier" where
  "AlibabaCloudCluster_DeepCopy F = copy_ptr (AlibabaCloudCluster_DeepCopyInto F)"

definition AlibabaCloudCluster_DeepCopyObject ::
  "ForeignTypes \<Rightarrow> gval \<Rightarrow> go_heap \<Rightarrow> gval option \<times> go_heap" where
  "AlibabaCloudCluster_DeepCopyObject F = as_object (AlibabaCloudCluster_DeepCopy F)"

definition AlibabaCloudClusterList_DeepCopy :: "ForeignTypes \<Rightarrow> copier" where
  "AlibabaCloudClusterList_DeepCopy F = copy_ptr (AlibabaCloudClusterList_DeepCopyInto F)"

definition AlibabaCloudClusterList_DeepCopyObject ::
  "ForeignTypes \<Rightarrow> gval \<Rightarrow> go_heap \<Rightarrow> gval option \<times> go_heap" where
  "AlibabaCloudClusterList_DeepCopyObject F = as_object (AlibabaCloudClusterList_DeepCopy F)"

definition AlibabaCloudClusterTemplateResource_DeepCopy :: copier where
  "AlibabaCloudClusterTemplateResource_DeepCopy = copy_ptr AlibabaCloudClusterTemplateResource_DeepCopyInto"

definition AlibabaCloudClusterTemplateSpec_DeepCopy :: copier where
  "AlibabaCloudClusterTemplateSpec_DeepCopy = copy_ptr AlibabaCloudClusterTemplateSpec_DeepCopyInto"

definition AlibabaCloudClusterTemplate_DeepCopy :: "ForeignTypes \<Rightarrow> copier" where
  "AlibabaCloudClusterTemplate_DeepCopy F = copy_ptr (AlibabaCloudClusterTemplate_DeepCopyInto F)"

definition AlibabaCloudClusterTemplate_DeepCopyObject ::
  "ForeignTypes \<Rightarrow> gval \<Rightarrow> go_heap \<Rightarrow> gval option \<times> go_heap" where
  "AlibabaCloudClusterTemplate_DeepCopyObject F = as_object (AlibabaCloudClusterTemplate_DeepCopy F)"

definition AlibabaCloudClusterTemplateList_DeepCopy :: "ForeignTypes \<Rightarrow> copier" where
  "AlibabaCloudClusterTemplateList_DeepCopy F = copy_ptr (AlibabaCloudClusterTemplateList_DeepCopyInto F)"

definition AlibabaCloudClusterTemplateList_DeepCopyObject ::
  "ForeignTypes \<Rightarrow> gval \<Rightarrow> go_heap \<Rightarrow> gval option \<times> go_heap" where
  "AlibabaCloudClusterTemplateList_DeepCopyObject F = as_object (AlibabaCloudClusterTemplateList_DeepCopy F)"

definition AlibabaCloudControlPlaneSpec_DeepCopy :: copier where
  "AlibabaCloudControlPlaneSpec_DeepCopy = copy_ptr AlibabaCloudControlPlaneSpec_DeepCopyInto"

definition AlibabaCloudControlPlaneInitializationStatus_DeepCopy :: copier where
  "AlibabaCloudControlPlaneInitializationStatus_DeepCopy = copy_ptr AlibabaCloudControlPlaneInitializationStatus_DeepCopyInto"

definition AlibabaCloudControlPlaneStatus_DeepCopy :: "ForeignTypes \<Rightarrow> copier" where
  "AlibabaCloudControlPlaneStatus_DeepCopy F = copy_ptr (AlibabaCloudControlPlaneStatus_DeepCopyInto F)"

definition AlibabaCloudControlPlane_DeepCopy :: "ForeignTypes \<Rightarrow> copier" where
  "AlibabaCloudControlPlane_DeepCopy F = copy_ptr (AlibabaCloudControlPlane_DeepCopyInto F)"

definition AlibabaCloudControlPlane_DeepCopyObject ::
  "ForeignTypes \<Rightarrow> gval \<Rightarrow> go_heap \<Rightarrow> gval option \<times> go_heap" where
  "AlibabaCloudControlPlane_DeepCopyObject F = as_object (AlibabaCloudControlPlane_DeepCopy F)"

definition AlibabaCloudControlPlaneList_DeepCopy :: "ForeignTypes \<Rightarrow> copier" where
  "AlibabaCloudControlPlaneList_DeepCopy F = copy_ptr (AlibabaCloudControlPlaneList_DeepCopyInto F)"

definition AlibabaCloudControlPlaneList_DeepCopyObject ::
  "ForeignTypes \<Rightarrow> gval \<Rightarrow> go_heap \<Rightarrow> gval option \<times> go_heap" where
  "AlibabaCloudControlPlaneList_DeepCopyObject F = as_object (AlibabaCloudControlPlaneList_DeepCopy F)"

definition DataDisk_DeepCopy :: copier where
  "DataDisk_DeepCopy = copy_ptr DataDisk_DeepCopyInto"

definition MetadataOptions_DeepCopy :: copier where
  "MetadataOptions_DeepCopy = copy_ptr MetadataOptions_DeepCopyInto"

definition SystemDisk_DeepCopy :: copier where
  "SystemDisk_DeepCopy = copy_ptr SystemDisk_DeepCopyInto"

definition AlibabaCloudMachineSpec_DeepCopy :: copier where
  "AlibabaCloudMachineSpec_DeepCopy = copy_ptr AlibabaCloudMachineSpec_DeepCopyInto"

definition AlibabaCloudMachineInitializationStatus_DeepCopy :: copier where
  "AlibabaCloudMachineInitializationStatus_DeepCopy = copy_ptr AlibabaCloudMachineInitializationStatus_DeepCopyInto"

definition IgnitionOSSRef_DeepCopy :: copier where
  "IgnitionOSSRef_DeepCopy = copy_ptr IgnitionOSSRef_DeepCopyInto"

definition AlibabaCloudMachineStatus_DeepCopy :: "ForeignTypes \<Rightarrow> copier" where
  "AlibabaCloudMachineStatus_DeepCopy F = copy_ptr (AlibabaCloudMachineStatus_DeepCopyInto F)"

definition AlibabaCloudMachine_DeepCopy :: "ForeignTypes \<Rightarrow> copier" where
  "AlibabaCloudMachine_DeepCopy F = copy_ptr (AlibabaCloudMachine_DeepCopyInto F)"

definition AlibabaCloudMachine_DeepCopyObject ::
  "ForeignTypes \<Rightarrow> gval \<Rightarrow> go_heap \<Rightarrow> gval option \<times> go_heap" where
  "AlibabaCloudMachine_DeepCopyObject F = as_object (AlibabaCloudMachine_DeepCopy F)"

definition AlibabaCloudMachineList_DeepCopy :: "ForeignTypes \<Rightarrow> copier" where
  "AlibabaCloudMachineList_DeepCopy F = copy_ptr (AlibabaCloudMachineList_DeepCopyInto F)"

definition AlibabaCloudMachineList_DeepCopyObject ::
  "ForeignTypes \<Rightarrow> gval \<Rightarrow> go_heap \<Rightarrow> gval option \<times> go_heap" where
  "AlibabaCloudMachineList_DeepCopyObject F = as_object (AlibabaCloudMachineList_DeepCopy F)"

definition AlibabaCloudMachineTemplateResource_DeepCopy :: copier where
  "AlibabaCloudMachineTemplateResource_DeepCopy = copy_ptr AlibabaCloudMachineTemplateResource_DeepCopyInto"

definition AlibabaCloudMachineTemplateSpec_DeepCopy :: copier where
  "AlibabaCloudMachineTemplateSpec_DeepCopy = copy_ptr AlibabaCloudMachineTemplateSpec_DeepCopyInto"

definition AlibabaCloudMachineTemplateStatus_DeepCopy :: "ForeignTypes \<Rightarrow> copier" where
  "AlibabaCloudMachineTemplateStatus_DeepCopy F = copy_ptr (AlibabaCloudMachineTemplateStatus_DeepCopyInto F)"

definition AlibabaCloudMachineTemplate_DeepCopy :: "ForeignTypes \<Rightarrow> copier" where
  "AlibabaCloudMachineTemplate_DeepCopy F = copy_ptr (AlibabaCloudMachineTemplate_DeepCopyInto F)"

definition AlibabaCloudMachineTemplate_DeepCopyObject ::
  "ForeignTypes \<Rightarrow> gval \<Rightarrow> go_heap \<Rightarrow> gval option \<times> go_heap" where
  "AlibabaCloudMachineTemplate_DeepCopyObject F = as_object (AlibabaCloudMachineTemplate_DeepCopy F)"

definition AlibabaCloudMachineTemplateList_DeepCopy :: "ForeignTypes \<Rightarrow> copier" where
  "AlibabaCloudMachineTemplateList_DeepCopy F = copy_ptr (AlibabaCloudMachineTemplateList_DeepCopyInto F)"

definition AlibabaCloudMachineTemplateList_DeepCopyObject ::
  "ForeignTypes \<Rightarrow> gval \<Rightarrow> go_heap \<Rightarrow> gval option \<times> go_heap" where
  "AlibabaCloudMachineTemplateList_DeepCopyObject F = as_object (AlibabaCloudMachineTemplateList_DeepCopy F)"

definition NetworkInterface_DeepCopy :: copier where
  "NetworkInterface_DeepCopy = copy_ptr NetworkInterface_DeepCopyInto"

text \<open>Every type of the two packages with its \<open>DeepCopy\<close>.\<close>

definition deepCopies :: "ForeignTypes \<Rightarrow> (string \<times> loader \<times> copier) list" where
  "deepCopies F =
    [(''FailureDomain'', FailureDomain_type, FailureDomain_DeepCopy),
     (''IgnitionStorageSpec'', IgnitionStorageSpec_type, IgnitionStorageSpec_DeepCopy),
     (''Tag'', Tag_type, Tag_DeepCopy),
     (''AlibabaCloudClusterSpec'', AlibabaCloudClusterSpec_type F, AlibabaCloudClusterSpec_DeepCopy),
     (''AlibabaCloudClusterInitializationStatus'', AlibabaCloudClusterInitializationStatus_type, AlibabaCloudClusterInitializationStatus_DeepCopy),
     (''AlibabaCloudClusterStatus'', AlibabaCloudClusterStatus_type F, AlibabaCloudClusterStatus_DeepCopy F),
     (''AlibabaCloudCluster'', AlibabaCloudCluster_type F, AlibabaCloudCluster_DeepCopy F),
     (''AlibabaCloudClusterList'', AlibabaCloudClusterList_type F, AlibabaCloudClusterList_DeepCopy F),
     (''AlibabaCloudClusterTemplateResource'', AlibabaCloudClusterTemplateResource_type F, AlibabaCloudClusterTemplateResource_DeepCopy),
     (''AlibabaCloudClusterTemplateSpec'', AlibabaCloudClusterTemplateSpec_type F, AlibabaCloudClusterTemplateSpec_DeepCopy),
     (''AlibabaCloudClusterTemplate'', AlibabaCloudClusterTemplate_type F, AlibabaCloudClusterTemplate_DeepCopy F),
     (''AlibabaCloudClusterTemplateList'', AlibabaCloudClusterTemplateList_type F, AlibabaCloudClusterTemplateList_DeepCopy F),
     (''AlibabaCloudControlPlaneSpec'', AlibabaCloudControlPlaneSpec_type F, AlibabaCloudControlPlaneSpec_DeepCopy),
     (''AlibabaCloudControlPlaneInitializationStatus'', AlibabaCloudControlPlaneInitializationStatus_type, AlibabaCloudControlPlaneInitializationStatus_DeepCopy),
     (''AlibabaCloudControlPlaneStatus'', AlibabaCloudControlPlaneStatus_type F, AlibabaCloudControlPlaneStatus_DeepCopy F),
     (''AlibabaCloudControlPlane'', AlibabaCloudControlPlane_type F, AlibabaCloudControlPlane_DeepCopy F),
     (''AlibabaCloudControlPlaneList'', AlibabaCloudControlPlaneList_type F, AlibabaCloudControlPlaneList_DeepCopy F),
     (''DataDisk'', DataDisk_type, DataDisk_DeepCopy),
     (''MetadataOptions'', MetadataOptions_type, MetadataOptions_DeepCopy),
     (''SystemDisk'', SystemDisk_type, SystemDisk_DeepCopy),
     (''AlibabaCloudMachineSpec'', AlibabaCloudMachineSpec_type F, AlibabaCloudMachineSpec_DeepCopy),
     (''AlibabaCloudMachineInitializationStatus'', AlibabaCloudMachineInitializationStatus_type, AlibabaCloudMachineInitializationStatus_DeepCopy),
     (''IgnitionOSSRef'', IgnitionOSSRef_type, IgnitionOSSRef_DeepCopy),
     (''AlibabaCloudMachineStatus'', AlibabaCloudMachineStatus_type F, AlibabaCloudMachineStatus_DeepCopy F),
     (''AlibabaCloudMachine'', AlibabaCloudMachine_type F, AlibabaCloudMachine_DeepCopy F),
     (''AlibabaCloudMachineList'', AlibabaCloudMachineList_type F, AlibabaCloudMachineList_DeepCopy F),
     (''AlibabaCloudMachineTemplateResource'', AlibabaCloudMachineTemplateResource_type F, AlibabaCloudMachineTemplateResource_DeepCopy),
     (''AlibabaCloudMachineTemplateSpec'', AlibabaCloudMachineTemplateSpec_type F, AlibabaCloudMachineTemplateSpec_DeepCopy),
     (''AlibabaCloudMachineTemplateStatus'', AlibabaCloudMachineTemplateStatus_type F, AlibabaCloudMachineTemplateStatus_DeepCopy F),
     (''AlibabaCloudMachineTemplate'', AlibabaCloudMachineTemplate_type F, AlibabaCloudMachineTemplate_DeepCopy F),
     (''AlibabaCloudMachineTemplateList'', AlibabaCloudMachineTemplateList_type F, AlibabaCloudMachineTemplateList_DeepCopy F),
     (''NetworkInterface'', NetworkInterface_type, NetworkInterface_DeepCopy)]"

section \<open>Every copy is deep\<close>

lemma foreign_copiesD:
  assumes "foreign_copies F"
  shows "value_type (TypeMeta_type F)"
    "value_type (APIEndpoint_type F)"
    "value_type (MachineAddress_type F)"
    "value_type (LocalObjectReference_type F)"
    "deep_copier (ObjectMeta_type F) (ObjectMeta_copy F)"
    "deep_copier (ListMeta_type F) (ListMeta_copy F)"
    "deep_copier (Condition_type F) (Condition_copy F)"
    "deep_copier (CapiFailureDomain_type F) (CapiFailureDomain_copy F)"
    "deep_copier (Quantity_type F) (Quantity_copy F)"
  using assms by (simp_all add: foreign_copies_def)

lemma FailureDomain_value: "value_type FailureDomain_type"
  by (simp add: FailureDomain_type_def value_struct basic_type.value_type_axioms)

lemma IgnitionStorageSpec_value: "value_type IgnitionStorageSpec_type"
  by (simp add: IgnitionStorageSpec_type_def value_struct basic_type.value_type_axioms)

lemma Tag_value: "value_type Tag_type"
  by (simp add: Tag_type_def value_struct basic_type.value_type_axioms)

lemma AlibabaCloudControlPlaneSpec_value: 
  assumes "foreign_copies F"
  shows "value_type (AlibabaCloudControlPlaneSpec_type F)"
  by (simp add: AlibabaCloudControlPlaneSpec_type_def value_struct basic_type.value_type_axioms foreign_copiesD [OF assms])

lemma MetadataOptions_value: "value_type MetadataOptions_type"
  by (simp add: MetadataOptions_type_def value_struct basic_type.value_type_axioms)

lemma IgnitionOSSRef_value: "value_type IgnitionOSSRef_type"
  by (simp add: IgnitionOSSRef_type_def value_struct basic_type.value_type_axioms)

lemmas value_records = FailureDomain_value IgnitionStorageSpec_value Tag_value MetadataOptions_value IgnitionOSSRef_value

lemma FailureDomain_deep:
  "deep_copier FailureDomain_type FailureDomain_DeepCopyInto"
  unfolding FailureDomain_type_def FailureDomain_DeepCopyInto_def
  by (rule deep_struct) (simp add: deep_copiers basic_type.value_type_axioms value_records)

lemma IgnitionStorageSpec_deep:
  "deep_copier IgnitionStorageSpec_type IgnitionStorageSpec_DeepCopyInto"
  unfolding IgnitionStorageSpec_type_def IgnitionStorageSpec_DeepCopyInto_def
  by (rule deep_struct) (simp add: deep_copiers basic_type.value_type_axioms value_records)

lemma Tag_deep:
  "deep_copier Tag_type Tag_DeepCopyInto"
  unfolding Tag_type_def Tag_DeepCopyInto_def
  by (rule deep_struct) (simp add: deep_copiers basic_type.value_type_axioms value_records)

lemma AlibabaCloudClusterSpec_deep:
  assumes "foreign_copies F"
  shows "deep_copier (AlibabaCloudClusterSpec_type F) AlibabaCloudClusterSpec_DeepCopyInto"
  unfolding AlibabaCloudClusterSpec_type_def AlibabaCloudClusterSpec_DeepCopyInto_def
  by (rule deep_struct) (simp add: deep_copiers basic_type.value_type_axioms value_records foreign_copiesD [OF assms])

lemma AlibabaCloudClusterInitializationStatus_deep:
  "deep_copier AlibabaCloudClusterInitializationStatus_type AlibabaCloudClusterInitializationStatus_DeepCopyInto"
  unfolding AlibabaCloudClusterInitializationStatus_type_def AlibabaCloudClusterInitializationStatus_DeepCopyInto_def
  by (rule deep_struct) (simp add: deep_copiers basic_type.value_type_axioms value_records)

lemma AlibabaCloudClusterStatus_deep:
  assumes "foreign_copies F"
  shows "deep_copier (AlibabaCloudClusterStatus_type F) (AlibabaCloudClusterStatus_DeepCopyInto F)"
  unfolding AlibabaCloudClusterStatus_type_def AlibabaCloudClusterStatus_DeepCopyInto_def
  by (rule deep_struct) (simp add: deep_copiers basic_type.value_type_axioms value_records foreign_copiesD [OF assms] AlibabaCloudClusterInitializationStatus_deep)

lemma AlibabaCloudCluster_deep:
  assumes "foreign_copies F"
  shows "deep_copier (AlibabaCloudCluster_type F) (AlibabaCloudCluster_DeepCopyInto F)"
  unfolding AlibabaCloudCluster_type_def AlibabaCloudCluster_DeepCopyInto_def
  by (rule deep_struct) (simp add: deep_copiers basic_type.value_type_axioms value_records foreign_copiesD [OF assms] AlibabaCloudClusterSpec_deep [OF assms] AlibabaCloudClusterStatus_deep [OF assms])

lemma AlibabaCloudClusterList_deep:
  assumes "foreign_copies F"
  shows "deep_copier (AlibabaCloudClusterList_type F) (AlibabaCloudClusterList_DeepCopyInto F)"
  unfolding AlibabaCloudClusterList_type_def AlibabaCloudClusterList_DeepCopyInto_def
  by (rule deep_struct) (simp add: deep_copiers basic_type.value_type_axioms value_records foreign_copiesD [OF assms] AlibabaCloudCluster_deep [OF assms])

lemma AlibabaCloudClusterTemplateResource_deep:
  assumes "foreign_copies F"
  shows "deep_copier (AlibabaCloudClusterTemplateResource_type F) AlibabaCloudClusterTemplateResource_DeepCopyInto"
  unfolding AlibabaCloudClusterTemplateResource_type_def AlibabaCloudClusterTemplateResource_DeepCopyInto_def
  by (rule deep_struct) (simp add: deep_copiers basic_type.value_type_axioms value_records foreign_copiesD [OF assms] AlibabaCloudClusterSpec_deep [OF assms])

lemma AlibabaCloudClusterTemplateSpec_deep:
  assumes "foreign_copies F"
  shows "deep_copier (AlibabaCloudClusterTemplateSpec_type F) AlibabaCloudClusterTemplateSpec_DeepCopyInto"
  unfolding AlibabaCloudClusterTemplateSpec_type_def AlibabaCloudClusterTemplateSpec_DeepCopyInto_def
  by (rule deep_struct) (simp add: deep_copiers basic_type.value_type_axioms value_records foreign_copiesD [OF assms] AlibabaCloudClusterTemplateResource_deep [OF assms])

lemma AlibabaCloudClusterTemplate_deep:
  assumes "foreign_copies F"
  shows "deep_copier (AlibabaCloudClusterTemplate_type F) (AlibabaCloudClusterTemplate_DeepCopyInto F)"
  unfolding AlibabaCloudClusterTemplate_type_def AlibabaCloudClusterTemplate_DeepCopyInto_def
  by (rule deep_struct) (simp add: deep_copiers basic_type.value_type_axioms value_records foreign_copiesD [OF assms] AlibabaCloudClusterTemplateSpec_deep [OF assms])

lemma AlibabaCloudClusterTemplateList_deep:
  assumes "foreign_copies F"
  shows "deep_copier (AlibabaCloudClusterTemplateList_type F) (AlibabaCloudClusterTemplateList_DeepCopyInto F)"
  unfolding AlibabaCloudClusterTemplateList_type_def AlibabaCloudClusterTemplateList_DeepCopyInto_def
  by (rule deep_struct) (simp add: deep_copiers basic_type.value_type_axioms value_records foreign_copiesD [OF assms] AlibabaCloudClusterTemplate_deep [OF assms])

lemma AlibabaCloudControlPlaneSpec_deep:
  assumes "foreign_copies F"
  shows "deep_copier (AlibabaCloudControlPlaneSpec_type F) AlibabaCloudControlPlaneSpec_DeepCopyInto"
  unfolding AlibabaCloudControlPlaneSpec_type_def AlibabaCloudControlPlaneSpec_DeepCopyInto_def
  by (rule deep_struct) (simp add: deep_copiers basic_type.value_type_axioms value_records foreign_copiesD [OF assms])

lemma AlibabaCloudControlPlaneInitializationStatus_deep:
  "deep_copier AlibabaCloudControlPlaneInitializationStatus_type AlibabaCloudControlPlaneInitializationStatus_DeepCopyInto"
  unfolding AlibabaCloudControlPlaneInitializationStatus_type_def AlibabaCloudControlPlaneInitializationStatus_DeepCopyInto_def
  by (rule deep_struct) (simp add: deep_copiers basic_type.value_type_axioms value_records)

lemma AlibabaCloudControlPlaneStatus_deep:
  assumes "foreign_copies F"
  shows "deep_copier (AlibabaCloudControlPlaneStatus_type F) (AlibabaCloudControlPlaneStatus_DeepCopyInto F)"
  unfolding AlibabaCloudControlPlaneStatus_type_def AlibabaCloudControlPlaneStatus_DeepCopyInto_def
  by (rule deep_struct) (simp add: deep_copiers basic_type.value_type_axioms value_records foreign_copiesD [OF assms] AlibabaCloudControlPlaneInitializationStatus_deep)

lemma AlibabaCloudControlPlane_deep:
  assumes "foreign_copies F"
  shows "deep_copier (AlibabaCloudControlPlane_type F) (AlibabaCloudControlPlane_DeepCopyInto F)"
  unfolding AlibabaCloudControlPlane_type_def AlibabaCloudControlPlane_DeepCopyInto_def
  by (rule deep_struct) (simp add: deep_copiers basic_type.value_type_axioms value_records foreign_copiesD [OF assms] AlibabaCloudControlPlaneSpec_value [OF assms] AlibabaCloudControlPlaneStatus_deep [OF assms])

lemma AlibabaCloudControlPlaneList_deep:
  assumes "foreign_copies F"
  shows "deep_copier (AlibabaCloudControlPlaneList_type F) (AlibabaCloudControlPlaneList_DeepCopyInto F)"
  unfolding AlibabaCloudControlPlaneList_type_def AlibabaCloudControlPlaneList_DeepCopyInto_def
  by (rule deep_struct) (simp add: deep_copiers basic_type.value_type_axioms value_records foreign_copiesD [OF assms] AlibabaCloudControlPlane_deep [OF assms])

lemma DataDisk_deep:
  "deep_copier DataDisk_type DataDisk_DeepCopyInto"
  unfolding DataDisk_type_def DataDisk_DeepCopyInto_def
  by (rule deep_struct) (simp add: deep_copiers basic_type.value_type_axioms value_records)

lemma MetadataOptions_deep:
  "deep_copier MetadataOptions_type MetadataOptions_DeepCopyInto"
  unfolding MetadataOptions_type_def MetadataOptions_DeepCopyInto_def
  by (rule deep_struct) (simp add: deep_copiers basic_type.value_type_axioms value_records)

lemma SystemDisk_deep:
  "deep_copier SystemDisk_type SystemDisk_DeepCopyInto"
  unfolding SystemDisk_type_def SystemDisk_DeepCopyInto_def
  by (rule deep_struct) (simp add: deep_copiers basic_type.value_type_axioms value_records)

lemma AlibabaCloudMachineSpec_deep:
  assumes "foreign_copies F"
  shows "deep_copier (AlibabaCloudMachineSpec_type F) AlibabaCloudMachineSpec_DeepCopyInto"
  unfolding AlibabaCloudMachineSpec_type_def AlibabaCloudMachineSpec_DeepCopyInto_def
  by (rule deep_struct) (simp add: deep_copiers basic_type.value_type_axioms value_records foreign_copiesD [OF assms] DataDisk_deep SystemDisk_deep)

lemma AlibabaCloudMachineInitializationStatus_deep:
  "deep_copier AlibabaCloudMachineInitializationStatus_type AlibabaCloudMachineInitializationStatus_DeepCopyInto"
  unfolding AlibabaCloudMachineInitializationStatus_type_def AlibabaCloudMachineInitializationStatus_DeepCopyInto_def
  by (rule deep_struct) (simp add: deep_copiers basic_type.value_type_axioms value_records)

lemma IgnitionOSSRef_deep:
  "deep_copier IgnitionOSSRef_type IgnitionOSSRef_DeepCopyInto"
  unfolding IgnitionOSSRef_type_def IgnitionOSSRef_DeepCopyInto_def
  by (rule deep_struct) (simp add: deep_copiers basic_type.value_type_axioms value_records)

lemma AlibabaCloudMachineStatus_deep:
  assumes "foreign_copies F"
  shows "deep_copier (AlibabaCloudMachineStatus_type F) (AlibabaCloudMachineStatus_DeepCopyInto F)"
  unfolding AlibabaCloudMachineStatus_type_def AlibabaCloudMachineStatus_DeepCopyInto_def
  by (rule deep_struct) (simp add: deep_copiers basic_type.value_type_axioms value_records foreign_copiesD [OF assms] AlibabaCloudMachineInitializationStatus_deep)

lemma AlibabaCloudMachine_deep:
  assumes "foreign_copies F"
  shows "deep_copier (AlibabaCloudMachine_type F) (AlibabaCloudMachine_DeepCopyInto F)"
  unfolding AlibabaCloudMachine_type_def AlibabaCloudMachine_DeepCopyInto_def
  by (rule deep_struct) (simp add: deep_copiers basic_type.value_type_axioms value_records foreign_copiesD [OF assms] AlibabaCloudMachineSpec_deep [OF assms] AlibabaCloudMachineStatus_deep [OF assms])

lemma AlibabaCloudMachineList_deep:
  assumes "foreign_copies F"
  shows "deep_copier (AlibabaCloudMachineList_type F) (AlibabaCloudMachineList_DeepCopyInto F)"
  unfolding AlibabaCloudMachineList_type_def AlibabaCloudMachineList_DeepCopyInto_def
  by (rule deep_struct) (simp add: deep_copiers basic_type.value_type_axioms value_records foreign_copiesD [OF assms] AlibabaCloudMachine_deep [OF assms])

lemma AlibabaCloudMachineTemplateResource_deep:
  assumes "foreign_copies F"
  shows "deep_copier (AlibabaCloudMachineTemplateResource_type F) AlibabaCloudMachineTemplateResource_DeepCopyInto"
  unfolding AlibabaCloudMachineTemplateResource_type_def AlibabaCloudMachineTemplateResource_DeepCopyInto_def
  by (rule deep_struct) (simp add: deep_copiers basic_type.value_type_axioms value_records foreign_copiesD [OF assms] AlibabaCloudMachineSpec_deep [OF assms])

lemma AlibabaCloudMachineTemplateSpec_deep:
  assumes "foreign_copies F"
  shows "deep_copier (AlibabaCloudMachineTemplateSpec_type F) AlibabaCloudMachineTemplateSpec_DeepCopyInto"
  unfolding AlibabaCloudMachineTemplateSpec_type_def AlibabaCloudMachineTemplateSpec_DeepCopyInto_def
  by (rule deep_struct) (simp add: deep_copiers basic_type.value_type_axioms value_records foreign_copiesD [OF assms] AlibabaCloudMachineTemplateResource_deep [OF assms])

lemma AlibabaCloudMachineTemplateStatus_deep:
  assumes "foreign_copies F"
  shows "deep_copier (AlibabaCloudMachineTemplateStatus_type F) (AlibabaCloudMachineTemplateStatus_DeepCopyInto F)"
  unfolding AlibabaCloudMachineTemplateStatus_type_def AlibabaCloudMachineTemplateStatus_DeepCopyInto_def
  by (rule deep_struct) (simp add: deep_copiers basic_type.value_type_axioms value_records foreign_copiesD [OF assms])

lemma AlibabaCloudMachineTemplate_deep:
  assumes "foreign_copies F"
  shows "deep_copier (AlibabaCloudMachineTemplate_type F) (AlibabaCloudMachineTemplate_DeepCopyInto F)"
  unfolding AlibabaCloudMachineTemplate_type_def AlibabaCloudMachineTemplate_DeepCopyInto_def
  by (rule deep_struct) (simp add: deep_copiers basic_type.value_type_axioms value_records foreign_copiesD [OF assms] AlibabaCloudMachineTemplateSpec_deep [OF assms] AlibabaCloudMachineTemplateStatus_deep [OF assms])

lemma AlibabaCloudMachineTemplateList_deep:
  assumes "foreign_copies F"
  shows "deep_copier (AlibabaCloudMachineTemplateList_type F) (AlibabaCloudMachineTemplateList_DeepCopyInto F)"
  unfolding AlibabaCloudMachineTemplateList_type_def AlibabaCloudMachineTemplateList_DeepCopyInto_def
  by (rule deep_struct) (simp add: deep_copiers basic_type.value_type_axioms value_records foreign_copiesD [OF assms] AlibabaCloudMachineTemplate_deep [OF assms])

lemma NetworkInterface_deep:
  "deep_copier NetworkInterface_type NetworkInterface_DeepCopyInto"
  unfolding NetworkInterface_type_def NetworkInterface_DeepCopyInto_def
  by (rule deep_struct) (simp add: deep_copiers basic_type.value_type_axioms value_records)

lemmas DeepCopy_defs = FailureDomain_DeepCopy_def IgnitionStorageSpec_DeepCopy_def Tag_DeepCopy_def
  AlibabaCloudClusterSpec_DeepCopy_def AlibabaCloudClusterInitializationStatus_DeepCopy_def
  AlibabaCloudClusterStatus_DeepCopy_def AlibabaCloudCluster_DeepCopy_def
  AlibabaCloudClusterList_DeepCopy_def AlibabaCloudClusterTemplateResource_DeepCopy_def
  AlibabaCloudClusterTemplateSpec_DeepCopy_def AlibabaCloudClusterTemplate_DeepCopy_def
  AlibabaCloudClusterTemplateList_DeepCopy_def AlibabaCloudControlPlaneSpec_DeepCopy_def
  AlibabaCloudControlPlaneInitializationStatus_DeepCopy_def AlibabaCloudControlPlaneStatus_DeepCopy_def
  AlibabaCloudControlPlane_DeepCopy_def AlibabaCloudControlPlaneList_DeepCopy_def DataDisk_DeepCopy_def
  MetadataOptions_DeepCopy_def SystemDisk_DeepCopy_def AlibabaCloudMachineSpec_DeepCopy_def
  AlibabaCloudMachineInitializationStatus_DeepCopy_def IgnitionOSSRef_DeepCopy_def
  AlibabaCloudMachineStatus_DeepCopy_def AlibabaCloudMachine_DeepCopy_def
  AlibabaCloudMachineList_DeepCopy_def AlibabaCloudMachineTemplateResource_DeepCopy_def
  AlibabaCloudMachineTemplateSpec_DeepCopy_def AlibabaCloudMachineTemplateStatus_DeepCopy_def
  AlibabaCloudMachineTemplate_DeepCopy_def AlibabaCloudMachineTemplateList_DeepCopy_def
  NetworkInterface_DeepCopy_def

lemmas own_copies = FailureDomain_deep IgnitionStorageSpec_deep Tag_deep
  AlibabaCloudClusterInitializationStatus_deep AlibabaCloudControlPlaneInitializationStatus_deep
  DataDisk_deep MetadataOptions_deep SystemDisk_deep AlibabaCloudMachineInitializationStatus_deep
  IgnitionOSSRef_deep NetworkInterface_deep

lemmas api_copies = AlibabaCloudClusterSpec_deep AlibabaCloudClusterStatus_deep AlibabaCloudCluster_deep
  AlibabaCloudClusterList_deep AlibabaCloudClusterTemplateResource_deep AlibabaCloudClusterTemplateSpec_deep
  AlibabaCloudClusterTemplate_deep AlibabaCloudClusterTemplateList_deep AlibabaCloudControlPlaneSpec_deep
  AlibabaCloudControlPlaneStatus_deep AlibabaCloudControlPlane_deep AlibabaCloudControlPlaneList_deep
  AlibabaCloudMachineSpec_deep AlibabaCloudMachineStatus_deep AlibabaCloudMachine_deep
  AlibabaCloudMachineList_deep AlibabaCloudMachineTemplateResource_deep AlibabaCloudMachineTemplateSpec_deep
  AlibabaCloudMachineTemplateStatus_deep AlibabaCloudMachineTemplate_deep
  AlibabaCloudMachineTemplateList_deep

interpretation system_disk: deep_copier SystemDisk_type SystemDisk_DeepCopyInto
  by (rule SystemDisk_deep)

interpretation tag: value_type Tag_type
  by (rule Tag_value)

lemma deepCopies_deep:
  assumes "foreign_copies F" and "(name, type, copy) \<in> set (deepCopies F)"
  shows "deep_copier (load_ptr type) copy"
  using assms(2) unfolding deepCopies_def list.set insert_iff prod.inject empty_iff
  by (elim disjE conjE FalseE; hypsubst; unfold DeepCopy_defs; intro deep_ptr own_copies api_copies [OF assms(1)])

lemma as_object_nil:
  "fst (as_object (copy_ptr f) v h) = None \<longleftrightarrow> v = NilRef"
  by (auto simp: as_object_def copy_ptr_def alloc_def split: gval.splits option.splits cell.splits prod.splits)

section \<open>Properties\<close>

text \<open>
  C17.  A deep copy means the same and shares nothing.  For every type of the two API packages,
  \<open>DeepCopy\<close> of a value returns a value with the same contents and leaves the original as it was;
  no cell is reachable from both, so whatever is later written through one of them, the other still
  reads as before.
\<close>

theorem deep_copies_share_nothing:
  assumes "foreign_copies F" and "(name, type, copy) \<in> set (deepCopies F)"
    and "load_ptr type h v = Some (t, as)" and "copy v h = (v', h')"
  shows "load_ptr type h' v = Some (t, as)
    \<and> (\<exists>as'. load_ptr type h' v' = Some (t, as') \<and> set as \<inter> set as' = {}
         \<and> (\<forall>a \<in> set as'. \<forall>c. load_ptr type (h'[a := c]) v = Some (t, as))
         \<and> (\<forall>a \<in> set as. \<forall>c. load_ptr type (h'[a := c]) v' = Some (t, as')))"
proof -
  note deep = deepCopies_deep [OF assms(1,2)]
  from deep_copier.copy_independent [OF deep assms(3,4)] obtain as' where
    "load_ptr type h' v' = Some (t, as')" "set as \<inter> set as' = {}"
    "\<And>a c. a \<in> set as' \<Longrightarrow> load_ptr type (h'[a := c]) v = Some (t, as)"
    "\<And>a c. a < length h \<Longrightarrow> load_ptr type (h'[a := c]) v' = Some (t, as')" by metis
  with deep_copier.original_kept [OF deep assms(3,4)]
    go_type.load_bound [OF deep_copier.axioms(1) [OF deep] assms(3)]
  show ?thesis by blast
qed

text \<open>A machine template whose status holds a capacity map, and value types for the rest.\<close>

definition plain_foreign :: ForeignTypes where
  "plain_foreign =
     \<lparr>TypeMeta_type = load_basic, APIEndpoint_type = load_basic, MachineAddress_type = load_basic,
      LocalObjectReference_type = load_basic, ObjectMeta_type = load_basic, ListMeta_type = load_basic,
      Condition_type = load_basic, CapiFailureDomain_type = load_basic, Quantity_type = load_ptr load_basic,
      ObjectMeta_copy = copy_value, ListMeta_copy = copy_value, Condition_copy = copy_value,
      CapiFailureDomain_copy = copy_value, Quantity_copy = copy_ptr copy_value\<rparr>"

definition capacity_heap :: go_heap where
  "capacity_heap =
     [Cell (Basic (GoInt 4)), Table [(GoString ''cpu'', Pointer 0)], Cell (Struct [(''Capacity'', MapRef 1)])]"

theorem deep_copies_share_nothing_witness:
  "AlibabaCloudMachineTemplateStatus_DeepCopy plain_foreign (Pointer 2) capacity_heap
     = (Pointer 5, capacity_heap @ [Cell (Basic (GoInt 4)), Table [(GoString ''cpu'', Pointer 3)],
         Cell (Struct [(''Capacity'', MapRef 4)])])
   \<and> load_ptr (AlibabaCloudMachineTemplateStatus_type plain_foreign)
       ((capacity_heap @ [Cell (Basic (GoInt 4)), Table [(GoString ''cpu'', Pointer 3)],
         Cell (Struct [(''Capacity'', MapRef 4)])])[3 := Cell (Basic (GoInt 8))]) (Pointer 2)
     = Some (PointerTree (StructTree [(''Capacity'', MapTree [(GoString ''cpu'', PointerTree (BasicTree (GoInt 4)))])]),
         [2, 1, 0])"
proof -
  let ?T = "AlibabaCloudMachineTemplateStatus_type plain_foreign"
  let ?copy = "AlibabaCloudMachineTemplateStatus_DeepCopy plain_foreign"
  let ?t = "PointerTree (StructTree [(''Capacity'', MapTree [(GoString ''cpu'', PointerTree (BasicTree (GoInt 4)))])])"
  let ?h = "capacity_heap @ [Cell (Basic (GoInt 4)), Table [(GoString ''cpu'', Pointer 3)],
      Cell (Struct [(''Capacity'', MapRef 4)])]"
  have foreign: "foreign_copies plain_foreign"
    by (simp add: foreign_copies_def plain_foreign_def deep_copiers basic_type.value_type_axioms)
  have member: "(''AlibabaCloudMachineTemplateStatus'', ?T, ?copy) \<in> set (deepCopies plain_foreign)"
    by (simp add: deepCopies_def)
  have old: "load_ptr ?T capacity_heap (Pointer 2) = Some (?t, [2, 1, 0])" by code_simp
  have copied: "?copy (Pointer 2) capacity_heap = (Pointer 5, ?h)" by code_simp
  have new: "load_ptr ?T ?h (Pointer 5) = Some (?t, [5, 4, 3])" by code_simp
  from deep_copies_share_nothing [OF foreign member old copied] new
  have "load_ptr ?T (?h[3 := Cell (Basic (GoInt 8))]) (Pointer 2) = Some (?t, [2, 1, 0])" by auto
  with copied show ?thesis by blast
qed

end
