(* ===== verification/Schema_Pattern.thy ===== *)
theory Schema_Pattern
  imports Main
begin

text \<open>
  Regular expressions as the \<open>pattern\<close> keyword of an OpenAPI schema uses them, anchored at both
  ends, with an executable matcher by derivatives and its agreement with the language an
  expression denotes.  \<open>Schema\<close> writes the patterns of the custom resource definitions with it.
\<close>

section \<open>Expressions and what they denote\<close>

datatype pattern =
    Never
  | Empty
  | Chars "char list"
  | Seq pattern pattern
  | Or pattern pattern
  | Many pattern

text \<open>\<open>p?\<close> of the pattern syntax.\<close>

abbreviation Opt :: "pattern \<Rightarrow> pattern" where "Opt p \<equiv> Or Empty p"

inductive denotes :: "pattern \<Rightarrow> string \<Rightarrow> bool" where
  empty: "denotes Empty []"
| chars: "c \<in> set cs \<Longrightarrow> denotes (Chars cs) [c]"
| seq: "denotes p s \<Longrightarrow> denotes q t \<Longrightarrow> denotes (Seq p q) (s @ t)"
| left: "denotes p s \<Longrightarrow> denotes (Or p q) s"
| right: "denotes q s \<Longrightarrow> denotes (Or p q) s"
| stop: "denotes (Many p) []"
| more: "denotes p s \<Longrightarrow> denotes (Many p) t \<Longrightarrow> denotes (Many p) (s @ t)"

inductive_simps denotes_simps [simp]:
  "denotes Never s" "denotes Empty s" "denotes (Chars cs) s" "denotes (Seq p q) s" "denotes (Or p q) s"

section \<open>The matcher\<close>

fun nullable :: "pattern \<Rightarrow> bool" where
  "nullable Never = False"
| "nullable Empty = True"
| "nullable (Chars cs) = False"
| "nullable (Seq p q) = (nullable p \<and> nullable q)"
| "nullable (Or p q) = (nullable p \<or> nullable q)"
| "nullable (Many p) = True"

text \<open>Constructors that simplify, so that the derivatives of a pattern stay small.\<close>

definition seq_of :: "pattern \<Rightarrow> pattern \<Rightarrow> pattern" where
  "seq_of p q = (if p = Never \<or> q = Never then Never else if p = Empty then q else Seq p q)"

definition or_of :: "pattern \<Rightarrow> pattern \<Rightarrow> pattern" where
  "or_of p q = (if p = Never then q else if q = Never \<or> p = q then p else Or p q)"

fun after :: "char \<Rightarrow> pattern \<Rightarrow> pattern" where
  "after c Never = Never"
| "after c Empty = Never"
| "after c (Chars cs) = (if c \<in> set cs then Empty else Never)"
| "after c (Seq p q) =
     (if nullable p then or_of (seq_of (after c p) q) (after c q) else seq_of (after c p) q)"
| "after c (Or p q) = or_of (after c p) (after c q)"
| "after c (Many p) = seq_of (after c p) (Many p)"

fun matches :: "pattern \<Rightarrow> string \<Rightarrow> bool" where
  "matches p [] = nullable p"
| "matches p (c # s) = matches (after c p) s"

section \<open>The matcher decides the language\<close>

lemma nullable_denotes: "nullable p \<longleftrightarrow> denotes p []"
  by (induction p) (auto intro: denotes.stop)

lemma denotes_seq_of [simp]: "denotes (seq_of p q) s \<longleftrightarrow> denotes (Seq p q) s"
  by (auto simp: seq_of_def)

lemma denotes_or_of [simp]: "denotes (or_of p q) s \<longleftrightarrow> denotes (Or p q) s"
  by (auto simp: or_of_def)

text \<open>A non-empty string of \<open>p*\<close> starts with a non-empty string of \<open>p\<close>.\<close>

lemma denotes_Many_Cons:
  "denotes (Many p) (c # s) \<longleftrightarrow> (\<exists>u v. s = u @ v \<and> denotes p (c # u) \<and> denotes (Many p) v)"
proof
  show "\<exists>u v. s = u @ v \<and> denotes p (c # u) \<and> denotes (Many p) v" if "denotes (Many p) (c # s)"
    using that
  proof (induction "Many p" "c # s" arbitrary: s rule: denotes.induct)
    case (more u v)
    then show ?case by (cases u) auto
  qed
next
  assume "\<exists>u v. s = u @ v \<and> denotes p (c # u) \<and> denotes (Many p) v"
  then show "denotes (Many p) (c # s)" using denotes.more by fastforce
qed

lemma denotes_Seq_Cons:
  "denotes (Seq p q) (c # s) \<longleftrightarrow>
     (\<exists>u v. s = u @ v \<and> denotes p (c # u) \<and> denotes q v) \<or> denotes p [] \<and> denotes q (c # s)"
  by (auto simp: append_eq_Cons_conv Cons_eq_append_conv)

lemma denotes_after: "denotes (after c p) s \<longleftrightarrow> denotes p (c # s)"
proof (induction p arbitrary: s)
  case (Seq p q)
  then show ?case by (auto simp: denotes_Seq_Cons nullable_denotes simp del: denotes_simps(4))
    (auto simp: denotes_Seq_Cons)
next
  case (Many p)
  then show ?case by (simp add: denotes_Many_Cons)
qed auto

theorem matches_iff_denotes: "matches p s \<longleftrightarrow> denotes p s"
  by (induction s arbitrary: p) (simp_all add: nullable_denotes denotes_after)

end
