(* ===== verification/Schema.thy ===== *)
theory Schema
  imports Machine_Properties Cluster_Controller Control_Plane Schema_Pattern
begin

text \<open>
  The schema the API server validates every write against: the \<open>+kubebuilder:validation\<close> markers
  of \<open>api/v1beta1\<close> and the schema of conditions and addresses in the generated custom resource
  definitions (\<open>config/crd/bases\<close>).  An optional field that is empty is left out of the JSON, so
  its constraint only concerns a value that is set.  Messages are kept as formats with arguments, so
  their length is that of the text \<open>render\<close> makes of them, an argument of the schema.  Of a condition
  only the time of its last transition, which \<open>conditions.Set\<close> fills in, is left out.
\<close>

section \<open>Conditions and addresses\<close>

definition lowerChars :: "char list" where "lowerChars = ''abcdefghijklmnopqrstuvwxyz''"

definition upperChars :: "char list" where "upperChars = ''ABCDEFGHIJKLMNOPQRSTUVWXYZ''"

definition digitChars :: "char list" where "digitChars = ''0123456789''"

text \<open>\<open>^[A-Za-z]([A-Za-z0-9_,:]*[A-Za-z0-9_])?$\<close>\<close>

definition reasonPattern :: pattern where
  "reasonPattern =
     (let alnum = upperChars @ lowerChars @ digitChars
      in Seq (Chars (upperChars @ lowerChars))
           (Opt (Seq (Many (Chars (alnum @ ''_,:''))) (Chars (alnum @ ''_'')))))"

text \<open>
  \<open>^([a-z0-9]([-a-z0-9]*[a-z0-9])?(\.[a-z0-9]([-a-z0-9]*[a-z0-9])?)*/)?(([A-Za-z0-9][-A-Za-z0-9_.]*)?[A-Za-z0-9])$\<close>
\<close>

definition typePattern :: pattern where
  "typePattern =
     (let low = lowerChars @ digitChars;
          alnum = upperChars @ lowerChars @ digitChars;
          label = Seq (Chars low) (Opt (Seq (Many (Chars (CHR ''-'' # low))) (Chars low)))
      in Seq (Opt (Seq label (Seq (Many (Seq (Chars ''.'') label)) (Chars ''/''))))
           (Seq (Opt (Seq (Chars alnum) (Many (Chars (CHR ''-'' # alnum @ ''_.''))))) (Chars alnum)))"

definition reason_valid :: "string \<Rightarrow> bool" where
  "reason_valid s \<longleftrightarrow> 1 \<le> length s \<and> length s \<le> 1024 \<and> matches reasonPattern s"

definition type_valid :: "string \<Rightarrow> bool" where
  "type_valid s \<longleftrightarrow> length s \<le> 316 \<and> matches typePattern s"

definition condition_form :: "Condition \<Rightarrow> bool" where
  "condition_form c \<longleftrightarrow>
     type_valid (c_Type c) \<and> c_Status c \<in> {''True'', ''False'', ''Unknown''} \<and> reason_valid (c_Reason c)"

text \<open>The number of characters of a UTF-8 text: its bytes but those that continue a character.\<close>

definition character_count :: "string \<Rightarrow> nat" where
  "character_count s = length (filter (\<lambda>c. (of_char c :: nat) < 128 \<or> 192 \<le> (of_char c :: nat)) s)"

definition message_valid :: "(gotext \<Rightarrow> string) \<Rightarrow> Condition \<Rightarrow> bool" where
  "message_valid render c \<longleftrightarrow> character_count (render (c_Message c)) \<le> 32768"

definition condition_valid :: "(gotext \<Rightarrow> string) \<Rightarrow> Condition \<Rightarrow> bool" where
  "condition_valid render c \<longleftrightarrow> condition_form c \<and> message_valid render c"

text \<open>The conditions of an object: every item of the list.\<close>

definition conditions_valid :: "(gotext \<Rightarrow> string) \<Rightarrow> Condition list \<Rightarrow> bool" where
  "conditions_valid render cs \<longleftrightarrow> list_all (condition_valid render) cs"

lemma conditions_valid_iff:
  "conditions_valid render cs \<longleftrightarrow> list_all condition_form cs \<and> list_all (message_valid render) cs"
  by (auto simp: conditions_valid_def condition_valid_def list_all_iff)

definition address_valid :: "MachineAddress \<Rightarrow> bool" where
  "address_valid a \<longleftrightarrow>
     1 \<le> length (ma_Address a) \<and> length (ma_Address a) \<le> 256
     \<and> ma_Type a \<in> {''Hostname'', ''ExternalIP'', ''InternalIP'', ''ExternalDNS'', ''InternalDNS''}"

section \<open>Machines\<close>

definition performanceLevel_valid :: "string \<Rightarrow> bool" where
  "performanceLevel_valid s \<longleftrightarrow> s = [] \<or> s \<in> {''PL0'', ''PL1'', ''PL2'', ''PL3''}"

definition systemDisk_valid :: "SystemDisk \<Rightarrow> bool" where
  "systemDisk_valid d \<longleftrightarrow> 20 \<le> sd_Size d \<and> performanceLevel_valid (sd_PerformanceLevel d)"

definition dataDisk_valid :: "DataDisk \<Rightarrow> bool" where
  "dataDisk_valid d \<longleftrightarrow> 20 \<le> dd_Size d \<and> performanceLevel_valid (dd_PerformanceLevel d)"

definition tag_valid :: "Tag \<Rightarrow> bool" where
  "tag_valid t \<longleftrightarrow> 1 \<le> length (t_Key t)"

definition metadataOptions_valid :: "MetadataOptions \<Rightarrow> bool" where
  "metadataOptions_valid mo \<longleftrightarrow>
     mo_HttpEndpoint mo \<in> {[], ''enabled'', ''disabled''}
     \<and> mo_HttpTokens mo \<in> {[], ''optional'', ''required''}
     \<and> mo_HttpTokensAfterBoot mo \<in> {[], ''optional'', ''required''}
     \<and> 0 \<le> mo_HttpPutResponseHopLimit mo \<and> mo_HttpPutResponseHopLimit mo \<le> 64"

definition machineSpec_valid :: "AlibabaCloudMachineSpec \<Rightarrow> bool" where
  "machineSpec_valid s \<longleftrightarrow>
     (case ms_SystemDisk s of None \<Rightarrow> True | Some d \<Rightarrow> systemDisk_valid d)
     \<and> list_all dataDisk_valid (go_slice (ms_DataDisks s))
     \<and> ms_SpotStrategy s \<in> {[], ''NoSpot'', ''SpotWithPriceLimit'', ''SpotAsPriceGo''}
     \<and> list_all tag_valid (ms_Tags s)
     \<and> (case ms_MetadataOptions s of None \<Rightarrow> True | Some mo \<Rightarrow> metadataOptions_valid mo)"

definition machine_valid :: "(gotext \<Rightarrow> string) \<Rightarrow> AlibabaCloudMachine \<Rightarrow> bool" where
  "machine_valid render m \<longleftrightarrow>
     machineSpec_valid (m_Spec m) \<and> conditions_valid render (mst_Conditions (m_Status m))
     \<and> list_all address_valid (mst_Addresses (m_Status m))"

text \<open>The same but for the messages.\<close>

definition machine_form :: "AlibabaCloudMachine \<Rightarrow> bool" where
  "machine_form m \<longleftrightarrow>
     machineSpec_valid (m_Spec m) \<and> list_all condition_form (mst_Conditions (m_Status m))
     \<and> list_all address_valid (mst_Addresses (m_Status m))"

lemma machine_valid_iff:
  "machine_valid render m \<longleftrightarrow> machine_form m \<and> list_all (message_valid render) (mst_Conditions (m_Status m))"
  by (auto simp: machine_valid_def machine_form_def conditions_valid_iff)

section \<open>Clusters\<close>

definition endpoint_valid :: "APIEndpoint \<Rightarrow> bool" where
  "endpoint_valid ep \<longleftrightarrow> length (ep_Host ep) \<le> 512 \<and> 0 \<le> ep_Port ep \<and> ep_Port ep \<le> 65535"

definition ignitionStorage_valid :: "IgnitionStorageSpec \<Rightarrow> bool" where
  "ignitionStorage_valid s \<longleftrightarrow>
     (is_ExpirySeconds s = 0 \<or> 60 \<le> is_ExpirySeconds s)
     \<and> (is_MaxUserDataBytes s = 0 \<or> 1024 \<le> is_MaxUserDataBytes s)"

definition clusterSpec_valid :: "AlibabaCloudClusterSpec \<Rightarrow> bool" where
  "clusterSpec_valid s \<longleftrightarrow>
     list_all tag_valid (cs_AdditionalTags s) \<and> endpoint_valid (cs_ControlPlaneEndpoint s)
     \<and> (case cs_IgnitionStorage s of None \<Rightarrow> True | Some st \<Rightarrow> ignitionStorage_valid st)"

definition failureDomain_valid :: "CapiFailureDomain \<Rightarrow> bool" where
  "failureDomain_valid fd \<longleftrightarrow> 1 \<le> length (cfd_Name fd) \<and> length (cfd_Name fd) \<le> 256"

definition cluster_valid :: "(gotext \<Rightarrow> string) \<Rightarrow> AlibabaCloudCluster \<Rightarrow> bool" where
  "cluster_valid render ac \<longleftrightarrow>
     clusterSpec_valid (ac_Spec ac) \<and> conditions_valid render (cst_Conditions (ac_Status ac))
     \<and> endpoint_valid (cst_ControlPlaneEndpoint (ac_Status ac))
     \<and> list_all failureDomain_valid (cst_FailureDomains (ac_Status ac))"

definition cluster_form :: "AlibabaCloudCluster \<Rightarrow> bool" where
  "cluster_form ac \<longleftrightarrow>
     clusterSpec_valid (ac_Spec ac) \<and> list_all condition_form (cst_Conditions (ac_Status ac))
     \<and> endpoint_valid (cst_ControlPlaneEndpoint (ac_Status ac))
     \<and> list_all failureDomain_valid (cst_FailureDomains (ac_Status ac))"

lemma cluster_valid_iff:
  "cluster_valid render ac \<longleftrightarrow> cluster_form ac \<and> list_all (message_valid render) (cst_Conditions (ac_Status ac))"
  by (auto simp: cluster_valid_def cluster_form_def conditions_valid_iff)

section \<open>Setting a condition\<close>

lemma conditions_form_set:
  assumes "capi_util_laws U" and "list_all condition_form cs" and "condition_form c"
  shows "list_all condition_form (conditions_Set U c cs)"
proof -
  have "c_Reason c \<noteq> []" using assms(3) by (auto simp: condition_form_def reason_valid_def)
  from capi_util_laws.set_only [OF assms(1) this, of cs] assms(2,3) show ?thesis by (auto simp: list_all_iff)
qed

text \<open>Messages that are short enough wherever a condition was written.\<close>

definition short_messages :: "(gotext \<Rightarrow> string) \<Rightarrow> Condition list \<Rightarrow> Condition list \<Rightarrow> bool" where
  "short_messages render old new \<longleftrightarrow> (\<forall>c \<in> set new - set old. message_valid render c)"

lemma short_messages_valid:
  "short_messages render old new \<Longrightarrow> list_all (message_valid render) old \<Longrightarrow> list_all (message_valid render) new"
  by (auto simp: short_messages_def list_all_iff)

text \<open>The reasons and types the three controllers write, checked against the patterns.\<close>

definition written_reasons :: "string list" where
  "written_reasons = terminal_reasons @
     [''ClusterInfrastructureNotReady'', ''WaitingForBootstrapData'', ''FailureDomainError'',
      ''AlibabaClientError'', ''InstanceReconcileError'', ''Deleting'', ''AlibabaCloudMachineReady'',
      ''VPCReconcileError'', ''ControlPlaneEndpointError'', ''ControlPlaneEndpointMissing'',
      ''AlibabaCloudClusterReady'', NodesAwaitingCloudProviderReason, CloudControllerManagerHealthyReason,
      MultipleCAPICoresConflictReason, ReusingHostedCAPICoreReason, BundledCAPICoreReason,
      ''ExternalControlPlaneAdopted'', ''UnsupportedMode'']"

lemma written_reasons_valid: "list_all reason_valid written_reasons"
  by code_simp

lemma written_types_valid:
  "list_all type_valid [ReadyCondition, CloudControllerManagerReadyCondition, ClusterAPICoreReadyCondition]"
  by code_simp

lemma written_condition_form:
  assumes "c_Reason c \<in> set written_reasons" and "c_Status c \<in> {ConditionTrue, ConditionFalse}"
    and "c_Type c \<in> {ReadyCondition, CloudControllerManagerReadyCondition, ClusterAPICoreReadyCondition}"
  shows "condition_form c"
  using assms written_reasons_valid written_types_valid
  by (auto simp: condition_form_def list_all_iff ConditionTrue_def ConditionFalse_def)

lemma ready_condition_form:
  "reason \<in> set written_reasons \<Longrightarrow> condition_form (notReady reason msg)"
  "reason \<in> set written_reasons \<Longrightarrow> condition_form (isReady reason)"
  by (rule written_condition_form; simp add: notReady_def isReady_def)+

section \<open>The machine controller keeps the schema\<close>

text \<open>No two of the spec fields a reconcile writes carry a constraint.\<close>

lemma machineSpec_valid_writes [simp]:
  "machineSpec_valid (s\<lparr>ms_ProviderID := p\<rparr>) = machineSpec_valid s"
  "machineSpec_valid (s\<lparr>ms_RegionID := rg\<rparr>) = machineSpec_valid s"
  "machineSpec_valid (s\<lparr>ms_ZoneID := z\<rparr>) = machineSpec_valid s"
  "machineSpec_valid (s\<lparr>ms_VSwitchID := v\<rparr>) = machineSpec_valid s"
  by (simp_all add: machineSpec_valid_def)

lemma machine_form_cong:
  "machineSpec_valid (m_Spec m') = machineSpec_valid (m_Spec m) \<Longrightarrow>
   mst_Conditions (m_Status m') = mst_Conditions (m_Status m) \<Longrightarrow>
   mst_Addresses (m_Status m') = mst_Addresses (m_Status m) \<Longrightarrow> machine_form m' = machine_form m"
  by (simp add: machine_form_def)

lemma machine_form_steps [simp]:
  "machine_form (addFinalizer U m) = machine_form m" "machine_form (dropFinalizer U m) = machine_form m"
  "machine_form (healInstanceID m) = machine_form m" "machine_form (withRegion rg m) = machine_form m"
  "machine_form (healProviderID cluster i m) = machine_form m"
  "machine_form (recordInstance rg i m) = machine_form m"
  "machine_form (m\<lparr>m_Status := (m_Status m)\<lparr>mst_Ready := b, mst_Initialization := ini\<rparr>\<rparr>) = machine_form m"
  "machine_form (m\<lparr>m_Status := (m_Status m)\<lparr>mst_InstanceState := st\<rparr>\<rparr>) = machine_form m"
  "machine_form (m\<lparr>m_Status := (m_Status m)\<lparr>mst_FailureReason := fr, mst_FailureMessage := fm,
     mst_Ready := b\<rparr>\<rparr>) = machine_form m"
  by (rule machine_form_cong;
      simp add: healInstanceID_def withRegion_def healProviderID_def recordInstance_def)+

lemma machine_form_set_condition:
  assumes "capi_util_laws U" and "condition_form c" and "machine_form m"
  shows "machine_form (machine_set_condition U c m)"
  using assms conditions_form_set [OF assms(1) _ assms(2)]
  by (simp add: machine_form_def machine_set_condition_def machine_GetConditions_def)

lemma machine_form_resolve:
  "resolveFailureDomain machine cluster m = (e, m') \<Longrightarrow> machine_form m' = machine_form m"
  by (rule machine_form_cong)
    (auto simp: resolveFailureDomain_def Let_def split: if_splits option.splits)

lemma machine_form_offload:
  "maybeOffloadUserData c cluster m rg ud w = (r, m', w') \<Longrightarrow> machine_form m' = machine_form m"
  by (rule machine_form_cong)
    (auto simp: maybeOffloadUserData_def Let_def split: option.splits if_splits sum.splits prod.splits)

lemma machine_form_harden:
  "maybeHardenMetadata c mc m i w = (m', w') \<Longrightarrow> machine_form m' = machine_form m"
  by (rule machine_form_cong)
    (auto simp: maybeHardenMetadata_def Let_def split: option.splits if_splits prod.splits)

lemma machine_form_create:
  assumes "createInstance K c machine cluster m w = (e, m', w')"
  shows "machine_form m' = machine_form m"
  using assms
  by (cases rule: createInstance_cases) (auto dest: machine_form_offload)

text \<open>What the cloud reports of an instance fits the address schema.\<close>

definition short_answers :: "'w MachineReconciler \<Rightarrow> 'w \<Rightarrow> bool" where
  "short_answers r w \<longleftrightarrow>
     (\<forall>rg c i d w'. r_ClientBuilder r rg w = Inr c \<longrightarrow> DescribeInstanceByID c i w = (Inr (Some d), w') \<longrightarrow>
        length (id_HostName d) \<le> 256 \<and> list_all (\<lambda>a. length a \<le> 256) (id_InnerIpAddress d)
        \<and> list_all (\<lambda>a. length a \<le> 256) (id_PublicIpAddress d))"

lemma instanceAddresses_valid:
  assumes "length (ii_HostName info) \<le> 256" "length (ii_PrivateIP info) \<le> 256" "length (ii_PublicIP info) \<le> 256"
  shows "list_all address_valid (instanceAddresses info)"
  using assms
  by (simp add: instanceAddresses_def address_valid_def MachineInternalDNS_def MachineInternalIP_def
      MachineExternalIP_def Suc_le_eq)

lemma described_addresses_valid:
  assumes "short_answers r w" and "r_ClientBuilder r rg w = Inr c"
    and "describeInstance c i w = (Inr (Some info), w')"
  shows "list_all address_valid (instanceAddresses info)"
proof (rule instanceAddresses_valid)
  from assms(3) obtain d where d: "DescribeInstanceByID c i w = (Inr (Some d), w')"
    "ii_HostName info = id_HostName d" "ii_PrivateIP info = firstIP (id_InnerIpAddress d)"
    "ii_PublicIP info = firstIP (id_PublicIpAddress d)"
    by (auto simp: describeInstance_def split: prod.splits sum.splits option.splits)
  from assms(1,2) d(1) have "length (id_HostName d) \<le> 256" "list_all (\<lambda>a. length a \<le> 256) (id_InnerIpAddress d)"
    "list_all (\<lambda>a. length a \<le> 256) (id_PublicIpAddress d)" unfolding short_answers_def by blast+
  with d show "length (ii_HostName info) \<le> 256" "length (ii_PrivateIP info) \<le> 256"
    "length (ii_PublicIP info) \<le> 256" by (auto simp: firstIP_def split: list.splits)
qed

lemma machine_form_sync:
  "list_all address_valid (instanceAddresses info) \<Longrightarrow> machine_form m \<Longrightarrow>
   machine_form (syncInstanceStatus info m)"
  by (simp add: machine_form_def syncInstanceStatus_def)

lemma machine_form_findOrCreate:
  assumes "findOrCreateInstance K c machine cluster m w = (ri, m', w')" and "machine_form m"
    and addresses: "\<And>i info w'. describeInstance c i w = (Inr (Some info), w') \<Longrightarrow>
      list_all address_valid (instanceAddresses info)"
  shows "machine_form m'"
  using assms(1)
proof (cases rule: findOrCreateInstance_cases)
  case (running i info w1)
  with machine_form_harden [OF running(6)] machine_form_sync [OF addresses [OF running(3)]] assms(2)
  show ?thesis by simp
next
  case (terminal i info)
  with machine_form_sync [OF addresses [OF terminal(3)]] assms(2) show ?thesis by simp
next
  case (waiting i info)
  with machine_form_sync [OF addresses [OF waiting(3)]] assms(2) show ?thesis by simp
qed (use assms(2) in \<open>auto dest: machine_form_create\<close>)

lemma machine_form_normal:
  assumes U: "capi_util_laws (r_Util r)" and plain: "plain_errors r" and short: "short_answers r w"
    and valid: "machine_form m" and run: "reconcileNormal r machine cluster m w = (out, m', w')"
  shows "machine_form m'"
proof -
  note set = machine_form_set_condition [OF U ready_condition_form(1)]
  show ?thesis
    using run
  proof (cases rule: reconcileNormal_cases)
    case (reached m1 c ri m2)
    have m1: "machine_form m1" using machine_form_resolve [OF reached(3)] valid by simp
    have m2: "machine_form m2"
      by (rule machine_form_findOrCreate [OF reached(5) m1]) (rule described_addresses_valid [OF short reached(4)])
    have secrets: "plain e" if "GetSecret (r_Kube r) k w = Inl e" for k w e
      using plain that unfolding plain_errors_def by blast
    have "plain_client c" using plain reached(4) unfolding plain_errors_def by blast
    then have "reason \<in> set terminal_reasons" if "ri = Inl err" "asTerminalError err = Some (reason, msg)" for err reason msg
      using findOrCreateInstance_classified [OF reached(5) [unfolded that(1)] _ secrets] that(2)
      by (simp add: classified_def)
    then have "reason \<in> set written_reasons" if "ri = Inl err" "asTerminalError err = Some (reason, msg)" for err reason msg
      using that by (auto simp: written_reasons_def)
    moreover have "''InstanceReconcileError'' \<in> set written_reasons" "''AlibabaCloudMachineReady'' \<in> set written_reasons"
      by (simp_all add: written_reasons_def)
    ultimately show ?thesis
      using reached(6) m2 set machine_form_set_condition [OF U ready_condition_form(2)]
      by (auto simp: setFailed_def markReady_def Let_def split: sum.splits option.splits)
  next
    case (noDomain err m1)
    with set machine_form_resolve [OF noDomain(1)] valid show ?thesis by (simp add: written_reasons_def)
  next
    case (noClient err m1)
    with set machine_form_resolve [OF noClient(1)] valid show ?thesis by (simp add: written_reasons_def)
  qed (use set valid in \<open>simp_all add: written_reasons_def\<close>)
qed

lemma machine_form_delete:
  assumes U: "capi_util_laws (r_Util r)" and valid: "machine_form m"
    and run: "reconcileDelete r m w = (out, m', w')"
  shows "machine_form m'"
proof -
  have sweep: "machine_form m'" if "sweepAndRelease (r_Util r) c rg (healInstanceID m) v = (out, m', w')" for c rg v
    using that by (cases rule: sweepAndRelease_cases) (use valid in simp_all)
  have "''Deleting'' \<in> set written_reasons" by (simp add: written_reasons_def)
  then have "machine_form m'" if "deletePresent (r_Util r) c i info (healInstanceID m) v = (out, m', w')" for c i info v
    using that valid machine_form_set_condition [OF U ready_condition_form(1)]
    by (auto simp: deletePresent_def Let_def split: if_splits prod.splits option.splits)
  with run sweep valid show ?thesis by (cases rule: reconcileDelete_cases) auto
qed

text \<open>
  C24.  The controller writes objects of the right form: a reconcile, on every path and in every
  branch of deletion, takes a machine that fits the schema of its custom resource definition to one
  that fits it - the enumerations and bounds of the spec, type, status, reason and message of every
  condition, and the addresses - provided the host names and addresses the cloud reports are no
  longer than the schema allows, and so are the messages of the conditions the pass writes, which may
  quote an error of the cloud and which the code does not cut.
\<close>

theorem machine_reconcile_keeps_schema:
  assumes "capi_util_laws (r_Util r)" and "plain_errors r" and "short_answers r w"
    and "machine_valid render m" and "reconcileFetched r m w = (out, m', w')"
    and "short_messages render (mst_Conditions (m_Status m)) (mst_Conditions (m_Status m'))"
  shows "machine_valid render m'"
proof -
  have form: "machine_form m" and old: "list_all (message_valid render) (mst_Conditions (m_Status m))"
    using assms(4) by (simp_all add: machine_valid_iff)
  have "machine_form m'"
    using assms(5)
  proof (cases rule: reconcileFetched_cases)
    case deleting
    from machine_form_delete [OF assms(1) form deleting(2)] show ?thesis .
  next
    case (normal machine cluster)
    from machine_form_normal [OF assms(1-3) form normal(3)] show ?thesis .
  qed (use form in simp)
  with short_messages_valid [OF assms(6) old] show ?thesis by (simp add: machine_valid_iff)
qed

section \<open>The other controllers keep the schema\<close>

lemma cluster_form_set_condition:
  assumes "capi_util_laws U" and "condition_form c" and "cluster_form ac"
  shows "cluster_form (cluster_set_condition U c ac)"
  using assms conditions_form_set [OF assms(1) _ assms(2)]
  by (simp add: cluster_form_def cluster_set_condition_def cluster_GetConditions_def)

lemma cluster_form_status [simp]:
  "cluster_form (ac\<lparr>ac_Meta := meta\<rparr>) = cluster_form ac"
  "cluster_form (ac\<lparr>ac_Status := (ac_Status ac)\<lparr>cst_Ready := b, cst_Initialization := i\<rparr>\<rparr>) = cluster_form ac"
  by (simp_all add: cluster_form_def)

lemma cluster_form_steps:
  assumes "cluster_form ac"
  shows "reconcileVPC ac = (e, ac') \<Longrightarrow> cluster_form ac'"
    and "reconcileControlPlaneEndpoint ac = (e, ac') \<Longrightarrow> cluster_form ac'"
    and "list_all (\<lambda>fd. 1 \<le> length (fd_ZoneID fd) \<and> length (fd_ZoneID fd) \<le> 256) (cs_FailureDomains (ac_Spec ac)) \<Longrightarrow>
      reconcileFailureDomains ac = (e, ac') \<Longrightarrow> cluster_form ac'"
  using assms
  by (auto simp: cluster_form_def clusterSpec_valid_def reconcileVPC_def reconcileControlPlaneEndpoint_def
      reconcileFailureDomains_def list_all_iff failureDomain_valid_def split: if_splits)

lemma check_conditions_form:
  "condition_form (ccmCondition r stuck)"
  "st \<in> {ConditionTrue, ConditionFalse} \<Longrightarrow>
   rs \<in> {MultipleCAPICoresConflictReason, ReusingHostedCAPICoreReason, BundledCAPICoreReason} \<Longrightarrow>
   condition_form \<lparr>c_Type = ClusterAPICoreReadyCondition, c_Status = st, c_Reason = rs, c_Message = msg\<rparr>"
  by (rule written_condition_form; auto simp: ccmCondition_def written_reasons_def)+

lemma cluster_form_checks:
  assumes U: "capi_util_laws (cr_Util r)" and valid: "cluster_form ac"
  shows "checkCloudControllerManager r ac w = (ac', w') \<Longrightarrow> cluster_form ac'"
    and "checkClusterAPICore r ac w = (ac', w') \<Longrightarrow> cluster_form ac'"
  using cluster_form_set_condition [OF U check_conditions_form(1) valid]
    cluster_form_set_condition [OF U check_conditions_form(2) valid] valid
  by (auto simp: checkCloudControllerManager_def checkClusterAPICore_def Let_def
      split: sum.splits if_splits CAPICoreMode.splits)

lemma cluster_form_normal:
  assumes U: "capi_util_laws (cr_Util r)" and valid: "cluster_form ac"
    and zones: "list_all (\<lambda>fd. 1 \<le> length (fd_ZoneID fd) \<and> length (fd_ZoneID fd) \<le> 256)
      (cs_FailureDomains (ac_Spec ac))"
    and run: "cluster_reconcileNormal r ac w = (out, ac', w')"
  shows "cluster_form ac'"
proof -
  let ?a0 = "ac\<lparr>ac_Meta := (ac_Meta ac)\<lparr>om_Finalizers :=
    AddFinalizer (cr_Util r) ClusterFinalizer (om_Finalizers (ac_Meta ac))\<rparr>\<rparr>"
  obtain e1 a1 where s1: "reconcileFailureDomains ?a0 = (e1, a1)" by fastforce
  obtain e2 a2 where s2: "reconcileVPC a1 = (e2, a2)" by fastforce
  obtain e3 a3 where s3: "reconcileControlPlaneEndpoint a2 = (e3, a3)" by fastforce
  obtain a4 w4 where s4: "checkCloudControllerManager r a3 w = (a4, w4)" by fastforce
  obtain a5 w5 where s5: "checkClusterAPICore r a4 w4 = (a5, w5)" by fastforce
  have v1: "cluster_form a1" by (rule cluster_form_steps(3) [OF _ _ s1]) (use valid zones in simp_all)
  have v2: "cluster_form a2" by (rule cluster_form_steps(1) [OF v1 s2])
  have v3: "cluster_form a3" by (rule cluster_form_steps(2) [OF v2 s3])
  have v5: "cluster_form a5" by (rule cluster_form_checks(2) [OF U cluster_form_checks(1) [OF U v3 s4] s5])
  have set: "cluster_form (cluster_set_condition (cr_Util r) (notReady reason msg) a)"
    if "reason \<in> set written_reasons" "cluster_form a" for reason msg a
    by (rule cluster_form_set_condition [OF U ready_condition_form(1) [OF that(1)] that(2)])
  have ready: "cluster_form (cluster_set_condition (cr_Util r) (isReady ''AlibabaCloudClusterReady'') a5)"
    by (rule cluster_form_set_condition [OF U ready_condition_form(2) v5]) (simp add: written_reasons_def)
  have none: "e1 = None" "e2 = None" "e3 = None"
    using s1 s2 s3
    by (auto simp: reconcileFailureDomains_def reconcileVPC_def reconcileControlPlaneEndpoint_def split: if_splits)
  show ?thesis
  proof (cases "cr_ClientBuilder r (cs_Region (ac_Spec ac)) w")
    case (Inl err)
    with run set [of "''AlibabaClientError''" ?a0 "Error err"] valid show ?thesis
      by (auto simp: cluster_reconcileNormal_def Let_def written_reasons_def)
  next
    case (Inr c)
    with run have "ac' = (if ep_Host (cst_ControlPlaneEndpoint (ac_Status a3)) = []
        then cluster_set_condition (cr_Util r) endpointMissing a3
        else let a6 = cluster_set_condition (cr_Util r) (isReady ''AlibabaCloudClusterReady'') a5
             in a6\<lparr>ac_Status := (ac_Status a6)\<lparr>cst_Ready := True, cst_Initialization := Some (Some True)\<rparr>\<rparr>)"
      by (auto simp: cluster_reconcileNormal_def Let_def s1 s2 s3 s4 s5 none split: if_splits)
    with set [of "''ControlPlaneEndpointMissing''" a3] v3 ready show ?thesis
      by (auto simp: endpointMissing_def written_reasons_def Let_def)
  qed
qed

text \<open>
  The cluster and the control plane, likewise: every object their passes hand to the patch helper
  fits the schema if the one read does and the messages written are short enough.
\<close>

theorem cluster_reconcile_keeps_schema:
  assumes "capi_util_laws (cr_Util r)" and "cluster_valid render ac"
    and "list_all (\<lambda>fd. 1 \<le> length (fd_ZoneID fd) \<and> length (fd_ZoneID fd) \<le> 256)
      (cs_FailureDomains (ac_Spec ac))"
    and "(out, ac', w') \<in> {cluster_reconcileNormal r ac w, cluster_reconcileDelete r ac w}"
    and "short_messages render (cst_Conditions (ac_Status ac)) (cst_Conditions (ac_Status ac'))"
  shows "cluster_valid render ac'"
proof -
  have form: "cluster_form ac" and old: "list_all (message_valid render) (cst_Conditions (ac_Status ac))"
    using assms(2) by (simp_all add: cluster_valid_iff)
  have "cluster_form ac'" if "cluster_reconcileDelete r ac w = (out, ac', w')"
    using that form
    by (auto simp: cluster_reconcileDelete_def deleteSLB_def deleteVPC_def Let_def split: if_splits option.splits)
  moreover have "cluster_form ac'" if "cluster_reconcileNormal r ac w = (out, ac', w')"
    by (rule cluster_form_normal [OF assms(1) form assms(3) that])
  ultimately have "cluster_form ac'" using assms(4) by (metis insertE singletonD)
  with short_messages_valid [OF assms(5) old] show ?thesis by (simp add: cluster_valid_iff)
qed

theorem controlPlane_reconcile_keeps_schema:
  assumes "capi_util_laws U" and "conditions_valid render (cpst_Conditions (cpl_Status cp))"
    and "short_messages render (cpst_Conditions (cpl_Status cp)) (cpst_Conditions (cpl_Status (reconcileMode U cp)))"
  shows "conditions_valid render (cpst_Conditions (cpl_Status (reconcileMode U cp)))"
proof -
  have old: "list_all condition_form (cpst_Conditions (cpl_Status cp))"
    "list_all (message_valid render) (cpst_Conditions (cpl_Status cp))"
    using assms(2) by (simp_all add: conditions_valid_iff)
  have "condition_form (isReady ''ExternalControlPlaneAdopted'')" "condition_form (notReady ''UnsupportedMode'' msg)" for msg
    by (rule ready_condition_form; simp add: written_reasons_def)+
  with conditions_form_set [OF assms(1) old(1)]
  have "list_all condition_form (cpst_Conditions (cpl_Status (reconcileMode U cp)))"
    by (auto simp: reconcileMode_def reconcileExternal_def controlPlane_set_condition_def)
  with short_messages_valid [OF assms(3) old(2)] show ?thesis by (simp add: conditions_valid_iff)
qed

section \<open>Witnesses\<close>

lemma sim_describes:
  assumes "DescribeInstanceByID (sim_client rg) i w = (Inr (Some d), w')"
  shows "\<exists>x \<in> set (sim_insts_of w). id_HostName d = ei_HostName (ci_Inst x)
    \<and> id_InnerIpAddress d = ei_InnerIpAddress (ci_Inst x) \<and> id_PublicIpAddress d = ei_PublicIpAddress (ci_Inst x)"
proof -
  let ?q = "\<lparr>dir_RegionId = [], dir_InstanceIds = ''[\"'' @ i @ ''\"]'', dir_Tag = []\<rparr>"
  have call: "retryThrottled op (ecs_DescribeInstances (sim_ecs rg) q) w
      = (Inr (sim_list rg q (cloud w)), ObserveCloudAPI op None (w\<lparr>cloud := cloud w\<rparr>))" for op q
    by (rule retryThrottled_success) (simp add: sim_ecs_def)
  from assms obtain y ys where y: "sim_list rg ?q (cloud w) = y # ys" "id_HostName d = ei_HostName y"
    "id_InnerIpAddress d = ei_InnerIpAddress y" "id_PublicIpAddress d = ei_PublicIpAddress y"
    by (auto simp: sim_client_def alibabacloudClient_def alibabacloudClient_DescribeInstanceByID_def call Let_def
        split: list.splits)
  then have "y \<in> set (sim_list rg ?q (cloud w))" by simp
  then obtain x where "x \<in> set (sim_insts_of w)" "y = ci_Inst x" by (auto simp: sim_list_def)
  with y show ?thesis by auto
qed

lemma sim_short_answers:
  "short_answers sim_reconciler (sim_world [sim_instance i st])"
  by (auto simp: short_answers_def sim_reconciler_def sim_world_def sim_acct_def sim_instance_def
      dest!: sim_describes split: if_splits)

text \<open>A rendering for the witness: the format, with the arguments after it.\<close>

fun plain_render :: "gotext \<Rightarrow> string" where
  "plain_render (Lit s) = s"
| "plain_render (Num n) = itoa n"
| "plain_render (Texts ts) = concat (map plain_render ts)"
| "plain_render (Sprintf f args) = f @ concat (map plain_render args)"

theorem machine_reconcile_keeps_schema_witness:
  "\<exists>m'. fst (snd (reconcileFetched sim_reconciler joined_machine (sim_world [sim_instance ''i-9'' ''Stopped''])))
     = m' \<and> mst_Addresses (m_Status m') \<noteq> [] \<and> mst_FailureReason (m_Status m') \<noteq> None \<and> machine_valid plain_render m'"
proof -
  let ?w = "sim_world [sim_instance ''i-9'' ''Stopped'']"
  let ?run = "reconcileFetched sim_reconciler joined_machine ?w"
  obtain out m' w' where run: "?run = (out, m', w')" by (metis prod.exhaust)
  have "mst_Addresses (m_Status (fst (snd ?run))) \<noteq> []" "mst_FailureReason (m_Status (fst (snd ?run))) \<noteq> None"
    by code_simp+
  moreover have "list_all (message_valid plain_render) (mst_Conditions (m_Status (fst (snd ?run))))" by code_simp
  then have "short_messages plain_render cs (mst_Conditions (m_Status m'))" for cs
    using run by (simp add: short_messages_def list_all_iff)
  moreover have "capi_util_laws (r_Util sim_reconciler)"
    using std_capi.capi_util_laws_axioms by (simp add: sim_reconciler_def)
  moreover have "machine_valid plain_render joined_machine" by code_simp
  ultimately show ?thesis
    using machine_reconcile_keeps_schema [OF _ sim_plain_errors sim_short_answers _ run] run by auto
qed

text \<open>The patterns do exclude something: an error code of the cloud would not be a valid reason.\<close>

lemma error_code_no_reason: "\<not> reason_valid ''OperationDenied.NoStock''"
  by code_simp

end
