(* ===== verification/Ignition_Store.thy ===== *)
theory Ignition_Store
  imports Schema
begin

text \<open>
  The offload of \<open>alibabacloudmachine_controller.go\<close> through the OSS client of \<open>oss.go\<close>: what is
  put, what is signed and for how long, and what the clean-up removes.
\<close>

text \<open>The largest number of seconds a \<open>time.Duration\<close> of nanoseconds holds.\<close>

definition maxDurationSeconds :: int where "maxDurationSeconds = 9223372036"

definition signedSeconds :: "IgnitionStorageSpec \<Rightarrow> int" where
  "signedSeconds store = (if is_ExpirySeconds store = 0 then 3600 else is_ExpirySeconds store)"

lemma wrap64_seconds:
  assumes "0 \<le> n" and "n \<le> maxDurationSeconds"
  shows "wrap64 (n * 1000000000) = n * 1000000000"
  by (rule wrap64_id) (use assms in \<open>simp_all add: maxDurationSeconds_def\<close>)

lemma signed_expiry:
  assumes "ignitionStorage_valid store" and "is_ExpirySeconds store \<le> maxDurationSeconds"
  shows "(let e = wrap64 (is_ExpirySeconds store * 1000000000)
          in int64_of_float (Duration_Seconds (if e \<le> 0 then hour else e))) = signedSeconds store"
proof -
  have e: "is_ExpirySeconds store = 0 \<or> 60 \<le> is_ExpirySeconds store"
    using assms(1) by (auto simp: ignitionStorage_valid_def)
  then have "wrap64 (is_ExpirySeconds store * 1000000000) = is_ExpirySeconds store * 1000000000"
    using assms(2) by (intro wrap64_seconds) auto
  moreover have "int64_of_float (Duration_Seconds (3600 * 1000000000)) = 3600"
    by (rule Duration_Seconds_whole) simp_all
  moreover have "int64_of_float (Duration_Seconds (is_ExpirySeconds store * 1000000000)) = is_ExpirySeconds store"
    by (rule Duration_Seconds_whole) (use e assms(2) in \<open>auto simp: maxDurationSeconds_def\<close>)
  ultimately show ?thesis using e by (auto simp: signedSeconds_def hour_def Let_def)
qed

text \<open>A successful upload is one put and one signature with the same client, bucket and key.\<close>

lemma put_object_cases:
  assumes "alibabacloudClient_PutIgnitionObject oss getenv
      \<lparr>ip_Bucket = b, ip_Endpoint = ep, ip_RegionID = region, ip_Key = k, ip_Data = d, ip_Expiry = e\<rparr> w = (Inr url, w')"
  obtains h c1 where "newOSSClient oss getenv ep region w = Inr h"
    and "oss_Bucket oss h b (cloud w) = None"
    and "oss_PutObject oss h b k d (cloud w) = (None, c1)"
    and "oss_SignURL oss h b k ''GET'' (int64_of_float (Duration_Seconds (if e \<le> 0 then hour else e))) c1 = Inr url"
    and "w' = w\<lparr>cloud := c1\<rparr>"
  using assms that
  by (auto simp: alibabacloudClient_PutIgnitionObject_def Let_def split: sum.splits option.splits prod.splits if_splits)

text \<open>
  C21.  The offload end to end: a payload above the threshold is put byte for byte under the
  machine's key, the URL in the pointer the instance boots with is signed for reading exactly
  that object and, if the configured number of seconds fits a \<open>time.Duration\<close> (about 292 years), for
  exactly that number (an hour if none is set), and the clean-up with the same credentials deletes
  that very object.
\<close>

theorem offload_signs_and_cleans_object:
  assumes "maybeOffloadUserData (alibabacloudClient ecs oss getenv) cluster m region ud w = (Inr ud', m', w')"
    and "userDataThreshold cluster < int (length ud)"
    and "cs_IgnitionStorage (ac_Spec cluster) = Some store" and "ignitionStorage_valid store"
    and "is_ExpirySeconds store \<le> maxDurationSeconds"
  shows "\<exists>h raw url. newOSSClient oss getenv (is_OSSEndpoint store) region w = Inr h
    \<and> base64_Decode ud = Some raw
    \<and> oss_PutObject oss h (is_OSSBucket store) (ignitionObjectKey cluster m) raw (cloud w) = (None, cloud w')
    \<and> oss_SignURL oss h (is_OSSBucket store) (ignitionObjectKey cluster m) ''GET'' (signedSeconds store) (cloud w')
        = Inr url
    \<and> base64_Decode ud' = Some (buildIgnitionPointer url raw)
    \<and> (newOSSClient oss getenv (is_OSSEndpoint store) region v = Inr h \<longrightarrow>
       oss_Bucket oss h (is_OSSBucket store) (cloud v) = None \<longrightarrow>
       cloud (cleanupOffloadedIgnition (alibabacloudClient ecs oss getenv) region m' v)
         = snd (oss_DeleteObject oss h (is_OSSBucket store) (ignitionObjectKey cluster m) (cloud v)))"
proof -
  let ?key = "ignitionObjectKey cluster m" and ?e = "wrap64 (is_ExpirySeconds store * 1000000000)"
  from assms(1-3) obtain raw url where raw: "base64_Decode ud = Some raw"
    and ud': "ud' = base64_Encode (buildIgnitionPointer url raw)"
    and put: "alibabacloudClient_PutIgnitionObject oss getenv
       \<lparr>ip_Bucket = is_OSSBucket store, ip_Endpoint = is_OSSEndpoint store, ip_RegionID = region,
        ip_Key = ?key, ip_Data = raw, ip_Expiry = ?e\<rparr> w = (Inr url, w')"
    and m': "m' = m\<lparr>m_Status := (m_Status m)\<lparr>mst_IgnitionOSS :=
       Some \<lparr>ior_Bucket = is_OSSBucket store, ior_Endpoint = is_OSSEndpoint store, ior_Key = ?key\<rparr>\<rparr>\<rparr>"
    by (auto simp: maybeOffloadUserData_def alibabacloudClient_def Let_def
        split: if_splits option.splits sum.splits prod.splits)
  from put obtain h c1 where h: "newOSSClient oss getenv (is_OSSEndpoint store) region w = Inr h"
    and stored: "oss_PutObject oss h (is_OSSBucket store) ?key raw (cloud w) = (None, c1)"
    and signed: "oss_SignURL oss h (is_OSSBucket store) ?key ''GET''
      (int64_of_float (Duration_Seconds (if ?e \<le> 0 then hour else ?e))) c1 = Inr url" and w': "w' = w\<lparr>cloud := c1\<rparr>"
    by (rule put_object_cases)
  have "cloud (cleanupOffloadedIgnition (alibabacloudClient ecs oss getenv) region m' v)
      = snd (oss_DeleteObject oss h (is_OSSBucket store) ?key (cloud v))"
    if "newOSSClient oss getenv (is_OSSEndpoint store) region v = Inr h"
      "oss_Bucket oss h (is_OSSBucket store) (cloud v) = None"
    using that m' by (auto simp: cleanupOffloadedIgnition_def alibabacloudClient_def
        alibabacloudClient_DeleteIgnitionObject_def Let_def split: prod.splits option.splits)
  with h raw stored signed [unfolded signed_expiry [OF assms(4,5), unfolded Let_def]] ud' w' base64_roundtrip
  show ?thesis by (intro exI [of _ h] exI [of _ raw] exI [of _ url]) simp
qed

text \<open>An object store as a list of bucket, key and contents, and a payload above the limit.\<close>

definition store_oss :: "((string \<times> string) \<times> string) list OssSdk" where
  "store_oss =
     \<lparr>oss_New = (\<lambda>h c. None), oss_Bucket = (\<lambda>h b c. None),
      oss_PutObject = (\<lambda>h b k d c. (None, ((b, k), d) # c)),
      oss_SignURL = (\<lambda>h b k m n c. Inr (''https://'' @ b @ ''/'' @ k @ ''?Expires='' @ itoa n)),
      oss_DeleteObject = (\<lambda>h b k c. (None, filter (\<lambda>x. fst x \<noteq> (b, k)) c))\<rparr>"

definition store_world :: "((string \<times> string) \<times> string) list World" where
  "store_world =
     \<lparr>metrics = \<lparr>CloudAPIRequests = (\<lambda>_. 0), CloudAPIRequestDuration = (\<lambda>_. 0),
                CloudAPIThrottleRetries = (\<lambda>_. 0), InstanceOps = (\<lambda>_. 0)\<rparr>,
      sleeps = [], rands = (\<lambda>_. 7), rand_pos = 0, cloud = []\<rparr>"

definition store_cluster :: AlibabaCloudCluster where
  "store_cluster = ign_cluster\<lparr>ac_Spec := (ac_Spec ign_cluster)\<lparr>cs_IgnitionStorage :=
     Some \<lparr>is_OSSBucket = ''b'', is_OSSEndpoint = [], is_ExpirySeconds = 60, is_MaxUserDataBytes = 1024\<rparr>\<rparr>\<rparr>"

definition store_payload :: string where "store_payload = replicate 1000 CHR ''a''"

lemma store_calls:
  "oss_Bucket store_oss h b c = None" "oss_PutObject store_oss h b k d c = (None, ((b, k), d) # c)"
  "oss_SignURL store_oss h b k g n c = Inr (''https://'' @ b @ ''/'' @ k @ ''?Expires='' @ itoa n)"
  "oss_DeleteObject store_oss h b k c = (None, filter (\<lambda>x. fst x \<noteq> (b, k)) c)" "cloud store_world = []"
  by (simp_all add: store_oss_def store_world_def)

lemma store_big: "userDataThreshold store_cluster < int (length (base64_Encode store_payload))"
  unfolding length_base64_Encode by (simp add: userDataThreshold_def store_cluster_def store_payload_def)

lemma store_handle:
  "newOSSClient store_oss sim_env ep region w = Inr (ossEndpointFor ep region, ''ak'', ''sk'')"
  by (simp add: newOSSClient_def accessKeyID_def accessKeySecret_def sim_env_def store_oss_def)

lemma store_offload:
  "\<exists>ud' m' w'. maybeOffloadUserData (alibabacloudClient ecs store_oss sim_env) store_cluster (blank_machine ''w'')
     ''r'' (base64_Encode store_payload) store_world = (Inr ud', m', w')"
proof -
  let ?c = "alibabacloudClient ecs store_oss sim_env"
  let ?p = "\<lparr>ip_Bucket = ''b'', ip_Endpoint = [], ip_RegionID = ''r'',
     ip_Key = ignitionObjectKey store_cluster (blank_machine ''w''), ip_Data = store_payload,
     ip_Expiry = wrap64 (60 * 1000000000)\<rparr>"
  have store: "cs_IgnitionStorage (ac_Spec store_cluster) = Some \<lparr>is_OSSBucket = ''b'', is_OSSEndpoint = [],
      is_ExpirySeconds = 60, is_MaxUserDataBytes = 1024\<rparr>" by (simp add: store_cluster_def)
  have "\<exists>url w1. PutIgnitionObject ?c ?p store_world = (Inr url, w1)"
    by (simp add: alibabacloudClient_def alibabacloudClient_PutIgnitionObject_def store_handle store_calls)
  then obtain url w1 where put: "PutIgnitionObject ?c ?p store_world = (Inr url, w1)" by blast
  show ?thesis
    using maybeOffloadUserData_encoded [OF store_big store, of ?c "''r''" "blank_machine ''w''" store_world
        "Inr url" w1] put by simp
qed

theorem offload_signs_and_cleans_object_witness:
  "\<forall>ecs. \<exists>ud' m' w'. maybeOffloadUserData (alibabacloudClient ecs store_oss sim_env) store_cluster
       (blank_machine ''w'') ''r'' (base64_Encode store_payload) store_world = (Inr ud', m', w')
     \<and> cloud w' = [((''b'', ''capi-ignition/c/ns/w.ign''), store_payload)]
     \<and> base64_Decode ud' = Some (buildIgnitionPointer ''https://b/capi-ignition/c/ns/w.ign?Expires=60'' store_payload)
     \<and> cloud (cleanupOffloadedIgnition (alibabacloudClient ecs store_oss sim_env) ''r'' m' w') = []"
proof
  fix ecs
  let ?m = "blank_machine ''w''"
  obtain ud' m' w' where run: "maybeOffloadUserData (alibabacloudClient ecs store_oss sim_env) store_cluster ?m ''r''
      (base64_Encode store_payload) store_world = (Inr ud', m', w')" using store_offload by blast
  have store: "cs_IgnitionStorage (ac_Spec store_cluster) = Some \<lparr>is_OSSBucket = ''b'', is_OSSEndpoint = [],
      is_ExpirySeconds = 60, is_MaxUserDataBytes = 1024\<rparr>" by (simp add: store_cluster_def)
  have key: "ignitionObjectKey store_cluster ?m = ''capi-ignition/c/ns/w.ign''"
    by (simp add: ignitionObjectKey_def store_cluster_def ign_cluster_def blank_defs)
  have sixty: "itoa 60 = ''60''" by code_simp
  from offload_signs_and_cleans_object [OF run store_big store, of w'] show "\<exists>ud' m' w'.
      maybeOffloadUserData (alibabacloudClient ecs store_oss sim_env) store_cluster ?m ''r''
        (base64_Encode store_payload) store_world = (Inr ud', m', w')
     \<and> cloud w' = [((''b'', ''capi-ignition/c/ns/w.ign''), store_payload)]
     \<and> base64_Decode ud' = Some (buildIgnitionPointer ''https://b/capi-ignition/c/ns/w.ign?Expires=60'' store_payload)
     \<and> cloud (cleanupOffloadedIgnition (alibabacloudClient ecs store_oss sim_env) ''r'' m' w') = []"
    by (intro exI [of _ ud'] exI [of _ m'] exI [of _ w'])
      (simp add: run key sixty store_handle store_calls base64_roundtrip ignitionStorage_valid_def
        maxDurationSeconds_def signedSeconds_def, auto dest: sym)
qed

text \<open>
  One second above that bound the product of seconds and nanoseconds wraps around to a negative
  duration, and the request is signed for an hour instead.
\<close>

theorem expiry_wraps:
  "(let e = wrap64 ((maxDurationSeconds + 1) * 1000000000) 
    in int64_of_float (Duration_Seconds (if e \<le> 0 then hour else e))) = 3600"
  by code_simp

end
