(* ===== verification/Client_Builder.thy ===== *)
theory Client_Builder
  imports Oss_Client "HOL-Library.Multiset"
begin

text \<open>
  How a cloud client is put together: the Apsara overrides of \<open>pkg/client/apsara.go\<close>,
  \<open>NewCAPIClient\<close> of \<open>capi.go\<close>, and \<open>NewClient\<close> of \<open>client.go\<close> with the credentials it reads from a
  secret.  The constructors of the SDK, its endpoint table, temporary files and the profile
  provider are parameters.  Go ranges over a map in an unspecified order: the order is an
  argument, and the locale \<open>endpoint_table\<close> is what makes the result independent of it.
\<close>

section \<open>Requests and transports\<close>

text \<open>\<open>textproto.CanonicalMIMEHeaderKey\<close>, which \<open>http.Header.Set\<close> applies to its key.\<close>

definition toUpper :: "char \<Rightarrow> char" where
  "toUpper c = (if 97 \<le> (of_char c :: nat) \<and> (of_char c :: nat) \<le> 122
                then char_of ((of_char c :: nat) - 32) else c)"

definition toLower :: "char \<Rightarrow> char" where
  "toLower c = (if 65 \<le> (of_char c :: nat) \<and> (of_char c :: nat) \<le> 90
                then char_of ((of_char c :: nat) + 32) else c)"

definition validHeaderFieldByte :: "char \<Rightarrow> bool" where
  "validHeaderFieldByte c \<longleftrightarrow> isDigit c \<or> isLetter c \<or> c \<in> set (''!#$%&*+-.^_|~'' @ [CHR 0x27, CHR 0x60])"

fun canonical_loop :: "bool \<Rightarrow> string \<Rightarrow> string" where
  "canonical_loop upper [] = []"
| "canonical_loop upper (c # cs) =
     (if upper then toUpper c else toLower c) # canonical_loop (c = CHR ''-'') cs"

definition CanonicalMIMEHeaderKey :: "string \<Rightarrow> string" where
  "CanonicalMIMEHeaderKey s = (if list_all validHeaderFieldByte s then canonical_loop True s else s)"

type_synonym http_Header = "(string \<times> string list) list"

definition Header_Set :: "string \<Rightarrow> string \<Rightarrow> http_Header \<Rightarrow> http_Header" where
  "Header_Set k v h =
     (CanonicalMIMEHeaderKey k, [v]) # filter (\<lambda>(j, _). j \<noteq> CanonicalMIMEHeaderKey k) h"

record http_Request =
  hr_URL :: string
  hr_Header :: http_Header

text \<open>Durations of the transport are in seconds.\<close>

record http_Transport =
  tr_DialTimeout :: int
  tr_DialKeepAlive :: int
  tr_DialDualStack :: bool
  tr_TLSHandshakeTimeout :: int
  tr_ResponseHeaderTimeout :: int
  tr_MaxIdleConns :: int
  tr_IdleConnTimeout :: int
  tr_ProxyFromEnvironment :: bool

record headerInjector =
  hi_base :: http_Transport
  hi_headers :: "(string \<times> string) list"

text \<open>The inner transport's \<open>RoundTrip\<close> is \<open>net/http\<close>'s: the argument \<open>trip\<close>.\<close>

definition headerInjector_RoundTrip ::
  "(http_Transport \<Rightarrow> http_Request \<Rightarrow> 'w \<Rightarrow> 'res \<times> 'w) \<Rightarrow> headerInjector \<Rightarrow> http_Request \<Rightarrow> 'w
     \<Rightarrow> 'res \<times> 'w" where
  "headerInjector_RoundTrip trip h req w =
     (let r = fold (\<lambda>(k, v) r. r\<lparr>hr_Header := Header_Set k v (hr_Header r)\<rparr>) (hi_headers h) req
      in trip (hi_base h) r w)"

definition apsaraTransport :: "(string \<times> string) list \<Rightarrow> headerInjector" where
  "apsaraTransport headers =
     \<lparr>hi_base = \<lparr>tr_DialTimeout = 30, tr_DialKeepAlive = 30, tr_DialDualStack = True,
                 tr_TLSHandshakeTimeout = 10, tr_ResponseHeaderTimeout = 60, tr_MaxIdleConns = 100,
                 tr_IdleConnTimeout = 90, tr_ProxyFromEnvironment = True\<rparr>,
      hi_headers = headers\<rparr>"

section \<open>Apsara overrides\<close>

record sdk_Config =
  cfg_UserAgent :: string
  cfg_Scheme :: string
  cfg_AutoRetry :: bool
  cfg_MaxRetryTime :: int
  cfg_Transport :: "headerInjector option"

definition envApsaraScheme :: string where "envApsaraScheme = ''ALIBABA_CLOUD_SCHEME''"

definition envApsaraOrganization :: string where
  "envApsaraOrganization = ''ALIBABA_CLOUD_ORGANIZATION_ID''"

definition envApsaraResourceGroup :: string where
  "envApsaraResourceGroup = ''ALIBABA_CLOUD_RESOURCE_GROUP_ID''"

definition envApsaraCallerSource :: string where
  "envApsaraCallerSource = ''ALIBABA_CLOUD_CALLER_SDK_SOURCE''"

definition apsaraEndpointEnv :: "(string \<times> string) list" where
  "apsaraEndpointEnv =
     [(''Ecs'', ''ALIBABA_CLOUD_ENDPOINT_ECS''), (''Vpc'', ''ALIBABA_CLOUD_ENDPOINT_VPC''),
      (''Slb'', ''ALIBABA_CLOUD_ENDPOINT_SLB''),
      (''ResourceManager'', ''ALIBABA_CLOUD_ENDPOINT_RESOURCEMANAGER'')]"

text \<open>The first loop: the result says whether a mapping was added.\<close>

fun mapEndpoints ::
  "(string \<Rightarrow> string \<Rightarrow> string \<Rightarrow> 'c \<Rightarrow> go_error option \<times> 'c) \<Rightarrow> (string \<Rightarrow> string) \<Rightarrow> string
     \<Rightarrow> (string \<times> string) list \<Rightarrow> 'c \<Rightarrow> bool \<times> 'c" where
  "mapEndpoints add getenv regionID [] c = (False, c)"
| "mapEndpoints add getenv regionID ((product, env) # rest) c =
     (let ep = firstNonEmptyFrom getenv [env]
      in if ep = [] then mapEndpoints add getenv regionID rest c
         else case add regionID product ep c of
                (Some err, c1) \<Rightarrow> mapEndpoints add getenv regionID rest c1
              | (None, c1) \<Rightarrow> (True, snd (mapEndpoints add getenv regionID rest c1)))"

definition apsaraHeaders :: "(string \<Rightarrow> string) \<Rightarrow> string \<Rightarrow> (string \<times> string) list" where
  "apsaraHeaders getenv regionID =
     (let org = firstNonEmptyFrom getenv [envApsaraOrganization];
          rg = firstNonEmptyFrom getenv [envApsaraResourceGroup];
          src = firstNonEmptyFrom getenv [envApsaraCallerSource];
          headers = (if org \<noteq> [] then [(''x-acs-organizationid'', org)] else [])
                  @ (if rg \<noteq> [] then [(''x-acs-resourcegroupid'', rg)] else [])
      in if headers \<noteq> []
         then headers @ [(''x-acs-regionid'', regionID)]
                @ (if src \<noteq> [] then [(''x-acs-caller-sdk-source'', src)] else [])
         else [])"

definition applyApsaraOverrides ::
  "(string \<Rightarrow> string \<Rightarrow> string \<Rightarrow> 'c \<Rightarrow> go_error option \<times> 'c) \<Rightarrow> (string \<Rightarrow> string)
     \<Rightarrow> (string \<times> string) list \<Rightarrow> sdk_Config \<Rightarrow> string \<Rightarrow> 'c \<Rightarrow> bool \<times> sdk_Config \<times> 'c" where
  "applyApsaraOverrides add getenv order cfg regionID c =
     (let (mapped, c1) = mapEndpoints add getenv regionID order c;
          scheme = firstNonEmptyFrom getenv [envApsaraScheme];
          cfg1 = (if scheme \<noteq> [] then cfg\<lparr>cfg_Scheme := scheme\<rparr> else cfg);
          headers = apsaraHeaders getenv regionID;
          cfg2 = (if headers \<noteq> [] then cfg1\<lparr>cfg_Transport := Some (apsaraTransport headers)\<rparr> else cfg1)
      in (mapped \<or> scheme \<noteq> [] \<or> headers \<noteq> [], cfg2, c1))"

section \<open>The constructors\<close>

text \<open>
  The SDK's constructors, one per service, for credentials \<open>'k\<close>; a service client is whatever
  the constructor returns.
\<close>

record ('k, 'e, 'v, 's, 'r, 'c) SdkFactory =
  sdk_AddEndpointMapping :: "string \<Rightarrow> string \<Rightarrow> string \<Rightarrow> 'c \<Rightarrow> go_error option \<times> 'c"
  ecs_NewClientWithOptions :: "string \<Rightarrow> sdk_Config \<Rightarrow> 'k \<Rightarrow> 'c \<Rightarrow> go_error + 'e"
  vpc_NewClientWithOptions :: "string \<Rightarrow> sdk_Config \<Rightarrow> 'k \<Rightarrow> 'c \<Rightarrow> go_error + 'v"
  slb_NewClientWithOptions :: "string \<Rightarrow> sdk_Config \<Rightarrow> 'k \<Rightarrow> 'c \<Rightarrow> go_error + 's"
  rm_NewClientWithOptions :: "string \<Rightarrow> sdk_Config \<Rightarrow> 'k \<Rightarrow> 'c \<Rightarrow> go_error + 'r"

record ('e, 'v, 's, 'r) alibabacloudClients =
  ecsClient :: 'e
  vpcClient :: 'v
  slbClient :: 's
  rmClient :: 'r

definition machineProviderUserAgent :: "string \<Rightarrow> string" where
  "machineProviderUserAgent version = ''openshift.io cluster-api-provider-alibaba:'' @ version"

definition newVPCClient ::
  "('k, 'e, 'v, 's, 'r, 'c) SdkFactory \<Rightarrow> string \<Rightarrow> sdk_Config \<Rightarrow> 'k \<Rightarrow> 'c \<Rightarrow> go_error + 'v" where
  "newVPCClient S regionID cfg cred c =
     (case vpc_NewClientWithOptions S regionID cfg cred c of
        Inl err \<Rightarrow> Inl (Wrap ''failed to create VPC client: %w'' [] err)
      | Inr v \<Rightarrow> Inr v)"

definition newSLBClient ::
  "('k, 'e, 'v, 's, 'r, 'c) SdkFactory \<Rightarrow> string \<Rightarrow> sdk_Config \<Rightarrow> 'k \<Rightarrow> 'c \<Rightarrow> go_error + 's" where
  "newSLBClient S regionID cfg cred c =
     (case slb_NewClientWithOptions S regionID cfg cred c of
        Inl err \<Rightarrow> Inl (Wrap ''failed to create SLB client: %w'' [] err)
      | Inr v \<Rightarrow> Inr v)"

definition newRMClient ::
  "('k, 'e, 'v, 's, 'r, 'c) SdkFactory \<Rightarrow> string \<Rightarrow> sdk_Config \<Rightarrow> 'k \<Rightarrow> 'c \<Rightarrow> go_error + 'r" where
  "newRMClient S regionID cfg cred c =
     (case rm_NewClientWithOptions S regionID cfg cred c of
        Inl err \<Rightarrow> Inl (Wrap ''failed to create ResourceManager client: %w'' [] err)
      | Inr v \<Rightarrow> Inr v)"

definition capiConfig :: "string \<Rightarrow> sdk_Config" where
  "capiConfig version =
     \<lparr>cfg_UserAgent = machineProviderUserAgent version, cfg_Scheme = ''HTTPS'',
      cfg_AutoRetry = True, cfg_MaxRetryTime = 3, cfg_Transport = None\<rparr>"

definition NewCAPIClient ::
  "(credential, 'e, 'v, 's, 'r, 'c) SdkFactory \<Rightarrow> (string \<Rightarrow> string) \<Rightarrow> (string \<times> string) list \<Rightarrow> string
     \<Rightarrow> string \<Rightarrow> 'c \<Rightarrow> (go_error + ('e, 'v, 's, 'r) alibabacloudClients) \<times> 'c" where
  "NewCAPIClient S getenv order version regionID c =
     (let (_, cfg, c1) = applyApsaraOverrides (sdk_AddEndpointMapping S) getenv order
                           (capiConfig version) regionID c;
          cred = resolveCredential getenv
      in (case ecs_NewClientWithOptions S regionID cfg cred c1 of
            Inl err \<Rightarrow> Inl (Wrap ''failed to create ECS client for region %s: %w'' [Lit regionID] err)
          | Inr e \<Rightarrow>
              (case newVPCClient S regionID cfg cred c1 of
                 Inl err \<Rightarrow> Inl err
               | Inr v \<Rightarrow>
                   (case newSLBClient S regionID cfg cred c1 of
                      Inl err \<Rightarrow> Inl err
                    | Inr s \<Rightarrow>
                        (case newRMClient S regionID cfg cred c1 of
                           Inl err \<Rightarrow> Inl err
                         | Inr r \<Rightarrow> Inr \<lparr>ecsClient = e, vpcClient = v, slbClient = s, rmClient = r\<rparr>))),
          c1))"

section \<open>Credentials from a secret\<close>

definition kubeCredentialCredentials :: string where "kubeCredentialCredentials = ''credentials''"

text \<open>
  The process state the function goes through: environment variables and files.  The
  name of the variable is a constant of the SDK, so it is a parameter, as are the creation of a
  temporary file, the outcome of writing it, and the profile provider, which reads both.
\<close>

record Process =
  ps_env :: "string \<rightharpoonup> string"
  ps_files :: "string \<rightharpoonup> string"

record 'k Os =
  os_TempFile :: "string \<Rightarrow> Process \<Rightarrow> go_error + string"
  os_Write :: "string \<Rightarrow> string \<Rightarrow> Process \<Rightarrow> go_error option"
  ENVCredentialFile :: string
  ProfileProvider_Resolve :: "string \<Rightarrow> Process \<Rightarrow> go_error + 'k"

definition fetchCredentialsIniFromSecret ::
  "'k Os \<Rightarrow> (string \<times> string) list \<Rightarrow> Process \<Rightarrow> (go_error + 'k) \<times> Process" where
  "fetchCredentialsIniFromSecret os data p =
     (case map_of data kubeCredentialCredentials of
        None \<Rightarrow> (Inl (Errorf ''failed to fetch key 'credentials' in secret data'' []), p)
      | Some creds \<Rightarrow>
          (case os_TempFile os ''alibaba-creds-*'' p of
             Inl err \<Rightarrow> (Inl err, p)
           | Inr name \<Rightarrow>
               (let p1 = p\<lparr>ps_files := (ps_files p)(name \<mapsto> [])\<rparr>
                in case os_Write os name creds p1 of
                     Some err \<Rightarrow> (Inl err, p1\<lparr>ps_files := (ps_files p1)(name := None)\<rparr>)
                   | None \<Rightarrow>
                       (let p2 = p1\<lparr>ps_files := (ps_files p1)(name \<mapsto> creds)\<rparr>;
                            p3 = p2\<lparr>ps_env := (ps_env p2)(ENVCredentialFile os \<mapsto> name)\<rparr>;
                            res = ProfileProvider_Resolve os ''default'' p3;
                            p4 = p3\<lparr>ps_env := (ps_env p3)(ENVCredentialFile os := None)\<rparr>
                        in (res, p4\<lparr>ps_files := (ps_files p4)(name := None)\<rparr>)))))"

definition getCredentialFromSecret ::
  "'k Os \<Rightarrow> (ObjectKey \<Rightarrow> go_error + (string \<times> string) list) \<Rightarrow> string \<Rightarrow> string \<Rightarrow> Process
     \<Rightarrow> (go_error + 'k) \<times> Process" where
  "getCredentialFromSecret os getSecret secretName namespace p =
     (if secretName = [] then (Inl (Errorf ''secret name is empty'' []), p)
      else case getSecret \<lparr>ok_Namespace = namespace, ok_Name = secretName\<rparr> of
             Inl err \<Rightarrow>
               (Inl (if IsNotFound err
                     then Wrap ''alibabacloud credentials secret %s/%s not found: %w''
                            [Lit namespace, Lit secretName] err
                     else err), p)
           | Inr data \<Rightarrow> fetchCredentialsIniFromSecret os data p)"

definition NewClient ::
  "('k, 'e, 'v, 's, 'r, 'c) SdkFactory \<Rightarrow> 'k Os \<Rightarrow> (ObjectKey \<Rightarrow> go_error + (string \<times> string) list)
     \<Rightarrow> string \<Rightarrow> string \<Rightarrow> string \<Rightarrow> string \<Rightarrow> 'c \<Rightarrow> Process
     \<Rightarrow> (go_error + ('e, 'v, 's, 'r) alibabacloudClients) \<times> Process" where
  "NewClient S os getSecret version secretName namespace regionID c p =
     (let (cr, p1) = getCredentialFromSecret os getSecret secretName namespace p
      in (case cr of
            Inl err \<Rightarrow> Inl err
          | Inr credential \<Rightarrow>
              (let cfg = \<lparr>cfg_UserAgent = machineProviderUserAgent version, cfg_Scheme = ''HTTPS'',
                          cfg_AutoRetry = False, cfg_MaxRetryTime = 0, cfg_Transport = None\<rparr>
               in case ecs_NewClientWithOptions S regionID cfg credential c of
                    Inl err \<Rightarrow> Inl err
                  | Inr e \<Rightarrow>
                      (case vpc_NewClientWithOptions S regionID cfg credential c of
                         Inl err \<Rightarrow> Inl err
                       | Inr v \<Rightarrow>
                           (case slb_NewClientWithOptions S regionID cfg credential c of
                              Inl err \<Rightarrow> Inl err
                            | Inr s \<Rightarrow>
                                (case rm_NewClientWithOptions S regionID cfg credential c of
                                   Inl err \<Rightarrow> Inl err
                                 | Inr r \<Rightarrow>
                                     Inr \<lparr>ecsClient = e, vpcClient = v, slbClient = s, rmClient = r\<rparr>)))),
          p1))"

section \<open>The endpoint table\<close>

text \<open>
  What the SDK documents: region and product are the key of a mapping, whatever their case; one that
  is accepted replaces the endpoint of its key and of nothing else, and one that is refused changes
  nothing.  Whether it is accepted depends on its arguments, not on the table.
\<close>

definition foldCase :: "string \<Rightarrow> string" where "foldCase s = map toLower s"

locale endpoint_table =
  fixes add :: "string \<Rightarrow> string \<Rightarrow> string \<Rightarrow> 'c \<Rightarrow> go_error option \<times> 'c"
    and endpoint :: "'c \<Rightarrow> string \<Rightarrow> string \<Rightarrow> string option"
    and accepts :: "string \<Rightarrow> string \<Rightarrow> string \<Rightarrow> bool"
  assumes verdict: "fst (add rg p ep c) = None \<longleftrightarrow> accepts rg p ep"
    and added: "add rg p ep c = (None, c') \<Longrightarrow>
      endpoint c' rg' p' = (if foldCase rg' = foldCase rg \<and> foldCase p' = foldCase p then Some ep else endpoint c rg' p')"
    and refused: "add rg p ep c = (Some e, c') \<Longrightarrow> endpoint c' = endpoint c"
begin

lemma add_lookup:
  "endpoint (snd (add rg p ep c)) rg' p' =
     (if accepts rg p ep \<and> foldCase rg' = foldCase rg \<and> foldCase p' = foldCase p then Some ep else endpoint c rg' p')"
proof (cases "add rg p ep c")
  case (Pair e c')
  with verdict [of rg p ep c] added [of rg p ep c c' rg' p'] refused [of rg p ep c _ c'] show ?thesis
    by (cases e) auto
qed

lemma mapEndpoints_step:
  "snd (mapEndpoints add getenv rg ((p, env) # rest) c) =
     snd (mapEndpoints add getenv rg rest (if getenv env = [] then c else snd (add rg p (getenv env) c)))"
  by (auto split: prod.splits option.splits)

lemma mapEndpoints_miss:
  assumes "foldCase rg' \<noteq> foldCase rg \<or> foldCase p \<notin> foldCase ` fst ` set order"
  shows "endpoint (snd (mapEndpoints add getenv rg order c)) rg' p = endpoint c rg' p"
  using assms
proof (induction order arbitrary: c)
  case (Cons pe rest)
  obtain p0 env where pe: "pe = (p0, env)" by fastforce
  show ?case unfolding pe mapEndpoints_step using Cons by (auto simp: pe add_lookup)
qed simp

lemma mapEndpoints_hit:
  assumes "distinct (map (foldCase \<circ> fst) order)" and "(q, env) \<in> set order"
    and "foldCase rg' = foldCase rg" "foldCase p = foldCase q"
  shows "endpoint (snd (mapEndpoints add getenv rg order c)) rg' p =
    (if getenv env \<noteq> [] \<and> accepts rg q (getenv env) then Some (getenv env) else endpoint c rg' p)"
  using assms(1,2)
proof (induction order arbitrary: c)
  case (Cons pe rest)
  obtain p0 env0 where pe: "pe = (p0, env0)" by fastforce
  show ?case
  proof (cases "pe = (q, env)")
    case True
    with Cons.prems have "foldCase p \<notin> foldCase ` fst ` set rest" using assms(4) by (auto simp: image_image)
    with True pe assms(3,4) show ?thesis
      unfolding pe mapEndpoints_step by (simp add: mapEndpoints_miss add_lookup)
  next
    case False
    with Cons.prems have mem: "(q, env) \<in> set rest" "distinct (map (foldCase \<circ> fst) rest)" by (auto simp: comp_def)
    with Cons.prems pe have "foldCase p \<noteq> foldCase p0" using assms(4) by (force simp: image_image)
    then show ?thesis unfolding pe mapEndpoints_step Cons.IH [OF mem(2,1)] by (simp add: add_lookup)
  qed
qed simp

end

text \<open>The table as a map, for concrete runs; it refuses a host with a blank.\<close>

type_synonym EndpointMap = "string \<times> string \<rightharpoonup> string"

definition map_accepts :: "string \<Rightarrow> string \<Rightarrow> string \<Rightarrow> bool" where
  "map_accepts rg p ep \<longleftrightarrow> CHR '' '' \<notin> set ep"

definition map_add_endpoint ::
  "string \<Rightarrow> string \<Rightarrow> string \<Rightarrow> EndpointMap \<Rightarrow> go_error option \<times> EndpointMap" where
  "map_add_endpoint rg p ep c =
     (if map_accepts rg p ep then (None, c((foldCase rg, foldCase p) \<mapsto> ep))
      else (Some (ForeignError (Lit ''bad endpoint'')), c))"

definition map_endpoint :: "EndpointMap \<Rightarrow> string \<Rightarrow> string \<Rightarrow> string option" where
  "map_endpoint c rg p = c (foldCase rg, foldCase p)"

interpretation map_table: endpoint_table map_add_endpoint map_endpoint map_accepts
  by unfold_locales (auto simp: map_add_endpoint_def map_endpoint_def split: if_splits)

lemma mapEndpoints_unset:
  "(\<forall>(p, env) \<in> set order. getenv env = []) \<Longrightarrow> mapEndpoints add getenv rg order c = (False, c)"
  by (induction order arbitrary: c) auto

section \<open>Headers\<close>

lemma Header_Set_lookup [simp]:
  "map_of (Header_Set k v h) j = (if j = CanonicalMIMEHeaderKey k then Some [v] else map_of h j)"
proof -
  have "map_of (filter (\<lambda>(i, _). i \<noteq> k') h) j = map_of h j" if "j \<noteq> k'" for k'
    using that by (induction h) auto
  then show ?thesis by (simp add: Header_Set_def)
qed

lemma inject_lookup:
  "map_of (hr_Header (fold (\<lambda>(k, v) r. r\<lparr>hr_Header := Header_Set k v (hr_Header r)\<rparr>) hs req)) j =
     (case map_of (rev (map (\<lambda>(k, v). (CanonicalMIMEHeaderKey k, v)) hs)) j of
        Some v \<Rightarrow> Some [v]
      | None \<Rightarrow> map_of (hr_Header req) j)"
  by (induction hs arbitrary: req) (auto simp: map_add_def split: option.splits)

lemma inject_URL:
  "hr_URL (fold (\<lambda>(k, v) r. r\<lparr>hr_Header := Header_Set k v (hr_Header r)\<rparr>) hs req) = hr_URL req"
  by (induction hs arbitrary: req) auto

lemma canonical_keys:
  "CanonicalMIMEHeaderKey ''x-acs-organizationid'' = ''X-Acs-Organizationid''"
  "CanonicalMIMEHeaderKey ''x-acs-resourcegroupid'' = ''X-Acs-Resourcegroupid''"
  "CanonicalMIMEHeaderKey ''x-acs-regionid'' = ''X-Acs-Regionid''"
  "CanonicalMIMEHeaderKey ''x-acs-caller-sdk-source'' = ''X-Acs-Caller-Sdk-Source''"
  by code_simp+

lemma order_lookup:
  assumes "mset order = mset apsaraEndpointEnv"
  shows "distinct (map (foldCase \<circ> fst) order)" "set order = set apsaraEndpointEnv"
proof -
  have "distinct (map (foldCase \<circ> fst) apsaraEndpointEnv)" by code_simp
  moreover have "mset (map (foldCase \<circ> fst) order) = mset (map (foldCase \<circ> fst) apsaraEndpointEnv)"
    using assms by (simp add: mset_map)
  ultimately show "distinct (map (foldCase \<circ> fst) order)" using mset_eq_imp_distinct_iff by blast
  show "set order = set apsaraEndpointEnv" using assms by (rule mset_eq_setD)
qed

section \<open>Properties\<close>

text \<open>The variables that turn an override on, and the configuration that should result.\<close>

definition apsaraVariables :: "string list" where
  "apsaraVariables =
     envApsaraScheme # envApsaraOrganization # envApsaraResourceGroup # map snd apsaraEndpointEnv"

definition expectedConfig :: "(string \<Rightarrow> string) \<Rightarrow> string \<Rightarrow> string \<Rightarrow> sdk_Config" where
  "expectedConfig getenv version regionID =
     \<lparr>cfg_UserAgent = ''openshift.io cluster-api-provider-alibaba:'' @ version,
      cfg_Scheme = (if getenv envApsaraScheme \<noteq> [] then getenv envApsaraScheme else ''HTTPS''),
      cfg_AutoRetry = True, cfg_MaxRetryTime = 3,
      cfg_Transport =
        (if getenv envApsaraOrganization = [] \<and> getenv envApsaraResourceGroup = [] then None
         else Some (apsaraTransport (apsaraHeaders getenv regionID)))\<rparr>"

lemma applyApsaraOverrides_config:
  "fst (snd (applyApsaraOverrides add getenv order (capiConfig version) rg c)) = expectedConfig getenv version rg"
  "snd (snd (applyApsaraOverrides add getenv order (capiConfig version) rg c))
     = snd (mapEndpoints add getenv rg order c)"
  by (simp_all add: applyApsaraOverrides_def expectedConfig_def apsaraHeaders_def capiConfig_def
      machineProviderUserAgent_def Let_def split_beta)

text \<open>
  C37.  What \<open>NewCAPIClient\<close> builds: it succeeds with exactly the four service clients the SDK makes
  for the region, one configuration and the resolved credential, and fails when one of the four
  constructors fails.  The configuration retries three times by itself, uses HTTPS unless the Apsara
  scheme is set, and has the header transport exactly if an organisation or a resource group is set.
  Every product whose variable is set and whose endpoint the SDK accepts resolves to it; one that is
  refused keeps the endpoint it had and does not stop the rest; no other entry of the table changes,
  whatever the order the map is ranged in.  With no Apsara variable set, nothing is overridden.
\<close>

theorem new_capi_client_exact:
  assumes "endpoint_table (sdk_AddEndpointMapping S) endpoint accepts"
    and "mset order = mset apsaraEndpointEnv"
    and "NewCAPIClient S getenv order version rg c = (res, c')"
  shows "(\<forall>cl. res = Inr cl \<longleftrightarrow>
        ecs_NewClientWithOptions S rg (expectedConfig getenv version rg) (resolveCredential getenv) c' = Inr (ecsClient cl)
        \<and> vpc_NewClientWithOptions S rg (expectedConfig getenv version rg) (resolveCredential getenv) c' = Inr (vpcClient cl)
        \<and> slb_NewClientWithOptions S rg (expectedConfig getenv version rg) (resolveCredential getenv) c' = Inr (slbClient cl)
        \<and> rm_NewClientWithOptions S rg (expectedConfig getenv version rg) (resolveCredential getenv) c' = Inr (rmClient cl))
    \<and> (\<forall>q env rg' p. (q, env) \<in> set apsaraEndpointEnv \<and> foldCase rg' = foldCase rg \<and> foldCase p = foldCase q \<longrightarrow>
         endpoint c' rg' p =
           (if getenv env \<noteq> [] \<and> accepts rg q (getenv env) then Some (getenv env) else endpoint c rg' p))
    \<and> (\<forall>rg' p. foldCase rg' \<noteq> foldCase rg \<or> foldCase p \<notin> foldCase ` fst ` set apsaraEndpointEnv \<longrightarrow>
         endpoint c' rg' p = endpoint c rg' p)
    \<and> ((\<forall>v \<in> set apsaraVariables. getenv v = []) \<longrightarrow>
         c' = c \<and> expectedConfig getenv version rg =
           \<lparr>cfg_UserAgent = ''openshift.io cluster-api-provider-alibaba:'' @ version, cfg_Scheme = ''HTTPS'',
            cfg_AutoRetry = True, cfg_MaxRetryTime = 3, cfg_Transport = None\<rparr>)"
proof -
  let ?cfg = "expectedConfig getenv version rg"
  have c': "c' = snd (mapEndpoints (sdk_AddEndpointMapping S) getenv rg order c)"
    using assms(3) by (auto simp: NewCAPIClient_def Let_def split_beta applyApsaraOverrides_config)
  have clients: "res = Inr cl \<longleftrightarrow>
        ecs_NewClientWithOptions S rg ?cfg (resolveCredential getenv) c' = Inr (ecsClient cl)
        \<and> vpc_NewClientWithOptions S rg ?cfg (resolveCredential getenv) c' = Inr (vpcClient cl)
        \<and> slb_NewClientWithOptions S rg ?cfg (resolveCredential getenv) c' = Inr (slbClient cl)
        \<and> rm_NewClientWithOptions S rg ?cfg (resolveCredential getenv) c' = Inr (rmClient cl)" for cl
    using assms(3)
    by (cases cl) (auto simp: NewCAPIClient_def Let_def split_beta applyApsaraOverrides_config
        newVPCClient_def newSLBClient_def newRMClient_def split: sum.splits)
  note order = order_lookup [OF assms(2)]
  have hit: "endpoint c' rg' p =
      (if getenv env \<noteq> [] \<and> accepts rg q (getenv env) then Some (getenv env) else endpoint c rg' p)"
    if "(q, env) \<in> set apsaraEndpointEnv \<and> foldCase rg' = foldCase rg \<and> foldCase p = foldCase q" for q env rg' p
    unfolding c' by (rule endpoint_table.mapEndpoints_hit [OF assms(1) order(1)]) (use that order(2) in auto)
  have miss: "endpoint c' rg' p = endpoint c rg' p"
    if "foldCase rg' \<noteq> foldCase rg \<or> foldCase p \<notin> foldCase ` fst ` set apsaraEndpointEnv" for rg' p
    unfolding c' by (rule endpoint_table.mapEndpoints_miss [OF assms(1)]) (use that order(2) in auto)
  have public: "c' = c \<and> ?cfg = \<lparr>cfg_UserAgent = ''openshift.io cluster-api-provider-alibaba:'' @ version,
      cfg_Scheme = ''HTTPS'', cfg_AutoRetry = True, cfg_MaxRetryTime = 3, cfg_Transport = None\<rparr>"
    if "\<forall>v \<in> set apsaraVariables. getenv v = []"
    using that mapEndpoints_unset [of order getenv "sdk_AddEndpointMapping S" rg c] order(2)
    by (auto simp: c' apsaraVariables_def expectedConfig_def split_beta)
  show ?thesis using clients hit miss public by blast
qed

text \<open>An SDK whose clients are the configuration they were made from, over the map as table.\<close>

definition echo_sdk ::
  "(credential, sdk_Config, sdk_Config, sdk_Config, sdk_Config, EndpointMap) SdkFactory" where
  "echo_sdk =
     \<lparr>sdk_AddEndpointMapping = map_add_endpoint,
      ecs_NewClientWithOptions = (\<lambda>rg cfg k c. Inr cfg), vpc_NewClientWithOptions = (\<lambda>rg cfg k c. Inr cfg),
      slb_NewClientWithOptions = (\<lambda>rg cfg k c. Inr cfg), rm_NewClientWithOptions = (\<lambda>rg cfg k c. Inr cfg)\<rparr>"

definition apsara_env :: "string \<Rightarrow> string" where
  "apsara_env v = (if v = ''ALIBABA_CLOUD_ENDPOINT_ECS'' then ''ecs.local''
                   else if v = ''ALIBABA_CLOUD_ENDPOINT_VPC'' then ''bad host''
                   else if v = ''ALIBABA_CLOUD_SCHEME'' then ''HTTP''
                   else if v = ''ALIBABA_CLOUD_ORGANIZATION_ID'' then ''org'' else [])"

theorem new_capi_client_exact_witness:
  "\<exists>cl c'. NewCAPIClient echo_sdk apsara_env apsaraEndpointEnv ''1'' ''env-1'' Map.empty = (Inr cl, c')
     \<and> cfg_Scheme (slbClient cl) = ''HTTP'' \<and> map_endpoint c' ''env-1'' ''Ecs'' = Some ''ecs.local''
     \<and> map_endpoint c' ''env-1'' ''Vpc'' = None"
proof -
  obtain res c' where run: "NewCAPIClient echo_sdk apsara_env apsaraEndpointEnv ''1'' ''env-1'' Map.empty = (res, c')"
    by (metis prod.exhaust)
  have table: "endpoint_table (sdk_AddEndpointMapping echo_sdk) map_endpoint map_accepts"
    using map_table.endpoint_table_axioms by (simp add: echo_sdk_def)
  let ?cfg = "expectedConfig apsara_env ''1'' ''env-1''"
  let ?cl = "\<lparr>ecsClient = ?cfg, vpcClient = ?cfg, slbClient = ?cfg, rmClient = ?cfg\<rparr>"
  note all = new_capi_client_exact [OF table refl run]
  have "res = Inr ?cl" using all [THEN conjunct1, rule_format, of ?cl] by (simp add: echo_sdk_def)
  moreover have "map_endpoint c' ''env-1'' ''Ecs'' = Some ''ecs.local''" "map_endpoint c' ''env-1'' ''Vpc'' = None"
    using all [THEN conjunct2, THEN conjunct1, rule_format, of "''Ecs''" "''ALIBABA_CLOUD_ENDPOINT_ECS''" "''env-1''" "''Ecs''"]
      all [THEN conjunct2, THEN conjunct1, rule_format, of "''Vpc''" "''ALIBABA_CLOUD_ENDPOINT_VPC''" "''env-1''" "''Vpc''"]
    by (simp_all add: apsaraEndpointEnv_def apsara_env_def map_accepts_def map_endpoint_def)
  moreover have "cfg_Scheme ?cfg = ''HTTP''"
    by (simp add: expectedConfig_def apsara_env_def envApsaraScheme_def)
  ultimately show ?thesis using run by auto
qed

text \<open>
  C38.  Behind the Apsara transport every request carries the caller's scope: the organisation and
  the resource group that are configured, and the region, under their canonical header names; a
  caller source if one is set; every other header and the URL are those of the request, and the
  inner transport has time-outs of its own.
\<close>

theorem apsara_headers_on_every_request:
  assumes "getenv envApsaraOrganization \<noteq> [] \<or> getenv envApsaraResourceGroup \<noteq> []"
  shows "\<exists>base req'. headerInjector_RoundTrip trip (apsaraTransport (apsaraHeaders getenv rg)) req w = trip base req' w
    \<and> hr_URL req' = hr_URL req \<and> 0 < tr_DialTimeout base \<and> 0 < tr_ResponseHeaderTimeout base
    \<and> map_of (hr_Header req') ''X-Acs-Regionid'' = Some [rg]
    \<and> map_of (hr_Header req') ''X-Acs-Organizationid'' =
        (if getenv envApsaraOrganization \<noteq> [] then Some [getenv envApsaraOrganization]
         else map_of (hr_Header req) ''X-Acs-Organizationid'')
    \<and> map_of (hr_Header req') ''X-Acs-Resourcegroupid'' =
        (if getenv envApsaraResourceGroup \<noteq> [] then Some [getenv envApsaraResourceGroup]
         else map_of (hr_Header req) ''X-Acs-Resourcegroupid'')
    \<and> map_of (hr_Header req') ''X-Acs-Caller-Sdk-Source'' =
        (if getenv envApsaraCallerSource \<noteq> [] then Some [getenv envApsaraCallerSource]
         else map_of (hr_Header req) ''X-Acs-Caller-Sdk-Source'')
    \<and> (\<forall>k. k \<notin> {''X-Acs-Regionid'', ''X-Acs-Organizationid'', ''X-Acs-Resourcegroupid'', ''X-Acs-Caller-Sdk-Source''}
         \<longrightarrow> map_of (hr_Header req') k = map_of (hr_Header req) k)"
proof -
  let ?hs = "apsaraHeaders getenv rg" and ?t = "apsaraTransport (apsaraHeaders getenv rg)"
  let ?r = "fold (\<lambda>(k, v) r. r\<lparr>hr_Header := Header_Set k v (hr_Header r)\<rparr>) ?hs req"
  have run: "headerInjector_RoundTrip trip ?t req w = trip (hi_base ?t) ?r w"
    by (simp add: headerInjector_RoundTrip_def apsaraTransport_def Let_def)
  have base: "0 < tr_DialTimeout (hi_base ?t)" "0 < tr_ResponseHeaderTimeout (hi_base ?t)"
    by (simp_all add: apsaraTransport_def)
  note look = inject_lookup [of ?hs req] apsaraHeaders_def Let_def canonical_keys
  have region: "map_of (hr_Header ?r) ''X-Acs-Regionid'' = Some [rg]"
    using assms by (auto simp: look)
  have org: "map_of (hr_Header ?r) ''X-Acs-Organizationid'' =
      (if getenv envApsaraOrganization \<noteq> [] then Some [getenv envApsaraOrganization]
       else map_of (hr_Header req) ''X-Acs-Organizationid'')"
    using assms by (auto simp: look)
  have rgrp: "map_of (hr_Header ?r) ''X-Acs-Resourcegroupid'' =
      (if getenv envApsaraResourceGroup \<noteq> [] then Some [getenv envApsaraResourceGroup]
       else map_of (hr_Header req) ''X-Acs-Resourcegroupid'')"
    using assms by (auto simp: look)
  have src: "map_of (hr_Header ?r) ''X-Acs-Caller-Sdk-Source'' =
      (if getenv envApsaraCallerSource \<noteq> [] then Some [getenv envApsaraCallerSource]
       else map_of (hr_Header req) ''X-Acs-Caller-Sdk-Source'')"
    using assms by (auto simp: look)
  have other: "\<forall>k. k \<notin> {''X-Acs-Regionid'', ''X-Acs-Organizationid'', ''X-Acs-Resourcegroupid'', ''X-Acs-Caller-Sdk-Source''}
      \<longrightarrow> map_of (hr_Header ?r) k = map_of (hr_Header req) k"
    by (auto simp: look)
  show ?thesis
    by (intro exI [of _ "hi_base ?t"] exI [of _ ?r] conjI run inject_URL base region org rgrp src other)
qed

theorem apsara_headers_on_every_request_witness:
  "\<exists>req' :: http_Request. headerInjector_RoundTrip (\<lambda>t r w. (hr_Header r, w)) (apsaraTransport (apsaraHeaders apsara_env ''env-1''))
       \<lparr>hr_URL = ''/'', hr_Header = [(''Accept'', [''json''])]\<rparr> () = (hr_Header req', ())
     \<and> map_of (hr_Header req') ''X-Acs-Organizationid'' = Some [''org'']
     \<and> map_of (hr_Header req') ''Accept'' = Some [''json'']"
proof -
  have org: "apsara_env envApsaraOrganization = ''org''"
    by (simp add: apsara_env_def envApsaraOrganization_def)
  then have set_vars: "apsara_env envApsaraOrganization \<noteq> [] \<or> apsara_env envApsaraResourceGroup \<noteq> []" by simp
  let ?trip = "\<lambda>(t :: http_Transport) r w. (hr_Header r, w)"
  let ?req = "\<lparr>hr_URL = ''/'', hr_Header = [(''Accept'', [''json''])]\<rparr>"
  from apsara_headers_on_every_request [OF set_vars, of ?trip "''env-1''" ?req "()"] show ?thesis
  proof (elim exE conjE)
    fix base and req' :: http_Request
    assume trip: "headerInjector_RoundTrip ?trip (apsaraTransport (apsaraHeaders apsara_env ''env-1'')) ?req ()
          = (hr_Header req', ())"
      and h: "map_of (hr_Header req') ''X-Acs-Organizationid'' =
          (if apsara_env envApsaraOrganization \<noteq> [] then Some [apsara_env envApsaraOrganization]
           else map_of (hr_Header ?req) ''X-Acs-Organizationid'')"
      and other: "\<forall>k. k \<notin> {''X-Acs-Regionid'', ''X-Acs-Organizationid'', ''X-Acs-Resourcegroupid'', ''X-Acs-Caller-Sdk-Source''}
           \<longrightarrow> map_of (hr_Header req') k = map_of (hr_Header ?req) k"
    have "map_of (hr_Header req') ''X-Acs-Organizationid'' = Some [''org'']" using h org by simp
    moreover have "map_of (hr_Header req') ''Accept'' = Some [''json'']"
      using other [rule_format, of "''Accept''"] by simp
    ultimately show ?thesis using trip by (intro exI [of _ req'] conjI) assumption+
  qed
qed

text \<open>
  C39.  Credentials from a secret leave no trace.  On every path, failures included, the process ends
  with the files it had, and with its environment up to the one variable that names the credentials
  file.  Without the key nothing is touched; if the file cannot be made or written, that error is
  returned and the variable was never set; otherwise the result is the profile resolved exactly while
  the variable names a file with the bytes of the secret, and the variable is unset afterwards,
  whether the profile could be resolved or not.
\<close>

theorem secret_credentials_leave_no_trace:
  assumes "\<And>pat p n. os_TempFile os pat p = Inr n \<Longrightarrow> n \<notin> dom (ps_files p)"
    and "fetchCredentialsIniFromSecret os data p = (res, p')"
  shows "ps_files p' = ps_files p
    \<and> (\<forall>v. v \<noteq> ENVCredentialFile os \<longrightarrow> ps_env p' v = ps_env p v)
    \<and> (case map_of data kubeCredentialCredentials of
         None \<Rightarrow> p' = p \<and> (\<exists>err. res = Inl err)
       | Some creds \<Rightarrow>
           (case os_TempFile os ''alibaba-creds-*'' p of
              Inl err \<Rightarrow> p' = p \<and> res = Inl err
            | Inr name \<Rightarrow>
                (case os_Write os name creds (p\<lparr>ps_files := (ps_files p)(name \<mapsto> [])\<rparr>) of
                   Some err \<Rightarrow> p' = p \<and> res = Inl err
                 | None \<Rightarrow>
                     res = ProfileProvider_Resolve os ''default'' \<lparr>ps_env = (ps_env p)(ENVCredentialFile os \<mapsto> name),
                             ps_files = (ps_files p)(name \<mapsto> creds)\<rparr>
                     \<and> ps_env p' (ENVCredentialFile os) = None)))"
proof (cases "map_of data kubeCredentialCredentials")
  case None
  with assms(2) show ?thesis by (auto simp: fetchCredentialsIniFromSecret_def)
next
  case (Some creds)
  show ?thesis
  proof (cases "os_TempFile os ''alibaba-creds-*'' p")
    case (Inl err)
    with assms(2) Some show ?thesis by (auto simp: fetchCredentialsIniFromSecret_def)
  next
    case (Inr name)
    have fresh: "(ps_files p)(name := None) = ps_files p"
      using assms(1) [OF Inr] by (auto simp: fun_upd_idem_iff)
    show ?thesis
      using assms(2) Some Inr fresh
      by (cases p; cases "os_Write os name creds (p\<lparr>ps_files := (ps_files p)(name \<mapsto> [])\<rparr>)")
        (auto simp: fetchCredentialsIniFromSecret_def Let_def)
  qed
qed

text \<open>A provider that returns the file its variable names.\<close>

definition tmp_os :: "string Os" where
  "tmp_os =
     \<lparr>os_TempFile = (\<lambda>pat p. if ps_files p ''/tmp/c1'' = None then Inr ''/tmp/c1''
                             else Inl (ForeignError (Lit ''exists''))),
      os_Write = (\<lambda>n b p. None), ENVCredentialFile = ''CREDENTIALS_FILE'',
      ProfileProvider_Resolve = (\<lambda>prof p.
        case ps_env p ''CREDENTIALS_FILE'' of
          None \<Rightarrow> Inl (ForeignError (Lit ''no file''))
        | Some f \<Rightarrow> (case ps_files p f of None \<Rightarrow> Inl (ForeignError (Lit ''no file'')) | Some b \<Rightarrow> Inr b))\<rparr>"

theorem secret_credentials_leave_no_trace_witness:
  "fst (fetchCredentialsIniFromSecret tmp_os [(''credentials'', ''[default]'')]
      \<lparr>ps_env = Map.empty, ps_files = Map.empty\<rparr>) = Inr ''[default]''
   \<and> ps_files (snd (fetchCredentialsIniFromSecret tmp_os [(''credentials'', ''[default]'')]
      \<lparr>ps_env = Map.empty, ps_files = Map.empty\<rparr>)) = Map.empty"
proof -
  let ?p = "\<lparr>ps_env = Map.empty, ps_files = Map.empty\<rparr> :: Process"
  let ?d = "[(''credentials'', ''[default]'')]"
  have fresh: "n \<notin> dom (ps_files p)" if "os_TempFile tmp_os pat p = Inr n" for pat p n
    using that by (auto simp: tmp_os_def split: if_splits)
  obtain res p' where run: "fetchCredentialsIniFromSecret tmp_os ?d ?p = (res, p')" by (metis prod.exhaust)
  have "res = Inr ''[default]''"
    using run by (auto simp: fetchCredentialsIniFromSecret_def tmp_os_def kubeCredentialCredentials_def Let_def)
  with run secret_credentials_leave_no_trace [OF fresh run] show ?thesis by simp
qed

end
