(* ===== verification/Sdk_Wrappers.thy ===== *)
theory Sdk_Wrappers
  imports Cloud_Client "HOL-Library.Multiset"
begin

text \<open>
  The low-level half of the \<open>Client\<close> interface of \<open>pkg/client/client.go\<close>, one hundred methods
  that pass one request to one SDK client, and the test double of \<open>pkg/client/fake/fake.go\<close>.
  A method of the interface is its name, the SDK package of its request and response types, and
  the SDK operation these types belong to (\<open>AttachInstanceRAMRole\<close> takes an
  \<open>ecs.AttachInstanceRamRoleRequest\<close>); a wrapper is its name, the field of
  \<open>alibabacloudClient\<close> it uses and the SDK method it calls on it; a stub of the fake is its name
  and the name in its error message.  The SDK is a parameter.
\<close>

section \<open>The interface\<close>

datatype service = Ecs | Vpc | Slb | Rm

type_synonym client_method = "string \<times> service \<times> string"

definition instanceMethods :: "client_method list" where
  "instanceMethods =
    [(''RunInstances'', Ecs, ''RunInstances''), (''CreateInstance'', Ecs, ''CreateInstance''),
     (''DescribeInstances'', Ecs, ''DescribeInstances''), (''DeleteInstances'', Ecs, ''DeleteInstances''),
     (''StartInstance'', Ecs, ''StartInstance''), (''RebootInstance'', Ecs, ''RebootInstance''),
     (''StopInstance'', Ecs, ''StopInstance''), (''StartInstances'', Ecs, ''StartInstances''),
     (''RebootInstances'', Ecs, ''RebootInstances''), (''StopInstances'', Ecs, ''StopInstances''),
     (''DeleteInstance'', Ecs, ''DeleteInstance''), (''AttachInstanceRAMRole'', Ecs, ''AttachInstanceRamRole''),
     (''DetachInstanceRAMRole'', Ecs, ''DetachInstanceRamRole''),
     (''DescribeInstanceStatus'', Ecs, ''DescribeInstanceStatus''),
     (''ReActivateInstances'', Ecs, ''ReActivateInstances''), (''DescribeUserData'', Ecs, ''DescribeUserData''),
     (''DescribeInstanceTypes'', Ecs, ''DescribeInstanceTypes''),
     (''ModifyInstanceAttribute'', Ecs, ''ModifyInstanceAttribute''),
     (''ModifyInstanceMetadataOptions'', Ecs, ''ModifyInstanceMetadataOptions'')]"

definition tagMethods :: "client_method list" where
  "tagMethods =
    [(''TagResources'', Ecs, ''TagResources''), (''ListTagResources'', Ecs, ''ListTagResources''),
     (''UntagResources'', Ecs, ''UntagResources'')]"

definition networkMethods :: "client_method list" where
  "networkMethods =
    [(''AllocatePublicIPAddress'', Ecs, ''AllocatePublicIpAddress'')]"

definition diskMethods :: "client_method list" where
  "diskMethods =
    [(''CreateDisk'', Ecs, ''CreateDisk''), (''AttachDisk'', Ecs, ''AttachDisk''),
     (''DescribeDisks'', Ecs, ''DescribeDisks''), (''ModifyDiskChargeType'', Ecs, ''ModifyDiskChargeType''),
     (''ModifyDiskAttribute'', Ecs, ''ModifyDiskAttribute''), (''ModifyDiskSpec'', Ecs, ''ModifyDiskSpec''),
     (''ReplaceSystemDisk'', Ecs, ''ReplaceSystemDisk''), (''ReInitDisk'', Ecs, ''ReInitDisk''),
     (''ResetDisk'', Ecs, ''ResetDisk''), (''ResizeDisk'', Ecs, ''ResizeDisk''),
     (''DetachDisk'', Ecs, ''DetachDisk''), (''DeleteDisk'', Ecs, ''DeleteDisk'')]"

definition regionMethods :: "client_method list" where
  "regionMethods =
    [(''DescribeRegions'', Ecs, ''DescribeRegions''), (''DescribeZones'', Ecs, ''DescribeZones'')]"

definition imageMethods :: "client_method list" where
  "imageMethods =
    [(''DescribeImages'', Ecs, ''DescribeImages'')]"

definition securityGroupMethods :: "client_method list" where
  "securityGroupMethods =
    [(''CreateSecurityGroup'', Ecs, ''CreateSecurityGroup''),
     (''AuthorizeSecurityGroup'', Ecs, ''AuthorizeSecurityGroup''),
     (''AuthorizeSecurityGroupEgress'', Ecs, ''AuthorizeSecurityGroupEgress''),
     (''RevokeSecurityGroup'', Ecs, ''RevokeSecurityGroup''),
     (''RevokeSecurityGroupEgress'', Ecs, ''RevokeSecurityGroupEgress''),
     (''JoinSecurityGroup'', Ecs, ''JoinSecurityGroup''), (''LeaveSecurityGroup'', Ecs, ''LeaveSecurityGroup''),
     (''DescribeSecurityGroupAttribute'', Ecs, ''DescribeSecurityGroupAttribute''),
     (''DescribeSecurityGroups'', Ecs, ''DescribeSecurityGroups''),
     (''DescribeSecurityGroupReferences'', Ecs, ''DescribeSecurityGroupReferences''),
     (''ModifySecurityGroupAttribute'', Ecs, ''ModifySecurityGroupAttribute''),
     (''ModifySecurityGroupEgressRule'', Ecs, ''ModifySecurityGroupEgressRule''),
     (''ModifySecurityGroupPolicy'', Ecs, ''ModifySecurityGroupPolicy''),
     (''ModifySecurityGroupRule'', Ecs, ''ModifySecurityGroupRule''),
     (''DeleteSecurityGroup'', Ecs, ''DeleteSecurityGroup'')]"

definition vpcMethods :: "client_method list" where
  "vpcMethods =
    [(''CreateVpc'', Vpc, ''CreateVpc''), (''DeleteVpc'', Vpc, ''DeleteVpc''),
     (''DescribeVpcs'', Vpc, ''DescribeVpcs''), (''CreateVSwitch'', Vpc, ''CreateVSwitch''),
     (''DeleteVSwitch'', Vpc, ''DeleteVSwitch''), (''DescribeVSwitches'', Vpc, ''DescribeVSwitches'')]"

definition natGatewayMethods :: "client_method list" where
  "natGatewayMethods =
    [(''CreateNatGateway'', Vpc, ''CreateNatGateway''), (''DescribeNatGateways'', Vpc, ''DescribeNatGateways''),
     (''DeleteNatGateway'', Vpc, ''DeleteNatGateway'')]"

definition eipMethods :: "client_method list" where
  "eipMethods =
    [(''AllocateEipAddress'', Vpc, ''AllocateEipAddress''),
     (''AssociateEipAddress'', Vpc, ''AssociateEipAddress''),
     (''ModifyEipAddressAttribute'', Vpc, ''ModifyEipAddressAttribute''),
     (''DescribeEipAddresses'', Vpc, ''DescribeEipAddresses''),
     (''UnassociateEipAddress'', Vpc, ''UnassociateEipAddress''),
     (''ReleaseEipAddress'', Vpc, ''ReleaseEipAddress'')]"

definition slbMethods :: "client_method list" where
  "slbMethods =
    [(''CreateLoadBalancer'', Slb, ''CreateLoadBalancer''),
     (''DeleteLoadBalancer'', Slb, ''DeleteLoadBalancer''),
     (''DescribeLoadBalancers'', Slb, ''DescribeLoadBalancers''),
     (''CreateLoadBalancerTCPListener'', Slb, ''CreateLoadBalancerTCPListener''),
     (''SetLoadBalancerTCPListenerAttribute'', Slb, ''SetLoadBalancerTCPListenerAttribute''),
     (''DescribeLoadBalancerTCPListenerAttribute'', Slb, ''DescribeLoadBalancerTCPListenerAttribute''),
     (''CreateLoadBalancerUDPListener'', Slb, ''CreateLoadBalancerUDPListener''),
     (''SetLoadBalancerUDPListenerAttribute'', Slb, ''SetLoadBalancerUDPListenerAttribute''),
     (''DescribeLoadBalancerUDPListenerAttribute'', Slb, ''DescribeLoadBalancerUDPListenerAttribute''),
     (''CreateLoadBalancerHTTPListener'', Slb, ''CreateLoadBalancerHTTPListener''),
     (''SetLoadBalancerHTTPListenerAttribute'', Slb, ''SetLoadBalancerHTTPListenerAttribute''),
     (''DescribeLoadBalancerHTTPListenerAttribute'', Slb, ''DescribeLoadBalancerHTTPListenerAttribute''),
     (''CreateLoadBalancerHTTPSListener'', Slb, ''CreateLoadBalancerHTTPSListener''),
     (''SetLoadBalancerHTTPSListenerAttribute'', Slb, ''SetLoadBalancerHTTPSListenerAttribute''),
     (''DescribeLoadBalancerHTTPSListenerAttribute'', Slb, ''DescribeLoadBalancerHTTPSListenerAttribute''),
     (''StartLoadBalancerListener'', Slb, ''StartLoadBalancerListener''),
     (''StopLoadBalancerListener'', Slb, ''StopLoadBalancerListener''),
     (''DeleteLoadBalancerListener'', Slb, ''DeleteLoadBalancerListener''),
     (''DescribeLoadBalancerListeners'', Slb, ''DescribeLoadBalancerListeners''),
     (''AddBackendServers'', Slb, ''AddBackendServers''),
     (''RemoveBackendServers'', Slb, ''RemoveBackendServers''),
     (''SetBackendServers'', Slb, ''SetBackendServers''),
     (''DescribeHealthStatus'', Slb, ''DescribeHealthStatus''),
     (''CreateVServerGroup'', Slb, ''CreateVServerGroup''),
     (''SetVServerGroupAttribute'', Slb, ''SetVServerGroupAttribute''),
     (''AddVServerGroupBackendServers'', Slb, ''AddVServerGroupBackendServers''),
     (''RemoveVServerGroupBackendServers'', Slb, ''RemoveVServerGroupBackendServers''),
     (''ModifyVServerGroupBackendServers'', Slb, ''ModifyVServerGroupBackendServers''),
     (''DeleteVServerGroup'', Slb, ''DeleteVServerGroup''),
     (''DescribeVServerGroups'', Slb, ''DescribeVServerGroups''),
     (''DescribeVServerGroupAttribute'', Slb, ''DescribeVServerGroupAttribute'')]"

definition resourceGroupMethods :: "client_method list" where
  "resourceGroupMethods =
    [(''ListResourceGroups'', Rm, ''ListResourceGroups'')]"

definition clientInterface :: "client_method list" where
  "clientInterface = instanceMethods @ tagMethods @ networkMethods @ diskMethods @ regionMethods @ imageMethods
     @ securityGroupMethods @ vpcMethods @ natGatewayMethods @ eipMethods @ slbMethods @ resourceGroupMethods"

section \<open>The wrappers\<close>

definition instanceWrappers :: "client_method list" where
  "instanceWrappers =
    [(''RunInstances'', Ecs, ''RunInstances''), (''CreateInstance'', Ecs, ''CreateInstance''),
     (''DescribeInstances'', Ecs, ''DescribeInstances''), (''DeleteInstances'', Ecs, ''DeleteInstances''),
     (''StartInstance'', Ecs, ''StartInstance''), (''RebootInstance'', Ecs, ''RebootInstance''),
     (''StopInstance'', Ecs, ''StopInstance''), (''StartInstances'', Ecs, ''StartInstances''),
     (''RebootInstances'', Ecs, ''RebootInstances''), (''StopInstances'', Ecs, ''StopInstances''),
     (''DeleteInstance'', Ecs, ''DeleteInstance''), (''AttachInstanceRAMRole'', Ecs, ''AttachInstanceRamRole''),
     (''DetachInstanceRAMRole'', Ecs, ''DetachInstanceRamRole''),
     (''DescribeInstanceStatus'', Ecs, ''DescribeInstanceStatus''),
     (''ReActivateInstances'', Ecs, ''ReActivateInstances''), (''DescribeUserData'', Ecs, ''DescribeUserData''),
     (''DescribeInstanceTypes'', Ecs, ''DescribeInstanceTypes''),
     (''ModifyInstanceAttribute'', Ecs, ''ModifyInstanceAttribute''),
     (''ModifyInstanceMetadataOptions'', Ecs, ''ModifyInstanceMetadataOptions''),
     (''AllocatePublicIPAddress'', Ecs, ''AllocatePublicIpAddress'')]"

definition diskWrappers :: "client_method list" where
  "diskWrappers =
    [(''CreateDisk'', Ecs, ''CreateDisk''), (''AttachDisk'', Ecs, ''AttachDisk''),
     (''DescribeDisks'', Ecs, ''DescribeDisks''), (''ModifyDiskChargeType'', Ecs, ''ModifyDiskChargeType''),
     (''ModifyDiskAttribute'', Ecs, ''ModifyDiskAttribute''), (''ModifyDiskSpec'', Ecs, ''ModifyDiskSpec''),
     (''ReplaceSystemDisk'', Ecs, ''ReplaceSystemDisk''), (''ReInitDisk'', Ecs, ''ReInitDisk''),
     (''ResetDisk'', Ecs, ''ResetDisk''), (''ResizeDisk'', Ecs, ''ResizeDisk''),
     (''DetachDisk'', Ecs, ''DetachDisk''), (''DeleteDisk'', Ecs, ''DeleteDisk''),
     (''DescribeRegions'', Ecs, ''DescribeRegions''), (''DescribeZones'', Ecs, ''DescribeZones''),
     (''DescribeImages'', Ecs, ''DescribeImages'')]"

definition securityGroupWrappers :: "client_method list" where
  "securityGroupWrappers =
    [(''CreateSecurityGroup'', Ecs, ''CreateSecurityGroup''),
     (''AuthorizeSecurityGroup'', Ecs, ''AuthorizeSecurityGroup''),
     (''AuthorizeSecurityGroupEgress'', Ecs, ''AuthorizeSecurityGroupEgress''),
     (''RevokeSecurityGroup'', Ecs, ''RevokeSecurityGroup''),
     (''RevokeSecurityGroupEgress'', Ecs, ''RevokeSecurityGroupEgress''),
     (''JoinSecurityGroup'', Ecs, ''JoinSecurityGroup''), (''LeaveSecurityGroup'', Ecs, ''LeaveSecurityGroup''),
     (''DescribeSecurityGroupAttribute'', Ecs, ''DescribeSecurityGroupAttribute''),
     (''DescribeSecurityGroups'', Ecs, ''DescribeSecurityGroups''),
     (''DescribeSecurityGroupReferences'', Ecs, ''DescribeSecurityGroupReferences''),
     (''ModifySecurityGroupAttribute'', Ecs, ''ModifySecurityGroupAttribute''),
     (''ModifySecurityGroupEgressRule'', Ecs, ''ModifySecurityGroupEgressRule''),
     (''ModifySecurityGroupPolicy'', Ecs, ''ModifySecurityGroupPolicy''),
     (''ModifySecurityGroupRule'', Ecs, ''ModifySecurityGroupRule''),
     (''DeleteSecurityGroup'', Ecs, ''DeleteSecurityGroup'')]"

definition tagWrappers :: "client_method list" where
  "tagWrappers =
    [(''TagResources'', Ecs, ''TagResources''), (''ListTagResources'', Ecs, ''ListTagResources''),
     (''UntagResources'', Ecs, ''UntagResources'')]"

definition vpcWrappers :: "client_method list" where
  "vpcWrappers =
    [(''CreateVpc'', Vpc, ''CreateVpc''), (''DeleteVpc'', Vpc, ''DeleteVpc''),
     (''DescribeVpcs'', Vpc, ''DescribeVpcs''), (''CreateVSwitch'', Vpc, ''CreateVSwitch''),
     (''DeleteVSwitch'', Vpc, ''DeleteVSwitch''), (''DescribeVSwitches'', Vpc, ''DescribeVSwitches''),
     (''CreateNatGateway'', Vpc, ''CreateNatGateway''), (''DescribeNatGateways'', Vpc, ''DescribeNatGateways''),
     (''DeleteNatGateway'', Vpc, ''DeleteNatGateway''), (''AllocateEipAddress'', Vpc, ''AllocateEipAddress''),
     (''AssociateEipAddress'', Vpc, ''AssociateEipAddress''),
     (''ModifyEipAddressAttribute'', Vpc, ''ModifyEipAddressAttribute''),
     (''DescribeEipAddresses'', Vpc, ''DescribeEipAddresses''),
     (''UnassociateEipAddress'', Vpc, ''UnassociateEipAddress''),
     (''ReleaseEipAddress'', Vpc, ''ReleaseEipAddress'')]"

definition slbWrappers :: "client_method list" where
  "slbWrappers =
    [(''CreateLoadBalancer'', Slb, ''CreateLoadBalancer''),
     (''DeleteLoadBalancer'', Slb, ''DeleteLoadBalancer''),
     (''DescribeLoadBalancers'', Slb, ''DescribeLoadBalancers''),
     (''CreateLoadBalancerTCPListener'', Slb, ''CreateLoadBalancerTCPListener''),
     (''SetLoadBalancerTCPListenerAttribute'', Slb, ''SetLoadBalancerTCPListenerAttribute''),
     (''DescribeLoadBalancerTCPListenerAttribute'', Slb, ''DescribeLoadBalancerTCPListenerAttribute''),
     (''CreateLoadBalancerUDPListener'', Slb, ''CreateLoadBalancerUDPListener''),
     (''SetLoadBalancerUDPListenerAttribute'', Slb, ''SetLoadBalancerUDPListenerAttribute''),
     (''DescribeLoadBalancerUDPListenerAttribute'', Slb, ''DescribeLoadBalancerUDPListenerAttribute''),
     (''CreateLoadBalancerHTTPListener'', Slb, ''CreateLoadBalancerHTTPListener''),
     (''SetLoadBalancerHTTPListenerAttribute'', Slb, ''SetLoadBalancerHTTPListenerAttribute''),
     (''DescribeLoadBalancerHTTPListenerAttribute'', Slb, ''DescribeLoadBalancerHTTPListenerAttribute''),
     (''CreateLoadBalancerHTTPSListener'', Slb, ''CreateLoadBalancerHTTPSListener''),
     (''SetLoadBalancerHTTPSListenerAttribute'', Slb, ''SetLoadBalancerHTTPSListenerAttribute''),
     (''DescribeLoadBalancerHTTPSListenerAttribute'', Slb, ''DescribeLoadBalancerHTTPSListenerAttribute''),
     (''StartLoadBalancerListener'', Slb, ''StartLoadBalancerListener''),
     (''StopLoadBalancerListener'', Slb, ''StopLoadBalancerListener''),
     (''DeleteLoadBalancerListener'', Slb, ''DeleteLoadBalancerListener''),
     (''DescribeLoadBalancerListeners'', Slb, ''DescribeLoadBalancerListeners''),
     (''AddBackendServers'', Slb, ''AddBackendServers''),
     (''RemoveBackendServers'', Slb, ''RemoveBackendServers''),
     (''SetBackendServers'', Slb, ''SetBackendServers''),
     (''DescribeHealthStatus'', Slb, ''DescribeHealthStatus''),
     (''CreateVServerGroup'', Slb, ''CreateVServerGroup''),
     (''SetVServerGroupAttribute'', Slb, ''SetVServerGroupAttribute''),
     (''AddVServerGroupBackendServers'', Slb, ''AddVServerGroupBackendServers''),
     (''RemoveVServerGroupBackendServers'', Slb, ''RemoveVServerGroupBackendServers''),
     (''ModifyVServerGroupBackendServers'', Slb, ''ModifyVServerGroupBackendServers''),
     (''DeleteVServerGroup'', Slb, ''DeleteVServerGroup''),
     (''DescribeVServerGroups'', Slb, ''DescribeVServerGroups''),
     (''DescribeVServerGroupAttribute'', Slb, ''DescribeVServerGroupAttribute'')]"

definition resourceGroupWrappers :: "client_method list" where
  "resourceGroupWrappers =
    [(''ListResourceGroups'', Rm, ''ListResourceGroups'')]"

definition alibabacloudWrappers :: "client_method list" where
  "alibabacloudWrappers = instanceWrappers @ diskWrappers @ securityGroupWrappers @ tagWrappers @ vpcWrappers
     @ slbWrappers @ resourceGroupWrappers"

text \<open>A wrapper hands the request to the SDK and returns what the SDK returns.\<close>

type_synonym ('rq, 'rs, 'c) sdk = "service \<Rightarrow> string \<Rightarrow> 'rq \<Rightarrow> 'c \<Rightarrow> (go_error + 'rs) \<times> 'c"

definition wrapper_call ::
  "('rq, 'rs, 'c) sdk \<Rightarrow> string \<Rightarrow> 'rq \<Rightarrow> 'c \<Rightarrow> ((go_error + 'rs) \<times> 'c) option" where
  "wrapper_call sdk name request c =
     (case map_of alibabacloudWrappers name of
        None \<Rightarrow> None
      | Some (client, operation) \<Rightarrow> Some (sdk client operation request c))"

section \<open>The fake\<close>

definition instanceStubs :: "(string \<times> string) list" where
  "instanceStubs =
    [(''RunInstances'', ''RunInstances''), (''CreateInstance'', ''CreateInstance''),
     (''DescribeInstances'', ''DescribeInstances''), (''DeleteInstances'', ''DeleteInstances''),
     (''StartInstance'', ''StartInstance''), (''RebootInstance'', ''RebootInstance''),
     (''StopInstance'', ''StopInstance''), (''StartInstances'', ''StartInstances''),
     (''RebootInstances'', ''RebootInstances''), (''StopInstances'', ''StopInstances''),
     (''DeleteInstance'', ''DeleteInstance''), (''AttachInstanceRAMRole'', ''AttachInstanceRAMRole''),
     (''DetachInstanceRAMRole'', ''DetachInstanceRAMRole''),
     (''DescribeInstanceStatus'', ''DescribeInstanceStatus''),
     (''ReActivateInstances'', ''ReActivateInstances''), (''DescribeUserData'', ''DescribeUserData''),
     (''DescribeInstanceTypes'', ''DescribeInstanceTypes''),
     (''ModifyInstanceAttribute'', ''ModifyInstanceAttribute''),
     (''ModifyInstanceMetadataOptions'', ''ModifyInstanceMetadataOptions''),
     (''TagResources'', ''TagResources''), (''ListTagResources'', ''ListTagResources''),
     (''UntagResources'', ''UntagResources''), (''AllocatePublicIPAddress'', ''AllocatePublicIPAddress'')]"

definition diskStubs :: "(string \<times> string) list" where
  "diskStubs =
    [(''CreateDisk'', ''CreateDisk''), (''AttachDisk'', ''AttachDisk''), (''DescribeDisks'', ''DescribeDisks''),
     (''ModifyDiskChargeType'', ''ModifyDiskChargeType''), (''ModifyDiskAttribute'', ''ModifyDiskAttribute''),
     (''ModifyDiskSpec'', ''ModifyDiskSpec''), (''ReplaceSystemDisk'', ''ReplaceSystemDisk''),
     (''ReInitDisk'', ''ReInitDisk''), (''ResetDisk'', ''ResetDisk''), (''ResizeDisk'', ''ResizeDisk''),
     (''DetachDisk'', ''DetachDisk''), (''DeleteDisk'', ''DeleteDisk'')]"

definition regionStubs :: "(string \<times> string) list" where
  "regionStubs =
    [(''DescribeRegions'', ''DescribeRegions''), (''DescribeZones'', ''DescribeZones''),
     (''DescribeImages'', ''DescribeImages'')]"

definition securityGroupStubs :: "(string \<times> string) list" where
  "securityGroupStubs =
    [(''CreateSecurityGroup'', ''CreateSecurityGroup''),
     (''AuthorizeSecurityGroup'', ''AuthorizeSecurityGroup''),
     (''AuthorizeSecurityGroupEgress'', ''AuthorizeSecurityGroupEgress''),
     (''RevokeSecurityGroup'', ''RevokeSecurityGroup''),
     (''RevokeSecurityGroupEgress'', ''RevokeSecurityGroupEgress''),
     (''JoinSecurityGroup'', ''JoinSecurityGroup''), (''LeaveSecurityGroup'', ''LeaveSecurityGroup''),
     (''DescribeSecurityGroupAttribute'', ''DescribeSecurityGroupAttribute''),
     (''DescribeSecurityGroups'', ''DescribeSecurityGroups''),
     (''DescribeSecurityGroupReferences'', ''DescribeSecurityGroupReferences''),
     (''ModifySecurityGroupAttribute'', ''ModifySecurityGroupAttribute''),
     (''ModifySecurityGroupEgressRule'', ''ModifySecurityGroupEgressRule''),
     (''ModifySecurityGroupPolicy'', ''ModifySecurityGroupPolicy''),
     (''ModifySecurityGroupRule'', ''ModifySecurityGroupRule''),
     (''DeleteSecurityGroup'', ''DeleteSecurityGroup'')]"

definition vpcStubs :: "(string \<times> string) list" where
  "vpcStubs =
    [(''DescribeVpcs'', ''DescribeVpcs''), (''CreateVpc'', ''CreateVpc''), (''DeleteVpc'', ''DeleteVpc''),
     (''DescribeVSwitches'', ''DescribeVSwitches''), (''CreateVSwitch'', ''CreateVSwitch''),
     (''DeleteVSwitch'', ''DeleteVSwitch''), (''CreateNatGateway'', ''CreateNatGateway''),
     (''DescribeNatGateways'', ''DescribeNatGateways''), (''DeleteNatGateway'', ''DeleteNatGateway''),
     (''AllocateEipAddress'', ''AllocateEipAddress''), (''AssociateEipAddress'', ''AssociateEipAddress''),
     (''ModifyEipAddressAttribute'', ''ModifyEipAddressAttribute''),
     (''DescribeEipAddresses'', ''DescribeEipAddresses''),
     (''UnassociateEipAddress'', ''UnassociateEipAddress''), (''ReleaseEipAddress'', ''ReleaseEipAddress'')]"

definition slbStubs :: "(string \<times> string) list" where
  "slbStubs =
    [(''DescribeLoadBalancers'', ''DescribeLoadBalancers''), (''CreateLoadBalancer'', ''CreateLoadBalancer''),
     (''DeleteLoadBalancer'', ''DeleteLoadBalancer''),
     (''CreateLoadBalancerTCPListener'', ''CreateLoadBalancerTCPListener''),
     (''SetLoadBalancerTCPListenerAttribute'', ''SetLoadBalancerTCPListenerAttribute''),
     (''DescribeLoadBalancerTCPListenerAttribute'', ''DescribeLoadBalancerTCPListenerAttribute''),
     (''CreateLoadBalancerUDPListener'', ''CreateLoadBalancerUDPListener''),
     (''SetLoadBalancerUDPListenerAttribute'', ''SetLoadBalancerUDPListenerAttribute''),
     (''DescribeLoadBalancerUDPListenerAttribute'', ''DescribeLoadBalancerUDPListenerAttribute''),
     (''CreateLoadBalancerHTTPListener'', ''CreateLoadBalancerHTTPListener''),
     (''SetLoadBalancerHTTPListenerAttribute'', ''SetLoadBalancerHTTPListenerAttribute''),
     (''DescribeLoadBalancerHTTPListenerAttribute'', ''DescribeLoadBalancerHTTPListenerAttribute''),
     (''CreateLoadBalancerHTTPSListener'', ''CreateLoadBalancerHTTPSListener''),
     (''SetLoadBalancerHTTPSListenerAttribute'', ''SetLoadBalancerHTTPSListenerAttribute''),
     (''DescribeLoadBalancerHTTPSListenerAttribute'', ''DescribeLoadBalancerHTTPSListenerAttribute''),
     (''StartLoadBalancerListener'', ''StartLoadBalancerListener''),
     (''StopLoadBalancerListener'', ''StopLoadBalancerListener''),
     (''DeleteLoadBalancerListener'', ''DeleteLoadBalancerListener''),
     (''DescribeLoadBalancerListeners'', ''DescribeLoadBalancerListeners''),
     (''AddBackendServers'', ''AddBackendServers''), (''RemoveBackendServers'', ''RemoveBackendServers''),
     (''SetBackendServers'', ''SetBackendServers''), (''DescribeHealthStatus'', ''DescribeHealthStatus''),
     (''CreateVServerGroup'', ''CreateVServerGroup''),
     (''SetVServerGroupAttribute'', ''SetVServerGroupAttribute''),
     (''AddVServerGroupBackendServers'', ''AddVServerGroupBackendServers''),
     (''RemoveVServerGroupBackendServers'', ''RemoveVServerGroupBackendServers''),
     (''ModifyVServerGroupBackendServers'', ''ModifyVServerGroupBackendServers''),
     (''DeleteVServerGroup'', ''DeleteVServerGroup''), (''DescribeVServerGroups'', ''DescribeVServerGroups''),
     (''DescribeVServerGroupAttribute'', ''DescribeVServerGroupAttribute'')]"

definition resourceManagerStubs :: "(string \<times> string) list" where
  "resourceManagerStubs =
    [(''ListResourceGroups'', ''ListResourceGroups'')]"

definition fakeStubs :: "(string \<times> string) list" where
  "fakeStubs = instanceStubs @ diskStubs @ regionStubs @ securityGroupStubs @ vpcStubs @ slbStubs
     @ resourceManagerStubs"

definition stub_call :: "string \<Rightarrow> 'c \<Rightarrow> ((go_error + 'rs) \<times> 'c) option" where
  "stub_call name c =
     (case map_of fakeStubs name of
        None \<Rightarrow> None
      | Some named \<Rightarrow> Some (Inl (Errorf (''FakeClient: '' @ named @ '' not implemented'') []), c))"

text \<open>The function fields of \<open>FakeClient\<close>; a nil field is \<open>None\<close>.\<close>

record 'w FakeClient =
  DescribeInstanceByIDFn :: "(string \<Rightarrow> 'w \<Rightarrow> (go_error + InstanceDescription option) \<times> 'w) option"
  CreateECSInstanceFn :: "(CreateInstanceParams \<Rightarrow> 'w \<Rightarrow> (go_error + CreateInstanceResponse) \<times> 'w) option"
  DeleteECSInstanceFn :: "(string \<Rightarrow> bool \<Rightarrow> 'w \<Rightarrow> go_error option \<times> 'w) option"
  FindInstanceByTagFn :: "(string \<Rightarrow> string \<Rightarrow> string \<Rightarrow> 'w \<Rightarrow> (go_error + string) \<times> 'w) option"
  ModifyInstanceMetadataFn :: "(string \<Rightarrow> string \<Rightarrow> string \<Rightarrow> int \<Rightarrow> 'w \<Rightarrow> go_error option \<times> 'w) option"
  InstanceTypeCapacityFn :: "(string \<Rightarrow> 'w \<Rightarrow> (go_error + int \<times> int) \<times> 'w) option"
  PutIgnitionObjectFn :: "(IgnitionStoreParams \<Rightarrow> 'w \<Rightarrow> (go_error + string) \<times> 'w) option"
  DeleteIgnitionObjectFn :: "(IgnitionStoreParams \<Rightarrow> 'w \<Rightarrow> go_error option \<times> 'w) option"

definition fake_client :: "'w FakeClient \<Rightarrow> 'w Client" where
  "fake_client f =
     \<lparr>DescribeInstanceByID = (\<lambda>i w.
        case DescribeInstanceByIDFn f of Some fn \<Rightarrow> fn i w | None \<Rightarrow> (Inr None, w)),
      CreateECSInstance = (\<lambda>p w.
        case CreateECSInstanceFn f of Some fn \<Rightarrow> fn p w | None \<Rightarrow> (Inr \<lparr>cr_InstanceID = ''i-fake''\<rparr>, w)),
      DeleteECSInstance = (\<lambda>i force w.
        case DeleteECSInstanceFn f of Some fn \<Rightarrow> fn i force w | None \<Rightarrow> (None, w)),
      FindInstanceByTag = (\<lambda>region key v w.
        case FindInstanceByTagFn f of Some fn \<Rightarrow> fn region key v w | None \<Rightarrow> (Inr [], w)),
      ModifyInstanceMetadata = (\<lambda>i endpoint tokens hops w.
        case ModifyInstanceMetadataFn f of Some fn \<Rightarrow> fn i endpoint tokens hops w | None \<Rightarrow> (None, w)),
      InstanceTypeCapacity = (\<lambda>t w.
        case InstanceTypeCapacityFn f of Some fn \<Rightarrow> fn t w | None \<Rightarrow> (Inr (0, 0), w)),
      PutIgnitionObject = (\<lambda>p w.
        case PutIgnitionObjectFn f of Some fn \<Rightarrow> fn p w
        | None \<Rightarrow> (Inr (''https://fake-bucket.oss-fake-internal.aliyuncs.com/'' @ ip_Key p), w)),
      DeleteIgnitionObject = (\<lambda>p w.
        case DeleteIgnitionObjectFn f of Some fn \<Rightarrow> fn p w | None \<Rightarrow> (None, w))\<rparr>"

section \<open>Lemmas\<close>

lemmas interface_defs = instanceMethods_def tagMethods_def networkMethods_def diskMethods_def regionMethods_def
  imageMethods_def securityGroupMethods_def vpcMethods_def natGatewayMethods_def eipMethods_def slbMethods_def
  resourceGroupMethods_def

lemmas wrapper_defs = instanceWrappers_def diskWrappers_def securityGroupWrappers_def tagWrappers_def
  vpcWrappers_def slbWrappers_def resourceGroupWrappers_def

lemmas stub_defs = instanceStubs_def diskStubs_def regionStubs_def securityGroupStubs_def vpcStubs_def
  slbStubs_def resourceManagerStubs_def

text \<open>The wrappers are the methods of the interface, up to order; so are the stubs of the fake.\<close>

lemma wrappers_permute_interface: "mset alibabacloudWrappers = mset clientInterface"
proof -
  have "alibabacloudWrappers = instanceMethods @ networkMethods @ diskMethods @ regionMethods @ imageMethods
      @ securityGroupMethods @ tagMethods @ vpcMethods @ natGatewayMethods @ eipMethods @ slbMethods
      @ resourceGroupMethods"
    by (simp add: alibabacloudWrappers_def interface_defs wrapper_defs)
  from this [THEN arg_cong, of mset] show ?thesis by (simp add: clientInterface_def ac_simps)
qed

lemma vpc_stubs: "mset (map fst vpcStubs) = mset (map fst (vpcMethods @ natGatewayMethods @ eipMethods))"
  by (simp add: vpcStubs_def vpcMethods_def natGatewayMethods_def eipMethods_def add_mset_commute)

lemma slb_stubs: "mset (map fst slbStubs) = mset (map fst slbMethods)"
  by (simp add: slbStubs_def slbMethods_def add_mset_commute)

lemma stubs_permute_interface: "mset (map fst fakeStubs) = mset (map fst clientInterface)"
proof -
  have "map fst (instanceStubs @ diskStubs @ regionStubs @ securityGroupStubs @ resourceManagerStubs)
      = map fst (instanceMethods @ tagMethods @ networkMethods @ diskMethods @ regionMethods @ imageMethods
        @ securityGroupMethods @ resourceGroupMethods)"
    by (simp add: stub_defs interface_defs)
  then have "mset (map fst (instanceStubs @ diskStubs @ regionStubs @ securityGroupStubs @ resourceManagerStubs))
      = mset (map fst (instanceMethods @ tagMethods @ networkMethods @ diskMethods @ regionMethods @ imageMethods
        @ securityGroupMethods @ resourceGroupMethods))" by (rule arg_cong)
  with vpc_stubs slb_stubs show ?thesis by (simp add: fakeStubs_def clientInterface_def ac_simps)
qed

lemma stubs_name_themselves: "list_all (\<lambda>(name, named). named = name) fakeStubs"
  by (simp add: fakeStubs_def stub_defs)

lemma distinct_methods: "distinct (map fst clientInterface)"
  by (simp add: clientInterface_def interface_defs)

lemma distinct_operations: "distinct (map snd clientInterface)"
  by (simp add: clientInterface_def interface_defs)

lemma map_of_permuted:
  assumes "mset xs = mset ys" and "distinct (map fst ys)"
  shows "map_of xs = map_of ys"
  using assms by (metis map_of_inject_set mset_eq_setD mset_eq_imp_distinct_iff mset_map)

section \<open>Properties\<close>

text \<open>
  The wrappers implement the interface: a method passes its request unchanged to the SDK
  operation its signature belongs to, on the client of that service, and returns its result; a
  name outside the interface is no wrapper; and no two methods reach the same operation.
\<close>

theorem wrappers_forward:
  "wrapper_call sdk name request c =
     map_option (\<lambda>(client, operation). sdk client operation request c) (map_of clientInterface name)"
  and "inj_on snd (set clientInterface)"
proof -
  show "wrapper_call sdk name request c =
     map_option (\<lambda>(client, operation). sdk client operation request c) (map_of clientInterface name)"
    by (simp add: wrapper_call_def map_of_permuted [OF wrappers_permute_interface distinct_methods] split: option.splits)
  show "inj_on snd (set clientInterface)" using distinct_operations by (simp add: distinct_map)
qed

text \<open>
  The fake fails loudly: each low-level method of the interface, and nothing else, is a stub that
  fails with an error naming that very method and leaves the state alone.
\<close>

theorem stubs_fail_loudly:
  "stub_call name c =
     (if name \<in> fst ` set clientInterface
      then Some (Inl (Errorf (''FakeClient: '' @ name @ '' not implemented'') []), c) else None)"
proof -
  have "set (map fst fakeStubs) = set (map fst clientInterface)"
    using stubs_permute_interface by (rule mset_eq_setD)
  then have dom: "fst ` set fakeStubs = fst ` set clientInterface" by simp
  have "named = name" if "map_of fakeStubs name = Some named" for named
    using stubs_name_themselves map_of_SomeD [OF that] by (auto simp: list_all_iff)
  then have "map_of fakeStubs name = (if name \<in> fst ` set clientInterface then Some name else None)"
    unfolding dom [symmetric] by (cases "map_of fakeStubs name") (force simp: map_of_eq_None_iff dest: map_of_SomeD)+
  then show ?thesis by (simp add: stub_call_def)
qed

text \<open>
  A fake whose fields are the operations of a client is that client: what the controllers do
  behind such a fake is what they do behind the client.
\<close>

definition fake_of :: "'w Client \<Rightarrow> 'w FakeClient" where
  "fake_of c =
     \<lparr>DescribeInstanceByIDFn = Some (DescribeInstanceByID c), CreateECSInstanceFn = Some (CreateECSInstance c),
      DeleteECSInstanceFn = Some (DeleteECSInstance c), FindInstanceByTagFn = Some (FindInstanceByTag c),
      ModifyInstanceMetadataFn = Some (ModifyInstanceMetadata c),
      InstanceTypeCapacityFn = Some (InstanceTypeCapacity c), PutIgnitionObjectFn = Some (PutIgnitionObject c),
      DeleteIgnitionObjectFn = Some (DeleteIgnitionObject c)\<rparr>"

theorem fake_transparent: "fake_client (fake_of c) = c"
  by (cases c) (simp add: fake_client_def fake_of_def)

end
