(* ===== verification/Startup.thy ===== *)
theory Startup
  imports Capi_Core Go_Encoding "HOL-Library.Sublist"
begin

text \<open>
  The start of the program: \<open>cmd/main.go\<close>, with the version of \<open>pkg/version\<close> and the conversions of
  \<open>pkg/utils\<close>.  The flags are taken as parsed.  What \<open>main\<close> asks of the controller-runtime manager is
  a list of calls, made in order, each of which may fail; a failure is \<open>os.Exit(1)\<close>, and no further
  call is made.
\<close>

section \<open>pkg/utils and pkg/version\<close>

definition ByteArray2String :: "string \<Rightarrow> string" where "ByteArray2String byteVal = byteVal"

definition String2IntPointer :: "string \<Rightarrow> go_error + int option" where
  "String2IntPointer value =
     (case Atoi value of
        None \<Rightarrow> Inl (ForeignError (Sprintf ''strconv.Atoi: parsing %q'' [Lit value]))
      | Some n \<Rightarrow> Inr (Some n))"

text \<open>
  \<open>semver.Parse\<close> is third-party: the argument \<open>parse\<close>.  \<open>strings.TrimLeft(raw, "v")\<close> removes every
  leading \<open>v\<close>.  \<open>semver.MustParse\<close> panics on a string that does not parse: \<open>Inl\<close>.
\<close>

definition TrimLeftV :: "string \<Rightarrow> string" where "TrimLeftV raw = dropWhile (\<lambda>c. c = CHR ''v'') raw"

definition parseVersionOrFallback :: "(string \<Rightarrow> go_error + 'v) \<Rightarrow> string \<Rightarrow> go_error + 'v" where
  "parseVersionOrFallback parse raw =
     (case parse (TrimLeftV raw) of
        Inr v \<Rightarrow> Inr v
      | Inl _ \<Rightarrow> parse ''0.0.0-dev'')"

record BuildVariables =
  gitMajor :: string
  gitMinor :: string
  gitVersion :: string
  gitCommit :: string
  gitTreeState :: string
  buildDate :: string
  gitReleaseTag :: string
  gitReleaseCommit :: string
  gitBranch :: string

record Info =
  Major :: string
  Minor :: string
  GitVersion :: string
  GitCommit :: string
  GitTreeState :: string
  BuildDate :: string
  GoVersion :: string
  Compiler :: string
  Platform :: string
  GitReleaseTag :: string
  GitReleaseCommit :: string
  GitBranch :: string

text \<open>The Go runtime's version, compiler, operating system and architecture are arguments.\<close>

definition GetVersionInfo :: "BuildVariables \<Rightarrow> string \<Rightarrow> string \<Rightarrow> string \<Rightarrow> string \<Rightarrow> Info" where
  "GetVersionInfo b goVersion compiler goos goarch =
     \<lparr>Major = gitMajor b, Minor = gitMinor b, GitVersion = gitVersion b, GitCommit = gitCommit b,
      GitTreeState = gitTreeState b, BuildDate = buildDate b, GoVersion = goVersion,
      Compiler = compiler, Platform = goos @ ''/'' @ goarch, GitReleaseTag = gitReleaseTag b,
      GitReleaseCommit = gitReleaseCommit b, GitBranch = gitBranch b\<rparr>"

definition Info_String :: "Info \<Rightarrow> string" where "Info_String info = GitVersion info"

definition PrintShortDirtyVersionInfo :: "BuildVariables \<Rightarrow> gotext" where
  "PrintShortDirtyVersionInfo b =
     Sprintf ''Version Info: GitReleaseTag: %q, MajorVersion: %q, MinorVersion:%q, GitReleaseCommit:%q, GitTreeState:%q''
       (map Lit [gitReleaseTag b, gitMajor b, gitMinor b, gitReleaseCommit b, gitTreeState b])"

definition PrintShortCleanVersionInfo :: "BuildVariables \<Rightarrow> gotext" where
  "PrintShortCleanVersionInfo b =
     Sprintf ''Version Info: GitReleaseTag: %q, MajorVersion: %q, MinorVersion:%q''
       (map Lit [gitReleaseTag b, gitMajor b, gitMinor b])"

definition PrintVerboseVersionInfo :: "BuildVariables \<Rightarrow> gotext" where
  "PrintVerboseVersionInfo b =
     Sprintf ''Version Info: GitReleaseTag: %q, Major: %q, Minor: %q, GitRelaseCommit: %q,Git Branch: %q,Git commit: %q,Git tree state: %q''
       (map Lit [gitReleaseTag b, gitMajor b, gitMinor b, gitReleaseCommit b, gitBranch b, gitCommit b,
                 gitTreeState b])"

section \<open>cmd/main.go\<close>

record Flags =
  fl_metricsAddr :: string
  fl_healthAddr :: string
  fl_enableLeaderElection :: bool
  fl_concurrency :: int
  fl_enableWebhooks :: bool

record ManagerOptions =
  mo_MetricsBindAddress :: string
  mo_HealthProbeBindAddress :: string
  mo_LeaderElection :: bool
  mo_LeaderElectionID :: string

datatype controller_kind =
  ClusterKind | MachineKind | CSRKind | ControlPlaneKind | MachineTemplateKind

datatype webhook_kind = MachineWebhook | ClusterWebhook

text \<open>
  The calls on the manager.  A controller is registered with its number of workers (none for the
  CSR approver, which takes no options); the grace period, in nanoseconds, is the cluster
  controller's only setting.
\<close>

datatype manager_call =
    SetupController controller_kind "int option" "int option"
  | SetupWebhook webhook_kind
  | AddHealthzCheck
  | AddReadyzCheck
  | StartManager

definition DefaultCCMGracePeriod :: int where "DefaultCCMGracePeriod = 5 * 60 * 1000000000"

record 'w ManagerEnv =
  mg_NewManager :: "ManagerOptions \<Rightarrow> 'w \<Rightarrow> go_error option"
  mg_RESTMapping :: "string \<Rightarrow> string \<Rightarrow> 'w \<Rightarrow> go_error option"
  mg_ListDeployments :: "string \<times> string \<Rightarrow> 'w \<Rightarrow> go_error + string list"
  mg_Call :: "manager_call \<Rightarrow> 'w \<Rightarrow> go_error option \<times> 'w"

definition managerOptions :: "Flags \<Rightarrow> ManagerOptions" where
  "managerOptions f =
     \<lparr>mo_MetricsBindAddress = fl_metricsAddr f, mo_HealthProbeBindAddress = fl_healthAddr f,
      mo_LeaderElection = fl_enableLeaderElection f,
      mo_LeaderElectionID = ''controller-leader-election-capa''\<rparr>"

definition mainCalls :: "Flags \<Rightarrow> manager_call list" where
  "mainCalls f =
     [SetupController ClusterKind (Some (fl_concurrency f)) (Some DefaultCCMGracePeriod),
      SetupController MachineKind (Some (fl_concurrency f)) None,
      SetupController CSRKind None None,
      SetupController ControlPlaneKind (Some (fl_concurrency f)) None,
      SetupController MachineTemplateKind (Some (fl_concurrency f)) None]
     @ (if fl_enableWebhooks f then [SetupWebhook MachineWebhook, SetupWebhook ClusterWebhook] else [])
     @ [AddHealthzCheck, AddReadyzCheck, StartManager]"

text \<open>The calls in order, up to and including the first that fails: the exit code and the calls made.\<close>

fun runCalls :: "'w ManagerEnv \<Rightarrow> manager_call list \<Rightarrow> 'w \<Rightarrow> int \<times> manager_call list \<times> 'w" where
  "runCalls E [] w = (0, [], w)"
| "runCalls E (c # cs) w =
     (case mg_Call E c w of
        (Some err, w1) \<Rightarrow> (1, [c], w1)
      | (None, w1) \<Rightarrow> (let (code, made, w2) = runCalls E cs w1 in (code, c # made, w2)))"

definition main :: "'w ManagerEnv \<Rightarrow> Flags \<Rightarrow> 'w \<Rightarrow> int \<times> manager_call list \<times> 'w" where
  "main E f w =
     (case mg_NewManager E (managerOptions f) w of
        Some err \<Rightarrow> (1, [], w)
      | None \<Rightarrow>
          (case mg_RESTMapping E ''cluster.x-k8s.io'' ''Machine'' w of
             Some err \<Rightarrow> (1, [], w)
           | None \<Rightarrow>
               (case DetectCAPICoreNamespaces (mg_ListDeployments E) w of
                  Inl err \<Rightarrow> runCalls E (mainCalls f) w
                | Inr namespaces \<Rightarrow>
                    if ClassifyCAPICore namespaces = CAPICoreConflict then (1, [], w)
                    else runCalls E (mainCalls f) w)))"

section \<open>Lemmas\<close>

text \<open>Initialisation cannot panic as long as the fallback parses.\<close>

lemma parseVersionOrFallback_total:
  "parse ''0.0.0-dev'' = Inr d \<Longrightarrow> \<exists>v. parseVersionOrFallback parse raw = Inr v"
  by (auto simp: parseVersionOrFallback_def split: sum.splits)

lemma runCalls_prefix: "prefix (fst (snd (runCalls E cs w))) cs"
  by (induction E cs w rule: runCalls.induct) (auto split: option.splits prod.splits)

lemma runCalls_code:
  "fst (runCalls E cs w) \<in> {0, 1} \<and> (fst (runCalls E cs w) = 0 \<longrightarrow> fst (snd (runCalls E cs w)) = cs)"
  by (induction E cs w rule: runCalls.induct) (auto split: option.splits prod.splits if_splits)

lemma prefix_last_complete:
  assumes "prefix ok (xs @ [x])" and "x \<in> set ok" and "x \<notin> set xs"
  shows "ok = xs @ [x]"
  using assms by (auto simp: prefix_snoc dest: set_mono_prefix)

section \<open>Properties\<close>

text \<open>
  C40.  The start-up gate.  Nothing is set up unless the Cluster API types are known and no second
  Cluster API core was detected, and the manager is started only after all five controllers, both
  health checks and, exactly when they are enabled, both webhooks, in the order of the program;
  the exit code is 0 or 1, and 0 only if the manager was started.
\<close>

theorem startup_gate:
  assumes "main E f w = (code, calls, w')"
  shows "prefix calls (mainCalls f)
    \<and> (calls \<noteq> [] \<longrightarrow>
         mg_RESTMapping E ''cluster.x-k8s.io'' ''Machine'' w = None
         \<and> (\<forall>ds. mg_ListDeployments E (capiCoreProviderLabel, capiCoreProviderValue) w = Inr ds \<longrightarrow> card (set ds) \<le> 1))
    \<and> (StartManager \<in> set calls \<longrightarrow>
         calls = mainCalls f
         \<and> (\<forall>k. \<exists>n g. SetupController k n g \<in> set calls)
         \<and> (\<forall>h. SetupWebhook h \<in> set calls \<longleftrightarrow> fl_enableWebhooks f))
    \<and> code \<in> {0, 1} \<and> (code = 0 \<longrightarrow> StartManager \<in> set calls)"
proof -
  define pre where "pre = butlast (mainCalls f)"
  have all: "mainCalls f = pre @ [StartManager]" and start: "StartManager \<notin> set pre"
    by (auto simp: pre_def mainCalls_def butlast_append)
  have cases: "(code = 1 \<and> calls = [])
      \<or> (code, calls, w') = runCalls E (mainCalls f) w
        \<and> mg_RESTMapping E ''cluster.x-k8s.io'' ''Machine'' w = None
        \<and> (\<forall>ns. DetectCAPICoreNamespaces (mg_ListDeployments E) w = Inr ns \<longrightarrow> ClassifyCAPICore ns \<noteq> CAPICoreConflict)"
    using assms by (auto simp: main_def split: option.splits sum.splits if_splits)
  have one: "card (set ds) \<le> 1"
    if "mg_ListDeployments E (capiCoreProviderLabel, capiCoreProviderValue) w = Inr ds"
      and "\<forall>ns. DetectCAPICoreNamespaces (mg_ListDeployments E) w = Inr ns \<longrightarrow> ClassifyCAPICore ns \<noteq> CAPICoreConflict"
    for ds
    using that ClassifyCAPICore_set(4) [of "sort (remdups ds)"] by (auto simp: DetectCAPICoreNamespaces_def)
  have run: "(code = 1 \<and> calls = []) \<or> fst (runCalls E (mainCalls f) w) = code \<and> fst (snd (runCalls E (mainCalls f) w)) = calls"
    using cases by (metis fst_conv snd_conv)
  then have pre: "prefix calls (mainCalls f)"
    using runCalls_prefix [of E "mainCalls f" w] by auto
  from run have code: "code \<in> {0, 1} \<and> (code = 0 \<longrightarrow> calls = mainCalls f)"
    using runCalls_code [of E "mainCalls f" w] by auto
  have started: "StartManager \<in> set calls \<longleftrightarrow> calls = mainCalls f"
    using prefix_last_complete [OF pre [unfolded all] _ start] by (auto simp: all)
  have kinds: "\<exists>n g. SetupController k n g \<in> set (mainCalls f)" for k
    by (cases k) (auto simp: mainCalls_def)
  have hooks: "SetupWebhook h \<in> set (mainCalls f) \<longleftrightarrow> fl_enableWebhooks f" for h
    by (cases h) (auto simp: mainCalls_def)
  show ?thesis
    using pre code started kinds hooks cases one by auto
qed

definition quiet_env :: "nat ManagerEnv" where
  "quiet_env =
     \<lparr>mg_NewManager = (\<lambda>opts w. None), mg_RESTMapping = (\<lambda>g k w. None),
      mg_ListDeployments = (\<lambda>l w. Inr [''capi-system'']), mg_Call = (\<lambda>c w. (None, w + 1))\<rparr>"

definition default_flags :: Flags where
  "default_flags =
     \<lparr>fl_metricsAddr = '':8080'', fl_healthAddr = '':9440'', fl_enableLeaderElection = False,
      fl_concurrency = 1, fl_enableWebhooks = True\<rparr>"

theorem startup_gate_witness:
  "fst (main quiet_env default_flags 0) = 0
   \<and> StartManager \<in> set (fst (snd (main quiet_env default_flags 0)))
   \<and> SetupWebhook ClusterWebhook \<in> set (fst (snd (main quiet_env default_flags 0)))"
proof -
  obtain code calls w' where run: "main quiet_env default_flags 0 = (code, calls, w')"
    by (metis prod.exhaust)
  have hooks: "fl_enableWebhooks default_flags" by (simp add: default_flags_def)
  have "fst (main quiet_env default_flags 0) = 0" by code_simp
  then have "code = 0" using run by simp
  with startup_gate [OF run] run hooks show ?thesis by auto
qed

end
