(* ===== verification/Spec2Isabelle.thy ===== *)
theory Spec2Isabelle
  imports Machine_Properties Provisioning Wiring Node_Join Deep_Copy Webhooks Csr_Approver Cluster_Controller Template_Controller
    Control_Plane Schema Ignition_Store Client_Builder Sdk_Wrappers Startup
begin

text \<open>
  A verification development of the Cluster API infrastructure provider for Alibaba Cloud
  (\<open>src/\<close>, Go).  The provider is a set of Kubernetes controllers.  Users and Cluster API create
  \<open>AlibabaCloudMachine\<close>, \<open>AlibabaCloudCluster\<close>, \<open>AlibabaCloudMachineTemplate\<close> and
  \<open>AlibabaCloudControlPlane\<close> objects; the controllers make the cloud follow them and report what
  they observe in the status; admission webhooks guard the objects; a CSR approver lets the new
  nodes join; a client layer over the Alibaba SDKs makes the calls.

  \<^bold>\<open>How the program is modelled.\<close>  A Go struct is a record with the fields of the source under a short
  prefix, a pointer field is an option, an enum of strings is a string with named constants, an
  \<open>error\<close> is the datatype \<open>go_error\<close> of \<open>Prelude\<close> (with the wrapping that \<open>errors.As\<close> looks through),
  and a formatted message is kept as its format and arguments (\<open>gotext\<close>).  A method that changes an
  object returns the changed object, and every call to the outside takes and returns a world
  \<open>'w\<close>: the Kubernetes client, the patch helper, the Cluster API helpers, the Alibaba SDKs, the
  clock and the random source are arguments (records of functions), never definitions of this
  development.  What the theorems need of them is a named hypothesis: the locale
  \<open>capi_util_laws\<close> (conditions and finalizers of Cluster API), the locale \<open>ecs_service\<close> (the ECS
  API), and plain assumptions where only one theorem needs one.  Logging is left out.

  \<^bold>\<open>Theories.\<close>
  \<^item> \<open>Prelude\<close>: Go strings, texts, errors; lemmas every theory shares.
  \<^item> \<open>Api_Types\<close>: \<open>api/v1beta1\<close> and the Cluster API and Kubernetes types the controllers read.
  \<^item> \<open>Capi_Util\<close>: conditions and finalizers, with their laws as a locale and an instance.
  \<^item> \<open>Provider_ID\<close>: \<open>providerIDFor\<close>, \<open>providerInstanceID\<close>, \<open>regionFromMachine\<close>, \<open>resolveRegion\<close>; the
    locale \<open>provider_id_codec\<close> is the contract between writer and readers, interpreted for the dot
    and for the slash form.
  \<^item> \<open>Go_Float\<close>: \<open>float64\<close> arithmetic, with its rounding, and \<open>time.Duration.Seconds\<close>.
  \<^item> \<open>Metrics\<close>, \<open>Retry\<close>: \<open>pkg/metrics\<close>, \<open>pkg/client/retry.go\<close>.  The loop is bounded by its own budget of
    five retries, which is its termination measure; it needs no fuel.
  \<^item> \<open>Cloud_Client\<close>, \<open>Oss_Client\<close>, \<open>Credentials\<close>, \<open>Client_Builder\<close>: \<open>pkg/client\<close>: the operations the
    controllers call, the credentials, and how a client is put together.
  \<^item> \<open>Go_Encoding\<close>: base64, hex, SHA-512, JSON strings and \<open>strconv.Atoi\<close>, executable, as the standard
    library defines them; \<open>wrap64\<close> is the wrap-around of \<open>int64\<close>.
  \<^item> \<open>Ignition\<close>: the offload of oversized user data (\<open>maybeOffloadUserData\<close> and its helpers);
    \<open>Ignition_Store\<close> runs it through the OSS client of \<open>Oss_Client\<close>.
  \<^item> \<open>Sdk_Wrappers\<close>: the hundred methods of \<open>client.go\<close> that forward a request to an SDK client, as
    tables of the interface and of the wrappers, and the test double of \<open>pkg/client/fake\<close>.
  \<^item> \<open>Machine_Controller\<close>, \<open>Machine_Reconcile\<close>: \<open>alibabacloudmachine_controller.go\<close>, first the helpers,
    \<open>createInstance\<close> and \<open>findOrCreateInstance\<close>, then the three handlers.
  \<^item> \<open>Cloud_Contract\<close>: the laws of the ECS service (\<open>ecs_service\<close>) and the laws the client layer
    promises the controllers (\<open>cloud_contract\<close>); a sublocale proves the second from the first, through
    the retry loop.  \<open>Sim_Cloud\<close> is an executable ECS that satisfies the laws.
  \<^item> \<open>Machine_System\<close>: the life of a machine as a step relation: reconciles whose patch may be lost in
    whole or in part, changes of the cloud, edits of the object; and runs of delete passes.  \<open>Failure_Reasons\<close> follows every
    error through the machine controller and bounds the reasons it can carry.
    \<open>Machine_Properties\<close> holds the properties of the machine controller, \<open>Provisioning\<close> that a
    new machine becomes Ready, \<open>Scheduling\<close> that a pass with work left is run again, and
    \<open>Wiring\<close> which events the controllers are started for (the \<open>SetupWithManager\<close> functions).
  \<^item> \<open>Go_Heap\<close>, \<open>Deep_Copy\<close>: an explicit store with pointers, slices and maps, the structs of both API
    groups as types over it, and the generated deep copies of \<open>zz_generated.deepcopy.go\<close>; the locale
    \<open>deep_copier\<close> is their contract.
  \<^item> \<open>Schema_Pattern\<close>, \<open>Schema\<close>: the validation markers of \<open>api/v1beta1\<close> as predicates, with an
    executable matcher for the patterns of the custom resource definitions that is proved against
    their language, and that every write of the controllers passes them.
  \<^item> \<open>Webhooks\<close>, \<open>Csr_Approver\<close>, \<open>Capi_Core\<close>, \<open>Cluster_Controller\<close>, \<open>Template_Controller\<close>,
    \<open>Control_Plane\<close>: the remaining controllers and the webhooks.  \<open>Node_Join\<close> composes the machine
    controller with the CSR approver.
  \<^item> \<open>Startup\<close>: \<open>cmd/main.go\<close>, \<open>pkg/version\<close> and \<open>pkg/utils\<close>.

  \<^bold>\<open>What the theorems show.\<close> For the machine: one live instance per machine whatever is
  lost (C1), the finalizer only goes when the infrastructure is gone (C2), deletion ends within
  \<open>4n(T+1) + 1\<close> passes, each of the machine's \<open>n\<close> instances having four phases to go through and none of
  them taking more than \<open>T\<close> passes by itself (C3), every delete decision (C4), the meaning of Ready, of the bootstrap gate and of a terminal
  failure (C5 to C7; a failure reason is one of a fixed list), the agreement of controller and webhook (C12),
  the progress of a new machine to Ready within the number of ticks its
  instance needs plus two passes, which is the fuel \<open>provision_passes\<close> is run with (C18), that a
  pass with work left asks to be run again (C23, also for clusters), the hardening of the metadata service
  (C19) and that what a reconcile writes is valid against the schema of the custom resource (C24). For the
  client: the retry loop against a reference and its bounds (C8, C9), the client contract (C11), host names
  (C22), credentials (C26), and how a client is put together, with its Apsara overrides and the
  credentials of a secret (C37 to C39). For the rest: provider IDs (C10), webhooks (C13 to C16), the offload
  of Ignition and its object in OSS (C20, C21), CSR approval (C27, C28) and that a created machine can join (C25), failure domains from the cluster to
  the machine (C29), the cluster and its runtime checks (C30 to C32), template capacity (C33, C34), the
  control plane (C35), and the start-up gate (C40). C36 exhibits the one gap the development found in the
  deletion guarantee. C17 shows that the
  deep copies, on which the value semantics of all other theories rests, share no memory with their original.
  Beside the numbered properties, \<open>Sdk_Wrappers\<close> proves that every low-level
  method reaches the SDK operation of its signature and that the fake fails loudly, \<open>Credentials\<close> the precedence of credentials, \<open>Schema\<close> that
  the cluster and control-plane controllers write valid objects too, and \<open>Cloud_Client\<close> and
  \<open>Machine_Properties\<close> what a create asks for: nothing if the tag finds an instance, else one
  instance, disks that go with it and metadata tokens.

  \<^bold>\<open>Not modelled.\<close>  The generated gomock client, the registration of types with the scheme, of metrics
  with Prometheus and of the webhooks with the manager, and logging (with its helper \<open>ptrStr\<close>): none of
  them holds logic of the provider.  Concurrency of several workers on one object is excluded by
  controller-runtime; what remains of it, lost patches and changes between passes, is in the step
  relation.  A floating-point number is the rational it stands for.  What is assumed of the cloud beyond
  its documented calls is that a query by tag answers completely (the first page holds all matches) and
  sees earlier writes.
\<close>

section \<open>Failure domains, from the cluster to the machine\<close>

lemma find_distinct_key:
  "distinct (map key xs) \<Longrightarrow> x \<in> set xs \<Longrightarrow> find (\<lambda>y. key y = key x) xs = Some x"
  by (induction xs) auto

lemma find_map: "find P (map f xs) = map_option f (find (P \<circ> f) xs)"
  by (induction xs) auto

text \<open>
  C29.  Failure domains end to end.  For a cluster the webhook accepts, a reconcile that gets a
  cloud client publishes the domains of the spec such that every machine that names one of them
  resolves it without error: an unset zone and an unset switch become those of that domain, and
  values the machine already has are never overridden.  While the spec lists domains, a machine that
  names a zone not among them is refused and left as it was; a spec without domains leaves the
  published ones as they were, stale ones included.
\<close>

theorem failure_domains_resolve:
  assumes "cluster_ValidateCreate (ClusterObject ac) = None"
    and "cr_ClientBuilder r (cs_Region (ac_Spec ac)) w = Inr c"
    and "cluster_reconcileNormal r ac w = (out, ac', w')"
  shows "(\<forall>fd machine m. fd \<in> set (cs_FailureDomains (ac_Spec ac)) \<and> mach_FailureDomain machine = fd_ZoneID fd \<longrightarrow>
       resolveFailureDomain machine ac' m = (None, m\<lparr>m_Spec := (m_Spec m)\<lparr>
         ms_ZoneID := (if ms_ZoneID (m_Spec m) = [] then fd_ZoneID fd else ms_ZoneID (m_Spec m)),
         ms_VSwitchID := (if ms_VSwitchID (m_Spec m) = [] then fd_VSwitchID fd else ms_VSwitchID (m_Spec m))\<rparr>\<rparr>))
    \<and> (cs_FailureDomains (ac_Spec ac) \<noteq> [] \<longrightarrow>
       (\<forall>machine m. mach_FailureDomain machine \<notin> insert [] (fd_ZoneID ` set (cs_FailureDomains (ac_Spec ac))) \<longrightarrow>
          (\<exists>err. resolveFailureDomain machine ac' m = (Some err, m))))
    \<and> (cs_FailureDomains (ac_Spec ac) = [] \<longrightarrow>
       cst_FailureDomains (ac_Status ac') = cst_FailureDomains (ac_Status ac))"
proof -
  let ?fds = "cs_FailureDomains (ac_Spec ac)"
  have ok: "cluster_spec_ok (ac_Spec ac)"
    using assms(1) by (simp add: cluster_ValidateCreate_def validateClusterSpec_accepts split: if_splits)
  have pub: "cst_FailureDomains (ac_Status ac') =
      map (\<lambda>fd. \<lparr>cfd_Name = fd_ZoneID fd, cfd_ControlPlane = Some False,
                 cfd_Attributes = [(''vSwitchID'', fd_VSwitchID fd)]\<rparr>) ?fds" if "?fds \<noteq> []"
    using cluster_reconcileNormal_failureDomains [OF assms(2,3)] that by simp
  have found: "find (\<lambda>d. cfd_Name d = fd_ZoneID fd) (cst_FailureDomains (ac_Status ac')) =
      Some \<lparr>cfd_Name = fd_ZoneID fd, cfd_ControlPlane = Some False,
            cfd_Attributes = [(''vSwitchID'', fd_VSwitchID fd)]\<rparr>"
    "fd_ZoneID fd \<noteq> []" "fd_VSwitchID fd \<noteq> []"
    if "fd \<in> set ?fds" for fd
  proof -
    from that have "?fds \<noteq> []" by auto
    with that ok find_distinct_key [of fd_ZoneID ?fds fd] pub
    show "find (\<lambda>d. cfd_Name d = fd_ZoneID fd) (cst_FailureDomains (ac_Status ac')) =
        Some \<lparr>cfd_Name = fd_ZoneID fd, cfd_ControlPlane = Some False,
              cfd_Attributes = [(''vSwitchID'', fd_VSwitchID fd)]\<rparr>"
      "fd_ZoneID fd \<noteq> []" "fd_VSwitchID fd \<noteq> []"
      by (auto simp: find_map comp_def cluster_spec_ok_def)
  qed
  have missing: "find (\<lambda>d. cfd_Name d = z) (cst_FailureDomains (ac_Status ac')) = None"
    if "?fds \<noteq> []" "z \<notin> fd_ZoneID ` set ?fds" for z
    using that by (auto simp: pub find_None_iff)
  have stale: "cst_FailureDomains (ac_Status ac') = cst_FailureDomains (ac_Status ac)" if "?fds = []"
    using cluster_reconcileNormal_failureDomains [OF assms(2,3)] that by simp
  show ?thesis
    using found missing stale by (auto simp: resolveFailureDomain_def Let_def)
qed

theorem failure_domains_resolve_witness:
  "\<exists>out ac' w'. cluster_reconcileNormal kind_reconciler (kind_cluster ''api'') () = (out, ac', w')
     \<and> resolveFailureDomain ((sim_owner ''m1'')\<lparr>mach_FailureDomain := ''zone-1''\<rparr>) ac' (blank_machine ''m1'')
       = (None, (blank_machine ''m1'')\<lparr>m_Spec := blank_spec\<lparr>ms_ZoneID := ''zone-1'', ms_VSwitchID := ''vsw-e1''\<rparr>\<rparr>)"
proof -
  let ?ac = "kind_cluster ''api''" and ?fd = "\<lparr>fd_ZoneID = ''zone-1'', fd_VSwitchID = ''vsw-e1''\<rparr>"
  obtain out ac' w' where run: "cluster_reconcileNormal kind_reconciler ?ac () = (out, ac', w')"
    by (metis prod.exhaust)
  have fds: "cs_FailureDomains (ac_Spec ?ac) = [?fd]" by (simp add: kind_cluster_def)
  have accepted: "cluster_ValidateCreate (ClusterObject ?ac) = None"
    by (simp add: TrimSpace_not_blank cluster_ValidateCreate_def validateClusterSpec_accepts cluster_spec_ok_def
        kind_cluster_def)
  have builder: "cr_ClientBuilder kind_reconciler (cs_Region (ac_Spec ?ac)) () = Inr idle_client"
    by (simp add: kind_reconciler_def)
  have member: "?fd \<in> set (cs_FailureDomains (ac_Spec ?ac)) \<and>
      mach_FailureDomain ((sim_owner ''m1'')\<lparr>mach_FailureDomain := ''zone-1''\<rparr>) = fd_ZoneID ?fd"
    by (simp add: fds)
  have "ms_ZoneID (m_Spec (blank_machine ''m1'')) = []" "ms_VSwitchID (m_Spec (blank_machine ''m1'')) = []"
    "m_Spec (blank_machine ''m1'') = blank_spec"
    by (simp_all add: blank_defs)
  with failure_domains_resolve [OF accepted builder run, THEN conjunct1, rule_format, OF member,
      of "blank_machine ''m1''"] run
  show ?thesis by simp
qed

end
